(* ===== verification/Gem_Prelude.thy ===== *)
theory Gem_Prelude
  imports Main "HOL-Library.Char_ord"
begin

text \<open>
  Shared vocabulary of the development: the exceptions the API raises as values, the
  \<^emph>\<open>last n\<close> window of a list, Python's \<open>or\<close> on optional values, decimal rendering of
  integers, dictionaries that keep their insertion order, and the interface of a bounded
  buffer that drops its oldest entry (a \<open>locale\<close>, interpreted by the log buffer and by the
  subscriber queues).
\<close>

named_theorems gem_defs \<open>definitions a component unfolds in its own proofs\<close>
named_theorems last_n_simps \<open>rewriting of the window of the last n elements\<close>
named_theorems dict_simps \<open>lookup, update and keys of ordered dictionaries\<close>


section \<open>Exceptions as values\<close>

text \<open>
  Every \<open>raise\<close> of the modelled code is one of these; \<open>HTTPException\<close> carries the status
  code and the detail, the others carry \<open>str(e)\<close>. \<open>CancelledError\<close> is the only one that is
  no \<open>Exception\<close> in Python (it is a \<open>BaseException\<close>), so an \<open>except Exception\<close> clause does
  not see it.
\<close>

datatype exc =
    HTTPException nat string
  | ValueError string
  | RuntimeError string
  | AttributeError string
  | OSError string
  | TypeError string
  | KeyError string
  | IndexError string
  | OverflowError string
  | TimeoutError
  | ProcessLookupError string
  | CancelledError

type_synonym 'a res = "exc + 'a"

fun is_Exception :: "exc \<Rightarrow> bool" where
  "is_Exception CancelledError = False"
| "is_Exception _ = True"

fun exc_str :: "exc \<Rightarrow> string" where
  "exc_str (HTTPException n d) = d"
| "exc_str (ValueError m) = m"
| "exc_str (RuntimeError m) = m"
| "exc_str (AttributeError m) = m"
| "exc_str (OSError m) = m"
| "exc_str (TypeError m) = m"
| "exc_str (KeyError k) = k"
| "exc_str (IndexError m) = m"
| "exc_str (OverflowError m) = m"
| "exc_str TimeoutError = []"
| "exc_str (ProcessLookupError m) = m"
| "exc_str CancelledError = []"

definition bind_res :: "'a res \<Rightarrow> ('a \<Rightarrow> 'b res) \<Rightarrow> 'b res" where
  "bind_res r f = (case r of Inl e \<Rightarrow> Inl e | Inr x \<Rightarrow> f x)"

lemma bind_res_simps [simp]:
  "bind_res (Inl e) f = Inl e"
  "bind_res (Inr x) f = f x"
  by (simp_all add: bind_res_def)

lemma bind_res_InrE:
  assumes "bind_res r f = Inr y"
  obtains x where "r = Inr x" and "f x = Inr y"
  using assms by (cases r) auto

lemma bind_res_eq_Inr: "bind_res r f = Inr y \<longleftrightarrow> (\<exists>x. r = Inr x \<and> f x = Inr y)"
  by (cases r) auto


section \<open>The window of the last n elements\<close>

definition last_n :: "nat \<Rightarrow> 'a list \<Rightarrow> 'a list" where
  "last_n n xs = drop (length xs - n) xs"

lemma last_n_Nil [simp, last_n_simps]: "last_n n [] = []"
  by (simp add: last_n_def)

lemma last_n_0 [simp, last_n_simps]: "last_n 0 xs = []"
  by (simp add: last_n_def)

lemma length_last_n [simp, last_n_simps]: "length (last_n n xs) = min n (length xs)"
  by (auto simp: last_n_def)

lemma last_n_all [simp, last_n_simps]: "length xs \<le> n \<Longrightarrow> last_n n xs = xs"
  by (simp add: last_n_def)

lemma last_n_le: "length (last_n n xs) \<le> n"
  by simp

lemma set_last_n: "set (last_n n xs) \<subseteq> set xs"
  by (simp add: last_n_def set_drop_subset)

lemma last_n_suffix: "\<exists>ys. xs = ys @ last_n n xs"
  unfolding last_n_def by (metis append_take_drop_id)

lemma last_n_append1: "length ys \<le> n \<Longrightarrow> last_n n (xs @ ys) = last_n (n - length ys) xs @ ys"
  by (simp add: last_n_def)

lemma last_n_append2: "n \<le> length ys \<Longrightarrow> last_n n (xs @ ys) = last_n n ys"
  by (simp add: last_n_def)

text \<open>Cutting early does no harm: only the last elements of what comes first can survive.\<close>

lemma last_n_last_n: "k \<le> n \<Longrightarrow> last_n k (last_n n xs) = last_n k xs"
  by (cases "length xs \<le> n") (auto simp: last_n_def)

lemma last_n_last_n_append: "last_n n (last_n n xs @ ys) = last_n n (xs @ ys)"
proof (cases "length ys \<le> n")
  case True
  then show ?thesis by (simp add: last_n_append1 last_n_last_n)
next
  case False
  then show ?thesis by (simp add: last_n_append2)
qed

lemma last_n_snoc: "0 < n \<Longrightarrow> last_n n (xs @ [x]) = last_n (n - 1) xs @ [x]"
  by (simp add: last_n_append1)

lemma last_n_tl: "length xs = n \<Longrightarrow> 0 < n \<Longrightarrow> last_n (n - 1) xs = tl xs"
  by (cases xs) (auto simp: last_n_def)

lemma last_last_n: "0 < n \<Longrightarrow> xs \<noteq> [] \<Longrightarrow> last (last_n n xs) = last xs"
  by (simp add: last_n_def)


section \<open>A bounded buffer that drops its oldest entry\<close>

text \<open>
  Both the log buffer of an operation (\<open>deque(maxlen=n)\<close>) and the queue of a log subscriber
  (\<open>asyncio.Queue(maxsize=n)\<close> filled by \<open>OperationManager._publish\<close>) promise this: pushing
  never blocks and never fails, and keeps the newest entries that fit.
\<close>

locale drop_oldest =
  fixes push :: "'q \<Rightarrow> 'a \<Rightarrow> 'q"
    and contents :: "'q \<Rightarrow> 'a list"
    and capacity :: "'q \<Rightarrow> nat"
  assumes contents_push: "contents (push q x) = last_n (capacity q) (contents q @ [x])"
    and capacity_push: "capacity (push q x) = capacity q"
begin

lemma capacity_foldl: "capacity (foldl push q xs) = capacity q"
  by (induction xs arbitrary: q) (simp_all add: capacity_push)

text \<open>Pushing a whole sequence keeps exactly the newest entries of old and new together.\<close>

lemma contents_foldl:
  assumes "length (contents q) \<le> capacity q"
  shows "contents (foldl push q xs) = last_n (capacity q) (contents q @ xs)"
  using assms
proof (induction xs arbitrary: q)
  case Nil
  then show ?case by simp
next
  case (Cons x xs)
  have "length (contents (push q x)) \<le> capacity (push q x)"
    by (simp add: contents_push capacity_push)
  then have "contents (foldl push (push q x) xs) =
      last_n (capacity q) (last_n (capacity q) (contents q @ [x]) @ xs)"
    using Cons.IH by (simp add: contents_push capacity_push)
  then show ?case by (simp add: last_n_last_n_append)
qed

lemma bounded_push: "length (contents (push q x)) \<le> capacity (push q x)"
  by (simp add: contents_push capacity_push)

lemma bounded_foldl:
  "length (contents q) \<le> capacity q \<Longrightarrow> length (contents (foldl push q xs)) \<le> capacity q"
  by (simp add: contents_foldl)

text \<open>Nothing is lost while the buffer has room.\<close>

lemma contents_foldl_room:
  "length (contents q) + length xs \<le> capacity q \<Longrightarrow>
     contents (foldl push q xs) = contents q @ xs"
  by (simp add: contents_foldl)

lemma last_push: "0 < capacity q \<Longrightarrow> last (contents (push q x)) = x"
  by (simp add: contents_push last_n_snoc)

lemma newest_kept: "0 < capacity q \<Longrightarrow> x \<in> set (contents (push q x))"
  by (simp add: contents_push last_n_snoc)

end


section \<open>Dictionaries that keep their insertion order\<close>

text \<open>
  A Python \<open>dict\<close> iterates in insertion order, and storing under a key that is present keeps
  the key's place. It is an association list with distinct keys here.
\<close>

type_synonym 'v dict = "(string \<times> 'v) list"

definition dict_get :: "'v dict \<Rightarrow> string \<Rightarrow> 'v option" where
  "dict_get d k = map_of d k"

fun dict_set :: "'v dict \<Rightarrow> string \<Rightarrow> 'v \<Rightarrow> 'v dict" where
  "dict_set [] k v = [(k, v)]"
| "dict_set ((k', v') # d) k v = (if k' = k then (k, v) # d else (k', v') # dict_set d k v)"

lemma dict_get_Nil [simp, dict_simps]: "dict_get [] k = None"
  by (simp add: dict_get_def)

lemma dict_get_Cons [dict_simps]:
  "dict_get ((k', v) # d) k = (if k = k' then Some v else dict_get d k)"
  by (simp add: dict_get_def)

lemma dict_get_set [simp, dict_simps]:
  "dict_get (dict_set d k v) k' = (if k' = k then Some v else dict_get d k')"
  by (induction d k v rule: dict_set.induct) (auto simp: dict_get_Cons)

lemma dict_keys_set [dict_simps]:
  "map fst (dict_set d k v) =
     (if k \<in> set (map fst d) then map fst d else map fst d @ [k])"
  by (induction d k v rule: dict_set.induct) auto

lemma distinct_dict_set [intro]: "distinct (map fst d) \<Longrightarrow> distinct (map fst (dict_set d k v))"
  by (simp add: dict_keys_set)

lemma dict_get_None_iff: "dict_get d k = None \<longleftrightarrow> k \<notin> set (map fst d)"
  by (simp add: dict_get_def map_of_eq_None_iff image_iff)

lemma dict_get_mem: "dict_get d k = Some v \<Longrightarrow> (k, v) \<in> set d"
  by (simp add: dict_get_def map_of_SomeD)

lemma dict_get_iff: "distinct (map fst d) \<Longrightarrow> dict_get d k = Some v \<longleftrightarrow> (k, v) \<in> set d"
  by (simp add: dict_get_def)

text \<open>Storing under a present key replaces that entry only; a new key goes to the end.\<close>

lemma dict_set_new: "k \<notin> set (map fst d) \<Longrightarrow> dict_set d k v = d @ [(k, v)]"
  by (induction d k v rule: dict_set.induct) auto

lemma set_dict_set:
  "distinct (map fst d) \<Longrightarrow> set (dict_set d k v) = {(k', v') \<in> set d. k' \<noteq> k} \<union> {(k, v)}"
  by (induction d k v rule: dict_set.induct) (auto simp: image_iff)


section \<open>Decimal numerals\<close>

fun show_nat :: "nat \<Rightarrow> string" where
  "show_nat n =
     (if n < 10 then [char_of (48 + n)] else show_nat (n div 10) @ [char_of (48 + n mod 10)])"

declare show_nat.simps [simp del]

definition show_int :: "int \<Rightarrow> string" where
  "show_int i = (if i < 0 then CHR ''-'' # show_nat (nat (- i)) else show_nat (nat i))"

fun digit_char :: "char \<Rightarrow> bool" where
  "digit_char c = (CHR ''0'' \<le> c \<and> c \<le> CHR ''9'')"

definition read_nat :: "string \<Rightarrow> nat" where
  "read_nat s = foldl (\<lambda>n c. 10 * n + (of_char c - 48)) 0 s"

lemma read_nat_snoc: "read_nat (s @ [c]) = 10 * read_nat s + (of_char c - 48)"
  by (simp add: read_nat_def)

lemma of_char_digit: "d < 10 \<Longrightarrow> (of_char (char_of (48 + d) :: char) :: nat) = 48 + d"
  by (simp add: of_char_of)

lemma digit_char_digit: "d < (10::nat) \<Longrightarrow> digit_char (char_of (48 + d))"
  by (simp add: less_eq_char_def of_char_of)

lemma digit_charE:
  assumes "digit_char c"
  obtains d :: nat where "d < 10" and "c = char_of (48 + d)" and "of_char c = 48 + d"
proof -
  let ?n = "of_char c :: nat"
  from assms have "48 \<le> ?n" "?n \<le> 57" by (simp_all add: less_eq_char_def)
  then have "?n - 48 < 10" "c = char_of (48 + (?n - 48))" "of_char c = 48 + (?n - 48)"
    by simp_all
  then show ?thesis by (rule that)
qed

lemma digit_char_eq:
  "a < 10 \<Longrightarrow> b < 10 \<Longrightarrow> (char_of (48 + a) :: char) = char_of (48 + b) \<longleftrightarrow> a = (b::nat)"
  by (metis add_left_cancel of_char_digit)

lemma char_eq_nat: "c = d \<longleftrightarrow> (of_char c :: nat) = of_char d"
  by simp

lemma char_of_digits [simp]:
  "char_of (48::nat) = CHR ''0''" "char_of (49::nat) = CHR ''1''" "char_of (50::nat) = CHR ''2''"
  "char_of (51::nat) = CHR ''3''" "char_of (52::nat) = CHR ''4''" "char_of (53::nat) = CHR ''5''"
  "char_of (54::nat) = CHR ''6''" "char_of (55::nat) = CHR ''7''" "char_of (56::nat) = CHR ''8''"
  "char_of (57::nat) = CHR ''9''"
  by (simp_all add: char_of_def bit_0)

lemma digit_zero: "CHR ''0'' = char_of (48 + (0::nat))"
  by simp

lemma show_nat_small: "n < 10 \<Longrightarrow> show_nat n = [char_of (48 + n)]"
  by (simp add: show_nat.simps [of n])

lemma show_nat_step: "10 \<le> n \<Longrightarrow> show_nat n = show_nat (n div 10) @ [char_of (48 + n mod 10)]"
  by (simp add: show_nat.simps [of n])

text \<open>Reading a printed number gives the number back, so printing is injective.\<close>

lemma read_show_nat [simp]: "read_nat (show_nat n) = n"
proof (induction n rule: show_nat.induct)
  case (1 n)
  show ?case
  proof (cases "n < 10")
    case True
    then show ?thesis by (simp add: show_nat_small read_nat_def of_char_digit)
  next
    case False
    with 1 show ?thesis by (simp add: show_nat_step read_nat_snoc of_char_digit)
  qed
qed

lemma show_nat_nonempty [simp]: "show_nat n \<noteq> []"
  by (subst show_nat.simps) simp

lemma show_nat_digits: "list_all digit_char (show_nat n)"
proof (induction n rule: show_nat.induct)
  case (1 n)
  then show ?case
    by (subst show_nat.simps) (simp add: digit_char_digit del: digit_char.simps)
qed

lemma show_nat_inject [simp]: "show_nat m = show_nat n \<longleftrightarrow> m = n"
  by (metis read_show_nat)


text \<open>A numeral without leading zero is the numeral of the number it denotes.\<close>

lemma show_read_nat:
  "list_all digit_char s \<Longrightarrow> s \<noteq> [] \<Longrightarrow> hd s \<noteq> CHR ''0'' \<Longrightarrow> show_nat (read_nat s) = s \<and> 0 < read_nat s"
proof (induction s rule: rev_induct)
  case (snoc c s)
  then have "digit_char c" by (simp del: digit_char.simps)
  then obtain d :: nat where d: "d < 10" "c = char_of (48 + d)" "of_char c = 48 + d"
    by (rule digit_charE)
  show ?case
  proof (cases "s = []")
    case True
    with snoc.prems(3) d(2) have "d \<noteq> 0" unfolding digit_zero by (metis append_Nil list.sel(1))
    with True d show ?thesis by (simp add: read_nat_def show_nat_small)
  next
    case False
    with snoc have IH: "show_nat (read_nat s) = s" "0 < read_nat s" by auto
    have "read_nat (s @ [c]) = 10 * read_nat s + d"
      by (simp add: read_nat_snoc d(3))
    with IH d show ?thesis by (simp add: show_nat_step)
  qed
qed simp

lemma show_nat_hd: "0 < n \<Longrightarrow> hd (show_nat n) \<noteq> CHR ''0''"
proof (induction n rule: show_nat.induct)
  case (1 n)
  show ?case
  proof (cases "n < 10")
    case True
    with "1.prems" show ?thesis
      unfolding digit_zero show_nat_small [OF True] by (simp only: list.sel digit_char_eq)
  next
    case False
    with 1 show ?thesis by (simp add: show_nat_step)
  qed
qed

end
