(* ===== verification/Py_Str.thy ===== *)
theory Py_Str
  imports Gem_Prelude
begin

text \<open>
  The string methods of Python that the API uses. A \<open>string\<close> is a list of 8-bit characters,
  read as the code points 0 to 255; on that range the methods below are Python's
  (\<open>str.strip\<close>, \<open>str.lower\<close>, \<open>str.split\<close>, \<open>str.rsplit\<close>, \<open>str.join\<close>, the substring test
  \<open>in\<close>). Strings with code points beyond 255 are outside the model.
\<close>

section \<open>White space and stripping\<close>

text \<open>\<open>str.isspace\<close> on the code points below 256.\<close>

definition py_space :: "char \<Rightarrow> bool" where
  "py_space c =
     (let n = (of_char c :: nat)
      in (9 \<le> n \<and> n \<le> 13) \<or> (28 \<le> n \<and> n \<le> 32) \<or> n = 133 \<or> n = 160)"

definition lstrip :: "string \<Rightarrow> string" where
  "lstrip s = dropWhile py_space s"

definition rstrip :: "string \<Rightarrow> string" where
  "rstrip s = rev (dropWhile py_space (rev s))"

definition strip :: "string \<Rightarrow> string" where
  "strip s = rstrip (lstrip s)"

text \<open>\<open>s.rstrip(chars)\<close> removes trailing characters that occur in \<open>chars\<close>.\<close>

definition rstrip_chars :: "string \<Rightarrow> string \<Rightarrow> string" where
  "rstrip_chars cs s = rev (dropWhile (\<lambda>c. c \<in> set cs) (rev s))"

definition stripped :: "string \<Rightarrow> bool" where
  "stripped s \<longleftrightarrow> s = [] \<or> (\<not> py_space (hd s) \<and> \<not> py_space (last s))"

lemma rstrip_Nil [simp]: "rstrip [] = []" and lstrip_Nil [simp]: "lstrip [] = []"
  and strip_Nil [simp]: "strip [] = []"
  by (simp_all add: rstrip_def lstrip_def strip_def)

lemma rstrip_snoc: "rstrip (s @ [c]) = (if py_space c then rstrip s else s @ [c])"
  by (simp add: rstrip_def)

lemma rstrip_id: "s \<noteq> [] \<Longrightarrow> \<not> py_space (last s) \<Longrightarrow> rstrip s = s"
  by (cases s rule: rev_cases) (auto simp: rstrip_snoc)

lemma rstrip_last: "rstrip s \<noteq> [] \<Longrightarrow> \<not> py_space (last (rstrip s))"
  by (induction s rule: rev_induct) (auto simp: rstrip_snoc)

lemma rstrip_idem [simp]: "rstrip (rstrip s) = rstrip s"
  by (cases "rstrip s = []") (simp_all add: rstrip_id rstrip_last)

lemma rstrip_prefix: "\<exists>t. s = rstrip s @ t"
  unfolding rstrip_def by (metis rev_append rev_rev_ident takeWhile_dropWhile_id)

lemma lstrip_hd: "lstrip s \<noteq> [] \<Longrightarrow> \<not> py_space (hd (lstrip s))"
  by (simp add: lstrip_def hd_dropWhile)

lemma hd_rstrip: "rstrip s \<noteq> [] \<Longrightarrow> hd (rstrip s) = hd s"
  by (metis hd_append2 rstrip_prefix)

lemma stripped_strip [simp, intro]: "stripped (strip s)"
proof (cases "strip s = []")
  case False
  then have "lstrip s \<noteq> []" by (auto simp: strip_def)
  with False show ?thesis
    by (simp add: stripped_def strip_def rstrip_last hd_rstrip lstrip_hd)
qed (simp add: stripped_def)

lemma strip_id: "stripped s \<Longrightarrow> strip s = s"
  by (cases s) (auto simp: stripped_def strip_def lstrip_def intro: rstrip_id)

lemma strip_idem [simp]: "strip (strip s) = strip s"
  by (simp add: strip_id)

lemma stripped_no_space: "list_all (\<lambda>c. \<not> py_space c) s \<Longrightarrow> stripped s"
  by (auto simp: stripped_def list_all_iff)


section \<open>Case, prefixes and substrings\<close>

text \<open>\<open>str.lower\<close> below code point 256: the letters A to Z and the Latin-1 capitals.\<close>

definition lower_char :: "char \<Rightarrow> char" where
  "lower_char c =
     (let n = (of_char c :: nat)
      in if (65 \<le> n \<and> n \<le> 90) \<or> (192 \<le> n \<and> n \<le> 222 \<and> n \<noteq> 215) then char_of (n + 32) else c)"

definition lower :: "string \<Rightarrow> string" where
  "lower s = map lower_char s"

definition startswith :: "string \<Rightarrow> string \<Rightarrow> bool" where
  "startswith s p \<longleftrightarrow> take (length p) s = p"

fun contains :: "string \<Rightarrow> string \<Rightarrow> bool" where
  "contains p [] \<longleftrightarrow> p = []"
| "contains p (c # s) \<longleftrightarrow> startswith (c # s) p \<or> contains p s"

text \<open>\<open>s.split(p, 1)[-1]\<close>: what follows the first occurrence of \<open>p\<close>, or all of \<open>s\<close>.\<close>

fun split_once_last :: "string \<Rightarrow> string \<Rightarrow> string" where
  "split_once_last p [] = []"
| "split_once_last p (c # s) =
     (if startswith (c # s) p then drop (length p) (c # s)
      else if contains p s then split_once_last p s else c # s)"

text \<open>A value between single quotes, as the messages print it.\<close>

definition squote :: "string \<Rightarrow> string" where
  "squote s = [CHR 0x27] @ s @ [CHR 0x27]"

lemma startswith_iff: "startswith s p \<longleftrightarrow> (\<exists>t. s = p @ t)"
  unfolding startswith_def by (metis append_eq_conv_conj append_take_drop_id)

lemma startswith_append [simp]: "startswith (p @ s) p"
  by (simp add: startswith_def)

lemma contains_iff: "contains p s \<longleftrightarrow> (\<exists>u v. s = u @ p @ v)"
proof (induction s)
  case IH: (Cons c s)
  show ?case
  proof
    assume "contains p (c # s)"
    with IH show "\<exists>u v. c # s = u @ p @ v"
      by (auto simp: startswith_iff) (metis append_Cons append_Nil)+
  next
    assume "\<exists>u v. c # s = u @ p @ v"
    then obtain u v where uv: "c # s = u @ p @ v" by blast
    show "contains p (c # s)"
    proof (cases u)
      case Nil
      with uv have "startswith (c # s) p" by (simp add: startswith_iff)
      then show ?thesis by simp
    next
      case (Cons c' u')
      with uv have "s = u' @ p @ v" by simp
      with IH show ?thesis by auto
    qed
  qed
qed auto

lemma contains_single [simp]: "contains [c] s \<longleftrightarrow> c \<in> set s"
  by (simp add: contains_iff in_set_conv_decomp)


section \<open>Splitting and joining at one character\<close>

fun split_on :: "char \<Rightarrow> string \<Rightarrow> string list" where
  "split_on c [] = [[]]"
| "split_on c (x # s) =
     (if x = c then [] # split_on c s
      else (case split_on c s of [] \<Rightarrow> [[x]] | w # ws \<Rightarrow> (x # w) # ws))"

fun join :: "string \<Rightarrow> string list \<Rightarrow> string" where
  "join sep [] = []"
| "join sep [w] = w"
| "join sep (w # ws) = w @ sep @ join sep ws"

text \<open>\<open>s.rsplit(c, 1)[0]\<close>: what stands before the last occurrence of \<open>c\<close>, or all of \<open>s\<close>.\<close>

definition rsplit_head :: "char \<Rightarrow> string \<Rightarrow> string" where
  "rsplit_head c s = (if c \<in> set s then rev (tl (dropWhile (\<lambda>x. x \<noteq> c) (rev s))) else s)"

lemma split_on_nonempty [simp]: "split_on c s \<noteq> []"
  by (induction s) (auto split: list.splits)

lemma join_Cons: "ws \<noteq> [] \<Longrightarrow> join sep (w # ws) = w @ sep @ join sep ws"
  by (cases ws) auto

lemma join_split_on [simp]: "join [c] (split_on c s) = s"
  by (induction s) (auto simp: join_Cons split: list.splits, metis append_Cons join.simps(2) join_Cons)

lemma split_on_no_sep: "c \<notin> set s \<Longrightarrow> split_on c s = [s]"
  by (induction s) auto

lemma split_on_append: "c \<notin> set u \<Longrightarrow> split_on c (u @ c # v) = u # split_on c v"
  by (induction u) auto

lemma split_on_parts: "w \<in> set (split_on c s) \<Longrightarrow> c \<notin> set w"
  by (induction s arbitrary: w) (auto split: list.splits if_splits)

lemma rsplit_head_append: "c \<notin> set v \<Longrightarrow> rsplit_head c (u @ c # v) = u"
proof -
  assume a: "c \<notin> set v"
  have "dropWhile (\<lambda>x. x \<noteq> c) (rev v @ [c] @ rev u) = c # rev u"
    using a by (subst dropWhile_append2) auto
  then show ?thesis by (simp add: rsplit_head_def)
qed

lemma rsplit_head_no_sep: "c \<notin> set s \<Longrightarrow> rsplit_head c s = s"
  by (simp add: rsplit_head_def)

lemma split_last_occurrence: "c \<in> set s \<Longrightarrow> \<exists>u v. s = u @ c # v \<and> c \<notin> set v"
  by (metis split_list_last)

lemma split_on_snoc_part: "c \<notin> set v \<Longrightarrow> split_on c (u @ c # v) = split_on c u @ [v]"
  by (induction u) (auto simp: split_on_no_sep split: list.splits)

text \<open>
  The two ways the API cuts the last component of a zone agree:
  \<open>"-".join(z.split("-")[:-1])\<close> and \<open>z.rsplit("-", 1)[0]\<close>.
\<close>

lemma join_butlast_split:
  assumes "c \<in> set s"
  shows "join [c] (butlast (split_on c s)) = rsplit_head c s"
proof -
  obtain u v where "s = u @ c # v" and "c \<notin> set v"
    using split_last_occurrence [OF assms] by blast
  then show ?thesis by (simp add: split_on_snoc_part rsplit_head_append)
qed

end
