(* ===== verification/Py_Regex.thy ===== *)
theory Py_Regex
  imports Py_Str
begin

text \<open>
  The fragment of Python's \<open>re\<close> that the request models use: character classes,
  concatenation, alternation, repetition and the anchors of \<open>re.match(r"^...$", s)\<close>. The
  meaning of a pattern is an inductive predicate; the matcher computes with derivatives and
  is proved to decide it.
\<close>

section \<open>Patterns and their meaning\<close>

datatype rexp =
    Zero
  | Eps
  | Cls "(char \<times> char) list"
  | Alt rexp rexp
  | Seq rexp rexp
  | Star rexp

definition in_cls :: "(char \<times> char) list \<Rightarrow> char \<Rightarrow> bool" where
  "in_cls k c = list_ex (\<lambda>(lo, hi). lo \<le> c \<and> c \<le> hi) k"

abbreviation Chr :: "char \<Rightarrow> rexp" where "Chr c \<equiv> Cls [(c, c)]"
abbreviation Plus1 :: "rexp \<Rightarrow> rexp" where "Plus1 r \<equiv> Seq r (Star r)"
abbreviation Opt :: "rexp \<Rightarrow> rexp" where "Opt r \<equiv> Alt r Eps"

fun Seqs :: "rexp list \<Rightarrow> rexp" where
  "Seqs [] = Eps"
| "Seqs [r] = r"
| "Seqs (r # rs) = Seq r (Seqs rs)"

definition Lit :: "string \<Rightarrow> rexp" where
  "Lit s = Seqs (map Chr s)"

fun Alts :: "rexp list \<Rightarrow> rexp" where
  "Alts [] = Zero"
| "Alts [r] = r"
| "Alts (r # rs) = Alt r (Alts rs)"

inductive re_lang :: "rexp \<Rightarrow> string \<Rightarrow> bool" where
  eps: "re_lang Eps []"
| cls: "in_cls k c \<Longrightarrow> re_lang (Cls k) [c]"
| altL: "re_lang r s \<Longrightarrow> re_lang (Alt r q) s"
| altR: "re_lang q s \<Longrightarrow> re_lang (Alt r q) s"
| seq: "re_lang r u \<Longrightarrow> re_lang q v \<Longrightarrow> re_lang (Seq r q) (u @ v)"
| star_nil: "re_lang (Star r) []"
| star_cons: "re_lang r u \<Longrightarrow> u \<noteq> [] \<Longrightarrow> re_lang (Star r) v \<Longrightarrow> re_lang (Star r) (u @ v)"

inductive_simps re_lang_Zero [simp]: "re_lang Zero s"
inductive_simps re_lang_Eps [simp]: "re_lang Eps s"
inductive_simps re_lang_Cls [simp]: "re_lang (Cls k) s"
inductive_simps re_lang_Alt [simp]: "re_lang (Alt r q) s"
inductive_simps re_lang_Seq: "re_lang (Seq r q) s"
inductive_simps re_lang_Star: "re_lang (Star r) s"

lemma re_lang_Star_Nil [simp]: "re_lang (Star r) []"
  by (rule star_nil)

lemma re_lang_Seq_Cons:
  "re_lang (Seq r q) (c # s) \<longleftrightarrow>
     (re_lang r [] \<and> re_lang q (c # s)) \<or>
     (\<exists>u v. s = u @ v \<and> re_lang r (c # u) \<and> re_lang q v)"
  by (auto simp: re_lang_Seq Cons_eq_append_conv)

lemma re_lang_Star_Cons:
  "re_lang (Star r) (c # s) \<longleftrightarrow> (\<exists>u v. s = u @ v \<and> re_lang r (c # u) \<and> re_lang (Star r) v)"
proof
  assume "re_lang (Star r) (c # s)"
  then show "\<exists>u v. s = u @ v \<and> re_lang r (c # u) \<and> re_lang (Star r) v"
    by (subst (asm) re_lang_Star) (auto simp: Cons_eq_append_conv)
next
  assume "\<exists>u v. s = u @ v \<and> re_lang r (c # u) \<and> re_lang (Star r) v"
  then obtain u v where "s = u @ v" "re_lang r (c # u)" "re_lang (Star r) v" by blast
  then show "re_lang (Star r) (c # s)"
    using star_cons [of r "c # u" v] by simp
qed


section \<open>The matcher\<close>

primrec nullable :: "rexp \<Rightarrow> bool" where
  "nullable Zero = False"
| "nullable Eps = True"
| "nullable (Cls k) = False"
| "nullable (Alt r q) = (nullable r \<or> nullable q)"
| "nullable (Seq r q) = (nullable r \<and> nullable q)"
| "nullable (Star r) = True"

primrec deriv :: "char \<Rightarrow> rexp \<Rightarrow> rexp" where
  "deriv c Zero = Zero"
| "deriv c Eps = Zero"
| "deriv c (Cls k) = (if in_cls k c then Eps else Zero)"
| "deriv c (Alt r q) = Alt (deriv c r) (deriv c q)"
| "deriv c (Seq r q) =
     (if nullable r then Alt (Seq (deriv c r) q) (deriv c q) else Seq (deriv c r) q)"
| "deriv c (Star r) = Seq (deriv c r) (Star r)"

fun matches :: "rexp \<Rightarrow> string \<Rightarrow> bool" where
  "matches r [] = nullable r"
| "matches r (c # s) = matches (deriv c r) s"

lemma nullable_iff: "nullable r \<longleftrightarrow> re_lang r []"
  by (induction r) (auto simp: re_lang_Seq)

lemma re_lang_deriv: "re_lang (deriv c r) s \<longleftrightarrow> re_lang r (c # s)"
proof (induction r arbitrary: s)
  case (Seq r q)
  then show ?case
    by (auto simp: re_lang_Seq_Cons nullable_iff) (auto simp: re_lang_Seq)
next
  case (Star r)
  then show ?case
    by (auto simp: re_lang_Star_Cons re_lang_Seq)
qed auto

theorem matches_iff: "matches r s \<longleftrightarrow> re_lang r s"
  by (induction s arbitrary: r) (auto simp: nullable_iff re_lang_deriv)

text \<open>
  \<open>re.match("^r$", s)\<close>. In Python \<open>$\<close> matches at the end of the string and also just before
  a newline that ends it, so a string with one trailing newline passes as well.
\<close>

definition re_match :: "rexp \<Rightarrow> string \<Rightarrow> bool" where
  "re_match r s \<longleftrightarrow> matches r s \<or> (s \<noteq> [] \<and> last s = CHR 0x0A \<and> matches r (butlast s))"

text \<open>On a stripped string the two agree: the trailing-newline case cannot arise.\<close>

lemma re_match_stripped: "stripped s \<Longrightarrow> re_match r s \<longleftrightarrow> re_lang r s"
  by (auto simp: re_match_def matches_iff stripped_def py_space_def)


section \<open>What the usual patterns accept\<close>

lemma re_lang_Star_Cls: "re_lang (Star (Cls k)) s \<longleftrightarrow> list_all (in_cls k) s"
  by (induction s) (auto simp: re_lang_Star_Cons)

lemma re_lang_Plus_Cls: "re_lang (Plus1 (Cls k)) s \<longleftrightarrow> s \<noteq> [] \<and> list_all (in_cls k) s"
  by (cases s) (auto simp: re_lang_Seq_Cons re_lang_Star_Cls, auto simp: re_lang_Seq)

lemma re_lang_Cls_Seq:
  "re_lang (Seq (Cls k) q) s \<longleftrightarrow> (\<exists>c t. s = c # t \<and> in_cls k c \<and> re_lang q t)"
  by (auto simp: re_lang_Seq) (metis append_Cons append_Nil)

lemma re_lang_Seq_Cls:
  "re_lang (Seq r (Cls k)) s \<longleftrightarrow> (\<exists>u c. s = u @ [c] \<and> re_lang r u \<and> in_cls k c)"
  by (auto simp: re_lang_Seq)

lemma re_lang_Seqs_Cons:
  "rs \<noteq> [] \<Longrightarrow> re_lang (Seqs (r # rs)) s \<longleftrightarrow> (\<exists>u v. s = u @ v \<and> re_lang r u \<and> re_lang (Seqs rs) v)"
  by (cases rs) (auto simp: re_lang_Seq)

lemma re_lang_Chr: "re_lang (Chr c) s \<longleftrightarrow> s = [c]"
  by (auto simp: in_cls_def)

lemma re_lang_Lit: "re_lang (Lit t) s \<longleftrightarrow> s = t"
proof (induction t arbitrary: s)
  case Nil
  then show ?case by (simp add: Lit_def)
next
  case (Cons c t)
  then show ?case
    by (cases t) (simp_all add: Lit_def re_lang_Seq re_lang_Chr del: re_lang_Cls)
qed

lemma in_cls_lo_hi: "in_cls [(lo, hi)] c \<longleftrightarrow> lo \<le> c \<and> c \<le> hi"
  by (simp add: in_cls_def)

text \<open>The characters of a matched string come from the classes of its pattern.\<close>

primrec re_classes :: "rexp \<Rightarrow> (char \<times> char) list" where
  "re_classes Zero = []"
| "re_classes Eps = []"
| "re_classes (Cls k) = k"
| "re_classes (Alt r q) = re_classes r @ re_classes q"
| "re_classes (Seq r q) = re_classes r @ re_classes q"
| "re_classes (Star r) = re_classes r"

lemma re_lang_chars: "re_lang r s \<Longrightarrow> list_all (in_cls (re_classes r)) s"
  by (induction rule: re_lang.induct)
     (fastforce simp: in_cls_def list_all_iff list_ex_iff)+

end
