(* ===== verification/Validators.thy ===== *)
theory Validators
  imports Py_Regex
begin

text \<open>
  \<open>api/gem_api/models/validators.py\<close>: the patterns for GCP names, the sanitising of optional
  strings and the validators every request model shares, with the base request
  \<open>GcpTargetRequest\<close>. A validator returns \<open>Inl (ValueError m)\<close> where the code raises with
  the message \<open>m\<close>.
\<close>

section \<open>Patterns\<close>

abbreviation az :: "char \<times> char" where "az \<equiv> (CHR ''a'', CHR ''z'')"
abbreviation AZ :: "char \<times> char" where "AZ \<equiv> (CHR ''A'', CHR ''Z'')"
abbreviation d09 :: "char \<times> char" where "d09 \<equiv> (CHR ''0'', CHR ''9'')"
abbreviation one :: "char \<Rightarrow> char \<times> char" where "one c \<equiv> (c, c)"

definition GCP_ZONE_REGEX :: rexp where
  "GCP_ZONE_REGEX =
     Seqs [Plus1 (Cls [az]), Chr CHR ''-'', Plus1 (Cls [az, d09]), Chr CHR ''-'', Cls [az]]"

definition GCP_REGION_REGEX :: rexp where
  "GCP_REGION_REGEX = Seqs [Plus1 (Cls [az]), Chr CHR ''-'', Plus1 (Cls [az, d09])]"

definition GCP_PROJECT_ID_REGEX :: rexp where
  "GCP_PROJECT_ID_REGEX =
     Seqs [Cls [az], Star (Cls [az, d09, one CHR ''-'']), Cls [az, d09]]"

definition GCE_NAME_REGEX :: rexp where
  "GCE_NAME_REGEX =
     Seqs [Cls [az], Opt (Seqs [Star (Cls [az, d09, one CHR ''-'']), Cls [az, d09]])]"

definition STORAGE_SIZE_REGEX :: rexp where
  "STORAGE_SIZE_REGEX =
     Seqs [Cls [(CHR ''1'', CHR ''9'')], Star (Cls [d09]),
           Alts [Lit ''GB'', Lit ''TB'', Lit ''GiB'', Lit ''TiB'']]"

definition EMAIL_REGEX :: rexp where
  "EMAIL_REGEX =
     Seqs [Plus1 (Cls [az, AZ, d09, one CHR ''_'', one CHR ''.'', one CHR ''+'', one CHR ''-'']),
           Chr CHR ''@'',
           Plus1 (Cls [az, AZ, d09, one CHR ''-'']),
           Chr CHR ''.'',
           Plus1 (Cls [az, AZ, d09, one CHR ''-'', one CHR ''.''])]"


section \<open>Sanitising\<close>

text \<open>
  A value of type \<open>Any\<close> as \<open>sanitize_optional_str\<close> sees it: \<open>None\<close>, a string, or another
  object, of which the function observes \<open>str(val)\<close> only.
\<close>

datatype any = ANone | AStr string | AOther string

definition placeholders :: "string list" where
  "placeholders = [''string'', ''none'', ''null'', ''undefined'']"

definition sanitize_optional_str :: "any \<Rightarrow> string option" where
  "sanitize_optional_str val =
     (case val of
        ANone \<Rightarrow> None
      | AOther s \<Rightarrow> Some s
      | AStr s \<Rightarrow>
          (let v = strip s
           in if v = [] \<or> lower v \<in> set placeholders then None else Some v))"

definition opt_any :: "string option \<Rightarrow> any" where
  "opt_any v = (case v of None \<Rightarrow> ANone | Some s \<Rightarrow> AStr s)"

text \<open>The truth value of an optional string: \<open>None\<close> and the empty string are false.\<close>

definition truthy :: "string option \<Rightarrow> bool" where
  "truthy v \<longleftrightarrow> v \<noteq> None \<and> v \<noteq> Some []"


section \<open>The shared validators\<close>

definition validate_zone_and_region ::
    "string option \<Rightarrow> string option \<Rightarrow> (string option \<times> string option) res" where
  "validate_zone_and_region zone region =
     (let z = sanitize_optional_str (opt_any zone);
          r = sanitize_optional_str (opt_any region);
          zs = the z; rs = the r
      in if truthy z \<and> truthy r \<and> re_match GCP_REGION_REGEX zs \<and> re_match GCP_ZONE_REGEX rs
         then Inl (ValueError (''Invalid GCP zone '' @ squote zs @ '' and region '' @ squote rs
                @ '': zone and region are swapped. ''
                @ ''In GCP, '' @ squote zs @ '' is a region and '' @ squote rs @ '' is a zone. ''
                @ ''Expected zone='' @ squote rs @ '' and region='' @ squote zs @ ''.''))
         else if z \<noteq> None \<and> \<not> re_match GCP_ZONE_REGEX zs
         then (if re_match GCP_REGION_REGEX zs
               then Inl (ValueError (''Invalid GCP zone '' @ squote zs @ ''. '' @ squote zs
                      @ '' is a GCP region; zones must include a zone letter suffix such as ''
                      @ squote (zs @ ''-a'') @ '' or '' @ squote (zs @ ''-b'') @ ''.''))
               else Inl (ValueError (''Invalid GCP zone '' @ squote zs
                      @ ''. Zones must follow the format '' @ squote ''<region>-<zone_letter>''
                      @ '' (e.g., '' @ squote ''us-central1-a'' @ '', '' @ squote ''us-east5-b''
                      @ '').'')))
         else if r \<noteq> None \<and> \<not> re_match GCP_REGION_REGEX rs
         then (if re_match GCP_ZONE_REGEX rs
               then Inl (ValueError (''Invalid GCP region '' @ squote rs @ ''. '' @ squote rs
                      @ '' is a GCP zone; regions must not include a zone letter suffix (e.g., ''
                      @ squote (rsplit_head CHR ''-'' rs) @ '').''))
               else Inl (ValueError (''Invalid GCP region '' @ squote rs
                      @ ''. Regions must follow the format '' @ squote ''<location>-<name>''
                      @ '' (e.g., '' @ squote ''us-central1'' @ '', '' @ squote ''us-east5''
                      @ '').'')))
         else if z \<noteq> None \<and> r \<noteq> None
         then (let expected_region = rsplit_head CHR ''-'' zs
               in if rs \<noteq> expected_region
                  then Inl (ValueError (''Region '' @ squote rs @ '' does not match zone ''
                         @ squote zs @ '' (expected region '' @ squote expected_region @ '').''))
                  else Inr (z, r))
         else if z \<noteq> None then Inr (z, Some (rsplit_head CHR ''-'' zs))
         else Inr (z, r))"

definition validate_email_or_sa :: "string option \<Rightarrow> string \<Rightarrow> (string option) res" where
  "validate_email_or_sa val field_name =
     (case sanitize_optional_str (opt_any val) of
        None \<Rightarrow> Inr None
      | Some v \<Rightarrow>
          if \<not> re_match EMAIL_REGEX v
          then Inl (ValueError (''Invalid '' @ field_name @ '' '' @ squote v
                 @ ''. Must be a valid service account email address.''))
          else Inr (Some v))"

definition validate_project_id :: "string option \<Rightarrow> (string option) res" where
  "validate_project_id val =
     (case sanitize_optional_str (opt_any val) of
        None \<Rightarrow> Inr None
      | Some v \<Rightarrow>
          if \<not> re_match GCP_PROJECT_ID_REGEX v
          then Inl (ValueError (''Invalid project_id '' @ squote v
                 @ ''. GCP project IDs must be lowercase alphanumeric with hyphens, ''
                 @ ''starting with a letter and ending with a letter or digit.''))
          else Inr (Some v))"

definition validate_storage_size :: "string \<Rightarrow> string res" where
  "validate_storage_size val =
     (let v = strip val
      in if \<not> re_match STORAGE_SIZE_REGEX v
         then Inl (ValueError (''Invalid node_storage_size '' @ squote v
                @ ''. Expected format like '' @ squote ''100GB'' @ '' or '' @ squote ''1TB''
                @ ''.''))
         else Inr v)"

definition validate_gce_resource_name :: "string \<Rightarrow> string \<Rightarrow> nat \<Rightarrow> string res" where
  "validate_gce_resource_name val field_name max_len =
     (let v = strip val
      in if v = [] then Inl (ValueError (field_name @ '' cannot be empty.''))
         else if length v > max_len
         then Inl (ValueError (field_name @ '' '' @ squote v
                @ '' exceeds the maximum allowed length of '' @ show_nat max_len
                @ '' characters.''))
         else if \<not> re_match GCE_NAME_REGEX v
         then Inl (ValueError (field_name @ '' '' @ squote v
                @ '' must be lowercase alphanumeric with hyphens, starting with a letter.''))
         else Inr v)"


section \<open>The base request\<close>

record GcpTargetRequest =
  project_id :: "string option"
  zone :: "string option"
  region :: "string option"
  provisioning_sa_email :: "string option"

text \<open>The four fields as the JSON body gives them; an omitted field is \<open>ANone\<close>, its default.\<close>

record gcp_target_raw =
  raw_project_id :: any
  raw_zone :: any
  raw_region :: any
  raw_provisioning_sa_email :: any

text \<open>
  The decorated class: the \<open>mode="before"\<close> validator sanitises the four fields, the field
  validators check the project and the service account, and the \<open>mode="after"\<close> model
  validator replaces zone and region by what \<open>validate_zone_and_region\<close> returns. The
  messages of the fields that fail are collected in field order; the model validator runs
  only when no field failed.
\<close>

definition sanitize_optional_fields :: "gcp_target_raw \<Rightarrow> GcpTargetRequest" where
  "sanitize_optional_fields raw =
     \<lparr>project_id = sanitize_optional_str (raw_project_id raw),
      zone = sanitize_optional_str (raw_zone raw),
      region = sanitize_optional_str (raw_region raw),
      provisioning_sa_email = sanitize_optional_str (raw_provisioning_sa_email raw)\<rparr>"

definition errors_of :: "'a res \<Rightarrow> exc list" where
  "errors_of r = (case r of Inl e \<Rightarrow> [e] | Inr _ \<Rightarrow> [])"

definition gcp_field_errors :: "GcpTargetRequest \<Rightarrow> exc list" where
  "gcp_field_errors q =
     errors_of (validate_project_id (project_id q))
     @ errors_of (validate_email_or_sa (provisioning_sa_email q) ''provisioning_sa_email'')"

definition validate_gcp_fields :: "GcpTargetRequest \<Rightarrow> GcpTargetRequest" where
  "validate_gcp_fields q =
     q\<lparr>project_id := (case validate_project_id (project_id q) of Inr v \<Rightarrow> v | Inl _ \<Rightarrow> None),
       provisioning_sa_email :=
         (case validate_email_or_sa (provisioning_sa_email q) ''provisioning_sa_email'' of
            Inr v \<Rightarrow> v | Inl _ \<Rightarrow> None)\<rparr>"

definition validate_gcp_target_parameters :: "GcpTargetRequest \<Rightarrow> GcpTargetRequest res" where
  "validate_gcp_target_parameters q =
     bind_res (validate_zone_and_region (zone q) (region q))
       (\<lambda>(z, r). Inr (q\<lparr>zone := z, region := r\<rparr>))"

definition make_GcpTargetRequest :: "gcp_target_raw \<Rightarrow> exc list + GcpTargetRequest" where
  "make_GcpTargetRequest raw =
     (let q = sanitize_optional_fields raw
      in if gcp_field_errors q \<noteq> [] then Inl (gcp_field_errors q)
         else (case validate_gcp_target_parameters (validate_gcp_fields q) of
                 Inl e \<Rightarrow> Inl [e] | Inr q' \<Rightarrow> Inr q'))"


section \<open>Sanitised strings\<close>

lemma sanitize_opt_None [simp]: "sanitize_optional_str (opt_any None) = None"
  and sanitize_ANone [simp]: "sanitize_optional_str ANone = None"
  by (simp_all add: sanitize_optional_str_def opt_any_def)

lemma sanitize_SomeD:
  assumes "sanitize_optional_str (opt_any v) = Some s"
  shows "s \<noteq> []" and "stripped s" and "lower s \<notin> set placeholders" and "\<exists>t. v = Some t \<and> s = strip t"
  using assms
  by (auto simp: sanitize_optional_str_def opt_any_def Let_def split: option.splits if_splits)

lemma sanitize_clean:
  "stripped s \<Longrightarrow> s \<noteq> [] \<Longrightarrow> lower s \<notin> set placeholders \<Longrightarrow>
     sanitize_optional_str (opt_any (Some s)) = Some s"
  by (simp add: sanitize_optional_str_def opt_any_def strip_id)

lemma sanitize_idem [simp]:
  "sanitize_optional_str (opt_any (sanitize_optional_str (opt_any v))) =
     sanitize_optional_str (opt_any v)"
proof (cases "sanitize_optional_str (opt_any v)")
  case (Some s)
  from sanitize_SomeD [OF Some] show ?thesis
    unfolding Some by (intro sanitize_clean)
qed simp

lemma truthy_sanitized [simp]:
  "truthy (sanitize_optional_str (opt_any v)) \<longleftrightarrow> sanitize_optional_str (opt_any v) \<noteq> None"
  using sanitize_SomeD(1) by (fastforce simp: truthy_def)

lemma re_match_sanitized:
  "sanitize_optional_str (opt_any v) = Some s \<Longrightarrow> re_match r s \<longleftrightarrow> re_lang r s"
  by (rule re_match_stripped) (rule sanitize_SomeD(2))


section \<open>Zones and regions\<close>

text \<open>
  What a zone and a region are, without the matcher: a region is \<open><letters>-<alphanumerics>\<close>
  and a zone is a region followed by a hyphen and one letter.
\<close>

definition az_char :: "char \<Rightarrow> bool" where
  "az_char c \<longleftrightarrow> CHR ''a'' \<le> c \<and> c \<le> CHR ''z''"

definition an_char :: "char \<Rightarrow> bool" where
  "an_char c \<longleftrightarrow> az_char c \<or> digit_char c"

definition is_region :: "string \<Rightarrow> bool" where
  "is_region s \<longleftrightarrow>
     (\<exists>a b. s = a @ ''-'' @ b \<and> a \<noteq> [] \<and> b \<noteq> [] \<and> list_all az_char a \<and> list_all an_char b)"

definition is_zone :: "string \<Rightarrow> bool" where
  "is_zone s \<longleftrightarrow> (\<exists>r c. s = r @ ''-'' @ [c] \<and> is_region r \<and> az_char c)"

lemma in_cls_az: "in_cls [az] = az_char"
  by (rule ext) (simp add: in_cls_def az_char_def)

lemma in_cls_an: "in_cls [az, d09] = an_char"
  by (rule ext) (simp add: in_cls_def an_char_def az_char_def)

lemma region_regex_iff: "re_lang GCP_REGION_REGEX s \<longleftrightarrow> is_region s"
  unfolding GCP_REGION_REGEX_def is_region_def
  by (simp add: re_lang_Seq [of _ "Seq (Chr _) _"] re_lang_Seq [of "Chr _"]
        re_lang_Plus_Cls re_lang_Chr in_cls_az in_cls_an del: re_lang_Cls) blast

lemma zone_regex_iff: "re_lang GCP_ZONE_REGEX s \<longleftrightarrow> is_zone s"
proof -
  have "re_lang GCP_ZONE_REGEX s \<longleftrightarrow>
      (\<exists>a b c. s = a @ ''-'' @ b @ ''-'' @ [c] \<and> a \<noteq> [] \<and> b \<noteq> [] \<and>
               list_all az_char a \<and> list_all an_char b \<and> az_char c)"
    unfolding GCP_ZONE_REGEX_def
    by (simp add: re_lang_Seq [of _ "Seq (Chr _) _"] re_lang_Seq [of "Chr _"]
          re_lang_Plus_Cls re_lang_Chr in_cls_an in_cls_az re_lang_Cls [of "[az]"]
          del: re_lang_Cls) blast
  then show ?thesis
    unfolding is_zone_def is_region_def by (metis append_assoc)
qed

lemma az_not_hyphen: "az_char c \<Longrightarrow> c \<noteq> CHR ''-''"
  by (auto simp: az_char_def less_eq_char_def)

lemma an_not_hyphen: "an_char c \<Longrightarrow> c \<noteq> CHR ''-''"
  by (auto simp: an_char_def az_char_def less_eq_char_def)

lemma hyphens_region: "is_region s \<Longrightarrow> count_list s CHR ''-'' = 1"
proof -
  assume "is_region s"
  then obtain a b where s: "s = a @ ''-'' @ b" "list_all az_char a" "list_all an_char b"
    by (auto simp: is_region_def)
  then have "CHR ''-'' \<notin> set a" and "CHR ''-'' \<notin> set b"
    using az_not_hyphen an_not_hyphen by (auto simp: list_all_iff)
  with s show ?thesis by (simp add: count_notin)
qed

lemma hyphens_zone: "is_zone s \<Longrightarrow> count_list s CHR ''-'' = 2"
  by (auto simp: is_zone_def hyphens_region dest: az_not_hyphen)

lemma zone_not_region: "is_zone s \<Longrightarrow> \<not> is_region s"
  using hyphens_zone hyphens_region by fastforce

text \<open>Cutting the last component of a zone gives a well-formed region.\<close>

lemma zone_rsplit:
  assumes "is_zone s"
  shows "is_region (rsplit_head CHR ''-'' s)" and "\<exists>c. az_char c \<and> s = rsplit_head CHR ''-'' s @ ''-'' @ [c]"
proof -
  obtain r c where rc: "s = r @ CHR ''-'' # [c]" "is_region r" "az_char c"
    using assms by (auto simp: is_zone_def)
  then have "rsplit_head CHR ''-'' s = r"
    using rsplit_head_append [of "CHR ''-''" "[c]" r] az_not_hyphen [OF rc(3)] by simp
  with rc show "is_region (rsplit_head CHR ''-'' s)"
    and "\<exists>c. az_char c \<and> s = rsplit_head CHR ''-'' s @ ''-'' @ [c]"
    by auto
qed

text \<open>The contract of the zone and region validator on sanitised values.\<close>

fun zone_region_spec ::
    "string option \<Rightarrow> string option \<Rightarrow> (string option \<times> string option) option" where
  "zone_region_spec None None = Some (None, None)"
| "zone_region_spec None (Some r) = (if is_region r then Some (None, Some r) else None)"
| "zone_region_spec (Some z) None =
     (if is_zone z then Some (Some z, Some (rsplit_head CHR ''-'' z)) else None)"
| "zone_region_spec (Some z) (Some r) =
     (if is_zone z \<and> r = rsplit_head CHR ''-'' z then Some (Some z, Some r) else None)"

definition accepted :: "'a res \<Rightarrow> 'a option" where
  "accepted x = (case x of Inl _ \<Rightarrow> None | Inr v \<Rightarrow> Some v)"

lemma accepted_simps [simp]: "accepted (Inl e) = None" "accepted (Inr v) = Some v"
  by (simp_all add: accepted_def)

lemma validate_zone_and_region_refines:
  "accepted (validate_zone_and_region zo ro) =
     zone_region_spec (sanitize_optional_str (opt_any zo)) (sanitize_optional_str (opt_any ro))"
proof (cases "sanitize_optional_str (opt_any zo)"; cases "sanitize_optional_str (opt_any ro)")
  assume "sanitize_optional_str (opt_any zo) = None" "sanitize_optional_str (opt_any ro) = None"
  then show ?thesis by (simp add: validate_zone_and_region_def truthy_def)
next
  fix r assume z: "sanitize_optional_str (opt_any zo) = None"
    and r: "sanitize_optional_str (opt_any ro) = Some r"
  from z r show ?thesis
    by (simp add: validate_zone_and_region_def truthy_def re_match_sanitized [OF r]
          region_regex_iff)
next
  fix z assume z: "sanitize_optional_str (opt_any zo) = Some z"
    and r: "sanitize_optional_str (opt_any ro) = None"
  from z r show ?thesis
    by (simp add: validate_zone_and_region_def truthy_def re_match_sanitized [OF z]
          zone_regex_iff)
next
  fix z r assume z: "sanitize_optional_str (opt_any zo) = Some z"
    and r: "sanitize_optional_str (opt_any ro) = Some r"
  have nz: "\<not> (is_region z \<and> is_zone z)" and zr: "is_zone z \<Longrightarrow> is_region (rsplit_head CHR ''-'' z)"
    using zone_not_region zone_rsplit(1) by auto
  note m = re_match_sanitized [OF z] re_match_sanitized [OF r] region_regex_iff zone_regex_iff
  define w where "w = rsplit_head CHR ''-'' z"
  from z r show ?thesis
    using nz zr sanitize_SomeD(1) [OF z] sanitize_SomeD(1) [OF r]
    by (simp add: validate_zone_and_region_def truthy_def m Let_def flip: w_def)
       (metis re_match_sanitized [OF r] region_regex_iff)
qed

lemma accepted_Some [simp]: "accepted x = Some v \<longleftrightarrow> x = Inr v"
  by (cases x) auto

lemma zone_region_spec_cases:
  assumes "zone_region_spec z r = Some (z', r')"
  shows "z' = z"
    and "z = None \<Longrightarrow> r' = r"
    and "z = Some zs \<Longrightarrow> is_zone zs \<and> r' = Some (rsplit_head CHR ''-'' zs)"
    and "r' = Some rs \<Longrightarrow> is_region rs"
    and "r = Some rs \<Longrightarrow> r' = Some rs"
  using assms zone_rsplit(1)
  by (cases z; cases r; auto split: if_splits)+


section \<open>Names, projects, sizes and addresses without the matcher\<close>

definition name_char :: "char \<Rightarrow> bool" where
  "name_char c \<longleftrightarrow> an_char c \<or> c = CHR ''-''"

text \<open>A GCE resource name: a leading letter, letters, digits and hyphens, no hyphen at the end.\<close>

definition gce_name :: "string \<Rightarrow> bool" where
  "gce_name s \<longleftrightarrow> s \<noteq> [] \<and> az_char (hd s) \<and> list_all name_char s \<and> last s \<noteq> CHR ''-''"

definition storage_size :: "string \<Rightarrow> bool" where
  "storage_size s \<longleftrightarrow>
     (\<exists>n u. s = show_nat n @ u \<and> 0 < n \<and> u \<in> {''GB'', ''TB'', ''GiB'', ''TiB''})"

definition email_char :: "char \<Rightarrow> bool" where
  "email_char c \<longleftrightarrow> an_char c \<or> (CHR ''A'' \<le> c \<and> c \<le> CHR ''Z'') \<or> c \<in> set ''_.+-''"

definition email_address :: "string \<Rightarrow> bool" where
  "email_address s \<longleftrightarrow>
     (\<exists>u d t. s = u @ ''@'' @ d @ ''.'' @ t \<and> u \<noteq> [] \<and> d \<noteq> [] \<and> t \<noteq> [] \<and>
        list_all email_char u \<and>
        list_all (\<lambda>c. email_char c \<and> c \<notin> set ''_.+'') d \<and>
        list_all (\<lambda>c. email_char c \<and> c \<notin> set ''_+'') t)"

lemma in_cls_name: "in_cls [az, d09, one CHR ''-''] = name_char"
  by (rule ext) (auto simp: in_cls_def name_char_def an_char_def az_char_def)

lemma az_an: "az_char c \<Longrightarrow> an_char c"
  by (simp add: an_char_def)

lemma name_char_last: "name_char c \<Longrightarrow> c \<noteq> CHR ''-'' \<longleftrightarrow> an_char c"
  by (auto simp: name_char_def dest: an_not_hyphen)

lemma an_name: "an_char c \<Longrightarrow> name_char c"
  by (simp add: name_char_def)

lemma project_regex_iff: "re_lang GCP_PROJECT_ID_REGEX s \<longleftrightarrow> gce_name s \<and> 2 \<le> length s"
proof -
  have "re_lang GCP_PROJECT_ID_REGEX s \<longleftrightarrow>
      (\<exists>c m d. s = c # m @ [d] \<and> az_char c \<and> list_all name_char m \<and> an_char d)"
    unfolding GCP_PROJECT_ID_REGEX_def
    by (simp add: re_lang_Cls_Seq [of _ "Seq _ _"] re_lang_Seq_Cls re_lang_Star_Cls in_cls_az
          in_cls_an in_cls_name) blast
  also have "\<dots> \<longleftrightarrow> gce_name s \<and> 2 \<le> length s"
  proof
    assume "gce_name s \<and> 2 \<le> length s"
    then obtain c m d where s: "s = c # m @ [d]"
      by (cases s; cases "tl s" rule: rev_cases) auto
    with \<open>gce_name s \<and> 2 \<le> length s\<close> have "az_char c" "list_all name_char m" "an_char d"
      using name_char_last by (auto simp: gce_name_def)
    with s show "\<exists>c m d. s = c # m @ [d] \<and> az_char c \<and> list_all name_char m \<and> an_char d"
      by blast
  next
    assume "\<exists>c m d. s = c # m @ [d] \<and> az_char c \<and> list_all name_char m \<and> an_char d"
    then show "gce_name s \<and> 2 \<le> length s"
      by (auto simp: gce_name_def az_an an_name dest: an_not_hyphen)
  qed
  finally show ?thesis .
qed

lemma gce_regex_iff: "re_lang GCE_NAME_REGEX s \<longleftrightarrow> gce_name s"
proof -
  have one: "(\<exists>c. s = [c] \<and> az_char c) \<longleftrightarrow> gce_name s \<and> length s = 1"
    by (cases s) (auto simp: gce_name_def az_an an_name dest: az_not_hyphen)
  have "re_lang GCE_NAME_REGEX s \<longleftrightarrow>
      (\<exists>c. s = [c] \<and> az_char c) \<or> re_lang GCP_PROJECT_ID_REGEX s"
    unfolding GCE_NAME_REGEX_def GCP_PROJECT_ID_REGEX_def
    by (auto simp: re_lang_Cls_Seq [of _ "Alt _ _"] re_lang_Cls_Seq [of _ "Seq _ _"] in_cls_az)
  also have "\<dots> \<longleftrightarrow> gce_name s"
    unfolding one project_regex_iff by (cases s; cases "tl s") (auto simp: gce_name_def)
  finally show ?thesis .
qed

lemma in_cls_19: "in_cls [(CHR ''1'', CHR ''9'')] c \<longleftrightarrow> digit_char c \<and> c \<noteq> CHR ''0''"
proof -
  have "c \<noteq> CHR ''0'' \<longleftrightarrow> (of_char c :: nat) \<noteq> of_char CHR ''0''"
    by (simp only: of_char_eq_iff)
  then show ?thesis by (auto simp: in_cls_def less_eq_char_def)
qed

lemma in_cls_09: "in_cls [d09] = digit_char"
  by (rule ext) (simp add: in_cls_def)

lemma storage_regex_iff: "re_lang STORAGE_SIZE_REGEX s \<longleftrightarrow> storage_size s"
proof -
  let ?R = "Alts [Lit ''GB'', Lit ''TB'', Lit ''GiB'', Lit ''TiB'']"
  have U: "re_lang ?R u \<longleftrightarrow> u \<in> {''GB'', ''TB'', ''GiB'', ''TiB''}" for u
    by (simp add: re_lang_Lit)
  have "re_lang STORAGE_SIZE_REGEX s \<longleftrightarrow>
      (\<exists>c t v u. s = c # t \<and> (digit_char c \<and> c \<noteq> CHR ''0'') \<and> t = v @ u \<and>
         list_all digit_char v \<and> re_lang ?R u)"
    unfolding STORAGE_SIZE_REGEX_def Seqs.simps re_lang_Cls_Seq re_lang_Seq [of "Star _"]
      re_lang_Star_Cls in_cls_19 in_cls_09 by blast
  also have "\<dots> \<longleftrightarrow>
      (\<exists>w u. s = w @ u \<and> w \<noteq> [] \<and> list_all digit_char w \<and> hd w \<noteq> CHR ''0'' \<and>
             u \<in> {''GB'', ''TB'', ''GiB'', ''TiB''})"
    unfolding U
  proof (intro iffI; elim exE conjE)
    fix w u assume "s = w @ u" "w \<noteq> []" "list_all digit_char w" "hd w \<noteq> CHR ''0''"
      "u \<in> {''GB'', ''TB'', ''GiB'', ''TiB''}"
    then show "\<exists>c t v u. s = c # t \<and> (digit_char c \<and> c \<noteq> CHR ''0'') \<and> t = v @ u \<and>
        list_all digit_char v \<and> u \<in> {''GB'', ''TB'', ''GiB'', ''TiB''}"
      by (intro exI [of _ "hd w"] exI [of _ "tl w @ u"] exI [of _ "tl w"] exI [of _ u])
         (cases w; simp del: digit_char.simps insert_iff)
  next
    fix c t v u assume "s = c # t" "digit_char c" "c \<noteq> CHR ''0''" "t = v @ u"
      "list_all digit_char v" "u \<in> {''GB'', ''TB'', ''GiB'', ''TiB''}"
    then show "\<exists>w u. s = w @ u \<and> w \<noteq> [] \<and> list_all digit_char w \<and> hd w \<noteq> CHR ''0'' \<and>
        u \<in> {''GB'', ''TB'', ''GiB'', ''TiB''}"
      by (intro exI [of _ "c # v"] exI [of _ u]) (simp del: digit_char.simps insert_iff)
  qed
  also have "\<dots> \<longleftrightarrow> storage_size s"
  proof -
    have "(\<exists>w. s = w @ u \<and> w \<noteq> [] \<and> list_all digit_char w \<and> hd w \<noteq> CHR ''0'') \<longleftrightarrow>
        (\<exists>n. s = show_nat n @ u \<and> 0 < n)" for u
      using show_read_nat show_nat_digits show_nat_nonempty show_nat_hd by metis
    then show ?thesis unfolding storage_size_def by blast
  qed
  finally show ?thesis .
qed

lemma email_regex_iff: "re_lang EMAIL_REGEX s \<longleftrightarrow> email_address s"
proof -
  have u: "in_cls [az, AZ, d09, one CHR ''_'', one CHR ''.'', one CHR ''+'', one CHR ''-''] = email_char"
    by (rule ext) (auto simp: in_cls_def email_char_def an_char_def az_char_def)
  have d: "in_cls [az, AZ, d09, one CHR ''-''] = (\<lambda>c. email_char c \<and> c \<notin> set ''_.+'')"
    by (rule ext) (auto simp: in_cls_def email_char_def an_char_def az_char_def less_eq_char_def
        char_eq_nat simp del: of_char_eq_iff)
  have t: "in_cls [az, AZ, d09, one CHR ''-'', one CHR ''.''] = (\<lambda>c. email_char c \<and> c \<notin> set ''_+'')"
    by (rule ext) (auto simp: in_cls_def email_char_def an_char_def az_char_def less_eq_char_def
        char_eq_nat simp del: of_char_eq_iff)
  show ?thesis
    unfolding EMAIL_REGEX_def email_address_def
    by (simp add: re_lang_Seq [of _ "Seq (Chr _) _"] re_lang_Seq [of "Chr _"]
          re_lang_Plus_Cls re_lang_Chr u d t del: re_lang_Cls) blast
qed


section \<open>The interface of a validator\<close>

text \<open>
  A request field is validated more than once: a \<open>mode="before"\<close> validator sanitises, a field
  validator sanitises again and checks, and the pipelines clean the stored value a third
  time. That is harmless because every validator returns a value it accepts unchanged. The
  two interfaces state what a validator promises, for a mandatory string and for an optional
  one; the lemmas in them are used through their interpretations below.
\<close>

locale field_validator =
  fixes validate :: "string \<Rightarrow> string res"
    and ok :: "string \<Rightarrow> bool"
  assumes accepts: "validate s = Inr v \<longleftrightarrow> v = strip s \<and> ok v"
    and rejects: "\<not> ok (strip s) \<Longrightarrow> \<exists>m. validate s = Inl (ValueError m)"
begin

lemma validate_idem: "validate s = Inr v \<Longrightarrow> validate v = Inr v"
  by (auto simp: accepts)

lemma validate_stripped: "validate s = Inr v \<Longrightarrow> stripped v"
  by (auto simp: accepts)

lemma validate_total: "(\<exists>v. validate s = Inr v) \<or> (\<exists>m. validate s = Inl (ValueError m))"
  using accepts rejects by blast

lemma validate_strip: "accepted (validate (strip s)) = accepted (validate s)"
proof (cases "ok (strip s)")
  case True
  then have "validate s = Inr (strip s)" and "validate (strip s) = Inr (strip s)"
    by (simp_all add: accepts)
  then show ?thesis by simp
next
  case False
  with rejects [of s] rejects [of "strip s"] show ?thesis by auto
qed

end

locale optional_validator =
  fixes validate :: "string option \<Rightarrow> (string option) res"
    and ok :: "string \<Rightarrow> bool"
  assumes accepts: "validate v = Inr w \<longleftrightarrow>
      w = sanitize_optional_str (opt_any v) \<and> (\<forall>s. w = Some s \<longrightarrow> ok s)"
begin

lemma validate_None: "validate None = Inr None"
  by (simp add: accepts)

lemma validate_idem: "validate v = Inr w \<Longrightarrow> validate w = Inr w"
  by (auto simp: accepts)

lemma validate_clean:
  "validate v = Inr (Some s) \<Longrightarrow> ok s \<and> stripped s \<and> s \<noteq> [] \<and> lower s \<notin> set placeholders"
  unfolding accepts using sanitize_SomeD by metis

lemma validate_sanitized: "validate (sanitize_optional_str (opt_any v)) = Inr w \<longleftrightarrow> validate v = Inr w"
  by (simp add: accepts)

end

interpretation storage: field_validator validate_storage_size storage_size
  by unfold_locales
     (auto simp: validate_storage_size_def re_match_stripped storage_regex_iff Let_def)

interpretation gce: field_validator
  "\<lambda>s. validate_gce_resource_name s f n" "\<lambda>s. gce_name s \<and> length s \<le> n" for f n
  by unfold_locales
     (auto simp: validate_gce_resource_name_def re_match_stripped gce_regex_iff Let_def,
      auto simp: gce_name_def)

interpretation project: optional_validator
  validate_project_id "\<lambda>s. gce_name s \<and> 2 \<le> length s"
  by unfold_locales
     (auto simp: validate_project_id_def re_match_sanitized project_regex_iff
       split: option.splits)

interpretation email: optional_validator
  "\<lambda>v. validate_email_or_sa v f" email_address for f
  by unfold_locales
     (auto simp: validate_email_or_sa_def re_match_sanitized email_regex_iff
       split: option.splits)


section \<open>Consequences for names\<close>

text \<open>
  A validated name contains nothing that a path, a shell word or a dotted suffix could be
  made of: operation identifiers are such names.
\<close>

lemma name_char_plain: "name_char c \<Longrightarrow> c \<noteq> CHR ''/'' \<and> c \<noteq> CHR 0x5C \<and> c \<noteq> CHR ''.'' \<and> \<not> py_space c"
  by (auto simp: name_char_def an_char_def az_char_def less_eq_char_def py_space_def Let_def)

lemma gce_name_plain:
  assumes "gce_name s"
  shows "s \<noteq> []" and "CHR ''/'' \<notin> set s" and "CHR 0x5C \<notin> set s" and "\<not> contains ''..'' s"
    and "stripped s"
  using assms name_char_plain
  by (fastforce simp: gce_name_def list_all_iff contains_iff intro: stripped_no_space)+


section \<open>The base request\<close>

lemma make_GcpTargetRequest_Inr:
  assumes "make_GcpTargetRequest raw = Inr q"
  shows "validate_zone_and_region (sanitize_optional_str (raw_zone raw))
           (sanitize_optional_str (raw_region raw)) = Inr (zone q, region q)"
    and "validate_project_id (sanitize_optional_str (raw_project_id raw)) = Inr (project_id q)"
    and "validate_email_or_sa (sanitize_optional_str (raw_provisioning_sa_email raw))
           ''provisioning_sa_email'' = Inr (provisioning_sa_email q)"
  using assms
  by (auto simp: make_GcpTargetRequest_def Let_def gcp_field_errors_def errors_of_def
        validate_gcp_target_parameters_def bind_res_def validate_gcp_fields_def
        sanitize_optional_fields_def split: if_splits sum.splits)

text \<open>What a constructed request satisfies, whatever the body was.\<close>

definition valid_target :: "GcpTargetRequest \<Rightarrow> bool" where
  "valid_target q \<longleftrightarrow>
     (\<forall>p. project_id q = Some p \<longrightarrow> gce_name p \<and> 2 \<le> length p) \<and>
     (\<forall>e. provisioning_sa_email q = Some e \<longrightarrow> email_address e) \<and>
     (\<forall>z. zone q = Some z \<longrightarrow> is_zone z \<and> region q = Some (rsplit_head CHR ''-'' z)) \<and>
     (\<forall>r. region q = Some r \<longrightarrow> is_region r)"

lemma zone_region_InrD:
  assumes "validate_zone_and_region zo ro = Inr (z, r)"
  shows "zone_region_spec (sanitize_optional_str (opt_any zo))
           (sanitize_optional_str (opt_any ro)) = Some (z, r)"
  using validate_zone_and_region_refines [of zo ro] assms by simp

lemma zone_region_valid:
  assumes "validate_zone_and_region zo ro = Inr (z, r)"
  shows "\<forall>s. z = Some s \<longrightarrow> is_zone s \<and> r = Some (rsplit_head CHR ''-'' s)"
    and "\<forall>s. r = Some s \<longrightarrow> is_region s"
  using zone_region_spec_cases [OF zone_region_InrD [OF assms]] by auto

end
