(* ===== verification/Config.thy ===== *)
theory Config
  imports Validators
begin

text \<open>
  \<open>api/gem_api/config.py\<close>: how the default project and zone are found, the default region and
  the names derived from a project. The process environment is a map of variables; the
  \<open>gcloud\<close> binary is a parameter, a function from its arguments to what running it gave.
\<close>

section \<open>Defaults from the environment\<close>

type_synonym environ = "string \<rightharpoonup> string"

text \<open>
  The outcome of \<open>subprocess.run\<close>: a return code with the captured output, or one of the
  exceptions the callers catch (\<open>SubprocessError\<close>, \<open>OSError\<close>, \<open>ValueError\<close>).
\<close>

datatype run_result = Completed int string | RunFailed

definition getenv :: "environ \<Rightarrow> string \<Rightarrow> string \<Rightarrow> string" where
  "getenv env k d = (case env k of None \<Rightarrow> d | Some v \<Rightarrow> v)"

definition gcloud_value :: "run_result \<Rightarrow> string option" where
  "gcloud_value res =
     (case res of
        RunFailed \<Rightarrow> None
      | Completed rc out \<Rightarrow>
          if rc = 0
          then (let val = strip out in if val \<noteq> [] \<and> val \<noteq> ''(unset)'' then Some val else None)
          else None)"

definition resolve_default_project ::
    "environ \<Rightarrow> bool \<Rightarrow> (string list \<Rightarrow> run_result) \<Rightarrow> string" where
  "resolve_default_project env has_gcloud run =
     (let pid = strip (getenv env ''PROJECT_ID'' (getenv env ''GCP_PROJECT'' []))
      in if pid \<noteq> [] then pid
         else if has_gcloud
         then (case gcloud_value (run [''gcloud'', ''config'', ''get-value'', ''project'']) of
                 Some val \<Rightarrow> val | None \<Rightarrow> ''gem-default-project'')
         else ''gem-default-project'')"

definition resolve_default_zone ::
    "environ \<Rightarrow> bool \<Rightarrow> (string list \<Rightarrow> run_result) \<Rightarrow> string" where
  "resolve_default_zone env has_gcloud run =
     (let z = strip (getenv env ''GEM_GCP_ZONE'' (getenv env ''CLOUDSDK_COMPUTE_ZONE'' []))
      in if z \<noteq> [] then z
         else if has_gcloud
         then (case gcloud_value (run [''gcloud'', ''config'', ''get-value'', ''compute/zone'']) of
                 Some val \<Rightarrow> val | None \<Rightarrow> ''us-central1-a'')
         else ''us-central1-a'')"


section \<open>Settings\<close>

type_synonym path = "string list"

text \<open>The settings the services read; a path is its list of components.\<close>

record Settings =
  repo_root :: path
  default_project_id :: string
  default_zone :: string
  log_dir :: path
  max_log_buffer_lines :: nat

definition default_region :: "Settings \<Rightarrow> string" where
  "default_region cfg =
     (if CHR ''-'' \<in> set (default_zone cfg)
      then join ''-'' (butlast (split_on CHR ''-'' (default_zone cfg)))
      else ''us-central1'')"

text \<open>Python's \<open>a or b\<close> for an optional string \<open>a\<close>.\<close>

definition str_or :: "string option \<Rightarrow> string \<Rightarrow> string" where
  "str_or a b = (case a of Some s \<Rightarrow> if s \<noteq> [] then s else b | None \<Rightarrow> b)"

definition get_provisioning_sa :: "Settings \<Rightarrow> string option \<Rightarrow> string" where
  "get_provisioning_sa cfg pid =
     ''tf-provisioner@'' @ str_or pid (default_project_id cfg) @ ''.iam.gserviceaccount.com''"

definition get_cluster_admin_sa :: "Settings \<Rightarrow> string option \<Rightarrow> string" where
  "get_cluster_admin_sa cfg pid =
     ''gem-cluster-admin@'' @ str_or pid (default_project_id cfg) @ ''.iam.gserviceaccount.com''"

definition get_tf_state_bucket :: "Settings \<Rightarrow> string option \<Rightarrow> string" where
  "get_tf_state_bucket cfg pid =
     ''gem-'' @ str_or pid (default_project_id cfg) @ ''-tfstate''"

text \<open>The settings of a process whose environment sets no override.\<close>

definition make_Settings ::
    "environ \<Rightarrow> bool \<Rightarrow> (string list \<Rightarrow> run_result) \<Rightarrow> path \<Rightarrow> path \<Rightarrow> Settings" where
  "make_Settings env has_gcloud run root logs =
     \<lparr>repo_root = root,
      default_project_id = resolve_default_project env has_gcloud run,
      default_zone = resolve_default_zone env has_gcloud run,
      log_dir = logs,
      max_log_buffer_lines = 1000\<rparr>"


section \<open>Lemmas\<close>

lemma str_or_simps [simp]:
  "str_or None b = b" "str_or (Some []) b = b" "s \<noteq> [] \<Longrightarrow> str_or (Some s) b = s"
  by (simp_all add: str_or_def)

lemma str_or_nonempty: "b \<noteq> [] \<Longrightarrow> str_or a b \<noteq> []"
  by (simp add: str_or_def split: option.split)

lemma gcloud_value_clean: "gcloud_value res = Some v \<Longrightarrow> v \<noteq> [] \<and> stripped v \<and> v \<noteq> ''(unset)''"
  by (auto simp: gcloud_value_def Let_def split: run_result.splits if_splits)

lemma stripped_defaults: "stripped ''gem-default-project''" "stripped ''us-central1-a''"
  by (simp_all add: stripped_def py_space_def)

text \<open>The defaults are never empty and never carry white space at their ends.\<close>

lemma resolve_default_project_clean:
  "resolve_default_project env g run \<noteq> [] \<and> stripped (resolve_default_project env g run)"
  by (auto simp: resolve_default_project_def Let_def stripped_defaults
        dest: gcloud_value_clean split: option.split)

lemma resolve_default_zone_clean:
  "resolve_default_zone env g run \<noteq> [] \<and> stripped (resolve_default_zone env g run)"
  by (auto simp: resolve_default_zone_def Let_def stripped_defaults
        dest: gcloud_value_clean split: option.split)

lemma default_region_zone: "is_zone (default_zone cfg) \<Longrightarrow> default_region cfg = rsplit_head CHR ''-'' (default_zone cfg)"
  using hyphens_zone count_list_0_iff [of "default_zone cfg" "CHR ''-''"]
  by (auto simp: default_region_def join_butlast_split)

text \<open>
  The service accounts made up for a valid project are well-formed addresses: what the API
  derives passes the check that it applies to what a client gives.
\<close>

lemma name_char_email: "name_char c \<Longrightarrow> email_char c \<and> c \<notin> set ''_.+''"
  by (auto simp: name_char_def email_char_def an_char_def az_char_def less_eq_char_def)

lemma email_address_of_project:
  assumes "gce_name p" and "u \<noteq> []" and "list_all email_char u"
  shows "email_address (u @ ''@'' @ p @ ''.iam.gserviceaccount.com'')"
proof -
  have "list_all (\<lambda>c. email_char c \<and> c \<notin> set ''_.+'') p" and "p \<noteq> []"
    using assms(1) name_char_email by (auto simp: gce_name_def list_all_iff)
  moreover have "list_all (\<lambda>c. email_char c \<and> c \<notin> set ''_+'') ''iam.gserviceaccount.com''"
    by (simp add: email_char_def an_char_def az_char_def less_eq_char_def)
  ultimately show ?thesis
    using assms(2,3) unfolding email_address_def
    by (intro exI [of _ u] exI [of _ p] exI [of _ "''iam.gserviceaccount.com''"]) simp
qed

lemma get_provisioning_sa_email:
  assumes "gce_name p"
  shows "email_address (get_provisioning_sa cfg (Some p))"
proof -
  have "list_all email_char ''tf-provisioner''"
    by (simp add: email_char_def an_char_def az_char_def less_eq_char_def)
  from email_address_of_project [OF assms _ this] show ?thesis
    using gce_name_plain(1) [OF assms] by (simp add: get_provisioning_sa_def)
qed

lemma get_cluster_admin_sa_email:
  assumes "gce_name p"
  shows "email_address (get_cluster_admin_sa cfg (Some p))"
proof -
  have "list_all email_char ''gem-cluster-admin''"
    by (simp add: email_char_def an_char_def az_char_def less_eq_char_def)
  from email_address_of_project [OF assms _ this] show ?thesis
    using gce_name_plain(1) [OF assms] by (simp add: get_cluster_admin_sa_def)
qed

end
