(* ===== verification/Manifest.thy ===== *)
theory Manifest
  imports Config "HOL-Library.List_Lexorder"
begin

text \<open>
  \<open>api/gem_api/manifest.py\<close>: finding \<open>ansible/group_vars/all.yaml\<close> and reading the supported
  versions, hardware variants and secondary networks from it. The YAML parser is a
  parameter: for each path it says whether the file exists and what \<open>yaml.safe_load\<close> made of
  it.
\<close>

section \<open>Values\<close>

text \<open>
  What \<open>yaml.safe_load\<close> returns. \<open>YOther\<close> stands for the remaining scalars (floats, dates)
  with their truth value and their text.
\<close>

datatype yaml =
    YNull
  | YBool bool
  | YInt int
  | YStr string
  | YOther bool string
  | YList "yaml list"
  | YDict "(yaml \<times> yaml) list"

fun yaml_truthy :: "yaml \<Rightarrow> bool" where
  "yaml_truthy YNull = False"
| "yaml_truthy (YBool b) = b"
| "yaml_truthy (YInt i) = (i \<noteq> 0)"
| "yaml_truthy (YStr s) = (s \<noteq> [])"
| "yaml_truthy (YOther b _) = b"
| "yaml_truthy (YList xs) = (xs \<noteq> [])"
| "yaml_truthy (YDict d) = (d \<noteq> [])"

text \<open>\<open>repr\<close> of a string: the quotes, the escapes, and \<open>\xNN\<close> for what does not print.\<close>

definition hex_digit :: "nat \<Rightarrow> char" where
  "hex_digit n = ''0123456789abcdef'' ! n"

definition repr_char :: "char \<Rightarrow> char \<Rightarrow> string" where
  "repr_char q c =
     (let n = (of_char c :: nat)
      in if c = q \<or> c = CHR 0x5C then [CHR 0x5C, c]
         else if n = 9 then [CHR 0x5C, CHR ''t'']
         else if n = 10 then [CHR 0x5C, CHR ''n'']
         else if n = 13 then [CHR 0x5C, CHR ''r'']
         else if n < 32 \<or> (127 \<le> n \<and> n \<le> 160) \<or> n = 173
         then [CHR 0x5C, CHR ''x'', hex_digit (n div 16), hex_digit (n mod 16)]
         else [c])"

definition repr_str :: "string \<Rightarrow> string" where
  "repr_str s =
     (let q = (if CHR 0x27 \<in> set s \<and> CHR 0x22 \<notin> set s then CHR 0x22 else CHR 0x27)
      in [q] @ concat (map (repr_char q) s) @ [q])"

fun repr_yaml :: "yaml \<Rightarrow> string" where
  "repr_yaml YNull = ''None''"
| "repr_yaml (YBool b) = (if b then ''True'' else ''False'')"
| "repr_yaml (YInt i) = show_int i"
| "repr_yaml (YStr s) = repr_str s"
| "repr_yaml (YOther _ t) = t"
| "repr_yaml (YList xs) = ''['' @ join '', '' (map repr_yaml xs) @ '']''"
| "repr_yaml (YDict d) =
     ''{'' @ join '', '' (map (\<lambda>(k, v). repr_yaml k @ '': '' @ repr_yaml v) d) @ ''}''"

definition str_yaml :: "yaml \<Rightarrow> string" where
  "str_yaml v = (case v of YStr s \<Rightarrow> s | _ \<Rightarrow> repr_yaml v)"

definition yaml_get :: "(yaml \<times> yaml) list \<Rightarrow> string \<Rightarrow> yaml option" where
  "yaml_get d k = map_of d (YStr k)"


text \<open>\<open>isinstance(v, dict)\<close> and \<open>isinstance(v, list)\<close>, with what is inside.\<close>

definition as_dict :: "yaml option \<Rightarrow> ((yaml \<times> yaml) list) option" where
  "as_dict v = (case v of Some (YDict d) \<Rightarrow> Some d | _ \<Rightarrow> None)"

definition as_list :: "yaml option \<Rightarrow> (yaml list) option" where
  "as_list v = (case v of Some (YList xs) \<Rightarrow> Some xs | _ \<Rightarrow> None)"


section \<open>Locating the file\<close>

datatype yaml_file = NoFile | ParseError string | Loaded yaml

definition path_str :: "path \<Rightarrow> string" where
  "path_str p = ''/'' @ join ''/'' p"

definition candidate_paths :: "Settings \<Rightarrow> path option \<Rightarrow> path \<Rightarrow> path list" where
  "candidate_paths cfg env_path api_root =
     (case env_path of
        Some p \<Rightarrow> [p]
      | None \<Rightarrow> [repo_root cfg @ [''ansible'', ''group_vars'', ''all.yaml''],
                 [''app'', ''ansible'', ''group_vars'', ''all.yaml''],
                 api_root @ [''ansible'', ''group_vars'', ''all.yaml'']])"

fun search_group_vars ::
    "(path \<Rightarrow> yaml_file) \<Rightarrow> path list \<Rightarrow> path list \<Rightarrow> ((yaml \<times> yaml) list) res" where
  "search_group_vars fs all [] =
     Inl (RuntimeError (''Could not locate '' @ squote ''ansible/group_vars/all.yaml'' @ ''. ''
       @ ''Searched candidate locations:'' @ [CHR 0x0A]
       @ join [CHR 0x0A] (map (\<lambda>p. '' - '' @ path_str p) all)))"
| "search_group_vars fs all (p # ps) =
     (case fs p of
        NoFile \<Rightarrow> search_group_vars fs all ps
      | ParseError e \<Rightarrow>
          Inl (RuntimeError (''Failed to parse Ansible group_vars at '' @ squote (path_str p)
            @ '': '' @ e))
      | Loaded (YDict d) \<Rightarrow> Inr d
      | Loaded _ \<Rightarrow> search_group_vars fs all ps)"

definition load_group_vars ::
    "Settings \<Rightarrow> path option \<Rightarrow> path \<Rightarrow> (path \<Rightarrow> yaml_file) \<Rightarrow> ((yaml \<times> yaml) list) res" where
  "load_group_vars cfg env_path api_root fs =
     (let ps = candidate_paths cfg env_path api_root in search_group_vars fs ps ps)"


section \<open>Reading it\<close>

text \<open>
  The getters take the loaded dictionary (the loader caches it), or the error that loading
  raised.
\<close>

type_synonym group_vars = "((yaml \<times> yaml) list) res"

definition get_valid_gdc_versions :: "group_vars \<Rightarrow> (yaml list) res" where
  "get_valid_gdc_versions gv =
     bind_res gv (\<lambda>data.
       let missing = ValueError (''Missing or empty '' @ squote ''emulated_gdc_versions''
                       @ '' in ansible/group_vars/all.yaml'')
       in case as_dict (yaml_get data ''emulated_gdc_versions'') of
            None \<Rightarrow> Inl missing
          | Some m \<Rightarrow> if m = [] then Inl missing else Inr (map fst m))"

definition get_default_gdc_version :: "group_vars \<Rightarrow> yaml res" where
  "get_default_gdc_version gv = bind_res (get_valid_gdc_versions gv) (\<lambda>vs. Inr (hd vs))"

definition get_abm_version :: "group_vars \<Rightarrow> string \<Rightarrow> (string option) res" where
  "get_abm_version gv v =
     bind_res gv (\<lambda>data.
       case as_dict (yaml_get data ''emulated_gdc_versions'') of
         None \<Rightarrow> Inr None
       | Some m \<Rightarrow>
           (case as_dict (yaml_get m v) of
              None \<Rightarrow> Inr None
            | Some entry \<Rightarrow>
                (case yaml_get entry ''abm_version'' of
                   None \<Rightarrow> Inr None
                 | Some a \<Rightarrow> if yaml_truthy a then Inr (Some (str_yaml a)) else Inr None)))"

definition get_valid_hardware_variants :: "group_vars \<Rightarrow> (string list) res" where
  "get_valid_hardware_variants gv =
     bind_res gv (\<lambda>data.
       let missing = ValueError (''Missing or empty '' @ squote ''hardware_variants''
                       @ '' in ansible/group_vars/all.yaml'')
       in case as_list (yaml_get data ''hardware_variants'') of
            None \<Rightarrow> Inl missing
          | Some vs \<Rightarrow> if vs = [] then Inl missing else Inr (map str_yaml vs))"

definition get_default_hardware_variant :: "group_vars \<Rightarrow> string res" where
  "get_default_hardware_variant gv =
     bind_res gv (\<lambda>data.
       case yaml_get data ''default_hardware_variant'' of
         Some dv \<Rightarrow>
           if yaml_truthy dv
           then bind_res (get_valid_hardware_variants gv) (\<lambda>vs.
                  if str_yaml dv \<in> set vs then Inr (str_yaml dv) else Inr (hd vs))
           else bind_res (get_valid_hardware_variants gv) (\<lambda>vs. Inr (hd vs))
       | None \<Rightarrow> bind_res (get_valid_hardware_variants gv) (\<lambda>vs. Inr (hd vs)))"

definition get_default_secondary_networks :: "group_vars \<Rightarrow> (yaml list) res" where
  "get_default_secondary_networks gv =
     bind_res gv (\<lambda>data.
       case as_list (yaml_get data ''secondary_networks'') of
         None \<Rightarrow> Inr []
       | Some ns \<Rightarrow> Inr ns)"


section \<open>Lemmas\<close>

text \<open>The two getters of lists never return an empty list, so taking the first is safe.\<close>

lemma valid_gdc_versions_nonempty: "get_valid_gdc_versions gv = Inr vs \<Longrightarrow> vs \<noteq> []"
  by (auto simp: get_valid_gdc_versions_def bind_res_eq_Inr Let_def split: option.splits if_splits)

lemma valid_hardware_variants_nonempty: "get_valid_hardware_variants gv = Inr vs \<Longrightarrow> vs \<noteq> []"
  by (auto simp: get_valid_hardware_variants_def bind_res_eq_Inr Let_def
        split: option.splits if_splits)

lemma default_gdc_version_valid:
  assumes "get_default_gdc_version gv = Inr v"
  obtains vs where "get_valid_gdc_versions gv = Inr vs" and "v \<in> set vs"
proof -
  obtain vs where "get_valid_gdc_versions gv = Inr vs" and "v = hd vs"
    using assms by (auto simp: get_default_gdc_version_def bind_res_eq_Inr)
  with valid_gdc_versions_nonempty that show ?thesis by (metis list.set_sel(1))
qed

lemma default_hardware_variant_valid:
  assumes "get_default_hardware_variant gv = Inr v"
  obtains vs where "get_valid_hardware_variants gv = Inr vs" and "v \<in> set vs"
proof -
  obtain vs where "get_valid_hardware_variants gv = Inr vs" and "v \<in> set vs \<or> v = hd vs"
    using assms
    by (auto simp: get_default_hardware_variant_def bind_res_eq_Inr split: option.splits if_splits)
  with valid_hardware_variants_nonempty that show ?thesis by (metis list.set_sel(1))
qed

lemma search_group_vars_sound:
  assumes "search_group_vars fs all ps = Inr d"
  obtains qs p rs where "ps = qs @ p # rs" and "fs p = Loaded (YDict d)"
    and "\<forall>q \<in> set qs. fs q = NoFile \<or> (\<exists>v. fs q = Loaded v \<and> (\<forall>d. v \<noteq> YDict d))"
  using assms
proof (induction ps arbitrary: thesis)
  case (Cons p ps)
  show ?case
  proof (cases "\<exists>d'. fs p = Loaded (YDict d')")
    case True
    then obtain d' where "fs p = Loaded (YDict d')" by blast
    with Cons.prems(2) have "fs p = Loaded (YDict d)" by simp
    then show ?thesis using Cons.prems(1) [of "[]" p ps] by simp
  next
    case False
    with Cons.prems(2) have next_p: "search_group_vars fs all ps = Inr d"
      and skip: "fs p = NoFile \<or> (\<exists>v. fs p = Loaded v \<and> (\<forall>d. v \<noteq> YDict d))"
      by (auto split: yaml_file.splits yaml.splits)
    obtain qs q rs where *: "ps = qs @ q # rs" "fs q = Loaded (YDict d)"
        "\<forall>q \<in> set qs. fs q = NoFile \<or> (\<exists>v. fs q = Loaded v \<and> (\<forall>d. v \<noteq> YDict d))"
      by (rule Cons.IH [OF _ next_p])
    show ?thesis using Cons.prems(1) [of "p # qs" q rs] * skip by simp
  qed
qed simp

end
