(* ===== verification/Py_Ipaddress.thy ===== *)
theory Py_Ipaddress
  imports Py_Str "HOL-Library.Word"
begin

text \<open>
  The part of Python's \<open>ipaddress\<close> module that the request models call: parsing of dotted
  IPv4 addresses and of IPv4 networks with \<open>strict=False\<close> (a prefix length, a netmask or a
  hostmask after the slash). Addresses are 32-bit words. \<open>None\<close> is a \<open>ValueError\<close>.
\<close>

unbundle bit_operations_syntax

section \<open>Addresses\<close>

definition all_digits :: "string \<Rightarrow> bool" where
  "all_digits s \<longleftrightarrow> s \<noteq> [] \<and> list_all digit_char s"

definition parse_octet :: "string \<Rightarrow> nat option" where
  "parse_octet s =
     (if \<not> all_digits s then None
      else if length s > 3 then None
      else if s \<noteq> ''0'' \<and> hd s = CHR ''0'' then None
      else if read_nat s > 255 then None
      else Some (read_nat s))"

definition ip_int_from_string :: "string \<Rightarrow> (32 word) option" where
  "ip_int_from_string s =
     (case map parse_octet (split_on CHR ''.'' s) of
        [Some a, Some b, Some c, Some d] \<Rightarrow>
          Some (of_nat (((a * 256 + b) * 256 + c) * 256 + d))
      | _ \<Rightarrow> None)"

text \<open>\<open>IPv4Address(s)\<close> for a string: a slash is refused before the parse.\<close>

definition IPv4Address :: "string \<Rightarrow> (32 word) option" where
  "IPv4Address s = (if CHR ''/'' \<in> set s then None else ip_int_from_string s)"

definition ipv4_str :: "32 word \<Rightarrow> string" where
  "ipv4_str w =
     (let n = unat w
      in join ''.'' [show_nat (n div 256 ^ 3), show_nat (n div 256 ^ 2 mod 256),
                     show_nat (n div 256 mod 256), show_nat (n mod 256)])"


section \<open>Networks\<close>

text \<open>The netmask of a prefix length: \<open>ALL_ONES ^ (ALL_ONES >> prefixlen)\<close>.\<close>

definition ip_int_from_prefix :: "nat \<Rightarrow> 32 word" where
  "ip_int_from_prefix p = (- 1) XOR drop_bit p (- 1)"

definition prefix_from_prefix_string :: "string \<Rightarrow> nat option" where
  "prefix_from_prefix_string s =
     (if \<not> all_digits s \<or> length s > 4300 then None
      else if read_nat s \<le> 32 then Some (read_nat s) else None)"

text \<open>
  \<open>_prefix_from_ip_int\<close>: the prefix length whose netmask is the number, which must be ones
  followed by zeros.
\<close>

definition prefix_from_ip_int :: "32 word \<Rightarrow> nat option" where
  "prefix_from_ip_int w = find (\<lambda>p. ip_int_from_prefix p = w) [0..<33]"

definition prefix_from_ip_string :: "string \<Rightarrow> nat option" where
  "prefix_from_ip_string s =
     (case ip_int_from_string s of
        None \<Rightarrow> None
      | Some w \<Rightarrow>
          (case prefix_from_ip_int w of
             Some p \<Rightarrow> Some p
           | None \<Rightarrow> prefix_from_ip_int (w XOR (- 1))))"

definition make_netmask :: "string \<Rightarrow> nat option" where
  "make_netmask s =
     (case prefix_from_prefix_string s of
        Some p \<Rightarrow> Some p
      | None \<Rightarrow> prefix_from_ip_string s)"

text \<open>\<open>IPv4Network(s, strict=False)\<close>: the network address with host bits cleared, and the prefix.\<close>

definition IPv4Network :: "string \<Rightarrow> (32 word \<times> nat) option" where
  "IPv4Network s =
     (case split_on CHR ''/'' s of
        [addr] \<Rightarrow> map_option (\<lambda>w. (w AND ip_int_from_prefix 32, 32)) (IPv4Address addr)
      | [addr, m] \<Rightarrow>
          (case IPv4Address addr of
             None \<Rightarrow> None
           | Some w \<Rightarrow> map_option (\<lambda>p. (w AND ip_int_from_prefix p, p)) (make_netmask m))
      | _ \<Rightarrow> None)"

definition network_str :: "32 word \<times> nat \<Rightarrow> string" where
  "network_str n = ipv4_str (fst n) @ ''/'' @ show_nat (snd n)"


section \<open>Printing and parsing\<close>

lemma all_digits_show: "all_digits (show_nat n)"
  by (simp add: all_digits_def show_nat_digits del: digit_char.simps)

lemma show_nat_no_sep: "c \<in> set (show_nat n) \<Longrightarrow> c \<noteq> CHR ''.'' \<and> c \<noteq> CHR ''/''"
proof -
  assume "c \<in> set (show_nat n)"
  then have "digit_char c" using show_nat_digits [of n] by (auto simp: list_all_iff)
  then show ?thesis by (auto simp: less_eq_char_def)
qed

lemma length_show_nat_le3: "n < 1000 \<Longrightarrow> length (show_nat n) \<le> 3"
  by (simp add: show_nat.simps [of n] show_nat.simps [of "n div 10"] show_nat.simps [of "n div 10 div 10"])

lemma show_nat_hd_0: "hd (show_nat n) = CHR ''0'' \<Longrightarrow> n = 0"
  using show_nat_hd by blast

lemma parse_octet_show [simp]: "n \<le> 255 \<Longrightarrow> parse_octet (show_nat n) = Some n"
  using length_show_nat_le3 [of n] show_nat_hd_0 [of n]
  by (auto simp: parse_octet_def all_digits_show show_nat_small)

lemma parse_octet_bound: "parse_octet s = Some n \<Longrightarrow> n \<le> 255"
  by (auto simp: parse_octet_def split: if_splits)


lemma split_on_join:
  assumes "ws \<noteq> []" and "\<And>w. w \<in> set ws \<Longrightarrow> c \<notin> set w"
  shows "split_on c (join [c] ws) = ws"
  using assms
proof (induction ws)
  case (Cons w ws)
  then show ?case
    by (cases "ws = []") (auto simp: split_on_no_sep join_Cons split_on_append)
qed simp

lemma octets_of_nat:
  fixes n :: nat
  assumes "n < 256 ^ 4"
  shows "((n div 256 ^ 3 * 256 + n div 256 ^ 2 mod 256) * 256 + n div 256 mod 256) * 256 + n mod 256 = n"
    and "n div 256 ^ 3 \<le> 255"
proof -
  have "n div 256 ^ 3 = n div 256 div 256 div 256" and "n div 256 ^ 2 = n div 256 div 256"
    by (simp_all add: power_numeral_reduce flip: div_mult2_eq)
  then show "((n div 256 ^ 3 * 256 + n div 256 ^ 2 mod 256) * 256 + n div 256 mod 256) * 256 + n mod 256 = n"
    by (metis div_mult_mod_eq)
  show "n div 256 ^ 3 \<le> 255"
    using assms by (simp add: less_mult_imp_div_less flip: less_Suc_eq_le)
qed

lemma unat_ipv4_bound: "unat (w :: 32 word) < 256 ^ 4"
proof -
  have "unat w < 2 ^ LENGTH(32)" by (rule unsigned_less)
  then show ?thesis by simp
qed

text \<open>Every address parses back from its dotted form.\<close>

lemma ip_int_ipv4_str: "ip_int_from_string (ipv4_str w) = Some w"
proof -
  let ?n = "unat w"
  let ?os = "[show_nat (?n div 256 ^ 3), show_nat (?n div 256 ^ 2 mod 256),
              show_nat (?n div 256 mod 256), show_nat (?n mod 256)]"
  have "split_on CHR ''.'' (join [CHR ''.''] ?os) = ?os"
    by (rule split_on_join) (auto dest: show_nat_no_sep)
  moreover have "?n div 256 ^ 3 \<le> 255" by (rule octets_of_nat(2) [OF unat_ipv4_bound])
  moreover have "?n div 256 ^ 2 mod 256 \<le> 255" "?n div 256 mod 256 \<le> 255" "?n mod 256 \<le> 255"
    using mod_less_divisor [of 256] by (simp_all flip: less_Suc_eq_le)
  ultimately show ?thesis
    unfolding ip_int_from_string_def ipv4_str_def Let_def
    using octets_of_nat(1) [OF unat_ipv4_bound, of w] by simp
qed

lemma ipv4_str_no_slash: "CHR ''/'' \<notin> set (ipv4_str w)"
  by (auto simp: ipv4_str_def Let_def dest: show_nat_no_sep)

lemma IPv4Address_ipv4_str [simp]: "IPv4Address (ipv4_str w) = Some w"
  by (simp add: IPv4Address_def ipv4_str_no_slash ip_int_ipv4_str)

lemma ipv4_str_inject [simp]: "ipv4_str v = ipv4_str w \<longleftrightarrow> v = w"
  by (metis IPv4Address_ipv4_str option.inject)

lemma prefix_string_show [simp]: "p \<le> 32 \<Longrightarrow> prefix_from_prefix_string (show_nat p) = Some p"
  using length_show_nat_le3 [of p] by (simp add: prefix_from_prefix_string_def all_digits_show)

lemma make_netmask_le:
  assumes "make_netmask m = Some p"
  shows "p \<le> 32"
proof -
  have fnd: "find P [0..<33] = Some q \<Longrightarrow> q \<le> 32" for P q
    by (auto simp: find_Some_iff)
  show ?thesis
    using assms
    by (auto simp: make_netmask_def prefix_from_prefix_string_def prefix_from_ip_string_def
          prefix_from_ip_int_def dest: fnd split: option.splits if_splits)
qed

lemma IPv4Network_SomeD:
  assumes "IPv4Network s = Some (w, p)"
  shows "p \<le> 32" and "w AND ip_int_from_prefix p = w"
  using assms make_netmask_le
  by (auto simp: IPv4Network_def and.assoc split: list.splits option.splits)

text \<open>
  The network that a text denotes, host bits cleared, prints as a text that denotes it: the
  normal form of a CIDR block is stable.
\<close>

lemma IPv4Network_network_str:
  assumes "IPv4Network s = Some n"
  shows "IPv4Network (network_str n) = Some n"
proof -
  obtain w p where n: "n = (w, p)" by (cases n)
  have "CHR ''/'' \<notin> set (show_nat p)" by (auto dest: show_nat_no_sep)
  then have "split_on CHR ''/'' (ipv4_str w @ CHR ''/'' # show_nat p) = [ipv4_str w, show_nat p]"
    by (simp add: split_on_append ipv4_str_no_slash split_on_no_sep)
  then show ?thesis
    using IPv4Network_SomeD [of s w p] assms
    by (simp add: n network_str_def IPv4Network_def make_netmask_def)
qed

end
