(* ===== verification/Requests.thy ===== *)
theory Requests
  imports Manifest Py_Ipaddress
begin

text \<open>
  The request bodies: \<open>api/gem_api/models/clusters.py\<close>, \<open>workstation.py\<close> and
  \<open>edge_router.py\<close>. A request class extends \<open>GcpTargetRequest\<close>, and its record extends that
  record. Building one from a body runs the field validators over the fields the body gives
  (an omitted field takes its default, which is not validated), collects their errors in
  field order, and runs the model validators when there are none. A body is a record whose
  optional fields are \<open>None\<close> when omitted; its values have the types the class declares.
\<close>

section \<open>Secondary networks\<close>

record SecondaryNetworkConfig =
  net_name :: string
  vlan_id :: int
  subnet :: string
  gateway :: string
  vip_pool :: string
  pod_cidr :: string
  per_node_ipam_size :: int

definition DNS_LABEL_REGEX :: rexp where
  "DNS_LABEL_REGEX =
     Seqs [Cls [az, d09], Opt (Seqs [Star (Cls [one CHR ''-'', az, d09]), Cls [az, d09]])]"

definition validate_name :: "string \<Rightarrow> string res" where
  "validate_name s =
     (let v = strip s
      in if v = [] then Inl (ValueError ''Secondary network name cannot be empty.'')
         else if \<not> re_match DNS_LABEL_REGEX v
         then Inl (ValueError (''Secondary network name '' @ squote v
                @ '' must be a valid DNS-1123 label (lowercase alphanumeric and hyphens).''))
         else Inr v)"

definition validate_cidr :: "string \<Rightarrow> string res" where
  "validate_cidr s =
     (let v = strip s
      in if IPv4Network v = None
         then Inl (ValueError (squote v @ '' is not a valid IPv4 CIDR block.''))
         else Inr v)"

definition validate_gateway :: "string \<Rightarrow> string res" where
  "validate_gateway s =
     (let v = strip s
      in if IPv4Address v = None
         then Inl (ValueError (squote v @ '' is not a valid IPv4 address.''))
         else Inr v)"

text \<open>The numeric bounds of a field (\<open>ge\<close>, \<open>le\<close>).\<close>

definition check_range :: "int \<Rightarrow> int \<Rightarrow> int \<Rightarrow> int res" where
  "check_range lo hi n =
     (if n < lo then Inl (ValueError (''Input should be greater than or equal to '' @ show_int lo))
      else if n > hi then Inl (ValueError (''Input should be less than or equal to '' @ show_int hi))
      else Inr n)"

text \<open>What a validated field holds; read only when validation succeeded.\<close>

definition value_or :: "'a \<Rightarrow> 'a res \<Rightarrow> 'a" where
  "value_or d r = (case r of Inl _ \<Rightarrow> d | Inr v \<Rightarrow> v)"

definition network_errors :: "SecondaryNetworkConfig \<Rightarrow> exc list" where
  "network_errors n =
     errors_of (validate_name (net_name n)) @ errors_of (check_range 1 4094 (vlan_id n))
     @ errors_of (validate_cidr (subnet n)) @ errors_of (validate_gateway (gateway n))
     @ errors_of (validate_cidr (pod_cidr n))"

definition make_network :: "SecondaryNetworkConfig \<Rightarrow> exc list + SecondaryNetworkConfig" where
  "make_network n =
     (if network_errors n \<noteq> [] then Inl (network_errors n)
      else Inr (n\<lparr>net_name := value_or [] (validate_name (net_name n)),
                  subnet := value_or [] (validate_cidr (subnet n)),
                  gateway := value_or [] (validate_gateway (gateway n)),
                  pod_cidr := value_or [] (validate_cidr (pod_cidr n))\<rparr>))"

fun make_networks :: "SecondaryNetworkConfig list \<Rightarrow> exc list + SecondaryNetworkConfig list" where
  "make_networks [] = Inr []"
| "make_networks (n # ns) =
     (case (make_network n, make_networks ns) of
        (Inr n', Inr ns') \<Rightarrow> Inr (n' # ns')
      | (Inl es, Inl es') \<Rightarrow> Inl (es @ es')
      | (Inl es, Inr _) \<Rightarrow> Inl es
      | (Inr _, Inl es') \<Rightarrow> Inl es')"


section \<open>Cluster requests\<close>

record ClusterCreateRequest = GcpTargetRequest +
  cluster_name :: string
  hardware_variant :: string
  emulate_gdc_version :: string
  gcp_cluster_admin_sa :: "string option"
  gce_network :: string
  gce_subnetwork :: string
  node_storage_size :: string
  pod_cidr_blocks :: string
  services_cidr_blocks :: string
  max_pods_per_node :: int
  secondary_networks :: "(SecondaryNetworkConfig list) option"

record cluster_create_raw = gcp_target_raw +
  raw_cluster_name :: "string option"
  raw_hardware_variant :: "string option"
  raw_emulate_gdc_version :: "string option"
  raw_gcp_cluster_admin_sa :: any
  raw_gce_network :: "string option"
  raw_gce_subnetwork :: "string option"
  raw_node_storage_size :: "string option"
  raw_pod_cidr_blocks :: "string option"
  raw_services_cidr_blocks :: "string option"
  raw_max_pods_per_node :: "int option"
  raw_secondary_networks :: "(SecondaryNetworkConfig list) option"

text \<open>A field: its default when omitted, its validated value when given.\<close>

definition field :: "'a option \<Rightarrow> 'a res \<Rightarrow> ('a \<Rightarrow> 'a res) \<Rightarrow> 'a res" where
  "field given dflt validate = (case given of None \<Rightarrow> dflt | Some v \<Rightarrow> validate v)"

definition validate_cluster_name :: "string \<Rightarrow> string res" where
  "validate_cluster_name v = validate_gce_resource_name v ''cluster_name'' 26"

definition validate_network_cidr :: "string \<Rightarrow> string res" where
  "validate_network_cidr s =
     (let v = strip s
      in if IPv4Network v = None
         then Inl (ValueError (squote v @ '' is not a valid IPv4 CIDR block.''))
         else Inr v)"

definition validate_hardware_variant :: "group_vars \<Rightarrow> string \<Rightarrow> string res" where
  "validate_hardware_variant gv v =
     bind_res (get_valid_hardware_variants gv) (\<lambda>valid.
       if v \<notin> set valid
       then Inl (ValueError (''Invalid hardware_variant '' @ squote v @ ''. Allowed options: ''
              @ join '', '' (sort valid) @ ''.''))
       else Inr v)"

text \<open>
  The versions are the keys of a YAML mapping. Where the message has to list keys that are
  not all strings, sorting or joining them raises \<open>TypeError\<close>, whose text is not modelled.
\<close>

definition is_YStr :: "yaml \<Rightarrow> bool" where
  "is_YStr y = (case y of YStr _ \<Rightarrow> True | _ \<Rightarrow> False)"

definition validate_gdc_version :: "group_vars \<Rightarrow> string \<Rightarrow> string res" where
  "validate_gdc_version gv v =
     bind_res (get_valid_gdc_versions gv) (\<lambda>valid.
       if YStr v \<notin> set valid
       then (if list_all is_YStr valid
             then Inl (ValueError (''Invalid emulate_gdc_version '' @ squote v
                    @ ''. Allowed options: '' @ join '', '' (sort (map str_yaml valid)) @ ''.''))
             else Inl (TypeError []))
       else Inr v)"

text \<open>The default version is the mapping's first key; the field takes it as text.\<close>

definition default_gdc_version :: "group_vars \<Rightarrow> string res" where
  "default_gdc_version gv = bind_res (get_default_gdc_version gv) (\<lambda>y. Inr (str_yaml y))"

text \<open>The node name limit, \<open>validate_cluster_parameters\<close>.\<close>

definition validate_cluster_parameters ::
    "Settings \<Rightarrow> ClusterCreateRequest \<Rightarrow> ClusterCreateRequest res" where
  "validate_cluster_parameters cfg q =
     (let pid = str_or (project_id q) (default_project_id cfg);
          z = str_or (zone q) (default_zone cfg);
          cname = cluster_name q
      in if length cname + length z + length pid + 15 > 63
         then (let max_cname_len = max 1 (63 - int (length z) - int (length pid) - 15)
               in Inl (ValueError (''Cluster name '' @ squote cname @ '' is too long for project ''
                    @ squote pid @ '' and zone '' @ squote z @ ''. ''
                    @ ''Combined node FQDNs would exceed the 63-character Kubernetes metadata limit. ''
                    @ ''Maximum allowed length for this project/zone is '' @ show_int max_cname_len
                    @ '' characters.'')))
         else Inr q)"

definition list_errors :: "exc list + 'a \<Rightarrow> exc list" where
  "list_errors r = (case r of Inl es \<Rightarrow> es | Inr _ \<Rightarrow> [])"

definition networks_field ::
    "(SecondaryNetworkConfig list) option \<Rightarrow> exc list + (SecondaryNetworkConfig list) option" where
  "networks_field given =
     (case given of
        None \<Rightarrow> Inr None
      | Some ns \<Rightarrow> (case make_networks ns of Inl es \<Rightarrow> Inl es | Inr ns' \<Rightarrow> Inr (Some ns')))"

definition networks_value ::
    "exc list + (SecondaryNetworkConfig list) option \<Rightarrow> (SecondaryNetworkConfig list) option" where
  "networks_value r = (case r of Inl _ \<Rightarrow> None | Inr v \<Rightarrow> v)"

definition make_ClusterCreateRequest ::
    "Settings \<Rightarrow> group_vars \<Rightarrow> cluster_create_raw \<Rightarrow> exc list + ClusterCreateRequest" where
  "make_ClusterCreateRequest cfg gv raw =
     (let base = sanitize_optional_fields (gcp_target_raw.truncate raw);
          name = field (raw_cluster_name raw) (Inr ''gem-cluster-1'') validate_cluster_name;
          hw = field (raw_hardware_variant raw) (get_default_hardware_variant gv)
                 (validate_hardware_variant gv);
          ver = field (raw_emulate_gdc_version raw) (default_gdc_version gv)
                  (validate_gdc_version gv);
          sa = validate_email_or_sa (sanitize_optional_str (raw_gcp_cluster_admin_sa raw))
                 ''gcp_cluster_admin_sa'';
          sz = field (raw_node_storage_size raw) (Inr ''100GB'') validate_storage_size;
          pods = field (raw_pod_cidr_blocks raw) (Inr ''10.0.0.0/17'') validate_network_cidr;
          svcs = field (raw_services_cidr_blocks raw) (Inr ''10.96.0.0/12'') validate_network_cidr;
          maxp = field (raw_max_pods_per_node raw) (Inr 250) (check_range 1 250);
          nets = networks_field (raw_secondary_networks raw);
          errs = gcp_field_errors base @ errors_of name @ errors_of hw @ errors_of ver
                   @ errors_of sa @ errors_of sz @ errors_of pods @ errors_of svcs
                   @ errors_of maxp @ list_errors nets
      in if errs \<noteq> [] then Inl errs
         else (case validate_gcp_target_parameters (validate_gcp_fields base) of
                 Inl e \<Rightarrow> Inl [e]
               | Inr b \<Rightarrow>
                   (case validate_cluster_parameters cfg
                      \<lparr>project_id = project_id b, zone = zone b, region = region b,
                       provisioning_sa_email = provisioning_sa_email b,
                       cluster_name = value_or [] name, hardware_variant = value_or [] hw,
                       emulate_gdc_version = value_or [] ver,
                       gcp_cluster_admin_sa = value_or None sa,
                       gce_network = (case raw_gce_network raw of None \<Rightarrow> ''gem-clusters-vpc'' | Some v \<Rightarrow> v),
                       gce_subnetwork =
                         (case raw_gce_subnetwork raw of None \<Rightarrow> ''gem-clusters-subnet'' | Some v \<Rightarrow> v),
                       node_storage_size = value_or [] sz, pod_cidr_blocks = value_or [] pods,
                       services_cidr_blocks = value_or [] svcs,
                       max_pods_per_node = value_or 0 maxp,
                       secondary_networks = networks_value nets\<rparr> of
                      Inl e \<Rightarrow> Inl [e] | Inr q \<Rightarrow> Inr q)))"

record ClusterDeleteRequest = GcpTargetRequest +
  del_cluster_name :: string
  del_tf_state_bucket :: "string option"

record cluster_delete_raw = gcp_target_raw +
  raw_del_cluster_name :: string
  raw_del_tf_state_bucket :: any

definition make_ClusterDeleteRequest ::
    "cluster_delete_raw \<Rightarrow> exc list + ClusterDeleteRequest" where
  "make_ClusterDeleteRequest raw =
     (let base = sanitize_optional_fields (gcp_target_raw.truncate raw);
          name = validate_cluster_name (raw_del_cluster_name raw);
          errs = gcp_field_errors base @ errors_of name
      in if errs \<noteq> [] then Inl errs
         else (case validate_gcp_target_parameters (validate_gcp_fields base) of
                 Inl e \<Rightarrow> Inl [e]
               | Inr b \<Rightarrow>
                   Inr \<lparr>project_id = project_id b, zone = zone b, region = region b,
                        provisioning_sa_email = provisioning_sa_email b,
                        del_cluster_name = value_or [] name,
                        del_tf_state_bucket =
                          sanitize_optional_str (raw_del_tf_state_bucket raw)\<rparr>))"


section \<open>Workstation and edge router requests\<close>

record WorkstationCreateRequest = GcpTargetRequest +
  ws_gce_network :: string
  ws_gce_subnetwork :: string
  workstation_ip :: "string option"

record WorkstationDeleteRequest = GcpTargetRequest +
  wsd_tf_state_bucket :: "string option"

record EdgeRouterCreateRequest = GcpTargetRequest +
  edge_router_name :: string
  machine_type :: string
  er_gce_network :: string
  er_gce_subnetwork :: string

record EdgeRouterDeleteRequest = GcpTargetRequest +
  erd_edge_router_name :: string
  erd_tf_state_bucket :: "string option"

record workstation_create_raw = gcp_target_raw +
  raw_ws_gce_network :: "string option"
  raw_ws_gce_subnetwork :: "string option"
  raw_workstation_ip :: "(string option) option"

record workstation_delete_raw = gcp_target_raw +
  raw_wsd_tf_state_bucket :: any

definition make_WorkstationCreateRequest ::
    "workstation_create_raw \<Rightarrow> exc list + WorkstationCreateRequest" where
  "make_WorkstationCreateRequest raw =
     (let base = sanitize_optional_fields (gcp_target_raw.truncate raw);
          errs = gcp_field_errors base
      in if errs \<noteq> [] then Inl errs
         else (case validate_gcp_target_parameters (validate_gcp_fields base) of
                 Inl e \<Rightarrow> Inl [e]
               | Inr b \<Rightarrow>
                   Inr \<lparr>project_id = project_id b, zone = zone b, region = region b,
                        provisioning_sa_email = provisioning_sa_email b,
                        ws_gce_network =
                          (case raw_ws_gce_network raw of None \<Rightarrow> ''gem-clusters-vpc'' | Some v \<Rightarrow> v),
                        ws_gce_subnetwork =
                          (case raw_ws_gce_subnetwork raw of
                             None \<Rightarrow> ''gem-clusters-subnet'' | Some v \<Rightarrow> v),
                        workstation_ip =
                          (case raw_workstation_ip raw of
                             None \<Rightarrow> Some ''10.10.0.2'' | Some v \<Rightarrow> v)\<rparr>))"

definition make_WorkstationDeleteRequest ::
    "workstation_delete_raw \<Rightarrow> exc list + WorkstationDeleteRequest" where
  "make_WorkstationDeleteRequest raw =
     (let base = sanitize_optional_fields (gcp_target_raw.truncate raw);
          errs = gcp_field_errors base
      in if errs \<noteq> [] then Inl errs
         else (case validate_gcp_target_parameters (validate_gcp_fields base) of
                 Inl e \<Rightarrow> Inl [e]
               | Inr b \<Rightarrow>
                   Inr \<lparr>project_id = project_id b, zone = zone b, region = region b,
                        provisioning_sa_email = provisioning_sa_email b,
                        wsd_tf_state_bucket =
                          sanitize_optional_str (raw_wsd_tf_state_bucket raw)\<rparr>))"

record edge_router_create_raw = gcp_target_raw +
  raw_edge_router_name :: "string option"
  raw_machine_type :: "string option"
  raw_er_gce_network :: "string option"
  raw_er_gce_subnetwork :: "string option"

record edge_router_delete_raw = gcp_target_raw +
  raw_erd_edge_router_name :: "string option"
  raw_erd_tf_state_bucket :: any

definition validate_edge_router_name :: "string \<Rightarrow> string res" where
  "validate_edge_router_name v = validate_gce_resource_name v ''edge_router_name'' 63"

definition make_EdgeRouterCreateRequest ::
    "edge_router_create_raw \<Rightarrow> exc list + EdgeRouterCreateRequest" where
  "make_EdgeRouterCreateRequest raw =
     (let base = sanitize_optional_fields (gcp_target_raw.truncate raw);
          name = field (raw_edge_router_name raw) (Inr ''gem-edge-router'') validate_edge_router_name;
          errs = gcp_field_errors base @ errors_of name
      in if errs \<noteq> [] then Inl errs
         else (case validate_gcp_target_parameters (validate_gcp_fields base) of
                 Inl e \<Rightarrow> Inl [e]
               | Inr b \<Rightarrow>
                   Inr \<lparr>project_id = project_id b, zone = zone b, region = region b,
                        provisioning_sa_email = provisioning_sa_email b,
                        edge_router_name = value_or [] name,
                        machine_type = (case raw_machine_type raw of None \<Rightarrow> ''e2-small'' | Some v \<Rightarrow> v),
                        er_gce_network =
                          (case raw_er_gce_network raw of None \<Rightarrow> ''gem-clusters-vpc'' | Some v \<Rightarrow> v),
                        er_gce_subnetwork =
                          (case raw_er_gce_subnetwork raw of
                             None \<Rightarrow> ''gem-clusters-subnet'' | Some v \<Rightarrow> v)\<rparr>))"

definition make_EdgeRouterDeleteRequest ::
    "edge_router_delete_raw \<Rightarrow> exc list + EdgeRouterDeleteRequest" where
  "make_EdgeRouterDeleteRequest raw =
     (let base = sanitize_optional_fields (gcp_target_raw.truncate raw);
          name = field (raw_erd_edge_router_name raw) (Inr ''gem-edge-router'') validate_edge_router_name;
          errs = gcp_field_errors base @ errors_of name
      in if errs \<noteq> [] then Inl errs
         else (case validate_gcp_target_parameters (validate_gcp_fields base) of
                 Inl e \<Rightarrow> Inl [e]
               | Inr b \<Rightarrow>
                   Inr \<lparr>project_id = project_id b, zone = zone b, region = region b,
                        provisioning_sa_email = provisioning_sa_email b,
                        erd_edge_router_name = value_or [] name,
                        erd_tf_state_bucket =
                          sanitize_optional_str (raw_erd_tf_state_bucket raw)\<rparr>))"


section \<open>What a built request satisfies\<close>

lemma errors_of_Nil: "errors_of r = [] \<longleftrightarrow> (\<exists>v. r = Inr v)"
  by (cases r) (simp_all add: errors_of_def)

lemma list_errors_Nil: "list_errors r = [] \<longleftrightarrow> r = Inl [] \<or> (\<exists>v. r = Inr v)"
  by (cases r) (simp_all add: list_errors_def)

lemma value_or_Inr [simp]: "value_or d (Inr v) = v"
  by (simp add: value_or_def)

lemma field_InrD:
  "field given (Inr d) validate = Inr v \<Longrightarrow> given = None \<and> v = d \<or> (\<exists>x. given = Some x \<and> validate x = Inr v)"
  by (simp add: field_def split: option.splits)

lemma validate_cidr_iff: "validate_cidr s = Inr v \<longleftrightarrow> v = strip s \<and> IPv4Network v \<noteq> None"
  by (auto simp: validate_cidr_def Let_def)

lemma validate_network_cidr_eq: "validate_network_cidr = validate_cidr"
  by (rule ext) (simp add: validate_network_cidr_def validate_cidr_def)

lemma validate_gateway_iff: "validate_gateway s = Inr v \<longleftrightarrow> v = strip s \<and> IPv4Address v \<noteq> None"
  by (auto simp: validate_gateway_def Let_def)

interpretation cidr: field_validator validate_cidr "\<lambda>s. IPv4Network s \<noteq> None"
  by unfold_locales (auto simp: validate_cidr_def Let_def)

interpretation gateway_addr: field_validator validate_gateway "\<lambda>s. IPv4Address s \<noteq> None"
  by unfold_locales (auto simp: validate_gateway_def Let_def)

lemma check_range_iff: "check_range lo hi n = Inr m \<longleftrightarrow> m = n \<and> lo \<le> n \<and> n \<le> hi"
  by (auto simp: check_range_def)

text \<open>A DNS label: letters, digits and inner hyphens.\<close>

definition dns_label :: "string \<Rightarrow> bool" where
  "dns_label s \<longleftrightarrow> s \<noteq> [] \<and> an_char (hd s) \<and> list_all name_char s \<and> last s \<noteq> CHR ''-''"

lemma dns_regex_iff: "re_lang DNS_LABEL_REGEX s \<longleftrightarrow> dns_label s"
proof -
  have cls: "in_cls [one CHR ''-'', az, d09] = name_char"
    by (rule ext) (auto simp: in_cls_def name_char_def an_char_def az_char_def)
  have "re_lang DNS_LABEL_REGEX s \<longleftrightarrow>
      (\<exists>c. s = [c] \<and> an_char c) \<or>
      (\<exists>c m d. s = c # m @ [d] \<and> an_char c \<and> list_all name_char m \<and> an_char d)"
    unfolding DNS_LABEL_REGEX_def
    by (simp add: re_lang_Cls_Seq [of _ "Alt _ _"] re_lang_Seq_Cls re_lang_Star_Cls in_cls_an cls) blast
  also have "\<dots> \<longleftrightarrow> dns_label s"
  proof
    assume d: "dns_label s"
    show "(\<exists>c. s = [c] \<and> an_char c) \<or>
      (\<exists>c m d. s = c # m @ [d] \<and> an_char c \<and> list_all name_char m \<and> an_char d)"
    proof (cases "length s = 1")
      case True
      with d show ?thesis by (cases s) (auto simp: dns_label_def)
    next
      case False
      with d obtain c m e where s: "s = c # m @ [e]"
        by (cases s; cases "tl s" rule: rev_cases) (auto simp: dns_label_def)
      with d have "an_char c" "list_all name_char m" "an_char e"
        using name_char_last by (auto simp: dns_label_def)
      with s show ?thesis by blast
    qed
  qed (auto simp: dns_label_def an_name dest: an_not_hyphen)
  finally show ?thesis .
qed

lemma dns_label_nonempty [simp]: "\<not> dns_label []"
  by (simp add: dns_label_def)

interpretation net_label: field_validator validate_name dns_label
  by unfold_locales
     (auto simp: validate_name_def re_match_stripped dns_regex_iff Let_def)

definition valid_network :: "SecondaryNetworkConfig \<Rightarrow> bool" where
  "valid_network n \<longleftrightarrow>
     dns_label (net_name n) \<and> 1 \<le> vlan_id n \<and> vlan_id n \<le> 4094 \<and>
     IPv4Network (subnet n) \<noteq> None \<and> IPv4Address (gateway n) \<noteq> None \<and>
     IPv4Network (pod_cidr n) \<noteq> None"

lemma make_network_valid: "make_network n = Inr n' \<Longrightarrow> valid_network n'"
proof -
  assume mk: "make_network n = Inr n'"
  then obtain a v b c d where ok: "validate_name (net_name n) = Inr a"
    "check_range 1 4094 (vlan_id n) = Inr v" "validate_cidr (subnet n) = Inr b"
    "validate_gateway (gateway n) = Inr c" "validate_cidr (pod_cidr n) = Inr d"
    by (auto simp: make_network_def network_errors_def errors_of_Nil split: if_splits)
  from mk ok have "n' = n\<lparr>net_name := a, subnet := b, gateway := c, pod_cidr := d\<rparr>"
    by (simp add: make_network_def split: if_splits)
  moreover from ok have "dns_label a" "1 \<le> vlan_id n" "vlan_id n \<le> 4094" "IPv4Network b \<noteq> None"
      "IPv4Address c \<noteq> None" "IPv4Network d \<noteq> None"
    unfolding net_label.accepts validate_cidr_iff validate_gateway_iff check_range_iff by blast+
  ultimately show ?thesis by (simp add: valid_network_def)
qed

lemma make_networks_valid: "make_networks ns = Inr ns' \<Longrightarrow> length ns' = length ns \<and> list_all valid_network ns'"
  by (induction ns arbitrary: ns') (auto split: sum.splits dest: make_network_valid)

text \<open>The invariant of a create request, over the settings and the manifest it was built with.\<close>

definition valid_create :: "Settings \<Rightarrow> group_vars \<Rightarrow> ClusterCreateRequest \<Rightarrow> bool" where
  "valid_create cfg gv q \<longleftrightarrow>
     valid_target (GcpTargetRequest.truncate q) \<and>
     gce_name (cluster_name q) \<and> length (cluster_name q) \<le> 26 \<and>
     length (cluster_name q) + length (str_or (zone q) (default_zone cfg))
       + length (str_or (project_id q) (default_project_id cfg)) + 15 \<le> 63 \<and>
     (\<exists>vs. get_valid_hardware_variants gv = Inr vs \<and> hardware_variant q \<in> set vs) \<and>
     (\<exists>vs. get_valid_gdc_versions gv = Inr vs \<and> emulate_gdc_version q \<in> set (map str_yaml vs)) \<and>
     (\<forall>e. gcp_cluster_admin_sa q = Some e \<longrightarrow> email_address e) \<and>
     storage_size (node_storage_size q) \<and>
     IPv4Network (pod_cidr_blocks q) \<noteq> None \<and> IPv4Network (services_cidr_blocks q) \<noteq> None \<and>
     1 \<le> max_pods_per_node q \<and> max_pods_per_node q \<le> 250 \<and>
     (\<forall>ns. secondary_networks q = Some ns \<longrightarrow> list_all valid_network ns)"

lemma gce_default_names: "gce_name ''gem-cluster-1''" "gce_name ''gem-edge-router''" "gce_name ''gem-admin-ws''"
  by (simp_all add: gce_name_def name_char_def an_char_def az_char_def less_eq_char_def)

lemma cidr_defaults: "IPv4Network ''10.0.0.0/17'' \<noteq> None" "IPv4Network ''10.96.0.0/12'' \<noteq> None"
  by (simp_all add: IPv4Network_def IPv4Address_def ip_int_from_string_def parse_octet_def
        all_digits_def read_nat_def make_netmask_def prefix_from_prefix_string_def less_eq_char_def)

lemma storage_default: "storage_size ''100GB''"
  unfolding storage_size_def
  by (rule exI [of _ 100], rule exI [of _ "''GB''"]) (simp add: show_nat.simps)

lemma networks_field_valid:
  "networks_field given = Inr v \<Longrightarrow> v = Some ns \<Longrightarrow> list_all valid_network ns"
  by (auto simp: networks_field_def split: option.splits sum.splits dest: make_networks_valid)

lemma validate_hardware_variant_InrD:
  "validate_hardware_variant gv v = Inr w \<Longrightarrow> w = v \<and> (\<exists>vs. get_valid_hardware_variants gv = Inr vs \<and> v \<in> set vs)"
  by (auto simp: validate_hardware_variant_def bind_res_eq_Inr split: if_splits)

lemma validate_gdc_version_InrD:
  "validate_gdc_version gv v = Inr w \<Longrightarrow>
     w = v \<and> (\<exists>vs. get_valid_gdc_versions gv = Inr vs \<and> v \<in> set (map str_yaml vs))"
  by (auto simp: validate_gdc_version_def bind_res_eq_Inr str_yaml_def image_iff
        split: if_splits) (metis yaml.simps(45) yaml.case(4))+

lemma default_gdc_version_InrD:
  "default_gdc_version gv = Inr v \<Longrightarrow>
     \<exists>vs. get_valid_gdc_versions gv = Inr vs \<and> v \<in> set (map str_yaml vs)"
  by (auto simp: default_gdc_version_def bind_res_eq_Inr elim: default_gdc_version_valid)


text \<open>The base part of every request class.\<close>

lemma base_request_valid:
  assumes "gcp_field_errors q = []"
    and "validate_gcp_target_parameters (validate_gcp_fields q) = Inr b"
  shows "valid_target b"
proof -
  obtain p e where p: "validate_project_id (project_id q) = Inr p"
    and e: "validate_email_or_sa (provisioning_sa_email q) ''provisioning_sa_email'' = Inr e"
    using assms(1) by (auto simp: gcp_field_errors_def errors_of_Nil)
  obtain z r where zr: "validate_zone_and_region (zone q) (region q) = Inr (z, r)"
    and b: "b = (validate_gcp_fields q)\<lparr>zone := z, region := r\<rparr>"
    using assms(2)
    by (auto simp: validate_gcp_target_parameters_def bind_res_eq_Inr validate_gcp_fields_def)
  have "project_id b = p" "provisioning_sa_email b = e" "zone b = z" "region b = r"
    using b p e by (simp_all add: validate_gcp_fields_def)
  then show ?thesis
    using zone_region_valid [OF zr] p e
    unfolding valid_target_def by (auto simp: project.accepts email.accepts)
qed

lemma cluster_name_fieldD:
  "field given (Inr ''gem-cluster-1'') validate_cluster_name = Inr v \<Longrightarrow> gce_name v \<and> length v \<le> 26"
  by (auto simp: validate_cluster_name_def gce.accepts gce_default_names dest!: field_InrD)

lemma cidr_fieldD:
  "IPv4Network d \<noteq> None \<Longrightarrow> field given (Inr d) validate_network_cidr = Inr v \<Longrightarrow> IPv4Network v \<noteq> None"
  by (auto simp: validate_network_cidr_eq validate_cidr_iff dest!: field_InrD)

lemma hardware_fieldD:
  "field given (get_default_hardware_variant gv) (validate_hardware_variant gv) = Inr v \<Longrightarrow>
     \<exists>vs. get_valid_hardware_variants gv = Inr vs \<and> v \<in> set vs"
  by (auto simp: field_def split: option.splits dest: validate_hardware_variant_InrD
        elim: default_hardware_variant_valid)

lemma version_fieldD:
  "field given (default_gdc_version gv) (validate_gdc_version gv) = Inr v \<Longrightarrow>
     \<exists>vs. get_valid_gdc_versions gv = Inr vs \<and> v \<in> set (map str_yaml vs)"
  by (auto simp: field_def split: option.splits dest: validate_gdc_version_InrD
        default_gdc_version_InrD)

lemma validate_cluster_parameters_Inr:
  "validate_cluster_parameters cfg q = Inr q' \<longleftrightarrow>
     q' = q \<and> length (cluster_name q) + length (str_or (zone q) (default_zone cfg))
       + length (str_or (project_id q) (default_project_id cfg)) + 15 \<le> 63"
  by (auto simp: validate_cluster_parameters_def Let_def)


lemma make_networks_not_Inl_Nil: "make_networks ns \<noteq> Inl []"
proof (induction ns)
  case (Cons n ns)
  then show ?case
    by (auto simp: make_network_def split: sum.splits if_splits)
qed simp

lemma networks_field_errors: "list_errors (networks_field given) = [] \<Longrightarrow> \<exists>v. networks_field given = Inr v"
  using make_networks_not_Inl_Nil
  by (auto simp: networks_field_def list_errors_def split: option.splits sum.splits)

lemma make_ClusterCreateRequest_valid:
  assumes mk: "make_ClusterCreateRequest cfg gv raw = Inr q"
  shows "valid_create cfg gv q"
proof -
  let ?base = "sanitize_optional_fields (gcp_target_raw.truncate raw)"
  let ?name = "field (raw_cluster_name raw) (Inr ''gem-cluster-1'') validate_cluster_name"
  let ?hw = "field (raw_hardware_variant raw) (get_default_hardware_variant gv) (validate_hardware_variant gv)"
  let ?ver = "field (raw_emulate_gdc_version raw) (default_gdc_version gv) (validate_gdc_version gv)"
  let ?sa = "validate_email_or_sa (sanitize_optional_str (raw_gcp_cluster_admin_sa raw)) ''gcp_cluster_admin_sa''"
  let ?sz = "field (raw_node_storage_size raw) (Inr ''100GB'') validate_storage_size"
  let ?pods = "field (raw_pod_cidr_blocks raw) (Inr ''10.0.0.0/17'') validate_network_cidr"
  let ?svcs = "field (raw_services_cidr_blocks raw) (Inr ''10.96.0.0/12'') validate_network_cidr"
  let ?maxp = "field (raw_max_pods_per_node raw) (Inr 250) (check_range 1 250)"
  let ?nets = "networks_field (raw_secondary_networks raw)"
  have errs: "gcp_field_errors ?base = [] \<and> errors_of ?name = [] \<and> errors_of ?hw = [] \<and>
      errors_of ?ver = [] \<and> errors_of ?sa = [] \<and> errors_of ?sz = [] \<and> errors_of ?pods = [] \<and>
      errors_of ?svcs = [] \<and> errors_of ?maxp = [] \<and> list_errors ?nets = []"
    using mk by (simp add: make_ClusterCreateRequest_def Let_def split: if_splits)
  then obtain b where b: "validate_gcp_target_parameters (validate_gcp_fields ?base) = Inr b"
    using mk by (auto simp: make_ClusterCreateRequest_def Let_def split: sum.splits)
  from errs obtain name hw ver sa sz pods svcs maxp nets where
    ok: "?name = Inr name" "?hw = Inr hw" "?ver = Inr ver" "?sa = Inr sa" "?sz = Inr sz"
      "?pods = Inr pods" "?svcs = Inr svcs" "?maxp = Inr maxp" "?nets = Inr nets"
    using networks_field_errors unfolding errors_of_Nil by blast
  let ?q = "\<lparr>project_id = project_id b, zone = zone b, region = region b,
     provisioning_sa_email = provisioning_sa_email b, cluster_name = name, hardware_variant = hw,
     emulate_gdc_version = ver, gcp_cluster_admin_sa = sa,
     gce_network = (case raw_gce_network raw of None \<Rightarrow> ''gem-clusters-vpc'' | Some v \<Rightarrow> v),
     gce_subnetwork = (case raw_gce_subnetwork raw of None \<Rightarrow> ''gem-clusters-subnet'' | Some v \<Rightarrow> v),
     node_storage_size = sz, pod_cidr_blocks = pods, services_cidr_blocks = svcs,
     max_pods_per_node = maxp, secondary_networks = nets\<rparr>"
  from mk errs b ok have "validate_cluster_parameters cfg ?q = Inr q"
    by (simp add: make_ClusterCreateRequest_def Let_def networks_value_def split: sum.splits)
  then have q: "q = ?q" and len: "length (cluster_name q) + length (str_or (zone q) (default_zone cfg))
       + length (str_or (project_id q) (default_project_id cfg)) + 15 \<le> 63"
    by (simp_all add: validate_cluster_parameters_Inr)
  have "valid_target b" using base_request_valid errs b by blast
  moreover have "GcpTargetRequest.truncate q = b"
    by (simp add: q GcpTargetRequest.truncate_def)
  moreover have "storage_size sz"
    using ok(5) storage_default by (auto simp: storage.accepts dest!: field_InrD)
  moreover have "1 \<le> maxp \<and> maxp \<le> 250"
    using ok(8) by (auto simp: check_range_iff dest!: field_InrD)
  moreover have "\<forall>e. sa = Some e \<longrightarrow> email_address e"
    using ok(4) by (simp add: email.accepts)
  ultimately show ?thesis
    using len cluster_name_fieldD [OF ok(1)] hardware_fieldD [OF ok(2)] version_fieldD [OF ok(3)]
      cidr_fieldD [OF cidr_defaults(1) ok(6)] cidr_fieldD [OF cidr_defaults(2) ok(7)]
      networks_field_valid [OF ok(9)]
    unfolding valid_create_def by (simp add: q)
qed

end
