(* ===== verification/Gcp_Context.thy ===== *)
theory Gcp_Context
  imports Requests Py_Json
begin

text \<open>
  The pure part of \<open>api/gem_api/services/runner.py\<close>: how a pipeline turns a validated request
  and the settings into the project, zone, region, service account and state bucket it works
  on, into the environment of its subprocesses, and into the Terraform and Ansible command
  lines and extra variables. The running of those commands is in theory \<open>Runner\<close>.
\<close>

section \<open>Cleaning and resolving\<close>

definition clean_str :: "string option \<Rightarrow> string option" where
  "clean_str val =
     (case val of
        None \<Rightarrow> None
      | Some s \<Rightarrow>
          (let v = strip s
           in if v = [] \<or> lower v \<in> {''string'', ''none'', ''null'', ''undefined''}
              then None else Some v))"

definition swapped :: "string \<Rightarrow> string option \<Rightarrow> bool" where
  "swapped z r =
     (z \<noteq> [] \<and> (case r of None \<Rightarrow> False
        | Some r' \<Rightarrow> r' \<noteq> [] \<and> re_match GCP_REGION_REGEX z \<and> re_match GCP_ZONE_REGEX r'))"

definition resolve_zone_and_region ::
    "string option \<Rightarrow> string option \<Rightarrow> string \<Rightarrow> string \<Rightarrow> string \<times> string" where
  "resolve_zone_and_region zone_in region_in dflt_zone dflt_region =
     (let z = str_or (clean_str zone_in) dflt_zone;
          r = clean_str region_in;
          (z', r') = (if swapped z r then (the r, Some z) else (z, r))
      in (z', str_or r'
                (if CHR ''-'' \<in> set z' then join ''-'' (butlast (split_on CHR ''-'' z'))
                 else dflt_region)))"

definition is_mock_enabled :: "environ \<Rightarrow> bool" where
  "is_mock_enabled env = (lower (getenv env ''GEM_MOCK_RUNNER'' ''false'') \<in> {''true'', ''1'', ''yes''})"


section \<open>The context of a pipeline\<close>

text \<open>The tuple \<open>_prepare_gcp_context\<close> returns; the environment is an ordered dictionary.\<close>

record gcp_context =
  ctx_project :: string
  ctx_zone :: string
  ctx_region :: string
  ctx_sa :: string
  ctx_bucket :: string
  ctx_env :: "string dict"

text \<open>\<open>d[k1] = v1; d[k2] = v2; ...\<close>\<close>

definition dict_sets :: "'v dict \<Rightarrow> (string \<times> 'v) list \<Rightarrow> 'v dict" where
  "dict_sets d kvs = foldl (\<lambda>d (k, v). dict_set d k v) d kvs"

definition prepare_gcp_context ::
    "Settings \<Rightarrow> string dict \<Rightarrow> 'a GcpTargetRequest_scheme \<Rightarrow> string \<Rightarrow> string \<Rightarrow> string option \<Rightarrow>
       gcp_context" where
  "prepare_gcp_context cfg environ request oid cname tf_state_bucket =
     (let pid = str_or (clean_str (project_id request)) (default_project_id cfg);
          (z, r) = resolve_zone_and_region (zone request) (region request)
                     (default_zone cfg) (default_region cfg);
          sa = str_or (clean_str (provisioning_sa_email request)) (get_provisioning_sa cfg (Some pid));
          bucket = str_or (clean_str tf_state_bucket) (get_tf_state_bucket cfg (Some pid));
          env = dict_sets environ
                  [(''CLUSTER_NAME'', cname), (''PROJECT_ID'', pid), (''GEM_GCP_ZONE'', z),
                   (''TF_DATA_DIR'', path_str (log_dir cfg @ [''.terraform-'' @ oid])),
                   (''TF_VAR_project_id'', pid), (''TF_VAR_zone'', z), (''TF_VAR_region'', r)];
          env' = (if sa \<noteq> []
                  then dict_sets env [(''TF_VAR_provisioning_sa_email'', sa),
                                      (''GOOGLE_IMPERSONATE_SERVICE_ACCOUNT'', sa)]
                  else env)
      in \<lparr>ctx_project = pid, ctx_zone = z, ctx_region = r, ctx_sa = sa, ctx_bucket = bucket,
          ctx_env = env'\<rparr>)"

definition build_tf_init_cmd :: "string \<Rightarrow> string \<Rightarrow> string \<Rightarrow> string list" where
  "build_tf_init_cmd bucket prefix sa =
     [''terraform'', ''init'', ''-upgrade'', ''-input=false'', ''-reconfigure'',
      ''-backend-config=bucket='' @ bucket, ''-backend-config=prefix='' @ prefix]
     @ (if sa \<noteq> [] then [''-backend-config=impersonate_service_account='' @ sa] else [])"

definition var_arg :: "string \<Rightarrow> string \<Rightarrow> string" where
  "var_arg k v = ''-var='' @ k @ ''='' @ v"

definition sa_var :: "gcp_context \<Rightarrow> (string \<times> string) list" where
  "sa_var ctx = (if ctx_sa ctx \<noteq> [] then [(''provisioning_sa_email'', ctx_sa ctx)] else [])"

text \<open>\<open>terraform apply\<close> and \<open>terraform destroy\<close> with their variables on the command line.\<close>

definition tf_run :: "string \<Rightarrow> (string \<times> string) list \<Rightarrow> string list" where
  "tf_run verb vars =
     [''terraform'', verb, ''-input=false'', ''-auto-approve''] @ map (\<lambda>(k, v). var_arg k v) vars"

definition playbook_cmd :: "string \<Rightarrow> (string \<times> json) list \<Rightarrow> string list" where
  "playbook_cmd book extra_vars =
     [''ansible-playbook'', ''-i'', ''inventory.sh'', book, ''-e'', dumps (JObj extra_vars)]"


section \<open>Cluster pipelines\<close>

definition cluster_state_prefix :: "string \<Rightarrow> string" where
  "cluster_state_prefix cname = ''clusters/'' @ cname @ ''/state''"

definition cluster_create_context ::
    "Settings \<Rightarrow> string dict \<Rightarrow> ClusterCreateRequest \<Rightarrow> string \<Rightarrow> gcp_context" where
  "cluster_create_context cfg environ q oid =
     prepare_gcp_context cfg environ q oid (cluster_name q) None"

definition cluster_admin_sa :: "Settings \<Rightarrow> ClusterCreateRequest \<Rightarrow> gcp_context \<Rightarrow> string" where
  "cluster_admin_sa cfg q ctx =
     str_or (clean_str (gcp_cluster_admin_sa q)) (get_cluster_admin_sa cfg (Some (ctx_project ctx)))"

text \<open>\<open>if bmctl_version:\<close> for the version or \<open>None\<close>.\<close>

definition bmctl_set :: "string option \<Rightarrow> bool" where
  "bmctl_set v = (case v of None \<Rightarrow> False | Some s \<Rightarrow> s \<noteq> [])"

definition cluster_create_env ::
    "Settings \<Rightarrow> ClusterCreateRequest \<Rightarrow> gcp_context \<Rightarrow> string option \<Rightarrow> string dict" where
  "cluster_create_env cfg q ctx bmctl =
     (let env = dict_sets (ctx_env ctx)
            [(''TF_VAR_cluster_name'', cluster_name q),
             (''TF_VAR_hardware_variant'', hardware_variant q),
             (''TF_VAR_gce_network'', gce_network q),
             (''TF_VAR_gce_subnetwork'', gce_subnetwork q),
             (''TF_VAR_node_storage_size'', node_storage_size q),
             (''TF_VAR_pod_cidr_blocks'', pod_cidr_blocks q),
             (''TF_VAR_services_cidr_blocks'', services_cidr_blocks q),
             (''TF_VAR_max_pods_per_node'', show_int (max_pods_per_node q))];
          env1 = (if bmctl_set bmctl then dict_set env ''TF_VAR_bmctl_version'' (the bmctl) else env)
      in if cluster_admin_sa cfg q ctx \<noteq> []
         then dict_set env1 ''TF_VAR_gcp_cluster_admin_sa'' (cluster_admin_sa cfg q ctx) else env1)"

definition cluster_create_vars ::
    "ClusterCreateRequest \<Rightarrow> gcp_context \<Rightarrow> string option \<Rightarrow> (string \<times> string) list" where
  "cluster_create_vars q ctx bmctl =
     [(''project_id'', ctx_project ctx), (''cluster_name'', cluster_name q),
        (''zone'', ctx_zone ctx), (''region'', ctx_region ctx),
        (''hardware_variant'', hardware_variant q), (''gce_network'', gce_network q),
        (''gce_subnetwork'', gce_subnetwork q),
        (''node_storage_size'', node_storage_size q)]
     @ sa_var ctx
     @ (if bmctl_set bmctl then [(''bmctl_version'', the bmctl)] else [])"

text \<open>\<open>net.model_dump()\<close>: the fields in the order the class declares them.\<close>

definition network_dump :: "SecondaryNetworkConfig \<Rightarrow> json" where
  "network_dump n =
     JObj [(''name'', JStr (net_name n)), (''vlan_id'', JInt (vlan_id n)),
           (''subnet'', JStr (subnet n)), (''gateway'', JStr (gateway n)),
           (''vip_pool'', JStr (vip_pool n)), (''pod_cidr'', JStr (pod_cidr n)),
           (''per_node_ipam_size'', JInt (per_node_ipam_size n))]"

definition cluster_create_extra_vars ::
    "Settings \<Rightarrow> ClusterCreateRequest \<Rightarrow> gcp_context \<Rightarrow> (string \<times> json) list" where
  "cluster_create_extra_vars cfg q ctx =
     [(''cluster_name'', JStr (cluster_name q)), (''project_id'', JStr (ctx_project ctx)),
      (''zone'', JStr (ctx_zone ctx)), (''region'', JStr (ctx_region ctx)),
      (''emulate_gdc_version'', JStr (emulate_gdc_version q))]
     @ (if pod_cidr_blocks q \<noteq> [] then [(''pod_cidr_blocks'', JStr (pod_cidr_blocks q))] else [])
     @ (if services_cidr_blocks q \<noteq> []
        then [(''services_cidr_blocks'', JStr (services_cidr_blocks q))] else [])
     @ (if max_pods_per_node q \<noteq> 0
        then [(''max_pods_per_node'', JInt (max_pods_per_node q))] else [])
     @ (if cluster_admin_sa cfg q ctx \<noteq> []
        then [(''gcp_cluster_admin_sa'', JStr (cluster_admin_sa cfg q ctx))] else [])
     @ (case secondary_networks q of
          None \<Rightarrow> []
        | Some ns \<Rightarrow>
            if ns \<noteq> [] then [(''secondary_networks'', JList (map network_dump ns))] else [])"

definition cluster_delete_context ::
    "Settings \<Rightarrow> string dict \<Rightarrow> ClusterDeleteRequest \<Rightarrow> string \<Rightarrow> gcp_context" where
  "cluster_delete_context cfg environ q oid =
     prepare_gcp_context cfg environ q oid (del_cluster_name q) (del_tf_state_bucket q)"

definition cluster_delete_env :: "ClusterDeleteRequest \<Rightarrow> gcp_context \<Rightarrow> string dict" where
  "cluster_delete_env q ctx = dict_set (ctx_env ctx) ''TF_VAR_cluster_name'' (del_cluster_name q)"

definition cluster_delete_extra_vars ::
    "ClusterDeleteRequest \<Rightarrow> gcp_context \<Rightarrow> (string \<times> json) list" where
  "cluster_delete_extra_vars q ctx =
     [(''cluster_name'', JStr (del_cluster_name q)), (''project_id'', JStr (ctx_project ctx)),
      (''zone'', JStr (ctx_zone ctx)), (''region'', JStr (ctx_region ctx))]"

definition cluster_destroy_vars :: "ClusterDeleteRequest \<Rightarrow> gcp_context \<Rightarrow> (string \<times> string) list" where
  "cluster_destroy_vars q ctx =
     [(''project_id'', ctx_project ctx), (''cluster_name'', del_cluster_name q),
        (''zone'', ctx_zone ctx), (''region'', ctx_region ctx)]
     @ sa_var ctx"


section \<open>Workstation and edge router pipelines\<close>

definition workstation_create_env :: "WorkstationCreateRequest \<Rightarrow> gcp_context \<Rightarrow> string dict" where
  "workstation_create_env q ctx =
     dict_sets (ctx_env ctx) [(''TF_VAR_gce_network'', ws_gce_network q),
                              (''TF_VAR_gce_subnetwork'', ws_gce_subnetwork q)]"

definition workstation_apply_vars :: "WorkstationCreateRequest \<Rightarrow> gcp_context \<Rightarrow> (string \<times> string) list" where
  "workstation_apply_vars q ctx =
     [(''project_id'', ctx_project ctx), (''zone'', ctx_zone ctx),
        (''region'', ctx_region ctx), (''gce_network'', ws_gce_network q),
        (''gce_subnetwork'', ws_gce_subnetwork q),
        (''workstation_ip'', str_or (workstation_ip q) ''10.10.0.2'')]
     @ sa_var ctx"

definition workstation_extra_vars :: "gcp_context \<Rightarrow> (string \<times> json) list" where
  "workstation_extra_vars ctx =
     [(''project_id'', JStr (ctx_project ctx)), (''zone'', JStr (ctx_zone ctx)),
      (''region'', JStr (ctx_region ctx))]"

definition workstation_destroy_vars :: "gcp_context \<Rightarrow> (string \<times> string) list" where
  "workstation_destroy_vars ctx =
     [(''project_id'', ctx_project ctx), (''zone'', ctx_zone ctx),
        (''region'', ctx_region ctx)]
     @ sa_var ctx"

definition edge_router_create_env :: "EdgeRouterCreateRequest \<Rightarrow> gcp_context \<Rightarrow> string dict" where
  "edge_router_create_env q ctx =
     dict_sets (ctx_env ctx) [(''TF_VAR_edge_router_name'', edge_router_name q),
                              (''TF_VAR_machine_type'', machine_type q),
                              (''TF_VAR_gce_network'', er_gce_network q),
                              (''TF_VAR_gce_subnetwork'', er_gce_subnetwork q)]"

definition edge_router_apply_vars :: "EdgeRouterCreateRequest \<Rightarrow> gcp_context \<Rightarrow> (string \<times> string) list" where
  "edge_router_apply_vars q ctx =
     [(''project_id'', ctx_project ctx), (''zone'', ctx_zone ctx),
        (''region'', ctx_region ctx), (''edge_router_name'', edge_router_name q),
        (''machine_type'', machine_type q), (''gce_network'', er_gce_network q),
        (''gce_subnetwork'', er_gce_subnetwork q)]
     @ sa_var ctx"

definition edge_router_extra_vars ::
    "EdgeRouterCreateRequest \<Rightarrow> gcp_context \<Rightarrow> (string \<times> json) list" where
  "edge_router_extra_vars q ctx =
     [(''project_id'', JStr (ctx_project ctx)), (''zone'', JStr (ctx_zone ctx)),
      (''region'', JStr (ctx_region ctx)), (''edge_router_name'', JStr (edge_router_name q))]"

definition edge_router_delete_env :: "EdgeRouterDeleteRequest \<Rightarrow> gcp_context \<Rightarrow> string dict" where
  "edge_router_delete_env q ctx =
     dict_set (ctx_env ctx) ''TF_VAR_edge_router_name'' (erd_edge_router_name q)"

definition edge_router_destroy_vars :: "EdgeRouterDeleteRequest \<Rightarrow> gcp_context \<Rightarrow> (string \<times> string) list" where
  "edge_router_destroy_vars q ctx =
     [(''project_id'', ctx_project ctx), (''zone'', ctx_zone ctx),
        (''region'', ctx_region ctx),
        (''edge_router_name'', erd_edge_router_name q)]
     @ sa_var ctx"

section \<open>Lemmas\<close>

text \<open>The runner's cleaning is the validators' sanitising, restricted to strings.\<close>

lemma clean_str_sanitize: "clean_str v = sanitize_optional_str (opt_any v)"
  by (cases v) (simp_all add: clean_str_def sanitize_optional_str_def opt_any_def placeholders_def Let_def)

lemma clean_str_None [simp]: "clean_str None = None"
  by (simp add: clean_str_def)

lemma lower_char_id: "az_char c \<or> digit_char c \<or> c = CHR ''-'' \<Longrightarrow> lower_char c = c"
  by (auto simp: lower_char_def az_char_def less_eq_char_def)

lemma placeholders_no_hyphen: "s \<in> set placeholders \<Longrightarrow> CHR ''-'' \<notin> set s"
  by (auto simp: placeholders_def)

lemma region_chars: "is_region s \<Longrightarrow> list_all (\<lambda>c. an_char c \<or> c = CHR ''-'') s"
  by (auto simp: is_region_def list_all_iff an_char_def)

lemma zone_chars: "is_zone s \<Longrightarrow> list_all (\<lambda>c. an_char c \<or> c = CHR ''-'') s"
  using region_chars by (fastforce simp: is_zone_def list_all_iff an_char_def)

lemma hyphen_word_clean:
  assumes "list_all (\<lambda>c. an_char c \<or> c = CHR ''-'') s" and "CHR ''-'' \<in> set s"
  shows "clean_str (Some s) = Some s"
proof -
  have "list_all (\<lambda>c. \<not> py_space c) s"
    using assms(1) by (auto simp: list_all_iff py_space_def an_char_def az_char_def less_eq_char_def)
  moreover have "lower s = s"
    using assms(1) lower_char_id by (auto simp: lower_def list_all_iff an_char_def intro!: map_idI)
  ultimately show ?thesis
    unfolding clean_str_sanitize using assms(2) placeholders_no_hyphen
    by (intro sanitize_clean stripped_no_space) auto
qed

lemma hyphen_in_zone: "is_zone s \<Longrightarrow> CHR ''-'' \<in> set s"
  and hyphen_in_region: "is_region s \<Longrightarrow> CHR ''-'' \<in> set s"
  by (auto simp: is_zone_def is_region_def)

lemma clean_zone [simp]: "is_zone s \<Longrightarrow> clean_str (Some s) = Some s"
  and clean_region [simp]: "is_region s \<Longrightarrow> clean_str (Some s) = Some s"
  by (simp_all add: hyphen_word_clean zone_chars region_chars hyphen_in_zone hyphen_in_region)

lemma zone_stripped: "is_zone s \<Longrightarrow> stripped s" and region_stripped: "is_region s \<Longrightarrow> stripped s"
  using clean_zone clean_region sanitize_SomeD(2) unfolding clean_str_sanitize by blast+

lemma zone_not_swapped: "is_zone z \<Longrightarrow> \<not> swapped z r"
  by (auto simp: swapped_def re_match_stripped zone_stripped region_regex_iff zone_not_region
      split: option.split)

lemma region_not_swapped: "is_region r \<Longrightarrow> \<not> swapped z (Some r)"
  using zone_not_region by (auto simp: swapped_def re_match_stripped region_stripped zone_regex_iff)

lemma zone_nonempty [simp]: "is_zone s \<Longrightarrow> s \<noteq> []" and region_nonempty [simp]: "is_region s \<Longrightarrow> s \<noteq> []"
  by (auto dest: hyphen_in_zone hyphen_in_region)

text \<open>
  The auto-correction of swapped values never acts on what the validators let through, and
  what it would do is undo the swap.
\<close>

lemma resolve_given:
  assumes "is_zone z" and "r = Some (rsplit_head CHR ''-'' z)"
  shows "resolve_zone_and_region (Some z) r dz dr = (z, rsplit_head CHR ''-'' z)"
  using assms zone_rsplit(1) [OF assms(1)]
  by (simp add: resolve_zone_and_region_def zone_not_swapped)

lemma resolve_default:
  assumes "is_zone dz"
  shows "resolve_zone_and_region None None dz dr = (dz, rsplit_head CHR ''-'' dz)"
  using assms by (simp add: resolve_zone_and_region_def zone_not_swapped join_butlast_split hyphen_in_zone)

lemma resolve_region_only:
  assumes "is_region r"
  shows "resolve_zone_and_region None (Some r) dz dr = (dz, r)"
  using assms by (simp add: resolve_zone_and_region_def region_not_swapped)

lemma dict_get_sets:
  "dict_get (dict_sets d kvs) k = (case map_of (rev kvs) k of None \<Rightarrow> dict_get d k | Some v \<Rightarrow> Some v)"
proof (induction kvs arbitrary: d)
  case (Cons kv kvs)
  obtain k' v' where "kv = (k', v')" by (cases kv)
  with Cons show ?case by (auto simp: dict_sets_def map_add_def split: option.splits)
qed (simp add: dict_sets_def)

lemma dict_sets_Nil [simp]: "dict_sets d [] = d"
  by (simp add: dict_sets_def)

lemma dict_sets_Cons [simp]: "dict_sets d ((k, v) # kvs) = dict_sets (dict_set d k v) kvs"
  by (simp add: dict_sets_def)

text \<open>What every pipeline finds in its environment.\<close>

lemma context_sel:
  assumes "ctx = prepare_gcp_context cfg environ q oid cname b"
  shows "ctx_project ctx = str_or (clean_str (project_id q)) (default_project_id cfg)"
    and "(ctx_zone ctx, ctx_region ctx) =
           resolve_zone_and_region (zone q) (region q) (default_zone cfg) (default_region cfg)"
    and "ctx_sa ctx = str_or (clean_str (provisioning_sa_email q))
           (get_provisioning_sa cfg (Some (ctx_project ctx)))"
    and "ctx_bucket ctx = str_or (clean_str b) (get_tf_state_bucket cfg (Some (ctx_project ctx)))"
  using assms by (auto simp: prepare_gcp_context_def Let_def split: prod.split)

text \<open>The service account is never empty: one is made up from the project when none is given.\<close>

lemma context_sa_nonempty: "ctx_sa (prepare_gcp_context cfg environ q oid cname b) \<noteq> []"
proof -
  have "get_provisioning_sa cfg p \<noteq> []" for p by (simp add: get_provisioning_sa_def)
  then show ?thesis using str_or_nonempty context_sel(3) [OF refl, of cfg environ q oid cname b] by metis
qed

lemma context_env:
  assumes "ctx = prepare_gcp_context cfg environ q oid cname b"
  shows "dict_get (ctx_env ctx) ''CLUSTER_NAME'' = Some cname"
    and "dict_get (ctx_env ctx) ''PROJECT_ID'' = Some (ctx_project ctx)"
    and "dict_get (ctx_env ctx) ''GEM_GCP_ZONE'' = Some (ctx_zone ctx)"
    and "dict_get (ctx_env ctx) ''TF_DATA_DIR'' = Some (path_str (log_dir cfg @ [''.terraform-'' @ oid]))"
    and "dict_get (ctx_env ctx) ''TF_VAR_project_id'' = Some (ctx_project ctx)"
    and "dict_get (ctx_env ctx) ''TF_VAR_zone'' = Some (ctx_zone ctx)"
    and "dict_get (ctx_env ctx) ''TF_VAR_region'' = Some (ctx_region ctx)"
    and "dict_get (ctx_env ctx) ''TF_VAR_provisioning_sa_email'' = Some (ctx_sa ctx)"
    and "dict_get (ctx_env ctx) ''GOOGLE_IMPERSONATE_SERVICE_ACCOUNT'' = Some (ctx_sa ctx)"
  using context_sa_nonempty [of cfg environ q oid cname b] assms
  by (auto simp: prepare_gcp_context_def Let_def dict_get_sets split: prod.splits)


text \<open>
  A variable on the Terraform command line and the same variable in the environment carry the
  same value, so neither can shadow the other with something else.
\<close>

lemma cluster_create_vars_env:
  assumes "ctx = cluster_create_context cfg environ q oid"
  shows "list_all (\<lambda>(k, v). dict_get (cluster_create_env cfg q ctx bmctl) (''TF_VAR_'' @ k) = Some v)
           (cluster_create_vars q ctx bmctl)"
  by (simp add: cluster_create_vars_def cluster_create_env_def sa_var_def Let_def
        context_env [OF assms [unfolded cluster_create_context_def]])

lemma cluster_destroy_vars_env:
  assumes "ctx = cluster_delete_context cfg environ q oid"
  shows "list_all (\<lambda>(k, v). dict_get (cluster_delete_env q ctx) (''TF_VAR_'' @ k) = Some v)
           (cluster_destroy_vars q ctx)"
  by (simp add: cluster_destroy_vars_def cluster_delete_env_def sa_var_def
        context_env [OF assms [unfolded cluster_delete_context_def]])

lemma edge_router_apply_vars_env:
  assumes "ctx = prepare_gcp_context cfg environ q oid cname b"
  shows "list_all (\<lambda>(k, v). dict_get (edge_router_create_env q ctx) (''TF_VAR_'' @ k) = Some v)
           (edge_router_apply_vars q ctx)"
  by (simp add: edge_router_apply_vars_def edge_router_create_env_def sa_var_def context_env [OF assms])

end
