(* ===== verification/Log_Queue.thy ===== *)
theory Log_Queue
  imports Gem_Prelude
begin

text \<open>
  The two bounded buffers of an operation record: \<open>collections.deque(maxlen=n)\<close>, which keeps
  its recent log lines, and \<open>asyncio.Queue(maxsize=n)\<close>, one per connected log subscriber,
  with the loop of \<open>OperationManager._publish\<close> (\<open>api/gem_api/services/operations.py\<close>) that
  feeds it without ever blocking.
\<close>

section \<open>deque\<close>

record 'a deque =
  maxlen :: nat
  elems :: "'a list"

definition deque_new :: "nat \<Rightarrow> 'a deque" where
  "deque_new n = \<lparr>maxlen = n, elems = []\<rparr>"

definition deque_append :: "'a deque \<Rightarrow> 'a \<Rightarrow> 'a deque" where
  "deque_append d x =
     (if maxlen d = 0 then d\<lparr>elems := []\<rparr>
      else if length (elems d) < maxlen d then d\<lparr>elems := elems d @ [x]\<rparr>
      else d\<lparr>elems := last_n (maxlen d - 1) (elems d) @ [x]\<rparr>)"


section \<open>asyncio.Queue\<close>

record 'a aqueue =
  maxsize :: nat
  items :: "'a list"

definition aqueue_new :: "nat \<Rightarrow> 'a aqueue" where
  "aqueue_new n = \<lparr>maxsize = n, items = []\<rparr>"

text \<open>\<open>None\<close> is the exception: \<open>QueueFull\<close> from putting, \<open>QueueEmpty\<close> from getting.\<close>

definition queue_full :: "'a aqueue \<Rightarrow> bool" where
  "queue_full q \<longleftrightarrow> 0 < maxsize q \<and> maxsize q \<le> length (items q)"

definition put_nowait :: "'a aqueue \<Rightarrow> 'a \<Rightarrow> 'a aqueue option" where
  "put_nowait q x = (if queue_full q then None else Some (q\<lparr>items := items q @ [x]\<rparr>))"

definition get_nowait :: "'a aqueue \<Rightarrow> ('a \<times> 'a aqueue) option" where
  "get_nowait q = (case items q of [] \<Rightarrow> None | x # xs \<Rightarrow> Some (x, q\<lparr>items := xs\<rparr>))"

text \<open>
  The inner loop of \<open>_publish\<close>: try to put; when the queue is full take its oldest entry away
  and try again. Each round shortens the queue, so the loop ends.
\<close>

function publish_loop :: "'a aqueue \<Rightarrow> 'a \<Rightarrow> 'a aqueue" where
  "publish_loop q x =
     (case put_nowait q x of
        Some q' \<Rightarrow> q'
      | None \<Rightarrow> (case get_nowait q of None \<Rightarrow> q | Some (_, q') \<Rightarrow> publish_loop q' x))"
  by pat_completeness auto
termination
  by (relation "measure (\<lambda>(q, x). length (items q))")
     (auto simp: get_nowait_def split: list.splits)

declare publish_loop.simps [simp del]


section \<open>Both drop their oldest entry\<close>

text \<open>The window a queue of a given size keeps; size 0 means unbounded in \<open>asyncio\<close>.\<close>

definition queue_keep :: "'a aqueue \<Rightarrow> 'a list \<Rightarrow> 'a list" where
  "queue_keep q xs = (if maxsize q = 0 then xs else last_n (maxsize q) xs)"

lemma publish_loop_maxsize: "maxsize (publish_loop q x) = maxsize q"
proof (induction q x rule: publish_loop.induct)
  case (1 q x)
  then show ?case
    by (subst publish_loop.simps)
       (auto simp: put_nowait_def get_nowait_def split: option.splits list.splits if_splits)
qed

lemma publish_loop_items: "items (publish_loop q x) = queue_keep q (items q @ [x])"
proof (induction q x rule: publish_loop.induct)
  case (1 q x)
  show ?case
  proof (cases "queue_full q")
    case False
    then show ?thesis
      by (subst publish_loop.simps) (auto simp: put_nowait_def queue_full_def queue_keep_def)
  next
    case True
    then obtain y ys where ys: "items q = y # ys"
      by (cases "items q") (auto simp: queue_full_def)
    let ?q = "q\<lparr>items := ys\<rparr>"
    have put: "put_nowait q x = None" and get: "get_nowait q = Some (y, ?q)"
      using True ys by (simp_all add: put_nowait_def get_nowait_def)
    have "items (publish_loop ?q x) = queue_keep ?q (items ?q @ [x])"
      using "1.IH" [OF put get] by simp
    moreover have "publish_loop q x = publish_loop ?q x"
      by (subst publish_loop.simps) (simp add: put get)
    moreover have "queue_keep ?q (ys @ [x]) = queue_keep q (items q @ [x])"
      using True ys last_n_append2 [of "maxsize q" "ys @ [x]" "[y]"]
      by (simp add: queue_keep_def queue_full_def)
    ultimately show ?thesis by simp
  qed
qed

lemma deque_append_maxlen: "maxlen (deque_append d x) = maxlen d"
  by (simp add: deque_append_def)

lemma deque_append_elems: "elems (deque_append d x) = last_n (maxlen d) (elems d @ [x])"
  by (auto simp: deque_append_def last_n_snoc)

interpretation log_buf: drop_oldest deque_append elems maxlen
  by unfold_locales (simp_all add: deque_append_elems deque_append_maxlen)

text \<open>
  A subscriber queue is created with \<open>maxsize=100\<close>; the interface is interpreted for the
  queues with a bound, which are all the API makes.
\<close>

definition publish_bounded :: "nat \<Rightarrow> 'a list \<Rightarrow> 'a \<Rightarrow> 'a list" where
  "publish_bounded n xs x = items (publish_loop \<lparr>maxsize = Suc n, items = xs\<rparr> x)"

interpretation sub_q: drop_oldest "publish_bounded n" "\<lambda>xs. xs" "\<lambda>_. Suc n" for n
  by unfold_locales (simp_all add: publish_bounded_def publish_loop_items queue_keep_def)

lemma publish_loop_bounded:
  "maxsize q = Suc n \<Longrightarrow> items (publish_loop q x) = publish_bounded n (items q) x"
  by (simp add: publish_bounded_def publish_loop_items queue_keep_def)

text \<open>Publishing a sequence of entries to one queue, the newest last.\<close>

lemma publish_many:
  assumes "maxsize q = Suc n" and "length (items q) \<le> Suc n"
  shows "items (foldl publish_loop q xs) = last_n (Suc n) (items q @ xs)"
proof -
  have "items (foldl publish_loop q xs) = foldl (publish_bounded n) (items q) xs"
    using assms(1)
    by (induction xs arbitrary: q) (simp_all add: publish_loop_bounded publish_loop_maxsize)
  then show ?thesis using sub_q.contents_foldl [of "items q" n] assms(2) by simp
qed

section \<open>The publishing loop ends\<close>

text \<open>The same loop with a bound on its rounds; \<open>None\<close> is a loop that still runs.\<close>

fun publish_rounds :: "nat \<Rightarrow> 'a aqueue \<Rightarrow> 'a \<Rightarrow> 'a aqueue option" where
  "publish_rounds 0 q x = None"
| "publish_rounds (Suc n) q x =
     (case put_nowait q x of
        Some q' \<Rightarrow> Some q'
      | None \<Rightarrow> (case get_nowait q of None \<Rightarrow> Some q | Some (_, q') \<Rightarrow> publish_rounds n q' x))"

lemma publish_rounds_loop:
  "length (items q) - maxsize q + 2 \<le> n \<Longrightarrow> publish_rounds n q x = Some (publish_loop q x)"
proof (induction n arbitrary: q)
  case (Suc n)
  show ?case
  proof (cases "queue_full q")
    case False
    then show ?thesis by (subst publish_loop.simps) (simp add: put_nowait_def)
  next
    case True
    then obtain y ys where ys: "items q = y # ys"
      by (cases "items q") (auto simp: queue_full_def)
    have put: "put_nowait q x = None" and get: "get_nowait q = Some (y, q\<lparr>items := ys\<rparr>)"
      using True ys by (simp_all add: put_nowait_def get_nowait_def)
    have loop: "publish_loop q x = publish_loop (q\<lparr>items := ys\<rparr>) x"
      by (subst publish_loop.simps) (simp add: put get)
    have "publish_rounds n (q\<lparr>items := ys\<rparr>) x = Some (publish_loop (q\<lparr>items := ys\<rparr>) x)"
    proof (cases "queue_full (q\<lparr>items := ys\<rparr>)")
      case True
      with Suc.prems ys show ?thesis by (intro Suc.IH) (auto simp: queue_full_def)
    next
      case False
      then show ?thesis
        using Suc.prems by (cases n) (simp_all add: publish_loop.simps [of "q\<lparr>items := ys\<rparr>"] put_nowait_def)
    qed
    with put get loop show ?thesis by simp
  qed
qed simp

text \<open>
  C20: Publishing never blocks: the loop ends after at most two rounds on a queue within its
  capacity (and after one more for every entry above it), with the item as the newest entry.
\<close>

theorem publish_terminates:
  "publish_rounds (length (items q) - maxsize q + 2) q x = Some (publish_loop q x) \<and>
   last (items (publish_loop q x)) = x \<and>
   (maxsize q = 0 \<or> length (items (publish_loop q x)) \<le> maxsize q)"
proof (intro conjI)
  show "publish_rounds (length (items q) - maxsize q + 2) q x = Some (publish_loop q x)"
    by (rule publish_rounds_loop) simp
  show "last (items (publish_loop q x)) = x"
    by (simp add: publish_loop_items queue_keep_def last_n_snoc)
  show "maxsize q = 0 \<or> length (items (publish_loop q x)) \<le> maxsize q"
    by (simp add: publish_loop_items queue_keep_def)
qed

end
