(* ===== verification/Py_Time.thy ===== *)
theory Py_Time
  imports Py_Str "HOL-Library.Product_Lexorder"
begin

text \<open>
  Points in time as \<open>datetime.now(UTC)\<close> gives them, their order, and the one format the API
  prints (\<open>%Y-%m-%dT%H:%M:%SZ\<close>).
\<close>

datatype datetime =
  Datetime (year: nat) (month: nat) (day: nat) (hour: nat) (minute: nat) (second: nat)
    (microsecond: nat)

fun dt_key :: "datetime \<Rightarrow> nat \<times> nat \<times> nat \<times> nat \<times> nat \<times> nat \<times> nat" where
  "dt_key (Datetime y mo d h mi s us) = (y, mo, d, h, mi, s, us)"

lemma dt_key_inject: "dt_key a = dt_key b \<longleftrightarrow> a = b"
  by (cases a; cases b) simp

instantiation datetime :: linorder
begin

definition less_eq_datetime :: "datetime \<Rightarrow> datetime \<Rightarrow> bool" where
  "less_eq_datetime a b \<longleftrightarrow> dt_key a \<le> dt_key b"

definition less_datetime :: "datetime \<Rightarrow> datetime \<Rightarrow> bool" where
  "less_datetime a b \<longleftrightarrow> dt_key a < dt_key b"

instance
proof
  fix a b c :: datetime
  show "a < b \<longleftrightarrow> a \<le> b \<and> \<not> b \<le> a"
    unfolding less_eq_datetime_def less_datetime_def by (rule less_le_not_le)
  show "a \<le> a" unfolding less_eq_datetime_def by (rule order_refl)
  show "a \<le> b \<Longrightarrow> b \<le> c \<Longrightarrow> a \<le> c" unfolding less_eq_datetime_def by (rule order_trans)
  show "a \<le> b \<Longrightarrow> b \<le> a \<Longrightarrow> a = b"
    unfolding less_eq_datetime_def using order_antisym dt_key_inject by blast
  show "a \<le> b \<or> b \<le> a" unfolding less_eq_datetime_def by (rule linear)
qed

end

text \<open>Zero padding to a width, as \<open>%m\<close>, \<open>%d\<close>, \<open>%H\<close>, \<open>%M\<close> and \<open>%S\<close> do.\<close>

definition zfill :: "nat \<Rightarrow> string \<Rightarrow> string" where
  "zfill w s = replicate (w - length s) CHR ''0'' @ s"

definition strftime_utc :: "datetime \<Rightarrow> string" where
  "strftime_utc t =
     show_nat (year t) @ ''-'' @ zfill 2 (show_nat (month t)) @ ''-'' @ zfill 2 (show_nat (day t))
     @ ''T'' @ zfill 2 (show_nat (hour t)) @ '':'' @ zfill 2 (show_nat (minute t))
     @ '':'' @ zfill 2 (show_nat (second t)) @ ''Z''"

text \<open>A log line's time stamp.\<close>

definition stamp :: "datetime \<Rightarrow> string" where
  "stamp t = ''['' @ strftime_utc t @ ''] ''"

text \<open>
  The logger recognises a stamped line by its first three characters. In this century every
  stamp starts that way.
\<close>

definition this_century :: "datetime \<Rightarrow> bool" where
  "this_century t \<longleftrightarrow> 2000 \<le> year t \<and> year t < 2100"

lemma show_nat_20xx:
  assumes "2000 \<le> n" and "n < 2100"
  shows "\<exists>s. show_nat n = ''20'' @ s"
proof -
  have "n div 100 = 20" using assms by (intro div_nat_eqI) simp_all
  then have a: "n div 10 div 10 = 20" by (simp flip: div_mult2_eq)
  have b: "10 \<le> n div 10" "10 \<le> n" using assms by linarith+
  have "show_nat (20::nat) = ''20''"
    by (simp add: show_nat.simps)
  then show ?thesis
    by (simp add: show_nat_step [OF b(2)] show_nat_step [OF b(1)] a)
qed

lemma startswith_stamp: "this_century t \<Longrightarrow> startswith (stamp t @ s) ''[20''"
  using show_nat_20xx [of "year t"]
  by (auto simp: this_century_def stamp_def strftime_utc_def startswith_def)

lemma stamp_nonempty [simp]: "stamp t \<noteq> []"
  by (simp add: stamp_def)

end
