(* ===== verification/Operations.thy ===== *)
theory Operations
  imports Config Log_Queue Py_Time
begin

text \<open>
  \<open>api/gem_api/services/operations.py\<close> and \<open>api/gem_api/models/operations.py\<close>: the operation
  manager. Its state is explicit. Records, subscriber queues, tasks and processes are objects
  that several parties hold references to, so they live in stores indexed by references
  (natural numbers) and the dictionary \<open>_operations\<close> maps an identifier to the reference of
  its record. Reading the clock and writing a file consult the world through a counter: the
  \<open>n\<close>-th consultation of the clock returns \<open>clock n\<close>, the \<open>n\<close>-th file access succeeds if
  \<open>io_ok n\<close>. An operation returns \<open>exc + 'a\<close> together with the new state, since an exception
  may leave partial effects behind.
\<close>

section \<open>Data\<close>

datatype OperationStatus = QUEUED | RUNNING | SUCCEEDED | FAILED | CANCELLED

datatype OperationType =
    CLUSTER_CREATE | CLUSTER_DELETE | WORKSTATION_CREATE | WORKSTATION_DELETE
  | EDGE_ROUTER_CREATE | EDGE_ROUTER_DELETE

fun status_str :: "OperationStatus \<Rightarrow> string" where
  "status_str QUEUED = ''QUEUED''"
| "status_str RUNNING = ''RUNNING''"
| "status_str SUCCEEDED = ''SUCCEEDED''"
| "status_str FAILED = ''FAILED''"
| "status_str CANCELLED = ''CANCELLED''"

fun type_str :: "OperationType \<Rightarrow> string" where
  "type_str CLUSTER_CREATE = ''CLUSTER_CREATE''"
| "type_str CLUSTER_DELETE = ''CLUSTER_DELETE''"
| "type_str WORKSTATION_CREATE = ''WORKSTATION_CREATE''"
| "type_str WORKSTATION_DELETE = ''WORKSTATION_DELETE''"
| "type_str EDGE_ROUTER_CREATE = ''EDGE_ROUTER_CREATE''"
| "type_str EDGE_ROUTER_DELETE = ''EDGE_ROUTER_DELETE''"

text \<open>The two tuples of statuses the code tests membership in.\<close>

fun active :: "OperationStatus \<Rightarrow> bool" where
  "active QUEUED = True"
| "active RUNNING = True"
| "active _ = False"

fun terminal :: "OperationStatus \<Rightarrow> bool" where
  "terminal SUCCEEDED = True"
| "terminal FAILED = True"
| "terminal CANCELLED = True"
| "terminal _ = False"

type_synonym ref = nat

record OperationRecord =
  operation_id :: string
  operation_type :: OperationType
  target_resource :: string
  status :: OperationStatus
  current_step :: "string option"
  message :: "string option"
  created_at :: datetime
  updated_at :: datetime
  completed_at :: "datetime option"
  error :: "string option"
  log_buffer :: "string deque"
  subscribers :: "ref list"
  process :: "ref option"
  task :: "ref option"

text \<open>
  An \<open>asyncio\<close> task: pending (with a flag for a cancellation that was requested and not yet
  delivered), returned, ended by an exception (its type and text), or cancelled.
\<close>

datatype task_state = TPending bool | TReturned | TRaised string string | TCancelled

record Process =
  pid :: int
  returncode :: "int option"

datatype sig = SIGTERM | SIGKILL

record mgr =
  operations :: "ref dict"
  recs :: "ref \<Rightarrow> OperationRecord"
  next_rec :: ref
  queues :: "ref \<Rightarrow> string option aqueue"
  next_queue :: ref
  procs :: "ref \<Rightarrow> Process"
  tasks :: "ref \<Rightarrow> task_state"
  done_callbacks :: "(ref \<times> string) list"
  signals :: "(int \<times> sig) list"
  kill_timers :: "(ref \<times> int) list"
  files :: "path \<rightharpoonup> string"
  clock :: "nat \<Rightarrow> datetime"
  io_ok :: "nat \<Rightarrow> bool"
  ticks :: nat

text \<open>What the operating system contributes: resolving a path, and why \<open>mkdir\<close> failed.\<close>

record osys =
  os_resolve :: "path \<Rightarrow> path"
  mkdir_error :: "path \<Rightarrow> string option"

definition now :: "mgr \<Rightarrow> datetime \<times> mgr" where
  "now s = (clock s (ticks s), s\<lparr>ticks := Suc (ticks s)\<rparr>)"

definition try_io :: "mgr \<Rightarrow> bool \<times> mgr" where
  "try_io s = (io_ok s (ticks s), s\<lparr>ticks := Suc (ticks s)\<rparr>)"

definition lookup :: "mgr \<Rightarrow> string \<Rightarrow> ref option" where
  "lookup s oid = dict_get (operations s) oid"

definition upd_rec :: "ref \<Rightarrow> (OperationRecord \<Rightarrow> OperationRecord) \<Rightarrow> mgr \<Rightarrow> mgr" where
  "upd_rec i f s = s\<lparr>recs := (recs s)(i := f (recs s i))\<rparr>"

definition newline :: string where
  "newline = [CHR 0x0A]"


section \<open>Log files\<close>

text \<open>\<open>OperationManager._get_log_file_path\<close>.\<close>

definition get_log_file_path :: "osys \<Rightarrow> Settings \<Rightarrow> string \<Rightarrow> path res" where
  "get_log_file_path os cfg oid =
     (if oid = [] \<or> contains ''/'' oid \<or> contains [CHR 0x5C] oid \<or> contains ''..'' oid
      then Inl (HTTPException 400 (''Invalid operation_id '' @ squote oid @ ''.''))
      else (let ld = os_resolve os (log_dir cfg)
            in case mkdir_error os ld of
                 Some e \<Rightarrow> Inl (OSError e)
               | None \<Rightarrow>
                   (let lp = os_resolve os (ld @ [oid @ ''.log''])
                    in if butlast lp \<noteq> ld
                       then Inl (HTTPException 400 (''Invalid operation_id '' @ squote oid @ ''.''))
                       else Inr lp)))"

text \<open>\<open>open(path, "w")\<close> and \<open>open(path, "a")\<close> with one write; an \<open>OSError\<close> is logged only.\<close>

definition write_file :: "path \<Rightarrow> string \<Rightarrow> mgr \<Rightarrow> mgr" where
  "write_file p txt s =
     (let (ok, s1) = try_io s in if ok then s1\<lparr>files := (files s1)(p \<mapsto> txt)\<rparr> else s1)"

definition append_file :: "path \<Rightarrow> string \<Rightarrow> mgr \<Rightarrow> mgr" where
  "append_file p txt s =
     (let (ok, s1) = try_io s
      in if ok
         then s1\<lparr>files := (files s1)(p \<mapsto> (case files s1 p of None \<Rightarrow> txt | Some old \<Rightarrow> old @ txt))\<rparr>
         else s1)"

text \<open>Iterating over a text file: universal newlines, then one line per newline.\<close>

fun universal_newlines :: "string \<Rightarrow> string" where
  "universal_newlines [] = []"
| "universal_newlines [c] = (if c = CHR 0x0D then newline else [c])"
| "universal_newlines (c # d # s) =
     (if c = CHR 0x0D
      then (if d = CHR 0x0A then CHR 0x0A # universal_newlines s
            else CHR 0x0A # universal_newlines (d # s))
      else c # universal_newlines (d # s))"

definition file_lines :: "string \<Rightarrow> string list" where
  "file_lines txt =
     (let parts = split_on CHR 0x0A (universal_newlines txt)
      in if last parts = [] then butlast parts else parts)"


section \<open>Publishing to subscribers and logging\<close>

text \<open>\<open>OperationManager._publish\<close>, over a copy of the subscriber list.\<close>

definition publish :: "ref \<Rightarrow> string option \<Rightarrow> mgr \<Rightarrow> mgr" where
  "publish i item s =
     s\<lparr>queues := foldl (\<lambda>qs q. qs(q := publish_loop (qs q) item)) (queues s) (subscribers (recs s i))\<rparr>"

definition append_log :: "osys \<Rightarrow> Settings \<Rightarrow> string \<Rightarrow> string \<Rightarrow> mgr \<Rightarrow> unit res \<times> mgr" where
  "append_log os cfg oid log_line s =
     (case lookup s oid of
        None \<Rightarrow> (Inr (), s)
      | Some i \<Rightarrow>
          (let line = rstrip log_line
           in if line = [] then (Inr (), s)
              else
                (let (formatted, s1) =
                       (if startswith line ''[20'' then (line, s)
                        else (let (t, s') = now s in (stamp t @ line, s')));
                     s2 = upd_rec i (\<lambda>r. r\<lparr>log_buffer := deque_append (log_buffer r) formatted\<rparr>) s1
                 in case get_log_file_path os cfg oid of
                      Inl e \<Rightarrow> (Inl e, s2)
                    | Inr p \<Rightarrow>
                        (Inr (), publish i (Some formatted) (append_file p (formatted @ newline) s2)))))"


section \<open>Registering and updating\<close>

text \<open>\<open>OperationRecord.__init__\<close>: a queued record; the clock is read twice.\<close>

definition new_record ::
    "string \<Rightarrow> OperationType \<Rightarrow> string \<Rightarrow> string \<Rightarrow> string \<Rightarrow> nat \<Rightarrow> mgr \<Rightarrow> OperationRecord \<times> mgr" where
  "new_record oid ty target step msg max_lines s =
     (let (t1, s1) = now s; (t2, s2) = now s1
      in (\<lparr>operation_id = oid, operation_type = ty, target_resource = target, status = QUEUED,
           current_step = Some step, message = Some msg, created_at = t1, updated_at = t2,
           completed_at = None, error = None, log_buffer = deque_new max_lines,
           subscribers = [], process = None, task = None\<rparr>, s2))"

definition find_conflict :: "mgr \<Rightarrow> string \<Rightarrow> ref option" where
  "find_conflict s target =
     map_option snd
       (find (\<lambda>(_, i). target_resource (recs s i) = target \<and> active (status (recs s i)))
          (operations s))"

definition conflict_exc :: "OperationRecord \<Rightarrow> string \<Rightarrow> exc" where
  "conflict_exc op target =
     HTTPException 409
       (''An active operation '' @ squote (operation_id op) @ '' of type ''
        @ squote (type_str (operation_type op)) @ '' is already in progress for target resource ''
        @ squote target @ ''.'')"

text \<open>
  \<open>register_operation\<close> up to the point where it hands the writing of the log file to a
  thread: the conflict check, the new record, its entry in the dictionary, the file's path.
\<close>

definition register_insert ::
    "osys \<Rightarrow> Settings \<Rightarrow> string \<Rightarrow> OperationType \<Rightarrow> string \<Rightarrow> string \<Rightarrow> string \<Rightarrow> mgr \<Rightarrow>
       (ref \<times> path) res \<times> mgr" where
  "register_insert os cfg oid ty target step msg s =
     (case find_conflict s target of
        Some i \<Rightarrow> (Inl (conflict_exc (recs s i) target), s)
      | None \<Rightarrow>
          (let (r, s1) = new_record oid ty target step msg (max_log_buffer_lines cfg) s;
               i = next_rec s1;
               s2 = s1\<lparr>recs := (recs s1)(i := r), next_rec := Suc i,
                       operations := dict_set (operations s1) oid i\<rparr>
           in case get_log_file_path os cfg oid of
                Inl e \<Rightarrow> (Inl e, s2)
              | Inr p \<Rightarrow> (Inr (i, p), s2)))"

definition init_line :: "OperationRecord \<Rightarrow> string" where
  "init_line r =
     stamp (created_at r) @ ''Registered operation '' @ operation_id r @ '' (''
     @ type_str (operation_type r) @ '') on '' @ target_resource r @ ''.''"

text \<open>The rest: the log file's first line is written and buffered.\<close>

definition register_finish :: "ref \<Rightarrow> path \<Rightarrow> mgr \<Rightarrow> mgr" where
  "register_finish i p s =
     (let line = init_line (recs s i)
      in upd_rec i (\<lambda>r. r\<lparr>log_buffer := deque_append (log_buffer r) line\<rparr>)
           (write_file p (line @ newline) s))"

definition register_operation ::
    "osys \<Rightarrow> Settings \<Rightarrow> string \<Rightarrow> OperationType \<Rightarrow> string \<Rightarrow> string \<Rightarrow> string \<Rightarrow> mgr \<Rightarrow>
       ref res \<times> mgr" where
  "register_operation os cfg oid ty target step msg s =
     (case register_insert os cfg oid ty target step msg s of
        (Inl e, s') \<Rightarrow> (Inl e, s')
      | (Inr (i, p), s') \<Rightarrow> (Inr i, register_finish i p s'))"

text \<open>
  \<open>update_operation\<close>. Its parameter \<open>status\<close> hides the module \<open>fastapi.status\<close>, so building
  the 404 for an unknown operation looks the constant up on the argument instead.
\<close>

definition shadowed_status_error :: "OperationStatus option \<Rightarrow> exc" where
  "shadowed_status_error st =
     AttributeError
       (squote (case st of None \<Rightarrow> ''NoneType'' | Some _ \<Rightarrow> ''OperationStatus'')
        @ '' object has no attribute '' @ squote ''HTTP_404_NOT_FOUND'')"

definition set_opt :: "'a option \<Rightarrow> ('a \<Rightarrow> 'r \<Rightarrow> 'r) \<Rightarrow> 'r \<Rightarrow> 'r" where
  "set_opt v f r = (case v of None \<Rightarrow> r | Some x \<Rightarrow> f x r)"

definition update_operation ::
    "string \<Rightarrow> OperationStatus option \<Rightarrow> string option \<Rightarrow> string option \<Rightarrow> string option \<Rightarrow> bool \<Rightarrow>
       mgr \<Rightarrow> ref res \<times> mgr" where
  "update_operation oid st step msg err completed s =
     (case lookup s oid of
        None \<Rightarrow> (Inl (shadowed_status_error st), s)
      | Some i \<Rightarrow>
          (let (t, s1) = now s;
               s2 = upd_rec i
                 (\<lambda>r. set_opt err (\<lambda>v r. r\<lparr>error := Some v\<rparr>)
                       (set_opt msg (\<lambda>v r. r\<lparr>message := Some v\<rparr>)
                         (set_opt step (\<lambda>v r. r\<lparr>current_step := Some v\<rparr>)
                           (set_opt st (\<lambda>v r. r\<lparr>status := v\<rparr>) (r\<lparr>updated_at := t\<rparr>))))) s1
           in if completed
              then (let (t', s3) = now s2
                    in (Inr i, publish i None (upd_rec i (\<lambda>r. r\<lparr>completed_at := Some t'\<rparr>) s3)))
              else (Inr i, s2)))"


section \<open>Tasks\<close>

definition attach_task :: "string \<Rightarrow> ref \<Rightarrow> mgr \<Rightarrow> mgr" where
  "attach_task oid t s =
     (case lookup s oid of
        None \<Rightarrow> s
      | Some i \<Rightarrow>
          (upd_rec i (\<lambda>r. r\<lparr>task := Some t\<rparr>) s)\<lparr>done_callbacks := done_callbacks s @ [(t, oid)]\<rparr>)"

text \<open>
  \<open>_finalize_task\<close>, the callback of a finished task. \<open>task.cancelled()\<close> and \<open>task.exception()\<close>
  are read off the task's state.
\<close>

definition finalize_outcome :: "string \<Rightarrow> task_state \<Rightarrow> OperationRecord \<Rightarrow> OperationRecord" where
  "finalize_outcome oid ts r =
     (case ts of
        TCancelled \<Rightarrow>
          r\<lparr>status := CANCELLED, current_step := Some ''Cancelled'',
            message := Some (''Operation '' @ squote oid @ '' was cancelled.'')\<rparr>
      | TRaised ty m \<Rightarrow>
          r\<lparr>status := FAILED, current_step := Some ''Failed'', error := Some (ty @ '': '' @ m),
            message := Some (''Operation failed: '' @ ty @ '': '' @ m)\<rparr>
      | _ \<Rightarrow>
          r\<lparr>status := FAILED, current_step := Some ''Failed'',
            error := Some ''Pipeline exited without reporting a final status.'',
            message := Some (''Operation failed: '' @ ''Pipeline exited without reporting a final status.'')\<rparr>)"

definition finalize_task :: "osys \<Rightarrow> Settings \<Rightarrow> string \<Rightarrow> ref \<Rightarrow> mgr \<Rightarrow> unit res \<times> mgr" where
  "finalize_task os cfg oid t s =
     (case lookup s oid of
        None \<Rightarrow> (Inr (), s)
      | Some i \<Rightarrow>
          if task (recs s i) \<noteq> Some t \<or> terminal (status (recs s i)) then (Inr (), s)
          else
            (let s1 = upd_rec i (finalize_outcome oid (tasks s t)) s;
                 (t1, s2) = now s1;
                 (t2, s3) = now s2;
                 s4 = upd_rec i (\<lambda>r. r\<lparr>updated_at := t1, completed_at := Some t2\<rparr>) s3
             in case append_log os cfg oid (the (message (recs s4 i))) s4 of
                  (Inl e, s5) \<Rightarrow> (Inl e, s5)
                | (Inr _, s5) \<Rightarrow> (Inr (), publish i None s5)))"


section \<open>Queries\<close>

record OperationResponse =
  resp_operation_id :: string
  resp_operation_type :: OperationType
  resp_status :: OperationStatus
  resp_target_resource :: string
  resp_current_step :: "string option"
  resp_message :: "string option"
  resp_created_at :: datetime
  resp_updated_at :: datetime
  resp_completed_at :: "datetime option"
  resp_error :: "string option"

definition to_response :: "OperationRecord \<Rightarrow> OperationResponse" where
  "to_response r =
     \<lparr>resp_operation_id = operation_id r, resp_operation_type = operation_type r,
      resp_status = status r, resp_target_resource = target_resource r,
      resp_current_step = current_step r, resp_message = message r,
      resp_created_at = created_at r, resp_updated_at = updated_at r,
      resp_completed_at = completed_at r, resp_error = error r\<rparr>"

definition get_operation :: "mgr \<Rightarrow> string \<Rightarrow> OperationResponse option" where
  "get_operation s oid = map_option (\<lambda>i. to_response (recs s i)) (lookup s oid)"

definition list_operations :: "mgr \<Rightarrow> OperationResponse list" where
  "list_operations s = map (\<lambda>(_, i). to_response (recs s i)) (operations s)"

text \<open>\<open>lines[-tail:]\<close> when \<open>tail\<close> is given and positive.\<close>

definition tail_lines :: "int option \<Rightarrow> string list \<Rightarrow> string list" where
  "tail_lines tail lines =
     (case tail of None \<Rightarrow> lines | Some n \<Rightarrow> if n \<noteq> 0 \<and> n > 0 then last_n (nat n) lines else lines)"

definition get_logs ::
    "osys \<Rightarrow> Settings \<Rightarrow> string \<Rightarrow> int option \<Rightarrow> mgr \<Rightarrow> (string list) res \<times> mgr" where
  "get_logs os cfg oid tail s =
     (case get_log_file_path os cfg oid of
        Inl e \<Rightarrow> (Inl e, s)
      | Inr p \<Rightarrow>
          (let (from_file, s1) =
                 (case files s p of
                    None \<Rightarrow> (None, s)
                  | Some txt \<Rightarrow>
                      (let (ok, s') = try_io s
                       in (if ok then Some (map rstrip (file_lines txt)) else None, s')))
           in case from_file of
                Some lines \<Rightarrow> (Inr (tail_lines tail lines), s1)
              | None \<Rightarrow>
                  (case lookup s1 oid of
                     None \<Rightarrow>
                       (Inl (HTTPException 404
                          (''Logs for operation '' @ squote oid @ '' not found.'')), s1)
                   | Some i \<Rightarrow> (Inr (tail_lines tail (elems (log_buffer (recs s1 i)))), s1))))"


section \<open>Streaming\<close>

text \<open>
  \<open>stream_logs\<close> is a generator; its atomic pieces are opening it (which subscribes and takes
  the snapshot in one go), the drain of a finished operation, one wait on the queue, and the
  \<open>finally\<close> clause.
\<close>

definition stream_open :: "string \<Rightarrow> mgr \<Rightarrow> (ref \<times> ref \<times> string list) res \<times> mgr" where
  "stream_open oid s =
     (case lookup s oid of
        None \<Rightarrow> (Inl (HTTPException 404 (''Operation '' @ squote oid @ '' not found.'')), s)
      | Some i \<Rightarrow>
          (let q = next_queue s;
               s1 = s\<lparr>queues := (queues s)(q := aqueue_new 100), next_queue := Suc q\<rparr>;
               s2 = upd_rec i (\<lambda>r. r\<lparr>subscribers := subscribers r @ [q]\<rparr>) s1
           in (Inr (i, q, elems (log_buffer (recs s2 i))), s2)))"

fun drain :: "string list \<Rightarrow> string option list \<Rightarrow> string list" where
  "drain seen [] = []"
| "drain seen (None # q) = []"
| "drain seen (Some l # q) = (if l \<in> set seen then drain seen q else l # drain seen q)"

text \<open>What waits on the queue deliver: the lines up to the sentinel, and whether it came.\<close>

fun live_lines :: "string option list \<Rightarrow> string list" where
  "live_lines [] = []"
| "live_lines (None # q) = []"
| "live_lines (Some l # q) = l # live_lines q"

definition stream_close :: "ref \<Rightarrow> ref \<Rightarrow> mgr \<Rightarrow> mgr" where
  "stream_close i q s = upd_rec i (\<lambda>r. r\<lparr>subscribers := remove1 q (subscribers r)\<rparr>) s"


section \<open>Cancelling\<close>

record OperationCancelResponse =
  cancel_success :: bool
  cancel_operation_id :: string
  cancel_status :: OperationStatus
  cancel_message :: string

fun task_done :: "task_state \<Rightarrow> bool" where
  "task_done (TPending _) = False"
| "task_done _ = True"

text \<open>
  Signalling the process group, and the timer that kills it two seconds later. A failing
  \<open>killpg\<close> is logged only, so the attempt is what the state records.
\<close>

definition terminate_process :: "ref \<Rightarrow> mgr \<Rightarrow> mgr" where
  "terminate_process i s =
     (case process (recs s i) of
        None \<Rightarrow> s
      | Some p \<Rightarrow>
          if returncode (procs s p) = None
          then s\<lparr>signals := signals s @ [(pid (procs s p), SIGTERM)],
                 kill_timers := kill_timers s @ [(p, pid (procs s p))]\<rparr>
          else s)"

definition force_kill :: "ref \<Rightarrow> int \<Rightarrow> mgr \<Rightarrow> mgr" where
  "force_kill p proc_pid s =
     (if returncode (procs s p) = None
      then s\<lparr>signals := signals s @ [(proc_pid, SIGKILL)]\<rparr> else s)"

definition cancel_task :: "ref \<Rightarrow> mgr \<Rightarrow> mgr" where
  "cancel_task i s =
     (case task (recs s i) of
        None \<Rightarrow> s
      | Some t \<Rightarrow>
          if \<not> task_done (tasks s t) then s\<lparr>tasks := (tasks s)(t := TPending True)\<rparr> else s)"

definition cancel_operation ::
    "osys \<Rightarrow> Settings \<Rightarrow> string \<Rightarrow> mgr \<Rightarrow> OperationCancelResponse res \<times> mgr" where
  "cancel_operation os cfg oid s =
     (case lookup s oid of
        None \<Rightarrow> (Inl (HTTPException 404 (''Operation '' @ squote oid @ '' not found.'')), s)
      | Some i \<Rightarrow>
          if terminal (status (recs s i))
          then (Inr \<lparr>cancel_success = False, cancel_operation_id = oid,
                     cancel_status = status (recs s i),
                     cancel_message = ''Operation '' @ squote oid
                       @ '' has already finished with status ''
                       @ squote (status_str (status (recs s i))) @ ''.''\<rparr>, s)
          else
            (let msg = ''Operation '' @ squote oid
                         @ '' was cancelled and background processes terminated.'';
                 (t1, s1) = now (upd_rec i (\<lambda>r. r\<lparr>status := CANCELLED\<rparr>) s);
                 (t2, s2) = now s1;
                 s3 = upd_rec i
                   (\<lambda>r. r\<lparr>completed_at := Some t1, message := Some msg, updated_at := t2\<rparr>) s2;
                 s4 = cancel_task i (terminate_process i s3)
             in case append_log os cfg oid (stamp t1 @ ''Operation cancelled by user request.'') s4 of
                  (Inl e, s5) \<Rightarrow> (Inl e, s5)
                | (Inr _, s5) \<Rightarrow>
                    (Inr \<lparr>cancel_success = True, cancel_operation_id = oid,
                          cancel_status = CANCELLED, cancel_message = msg\<rparr>, publish i None s5)))"

definition reset :: "mgr \<Rightarrow> mgr" where
  "reset s = s\<lparr>operations := []\<rparr>"

end
