(* ===== verification/Operation_Lemmas.thy ===== *)
theory Operation_Lemmas
  imports Operations
begin

text \<open>
  What each operation of the manager does to the parts of the state that matter to others.
  Logging and publishing touch log buffers, subscriber queues, files and the tick counter
  only (\<open>log_only\<close>); every other operation is described by its effect on the record it names.
\<close>

named_theorems mgr_frame \<open>components of the manager's state an operation leaves alone\<close>

section \<open>Statuses\<close>

lemma terminal_iff_not_active: "terminal st \<longleftrightarrow> \<not> active st"
  by (cases st) simp_all

lemma status_cases: "active st \<or> terminal st"
  by (cases st) simp_all


section \<open>Steps that only log\<close>

definition log_only :: "mgr \<Rightarrow> mgr \<Rightarrow> bool" where
  "log_only s s' \<longleftrightarrow>
     operations s' = operations s \<and> next_rec s' = next_rec s \<and> next_queue s' = next_queue s \<and>
     procs s' = procs s \<and> tasks s' = tasks s \<and> done_callbacks s' = done_callbacks s \<and>
     signals s' = signals s \<and> kill_timers s' = kill_timers s \<and>
     clock s' = clock s \<and> io_ok s' = io_ok s \<and>
     (\<forall>j. recs s' j = (recs s j)\<lparr>log_buffer := log_buffer (recs s' j)\<rparr>)"

lemma log_only_refl [simp, intro]: "log_only s s"
  by (simp add: log_only_def)

lemma log_only_trans: "log_only s s1 \<Longrightarrow> log_only s1 s2 \<Longrightarrow> log_only s s2"
  unfolding log_only_def
  by (metis (no_types, lifting) OperationRecord.surjective OperationRecord.update_convs(11))

lemma log_only_frame [mgr_frame]:
  assumes "log_only s s'"
  shows "operations s' = operations s" and "next_rec s' = next_rec s"
    and "tasks s' = tasks s" and "done_callbacks s' = done_callbacks s"
    and "procs s' = procs s" and "clock s' = clock s" and "lookup s' = lookup s"
    and "signals s' = signals s" and "kill_timers s' = kill_timers s"
    and "next_queue s' = next_queue s"
  using assms by (simp_all add: log_only_def lookup_def fun_eq_iff)

lemma log_only_recs [mgr_frame]:
  assumes "log_only s s'"
  shows "operation_id (recs s' j) = operation_id (recs s j)"
    and "operation_type (recs s' j) = operation_type (recs s j)"
    and "target_resource (recs s' j) = target_resource (recs s j)"
    and "status (recs s' j) = status (recs s j)"
    and "current_step (recs s' j) = current_step (recs s j)"
    and "message (recs s' j) = message (recs s j)"
    and "created_at (recs s' j) = created_at (recs s j)"
    and "updated_at (recs s' j) = updated_at (recs s j)"
    and "completed_at (recs s' j) = completed_at (recs s j)"
    and "error (recs s' j) = error (recs s j)"
    and "subscribers (recs s' j) = subscribers (recs s j)"
    and "process (recs s' j) = process (recs s j)"
    and "task (recs s' j) = task (recs s j)"
proof -
  obtain b where "recs s' j = (recs s j)\<lparr>log_buffer := b\<rparr>"
    using assms unfolding log_only_def by blast
  then show "operation_id (recs s' j) = operation_id (recs s j)"
    and "operation_type (recs s' j) = operation_type (recs s j)"
    and "target_resource (recs s' j) = target_resource (recs s j)"
    and "status (recs s' j) = status (recs s j)"
    and "current_step (recs s' j) = current_step (recs s j)"
    and "message (recs s' j) = message (recs s j)"
    and "created_at (recs s' j) = created_at (recs s j)"
    and "updated_at (recs s' j) = updated_at (recs s j)"
    and "completed_at (recs s' j) = completed_at (recs s j)"
    and "error (recs s' j) = error (recs s j)"
    and "subscribers (recs s' j) = subscribers (recs s j)"
    and "process (recs s' j) = process (recs s j)"
    and "task (recs s' j) = task (recs s j)"
    by simp_all
qed

lemma log_only_now: "log_only s (snd (now s))"
  by (simp add: now_def log_only_def)

lemma log_only_publish: "log_only s (publish i item s)"
  by (simp add: publish_def log_only_def)

lemma log_only_append_file: "log_only s (append_file p txt s)"
  by (simp add: append_file_def try_io_def log_only_def)

lemma log_only_write_file: "log_only s (write_file p txt s)"
  by (simp add: write_file_def try_io_def log_only_def)

lemma log_only_buffer: "log_only s (upd_rec i (\<lambda>r. r\<lparr>log_buffer := f r\<rparr>) s)"
  by (simp add: upd_rec_def log_only_def)

lemmas log_only_basic =
  log_only_now log_only_publish log_only_append_file log_only_write_file log_only_buffer

text \<open>Appending a log line, whether it raises or not, is such a step.\<close>

lemma log_only_append_log: "log_only s (snd (append_log os cfg oid line s))"
proof -
  let ?l = "rstrip line"
  have buf: "log_only s (upd_rec i (\<lambda>r. r\<lparr>log_buffer := f r\<rparr>) s1)"
    if "log_only s s1" for i f s1
    using log_only_trans [OF that log_only_buffer] .
  have out: "log_only s (publish i x (append_file p y (upd_rec i (\<lambda>r. r\<lparr>log_buffer := f r\<rparr>) s1)))"
    if "log_only s s1" for i f s1 p x y
    by (rule log_only_trans [OF log_only_trans [OF buf [OF that] log_only_append_file] log_only_publish])
  note nw = log_only_now [of s]
  show ?thesis
    using buf [OF log_only_refl] out [OF log_only_refl] buf [OF nw] out [OF nw]
    by (auto simp: append_log_def Let_def now_def split: option.split sum.split)
qed

lemma append_log_ok:
  assumes "get_log_file_path os cfg oid = Inr p"
  shows "\<exists>s'. append_log os cfg oid line s = (Inr (), s')"
  using assms by (auto simp: append_log_def Let_def split: option.split prod.split)

lemmas append_log_frame =
  log_only_frame [OF log_only_append_log] log_only_recs [OF log_only_append_log]
lemmas publish_frame =
  log_only_frame [OF log_only_publish] log_only_recs [OF log_only_publish]
lemmas now_frame =
  log_only_frame [OF log_only_now] log_only_recs [OF log_only_now]


section \<open>Registering\<close>

lemma find_conflict_None:
  "find_conflict s target = None \<longleftrightarrow>
     (\<forall>(k, i) \<in> set (operations s).
        target_resource (recs s i) = target \<longrightarrow> \<not> active (status (recs s i)))"
  by (auto simp: find_conflict_def find_None_iff)

lemma find_conflict_Some:
  assumes "find_conflict s target = Some i"
  shows "\<exists>k. (k, i) \<in> set (operations s) \<and> target_resource (recs s i) = target \<and> active (status (recs s i))"
  using assms by (auto simp: find_conflict_def find_Some_iff) (metis nth_mem)

text \<open>The record a registration creates, before its first log line.\<close>

definition fresh_record ::
    "string \<Rightarrow> OperationType \<Rightarrow> string \<Rightarrow> string \<Rightarrow> string \<Rightarrow> nat \<Rightarrow> mgr \<Rightarrow> OperationRecord" where
  "fresh_record oid ty target step msg n s = fst (new_record oid ty target step msg n s)"

lemma fresh_record_sel [simp]:
  "operation_id (fresh_record oid ty target step msg n s) = oid"
  "operation_type (fresh_record oid ty target step msg n s) = ty"
  "target_resource (fresh_record oid ty target step msg n s) = target"
  "status (fresh_record oid ty target step msg n s) = QUEUED"
  "current_step (fresh_record oid ty target step msg n s) = Some step"
  "message (fresh_record oid ty target step msg n s) = Some msg"
  "created_at (fresh_record oid ty target step msg n s) = clock s (ticks s)"
  "updated_at (fresh_record oid ty target step msg n s) = clock s (Suc (ticks s))"
  "completed_at (fresh_record oid ty target step msg n s) = None"
  "error (fresh_record oid ty target step msg n s) = None"
  "log_buffer (fresh_record oid ty target step msg n s) = deque_new n"
  "subscribers (fresh_record oid ty target step msg n s) = []"
  "process (fresh_record oid ty target step msg n s) = None"
  "task (fresh_record oid ty target step msg n s) = None"
  by (simp_all add: fresh_record_def new_record_def now_def)

lemma register_insert_conflict:
  "find_conflict s target = Some i \<Longrightarrow>
     register_insert os cfg oid ty target step msg s = (Inl (conflict_exc (recs s i) target), s)"
  by (simp add: register_insert_def)

lemma register_insert_new:
  assumes "find_conflict s target = None"
  shows "register_insert os cfg oid ty target step msg s =
     (case get_log_file_path os cfg oid of
        Inl e \<Rightarrow> Inl e | Inr p \<Rightarrow> Inr (next_rec s, p),
      s\<lparr>ticks := Suc (Suc (ticks s)),
        recs := (recs s)(next_rec s :=
          fresh_record oid ty target step msg (max_log_buffer_lines cfg) s),
        next_rec := Suc (next_rec s),
        operations := dict_set (operations s) oid (next_rec s)\<rparr>)"
  using assms
  by (simp add: register_insert_def fresh_record_def new_record_def now_def Let_def
        split: sum.split)

lemma log_only_register_finish: "log_only s (register_finish i p s)"
  unfolding register_finish_def Let_def
  by (rule log_only_trans [OF log_only_write_file log_only_buffer])

lemmas register_finish_frame =
  log_only_frame [OF log_only_register_finish] log_only_recs [OF log_only_register_finish]


lemma register_operation_new:
  assumes "find_conflict s target = None" and "get_log_file_path os cfg oid = Inr p"
    and "register_operation os cfg oid ty target step msg s = (r, s')"
  shows "r = Inr (next_rec s)"
    and "lookup s' k = (if k = oid then Some (next_rec s) else lookup s k)"
    and "status (recs s' (next_rec s)) = QUEUED" and "task (recs s' (next_rec s)) = None"
    and "target_resource (recs s' (next_rec s)) = target" and "tasks s' = tasks s"
    and "done_callbacks s' = done_callbacks s"
proof -
  define m where "m = s\<lparr>ticks := Suc (Suc (ticks s)), recs := (recs s)(next_rec s :=
        fresh_record oid ty target step msg (max_log_buffer_lines cfg) s),
      next_rec := Suc (next_rec s), operations := dict_set (operations s) oid (next_rec s)\<rparr>"
  have eq: "r = Inr (next_rec s)" "s' = register_finish (next_rec s) p m"
    using assms by (auto simp: register_operation_def register_insert_new m_def)
  show "r = Inr (next_rec s)" by (rule eq)
  show "lookup s' k = (if k = oid then Some (next_rec s) else lookup s k)"
    "status (recs s' (next_rec s)) = QUEUED" "task (recs s' (next_rec s)) = None"
    "target_resource (recs s' (next_rec s)) = target" "tasks s' = tasks s"
    "done_callbacks s' = done_callbacks s"
    unfolding eq(2) by (simp_all add: register_finish_frame) (simp_all add: m_def lookup_def)
qed


section \<open>Updating\<close>

lemma update_operation_unknown:
  "lookup s oid = None \<Longrightarrow>
     update_operation oid st step msg err completed s = (Inl (shadowed_status_error st), s)"
  by (simp add: update_operation_def)

lemma set_opt_simps [simp]: "set_opt None f r = r" "set_opt (Some x) f r = f x r"
  by (simp_all add: set_opt_def)

lemma upd_rec_frame [simp]:
  "operations (upd_rec i f s) = operations s" "next_rec (upd_rec i f s) = next_rec s"
  "tasks (upd_rec i f s) = tasks s" "done_callbacks (upd_rec i f s) = done_callbacks s"
  "procs (upd_rec i f s) = procs s" "clock (upd_rec i f s) = clock s"
  "signals (upd_rec i f s) = signals s" "kill_timers (upd_rec i f s) = kill_timers s"
  "next_queue (upd_rec i f s) = next_queue s" "queues (upd_rec i f s) = queues s"
  "files (upd_rec i f s) = files s" "ticks (upd_rec i f s) = ticks s"
  "io_ok (upd_rec i f s) = io_ok s"
  "lookup (upd_rec i f s) = lookup s"
  by (simp_all add: upd_rec_def lookup_def fun_eq_iff)

lemma upd_rec_recs: "recs (upd_rec i f s) j = (if j = i then f (recs s i) else recs s j)"
  by (simp add: upd_rec_def)

text \<open>The effect of an update on a known operation, field by field.\<close>

lemma update_operation_known:
  assumes "lookup s oid = Some i"
    and s': "s' = snd (update_operation oid st step msg err completed s)"
  shows "fst (update_operation oid st step msg err completed s) = Inr i"
    and "operations s' = operations s" and "next_rec s' = next_rec s" and "tasks s' = tasks s"
    and "done_callbacks s' = done_callbacks s" and "procs s' = procs s"
    and "signals s' = signals s"
    and "\<And>j. j \<noteq> i \<Longrightarrow> recs s' j = recs s j"
    and "status (recs s' i) = (case st of None \<Rightarrow> status (recs s i) | Some v \<Rightarrow> v)"
    and "operation_id (recs s' i) = operation_id (recs s i)"
    and "target_resource (recs s' i) = target_resource (recs s i)"
    and "task (recs s' i) = task (recs s i)"
    and "log_buffer (recs s' i) = log_buffer (recs s i)"
    and "(completed_at (recs s' i) = None) = (\<not> completed \<and> completed_at (recs s i) = None)"
  using assms
  by (auto simp: update_operation_def now_def publish_def upd_rec_recs set_opt_def Let_def
        split: option.splits)


lemma update_operation_text:
  assumes "lookup s oid = Some i"
    and s': "s' = snd (update_operation oid st step msg err completed s)"
  shows "current_step (recs s' i) = (case step of None \<Rightarrow> current_step (recs s i) | Some v \<Rightarrow> Some v)"
    and "message (recs s' i) = (case msg of None \<Rightarrow> message (recs s i) | Some v \<Rightarrow> Some v)"
    and "error (recs s' i) = (case err of None \<Rightarrow> error (recs s i) | Some v \<Rightarrow> Some v)"
    and "operation_type (recs s' i) = operation_type (recs s i)"
  using assms
  by (auto simp: update_operation_def now_def publish_def upd_rec_recs set_opt_def Let_def
        split: option.splits)


section \<open>Finalising\<close>

lemma finalize_outcome_sel [simp]:
  "terminal (status (finalize_outcome oid ts r))"
  "operation_id (finalize_outcome oid ts r) = operation_id r"
  "target_resource (finalize_outcome oid ts r) = target_resource r"
  "task (finalize_outcome oid ts r) = task r"
  "log_buffer (finalize_outcome oid ts r) = log_buffer r"
  "subscribers (finalize_outcome oid ts r) = subscribers r"
  "message (finalize_outcome oid ts r) \<noteq> None"
  by (simp_all add: finalize_outcome_def split: task_state.split)

lemma finalize_task_skip:
  "lookup s oid = None \<or> lookup s oid = Some i \<and> (task (recs s i) \<noteq> Some t \<or> terminal (status (recs s i))) \<Longrightarrow>
     finalize_task os cfg oid t s = (Inr (), s)"
  by (auto simp: finalize_task_def)

lemma finalize_task_acts:
  assumes "lookup s oid = Some i" and "task (recs s i) = Some t" and "active (status (recs s i))"
  obtains s4 where "recs s4 = (recs s)(i := (finalize_outcome oid (tasks s t) (recs s i))
        \<lparr>updated_at := clock s (ticks s), completed_at := Some (clock s (Suc (ticks s)))\<rparr>)"
    and "operations s4 = operations s" and "next_rec s4 = next_rec s" and "tasks s4 = tasks s"
    and "done_callbacks s4 = done_callbacks s" and "procs s4 = procs s"
    and "log_only s4 (snd (finalize_task os cfg oid t s))"
proof -
  let ?s4 = "upd_rec i (\<lambda>r. r\<lparr>updated_at := clock s (ticks s), completed_at := Some (clock s (Suc (ticks s)))\<rparr>)
     ((upd_rec i (finalize_outcome oid (tasks s t)) s)\<lparr>ticks := Suc (Suc (ticks s))\<rparr>)"
  let ?a = "append_log os cfg oid (the (message (recs ?s4 i))) ?s4"
  have "finalize_task os cfg oid t s =
      (case ?a of (Inl e, s5) \<Rightarrow> (Inl e, s5) | (Inr _, s5) \<Rightarrow> (Inr (), publish i None s5))"
    using assms by (simp add: finalize_task_def terminal_iff_not_active now_def Let_def)
  moreover have "log_only ?s4 (snd ?a)" by (rule log_only_append_log)
  ultimately have "log_only ?s4 (snd (finalize_task os cfg oid t s))"
    using log_only_trans log_only_publish by (auto split: prod.split sum.split)
  then show ?thesis
    by (intro that [of ?s4]) (simp_all add: upd_rec_def fun_eq_iff)
qed

lemma finalize_task_tasks: "tasks (snd (finalize_task os cfg oid t s)) = tasks s"
proof (cases "\<exists>i. lookup s oid = Some i \<and> task (recs s i) = Some t \<and> active (status (recs s i))")
  case True
  then obtain i where i: "lookup s oid = Some i" "task (recs s i) = Some t" "active (status (recs s i))"
    by blast
  show ?thesis by (rule finalize_task_acts [OF i, of os cfg]) (simp add: log_only_frame(3))
next
  case False
  then have "finalize_task os cfg oid t s = (Inr (), s)"
    by (cases "lookup s oid") (auto intro!: finalize_task_skip simp: terminal_iff_not_active)
  then show ?thesis by simp
qed


section \<open>Cancelling\<close>

lemma cancel_task_frame [simp]:
  "operations (cancel_task i s) = operations s" "next_rec (cancel_task i s) = next_rec s"
  "recs (cancel_task i s) = recs s" "done_callbacks (cancel_task i s) = done_callbacks s"
  "procs (cancel_task i s) = procs s" "signals (cancel_task i s) = signals s"
  "kill_timers (cancel_task i s) = kill_timers s" "lookup (cancel_task i s) = lookup s"
  by (auto simp: cancel_task_def lookup_def fun_eq_iff split: option.split)

lemma terminate_process_frame [simp]:
  "operations (terminate_process i s) = operations s" "next_rec (terminate_process i s) = next_rec s"
  "recs (terminate_process i s) = recs s" "tasks (terminate_process i s) = tasks s"
  "done_callbacks (terminate_process i s) = done_callbacks s"
  "procs (terminate_process i s) = procs s" "lookup (terminate_process i s) = lookup s"
  by (auto simp: terminate_process_def lookup_def fun_eq_iff split: option.split)

definition flag_task :: "ref option \<Rightarrow> (ref \<Rightarrow> task_state) \<Rightarrow> ref \<Rightarrow> task_state" where
  "flag_task t ts =
     (case t of None \<Rightarrow> ts | Some u \<Rightarrow> if task_done (ts u) then ts else ts(u := TPending True))"

lemma tasks_cancel_task: "tasks (cancel_task i s) = flag_task (task (recs s i)) (tasks s)"
  by (auto simp: cancel_task_def flag_task_def split: option.split)

lemma cancel_operation_acts:
  assumes "lookup s oid = Some i" and "active (status (recs s i))"
  obtains s4 m where "recs s4 = (recs s)(i := (recs s i)\<lparr>status := CANCELLED,
        completed_at := Some (clock s (ticks s)), message := Some m,
        updated_at := clock s (Suc (ticks s))\<rparr>)"
    and "operations s4 = operations s" and "next_rec s4 = next_rec s"
    and "tasks s4 = flag_task (task (recs s i)) (tasks s)"
    and "done_callbacks s4 = done_callbacks s" and "procs s4 = procs s"
    and "log_only s4 (snd (cancel_operation os cfg oid s))"
proof -
  define m where "m = ''Operation '' @ squote oid @ '' was cancelled and background processes terminated.''"
  define s3 where "s3 = upd_rec i
     (\<lambda>r. r\<lparr>completed_at := Some (clock s (ticks s)), message := Some m, updated_at := clock s (Suc (ticks s))\<rparr>)
     ((upd_rec i (\<lambda>r. r\<lparr>status := CANCELLED\<rparr>) s)\<lparr>ticks := Suc (Suc (ticks s))\<rparr>)"
  define s4 where "s4 = cancel_task i (terminate_process i s3)"
  let ?a = "append_log os cfg oid (stamp (clock s (ticks s)) @ ''Operation cancelled by user request.'') s4"
  have "snd (cancel_operation os cfg oid s) =
      (case ?a of (Inl e, s5) \<Rightarrow> s5 | (Inr _, s5) \<Rightarrow> publish i None s5)"
    using assms
    by (simp add: cancel_operation_def terminal_iff_not_active now_def Let_def s4_def s3_def m_def
          split: prod.split sum.split)
  moreover have "log_only s4 (snd ?a)" by (rule log_only_append_log)
  ultimately have lo: "log_only s4 (snd (cancel_operation os cfg oid s))"
    using log_only_trans log_only_publish by (auto split: prod.split sum.split)
  show ?thesis
  proof (rule that [of s4 m])
    show "recs s4 = (recs s)(i := (recs s i)\<lparr>status := CANCELLED,
        completed_at := Some (clock s (ticks s)), message := Some m,
        updated_at := clock s (Suc (ticks s))\<rparr>)"
      by (simp add: s4_def s3_def upd_rec_def)
    show "tasks s4 = flag_task (task (recs s i)) (tasks s)"
      by (simp add: s4_def tasks_cancel_task s3_def upd_rec_def)
    show "log_only s4 (snd (cancel_operation os cfg oid s))" by (rule lo)
  qed (simp_all add: s4_def s3_def)
qed

lemma cancel_operation_skip:
  "lookup s oid = None \<or> lookup s oid = Some i \<and> terminal (status (recs s i)) \<Longrightarrow>
     snd (cancel_operation os cfg oid s) = s"
  by (auto simp: cancel_operation_def)


section \<open>Attaching\<close>

lemma attach_task_known:
  "lookup s oid = Some i \<Longrightarrow>
     attach_task oid t s =
       (upd_rec i (\<lambda>r. r\<lparr>task := Some t\<rparr>) s)\<lparr>done_callbacks := done_callbacks s @ [(t, oid)]\<rparr>"
  by (simp add: attach_task_def)

end
