(* ===== verification/Line_Stream.thy ===== *)
theory Line_Stream
  imports Gem_Prelude
begin

text \<open>
  The loop of \<open>ProcessRunner._execute_command\<close> (\<open>api/gem_api/services/runner.py\<close>) that cuts the
  output of a subprocess into lines: chunks of any size arrive, complete lines are handed on
  as soon as they are there, an unterminated rest is handed on at the end of the output or
  when it grows beyond one mebibyte. The loop is stated over an arbitrary state, the handler
  of a complete line, the handler of an unterminated rest, and what happens while it waits
  for a chunk (whether it is cancelled there, and the state afterwards).
\<close>

section \<open>The loop\<close>

abbreviation nl :: char where "nl \<equiv> CHR 0x0A"

function drain_buffer :: "(string \<Rightarrow> 's \<Rightarrow> unit res \<times> 's) \<Rightarrow> string \<Rightarrow> 's \<Rightarrow> string res \<times> 's" where
  "drain_buffer h buf s =
     (if nl \<in> set buf
      then (let line = takeWhile (\<lambda>c. c \<noteq> nl) buf;
                rest = drop (Suc (length line)) buf
            in case h line s of
                 (Inl e, s') \<Rightarrow> (Inl e, s')
               | (Inr _, s') \<Rightarrow> drain_buffer h rest s')
      else (Inr buf, s))"
  by pat_completeness auto
termination
  by (relation "measure (\<lambda>(h, buf, s). length buf)") (auto dest: length_pos_if_in_set)

declare drain_buffer.simps [simp del]

definition max_partial :: nat where
  "max_partial = 1024 * 1024"

definition at_eof :: "(string \<Rightarrow> 's \<Rightarrow> unit res \<times> 's) \<Rightarrow> string \<Rightarrow> 's \<Rightarrow> unit res \<times> 's" where
  "at_eof hp buf s = (if buf = [] then (Inr (), s) else hp buf s)"

fun read_loop ::
    "(string \<Rightarrow> 's \<Rightarrow> unit res \<times> 's) \<Rightarrow> (string \<Rightarrow> 's \<Rightarrow> unit res \<times> 's) \<Rightarrow> ('s \<Rightarrow> bool \<times> 's) \<Rightarrow>
       string list \<Rightarrow> string \<Rightarrow> 's \<Rightarrow> unit res \<times> 's" where
  "read_loop h hp aw [] buf s =
     (case aw s of (cancelled, s1) \<Rightarrow> if cancelled then (Inl CancelledError, s1) else at_eof hp buf s1)"
| "read_loop h hp aw (c # cs) buf s =
     (case aw s of (cancelled, s1) \<Rightarrow>
        if cancelled then (Inl CancelledError, s1)
        else if c = [] then at_eof hp buf s1
        else (case drain_buffer h (buf @ c) s1 of
                (Inl e, s2) \<Rightarrow> (Inl e, s2)
              | (Inr rest, s2) \<Rightarrow>
                  if length rest > max_partial \<and> nl \<notin> set rest
                  then (case hp rest s2 of
                          (Inl e, s3) \<Rightarrow> (Inl e, s3)
                        | (Inr _, s3) \<Rightarrow> read_loop h hp aw cs [] s3)
                  else read_loop h hp aw cs rest s2))"


section \<open>Chunk boundaries do not matter\<close>

lemma drain_no_nl [simp]: "nl \<notin> set buf \<Longrightarrow> drain_buffer h buf s = (Inr buf, s)"
  by (simp add: drain_buffer.simps)

lemma drain_line:
  "nl \<notin> set l \<Longrightarrow> drain_buffer h (l @ nl # b) s =
     (case h l s of (Inl e, s') \<Rightarrow> (Inl e, s') | (Inr _, s') \<Rightarrow> drain_buffer h b s')"
proof -
  assume "nl \<notin> set l"
  then have "takeWhile (\<lambda>c. c \<noteq> nl) (l @ nl # b) = l"
    by (simp add: takeWhile_append takeWhile_eq_all_conv)
  moreover have "drop (Suc (length l)) (l @ nl # b) = b" by simp
  ultimately show ?thesis by (subst drain_buffer.simps) (simp only: Let_def, simp)
qed

lemma nl_split: "nl \<in> set b \<Longrightarrow> \<exists>l r. b = l @ nl # r \<and> nl \<notin> set l"
  by (metis split_list_first)

lemma drain_rest:
  assumes "drain_buffer h b s = (Inr rest, s')"
  shows "nl \<notin> set rest" and "length rest \<le> length b"
proof -
  have "drain_buffer h b s = (Inr rest, s') \<Longrightarrow> nl \<notin> set rest \<and> length rest \<le> length b"
  proof (induction b arbitrary: s rule: length_induct)
    case (1 b)
    show ?case
    proof (cases "nl \<in> set b")
      case True
      then obtain l r where b: "b = l @ nl # r" "nl \<notin> set l" using nl_split by blast
      with "1.prems" obtain s1 where "drain_buffer h r s1 = (Inr rest, s')"
        by (auto simp: drain_line split: prod.splits sum.splits)
      moreover have "length r < length b" using b by simp
      ultimately have "nl \<notin> set rest \<and> length rest \<le> length r" using "1.IH" by blast
      with b show ?thesis by simp
    next
      case False
      with "1.prems" show ?thesis by auto
    qed
  qed
  with assms show "nl \<notin> set rest" and "length rest \<le> length b" by auto
qed

text \<open>Draining in two goes is draining in one: what is left over is put in front of the rest.\<close>

lemma drain_append:
  "drain_buffer h (a @ b) s =
     (case drain_buffer h a s of
        (Inl e, s') \<Rightarrow> (Inl e, s') | (Inr rest, s') \<Rightarrow> drain_buffer h (rest @ b) s')"
proof (induction a arbitrary: s rule: length_induct)
  case (1 a)
  show ?case
  proof (cases "nl \<in> set a")
    case True
    then obtain l r where a: "a = l @ nl # r" "nl \<notin> set l" using nl_split by blast
    with "1.IH" have "drain_buffer h (r @ b) s1 =
        (case drain_buffer h r s1 of
           (Inl e, s') \<Rightarrow> (Inl e, s') | (Inr rest, s') \<Rightarrow> drain_buffer h (rest @ b) s')" for s1
      by simp
    with a show ?thesis
      by (simp add: drain_line split: prod.split sum.split)
  qed simp
qed

text \<open>Handing the whole output on at once: every line, then the unterminated rest.\<close>

definition feed ::
    "(string \<Rightarrow> 's \<Rightarrow> unit res \<times> 's) \<Rightarrow> (string \<Rightarrow> 's \<Rightarrow> unit res \<times> 's) \<Rightarrow> string \<Rightarrow> 's \<Rightarrow> unit res \<times> 's" where
  "feed h hp out s =
     (case drain_buffer h out s of (Inl e, s') \<Rightarrow> (Inl e, s') | (Inr rest, s') \<Rightarrow> at_eof hp rest s')"

lemma read_loop_feed:
  assumes "\<forall>c \<in> set cs. c \<noteq> []" and "length buf + length (concat cs) \<le> max_partial"
    and "nl \<notin> set buf"
  shows "read_loop h hp (\<lambda>s. (False, s)) cs buf s = feed h hp (buf @ concat cs) s"
  using assms
proof (induction cs arbitrary: buf s)
  case Nil
  then show ?case by (simp add: feed_def)
next
  case (Cons c cs)
  show ?case
  proof (cases "drain_buffer h (buf @ c) s")
    case (Pair r s2)
    show ?thesis
    proof (cases r)
      case (Inl e)
      with Pair Cons.prems(1) show ?thesis
        using drain_append [of h "buf @ c" "concat cs" s] by (simp add: feed_def)
    next
      case (Inr rest)
      with Pair have "drain_buffer h (buf @ c) s = (Inr rest, s2)" by simp
      note rest = drain_rest [OF this]
      have small: "length rest + length (concat cs) \<le> max_partial"
        using rest(2) Cons.prems(2) by simp
      then have "read_loop h hp (\<lambda>s. (False, s)) cs rest s2 = feed h hp (rest @ concat cs) s2"
        using Cons rest(1) by simp
      with Pair Inr Cons.prems(1) small show ?thesis
        using drain_append [of h "buf @ c" "concat cs" s] by (simp add: feed_def)
    qed
  qed
qed



end
