(* ===== verification/Runner.thy ===== *)
theory Runner
  imports Gcp_Context Operation_Lemmas Line_Stream
begin

text \<open>
  \<open>ProcessRunner\<close> of \<open>api/gem_api/services/runner.py\<close>: running the Terraform and Ansible
  pipelines against the operation manager. A pipeline is a coroutine run by a task \<open>t\<close>. At
  every \<open>await\<close> the other coroutines of the process may run and change the manager's state;
  when they have requested the cancellation of \<open>t\<close>, the \<open>await\<close> raises \<open>CancelledError\<close>.
  What they do, how the operating system starts a command (and what it prints and returns),
  and the decoding of its bytes are parameters, collected in the record \<open>rt\<close>; so are the
  process environment and the loaded group variables.
\<close>

section \<open>The world of a pipeline\<close>

text \<open>A started command: its process object, the chunks read from its output, its return code.\<close>

record spawned =
  sp_ref :: ref
  sp_pid :: int
  sp_chunks :: "string list"
  sp_rc :: int

record rt =
  rt_os :: osys
  rt_cfg :: Settings
  rt_others :: "mgr \<Rightarrow> mgr"
  rt_spawn :: "string list \<Rightarrow> path \<Rightarrow> string dict \<Rightarrow> mgr \<Rightarrow> string + spawned"
  rt_decode :: "string \<Rightarrow> string"
  rt_environ :: "string dict"
  rt_gv :: group_vars

type_synonym 'a act = "mgr \<Rightarrow> 'a res \<times> mgr"

definition returnM :: "'a \<Rightarrow> 'a act" where
  "returnM x s = (Inr x, s)"

definition raiseM :: "exc \<Rightarrow> 'a act" where
  "raiseM e s = (Inl e, s)"

definition bindM :: "'a act \<Rightarrow> ('a \<Rightarrow> 'b act) \<Rightarrow> 'b act" where
  "bindM m f s = (case m s of (Inl e, s') \<Rightarrow> (Inl e, s') | (Inr x, s') \<Rightarrow> f x s')"

text \<open>\<open>try: m except ... as e: h(e)\<close>\<close>

definition tryM :: "'a act \<Rightarrow> (exc \<Rightarrow> 'a act) \<Rightarrow> 'a act" where
  "tryM m h s = (case m s of (Inl e, s') \<Rightarrow> h e s' | (Inr x, s') \<Rightarrow> (Inr x, s'))"

fun seqM :: "unit act list \<Rightarrow> unit act" where
  "seqM [] = returnM ()"
| "seqM (m # ms) = bindM m (\<lambda>_. seqM ms)"

text \<open>
  One \<open>await\<close>: the others run; afterwards the task is told whether it was cancelled. (The
  counter that feeds the clock moves too, so two waits need not behave alike.)
\<close>

definition suspend :: "rt \<Rightarrow> ref \<Rightarrow> mgr \<Rightarrow> bool \<times> mgr" where
  "suspend rt t s =
     (let s1 = rt_others rt (s\<lparr>ticks := Suc (ticks s)\<rparr>) in (tasks s1 t = TPending True, s1))"

definition awaitM :: "rt \<Rightarrow> ref \<Rightarrow> unit act" where
  "awaitM rt t s =
     (case suspend rt t s of (cancelled, s1) \<Rightarrow>
        if cancelled then (Inl CancelledError, s1) else (Inr (), s1))"

text \<open>\<open>await self.op_mgr.update_operation(...)\<close>: waiting for the lock, then the update.\<close>

definition locked_update ::
    "rt \<Rightarrow> ref \<Rightarrow> string \<Rightarrow> OperationStatus option \<Rightarrow> string option \<Rightarrow> string option \<Rightarrow> string option \<Rightarrow>
       bool \<Rightarrow> unit act" where
  "locked_update rt t oid st step msg err completed =
     bindM (awaitM rt t) (\<lambda>_.
       bindM (update_operation oid st step msg err completed) (\<lambda>_. returnM ()))"

definition log_line :: "rt \<Rightarrow> string \<Rightarrow> string \<Rightarrow> unit act" where
  "log_line rt oid line = append_log (rt_os rt) (rt_cfg rt) oid line"


section \<open>Running one command\<close>

definition progress_message :: "string \<Rightarrow> string option" where
  "progress_message line =
     (if contains ''TASK ['' line
      then Some (''Ansible task: '' @ rstrip_chars ''] *'' (split_once_last ''TASK ['' line))
      else if contains ''Creating...'' line \<or> contains ''Modifying...'' line
              \<or> contains ''Destroying...'' line
      then Some (''Terraform resource update: '' @ strip line)
      else None)"

definition handle_line :: "rt \<Rightarrow> ref \<Rightarrow> string \<Rightarrow> string \<Rightarrow> unit act" where
  "handle_line rt t oid line_bytes =
     (let line = rstrip (rt_decode rt line_bytes)
      in if line = [] then returnM ()
         else bindM (log_line rt oid line) (\<lambda>_.
                case progress_message line of
                  None \<Rightarrow> returnM ()
                | Some msg \<Rightarrow> locked_update rt t oid None None (Some msg) None False))"

definition handle_rest :: "rt \<Rightarrow> string \<Rightarrow> string \<Rightarrow> unit act" where
  "handle_rest rt oid buf =
     (let line = rstrip (rt_decode rt buf)
      in if line = [] then returnM () else log_line rt oid line)"

definition create_subprocess_exec ::
    "rt \<Rightarrow> ref \<Rightarrow> string list \<Rightarrow> path \<Rightarrow> string dict \<Rightarrow> spawned act" where
  "create_subprocess_exec rt t cmd cwd env =
     bindM (awaitM rt t) (\<lambda>_ s.
       case rt_spawn rt cmd cwd env s of
         Inl m \<Rightarrow> (Inl (OSError m), s)
       | Inr sp \<Rightarrow>
           (Inr sp, s\<lparr>procs := (procs s)(sp_ref sp := \<lparr>pid = sp_pid sp, returncode = None\<rparr>)\<rparr>))"

definition wait_process :: "rt \<Rightarrow> ref \<Rightarrow> spawned \<Rightarrow> int act" where
  "wait_process rt t sp =
     bindM (awaitM rt t) (\<lambda>_ s.
       (Inr (sp_rc sp),
        s\<lparr>procs := (procs s)(sp_ref sp := \<lparr>pid = sp_pid sp, returncode = Some (sp_rc sp)\<rparr>)\<rparr>))"

definition check_return_code :: "rt \<Rightarrow> ref \<Rightarrow> string \<Rightarrow> string list \<Rightarrow> int \<Rightarrow> unit act" where
  "check_return_code rt i oid cmd rc s =
     (if status (recs s i) = CANCELLED then (Inr (), s)
      else if rc \<noteq> 0
      then (let err_msg = ''Command '' @ squote (hd cmd) @ '' failed with return code '' @ show_int rc
            in bindM (log_line rt oid (''ERROR: '' @ err_msg)) (\<lambda>_. raiseM (RuntimeError err_msg)) s)
      else (Inr (), s))"

definition run_process ::
    "rt \<Rightarrow> ref \<Rightarrow> ref \<Rightarrow> string \<Rightarrow> string list \<Rightarrow> path \<Rightarrow> string dict \<Rightarrow> unit act" where
  "run_process rt t i oid cmd cwd env =
     bindM (create_subprocess_exec rt t cmd cwd env) (\<lambda>sp.
       bindM (\<lambda>s. (Inr (), upd_rec i (\<lambda>r. r\<lparr>process := Some (sp_ref sp)\<rparr>) s)) (\<lambda>_.
         bindM (read_loop (handle_line rt t oid) (handle_rest rt oid) (suspend rt t) (sp_chunks sp) [])
           (\<lambda>_. bindM (wait_process rt t sp) (check_return_code rt i oid cmd))))"

definition execution_exception :: "rt \<Rightarrow> ref \<Rightarrow> string \<Rightarrow> exc \<Rightarrow> unit act" where
  "execution_exception rt i oid e s =
     (if is_Exception e \<and> status (recs s i) \<noteq> CANCELLED
      then bindM (log_line rt oid (''Execution exception: '' @ exc_str e)) (\<lambda>_. raiseM e) s
      else (Inl e, s))"

definition execute_command ::
    "rt \<Rightarrow> ref \<Rightarrow> string \<Rightarrow> string list \<Rightarrow> path \<Rightarrow> string dict \<Rightarrow> string \<Rightarrow> string \<Rightarrow> unit act" where
  "execute_command rt t oid cmd cwd env step_name step_message s =
     (case lookup s oid of
        None \<Rightarrow> (Inr (), s)
      | Some i \<Rightarrow>
          if status (recs s i) = CANCELLED then (Inr (), s)
          else
            bindM (locked_update rt t oid (Some RUNNING) (Some step_name) (Some step_message) None False)
              (\<lambda>_. bindM (log_line rt oid (''> Running: '' @ join '' '' cmd @ '' (cwd: '' @ path_str cwd @ '')''))
                (\<lambda>_. tryM (run_process rt t i oid cmd cwd env) (execution_exception rt i oid))) s)"

fun mock_logs :: "rt \<Rightarrow> ref \<Rightarrow> ref \<Rightarrow> string \<Rightarrow> string list \<Rightarrow> unit act" where
  "mock_logs rt t i oid [] s = (Inr (), s)"
| "mock_logs rt t i oid (l # ls) s =
     (if status (recs s i) = CANCELLED then (Inr (), s)
      else bindM (log_line rt oid l) (\<lambda>_. bindM (awaitM rt t) (\<lambda>_. mock_logs rt t i oid ls)) s)"

definition mock_step :: "rt \<Rightarrow> ref \<Rightarrow> string \<Rightarrow> string \<Rightarrow> string \<Rightarrow> string list \<Rightarrow> unit act" where
  "mock_step rt t oid step_name step_message sample_logs s =
     (case lookup s oid of
        None \<Rightarrow> (Inr (), s)
      | Some i \<Rightarrow>
          if status (recs s i) = CANCELLED then (Inr (), s)
          else
            bindM (locked_update rt t oid (Some RUNNING) (Some step_name) (Some step_message) None False)
              (\<lambda>_. mock_logs rt t i oid sample_logs) s)"

definition finalize_pipeline :: "rt \<Rightarrow> ref \<Rightarrow> string \<Rightarrow> string \<Rightarrow> bool \<Rightarrow> unit act" where
  "finalize_pipeline rt t oid success_message log_completion s =
     (case lookup s oid of
        None \<Rightarrow> (Inr (), s)
      | Some i \<Rightarrow>
          if status (recs s i) = CANCELLED then (Inr (), s)
          else
            bindM (locked_update rt t oid (Some SUCCEEDED) (Some ''Completed'') (Some success_message)
                     None True)
              (\<lambda>_ s1. if log_completion
                then (let (d, s2) = now s1
                      in log_line rt oid (stamp d @ ''Cluster build completed successfully.'') s2)
                else (Inr (), s1)) s)"

definition fail_pipeline :: "rt \<Rightarrow> ref \<Rightarrow> string \<Rightarrow> string \<Rightarrow> exc \<Rightarrow> unit act" where
  "fail_pipeline rt t oid error_label e s =
     (case lookup s oid of
        None \<Rightarrow> (Inr (), s)
      | Some i \<Rightarrow>
          if status (recs s i) = CANCELLED then (Inr (), s)
          else
            locked_update rt t oid (Some FAILED) (Some ''Failed'')
              (Some (error_label @ '': '' @ exc_str e)) (Some (exc_str e)) True s)"


section \<open>The pipelines\<close>

text \<open>What the six pipelines share: the steps, the final status, and \<open>except Exception\<close>.\<close>

definition pipeline ::
    "rt \<Rightarrow> ref \<Rightarrow> string \<Rightarrow> string \<Rightarrow> string \<Rightarrow> bool \<Rightarrow> unit act \<Rightarrow> unit act" where
  "pipeline rt t oid error_label success_message log_completion body =
     tryM (bindM body (\<lambda>_. finalize_pipeline rt t oid success_message log_completion))
       (\<lambda>e. if is_Exception e then fail_pipeline rt t oid error_label e else raiseM e)"

text \<open>A command with its working directory, environment, step name and step message.\<close>

type_synonym cmd_step = "string list \<times> path \<times> string dict \<times> string \<times> string"

definition run_commands :: "rt \<Rightarrow> ref \<Rightarrow> string \<Rightarrow> cmd_step list \<Rightarrow> unit act" where
  "run_commands rt t oid steps =
     seqM (map (\<lambda>(cmd, cwd, env, nm, msg). execute_command rt t oid cmd cwd env nm msg) steps)"

definition mock_enabled :: "rt \<Rightarrow> bool" where
  "mock_enabled rt = is_mock_enabled (dict_get (rt_environ rt))"

end
