(* ===== verification/Pipelines.thy ===== *)
theory Pipelines
  imports Runner
begin

text \<open>
  The six pipelines of \<open>ProcessRunner\<close> (\<open>api/gem_api/services/runner.py\<close>). The commands of a
  pipeline, with everything that is computed from the request before the first of them runs,
  are its plan; in mock mode the pipeline writes sample lines instead.
\<close>

section \<open>Clusters\<close>

definition tf_dir :: "Settings \<Rightarrow> string \<Rightarrow> path" where
  "tf_dir cfg component = repo_root cfg @ [''terraform'', component]"

definition ansible_dir :: "Settings \<Rightarrow> path" where
  "ansible_dir cfg = repo_root cfg @ [''ansible'']"

definition cluster_create_plan ::
    "Settings \<Rightarrow> string dict \<Rightarrow> group_vars \<Rightarrow> ClusterCreateRequest \<Rightarrow> string \<Rightarrow> cmd_step list res" where
  "cluster_create_plan cfg environ gv q oid =
     bind_res (get_abm_version gv (emulate_gdc_version q)) (\<lambda>bmctl.
       let ctx = cluster_create_context cfg environ q oid;
           env = cluster_create_env cfg q ctx bmctl;
           tf = tf_dir cfg ''cluster''
       in Inr
         [(build_tf_init_cmd (ctx_bucket ctx) (cluster_state_prefix (cluster_name q)) (ctx_sa ctx),
           tf, env, ''Terraform Init (1/2)'', ''Initializing Terraform backend and providers...''),
          (tf_run ''apply'' (cluster_create_vars q ctx bmctl),
           tf, env, ''Terraform Provisioning (1/2)'', ''Applying Terraform infrastructure resources...''),
          (playbook_cmd ''create-cluster.yaml'' (cluster_create_extra_vars cfg q ctx),
           ansible_dir cfg, env, ''Ansible Configuration (2/2)'',
           ''Running Ansible cluster deployment playbook...'')])"

text \<open>The commands of a plan, or the exception that computing it raised.\<close>

definition run_plan :: "rt \<Rightarrow> ref \<Rightarrow> string \<Rightarrow> cmd_step list res \<Rightarrow> unit act" where
  "run_plan rt t oid p = (case p of Inl e \<Rightarrow> raiseM e | Inr steps \<Rightarrow> run_commands rt t oid steps)"

definition cluster_create_mock :: "rt \<Rightarrow> ref \<Rightarrow> string \<Rightarrow> ClusterCreateRequest \<Rightarrow> unit act" where
  "cluster_create_mock rt t oid q =
     seqM
       [mock_step rt t oid ''Terraform Provisioning (1/2)''
          ''Provisioning cluster compute instances and networking...''
          [''google_compute_instance.cluster_nodes[0]: Creating...'',
           ''google_compute_instance.cluster_nodes[1]: Creating...'',
           ''google_compute_instance.cluster_nodes[2]: Creating...'',
           ''google_compute_instance.cluster_nodes: Creation complete after 35s'',
           ''Apply complete! Resources: 6 added, 0 changed, 0 destroyed.''],
        mock_step rt t oid ''Ansible Configuration (2/2)''
          ''Configuring VXLAN overlay, TopoLVM storage, and GDC deployment...''
          [''PLAY [Configure GEM Cluster Nodes] **********************************'',
           ''TASK [vxlan : Configure overlay network interfaces] *****************'',
           ''TASK [topolvm : Setup LVM volume group and TopoLVM daemon] *********'',
           ''TASK [gdc_deploy : Deploy Anthos Bare Metal cluster] ****************'',
           ''PLAY RECAP **********************************************************'',
           cluster_name q @ ''-node1 : ok=42   changed=18   unreachable=0    failed=0'']]"

definition run_cluster_create :: "rt \<Rightarrow> ref \<Rightarrow> ClusterCreateRequest \<Rightarrow> string \<Rightarrow> unit act" where
  "run_cluster_create rt t q oid =
     pipeline rt t oid ''Cluster provisioning failed''
       (''Cluster '' @ squote (cluster_name q) @ '' provisioned and configured successfully.'') True
       (if mock_enabled rt then cluster_create_mock rt t oid q
        else run_plan rt t oid
               (cluster_create_plan (rt_cfg rt) (rt_environ rt) (rt_gv rt) q oid))"

definition cluster_delete_plan ::
    "Settings \<Rightarrow> string dict \<Rightarrow> ClusterDeleteRequest \<Rightarrow> string \<Rightarrow> cmd_step list res" where
  "cluster_delete_plan cfg environ q oid =
     (let ctx = cluster_delete_context cfg environ q oid;
          env = cluster_delete_env q ctx;
          tf = tf_dir cfg ''cluster''
      in Inr
        [(playbook_cmd ''cleanup.yaml'' (cluster_delete_extra_vars q ctx),
          ansible_dir cfg, env, ''Ansible Cleanup (1/2)'', ''Executing Ansible cluster cleanup playbook...''),
         (build_tf_init_cmd (ctx_bucket ctx) (cluster_state_prefix (del_cluster_name q)) (ctx_sa ctx),
          tf, env, ''Terraform Init (2/2)'', ''Initializing Terraform backend...''),
         (tf_run ''destroy'' (cluster_destroy_vars q ctx),
          tf, env, ''Terraform Destruction (2/2)'', ''Destroying compute instances and network bindings...'')])"

definition cluster_delete_mock :: "rt \<Rightarrow> ref \<Rightarrow> string \<Rightarrow> unit act" where
  "cluster_delete_mock rt t oid =
     seqM
       [mock_step rt t oid ''Ansible Cleanup (1/2)''
          ''Resetting cluster nodes and unregistering GKE hub membership...''
          [''PLAY [Clean up GEM Cluster Nodes] **********************************'',
           ''TASK [cleanup : Reset Anthos Bare Metal cluster] *******************'',
           ''TASK [cleanup : Remove VXLAN overlay interfaces] *******************'',
           ''PLAY RECAP **********************************************************''],
        mock_step rt t oid ''Terraform Destruction (2/2)''
          ''Destroying cluster node VMs and cloud resources...''
          [''google_compute_instance.cluster_nodes[0]: Destroying...'',
           ''google_compute_instance.cluster_nodes[1]: Destroying...'',
           ''google_compute_instance.cluster_nodes[2]: Destroying...'',
           ''Destroy complete! Resources: 6 destroyed.'']]"

definition run_cluster_delete :: "rt \<Rightarrow> ref \<Rightarrow> ClusterDeleteRequest \<Rightarrow> string \<Rightarrow> unit act" where
  "run_cluster_delete rt t q oid =
     pipeline rt t oid ''Cluster teardown failed''
       (''Cluster '' @ squote (del_cluster_name q) @ '' successfully torn down.'') False
       (if mock_enabled rt then cluster_delete_mock rt t oid
        else run_plan rt t oid (cluster_delete_plan (rt_cfg rt) (rt_environ rt) q oid))"


section \<open>Admin workstation\<close>

definition workstation_create_plan ::
    "Settings \<Rightarrow> string dict \<Rightarrow> WorkstationCreateRequest \<Rightarrow> string \<Rightarrow> cmd_step list res" where
  "workstation_create_plan cfg environ q oid =
     (let ctx = prepare_gcp_context cfg environ q oid ''none'' None;
          env = workstation_create_env q ctx;
          tf = tf_dir cfg ''admin-workstation''
      in Inr
        [(build_tf_init_cmd (ctx_bucket ctx) ''admin-workstation/state'' (ctx_sa ctx),
          tf, env, ''Terraform Init (1/2)'', ''Initializing admin workstation Terraform...''),
         (tf_run ''apply'' (workstation_apply_vars q ctx),
          tf, env, ''Terraform Provisioning (1/2)'', ''Provisioning admin workstation VM...''),
         (playbook_cmd ''admin-workstation.yaml'' (workstation_extra_vars ctx),
          ansible_dir cfg, env, ''Ansible Configuration (2/2)'',
          ''Configuring admin workstation tools and binaries...'')])"

definition workstation_create_mock :: "rt \<Rightarrow> ref \<Rightarrow> string \<Rightarrow> unit act" where
  "workstation_create_mock rt t oid =
     seqM
       [mock_step rt t oid ''Terraform Provisioning (1/2)''
          ''Provisioning admin workstation compute instance...''
          [''google_compute_instance.admin_workstation: Creating...'',
           ''google_compute_instance.admin_workstation: Creation complete after 20s''],
        mock_step rt t oid ''Ansible Configuration (2/2)''
          ''Installing bmctl, Docker, and admin tools...''
          [''PLAY [Configure GEM Admin Workstation] *****************************'',
           ''TASK [workstation : Install bmctl binaries] ************************'',
           ''PLAY RECAP **********************************************************'']]"

definition run_workstation_create :: "rt \<Rightarrow> ref \<Rightarrow> WorkstationCreateRequest \<Rightarrow> string \<Rightarrow> unit act" where
  "run_workstation_create rt t q oid =
     pipeline rt t oid ''Workstation build failed''
       ''Admin workstation provisioned and configured successfully.'' False
       (if mock_enabled rt then workstation_create_mock rt t oid
        else run_plan rt t oid (workstation_create_plan (rt_cfg rt) (rt_environ rt) q oid))"

definition workstation_delete_plan ::
    "Settings \<Rightarrow> string dict \<Rightarrow> WorkstationDeleteRequest \<Rightarrow> string \<Rightarrow> cmd_step list res" where
  "workstation_delete_plan cfg environ q oid =
     (let ctx = prepare_gcp_context cfg environ q oid ''none'' (wsd_tf_state_bucket q);
          tf = tf_dir cfg ''admin-workstation''
      in Inr
        [(build_tf_init_cmd (ctx_bucket ctx) ''admin-workstation/state'' (ctx_sa ctx),
          tf, ctx_env ctx, ''Terraform Init (1/1)'', ''Initializing Terraform backend...''),
         (tf_run ''destroy'' (workstation_destroy_vars ctx),
          tf, ctx_env ctx, ''Terraform Destruction (1/1)'', ''Destroying admin workstation resources...'')])"

definition workstation_delete_mock :: "rt \<Rightarrow> ref \<Rightarrow> string \<Rightarrow> unit act" where
  "workstation_delete_mock rt t oid =
     mock_step rt t oid ''Terraform Destruction (1/1)'' ''Destroying admin workstation VM...''
       [''google_compute_instance.admin_workstation: Destroying...'',
        ''Destroy complete! Resources: 2 destroyed.'']"

definition run_workstation_delete :: "rt \<Rightarrow> ref \<Rightarrow> WorkstationDeleteRequest \<Rightarrow> string \<Rightarrow> unit act" where
  "run_workstation_delete rt t q oid =
     pipeline rt t oid ''Workstation teardown failed'' ''Admin workstation destroyed successfully.'' False
       (if mock_enabled rt then workstation_delete_mock rt t oid
        else run_plan rt t oid (workstation_delete_plan (rt_cfg rt) (rt_environ rt) q oid))"


section \<open>Edge router\<close>

definition edge_router_create_plan ::
    "Settings \<Rightarrow> string dict \<Rightarrow> EdgeRouterCreateRequest \<Rightarrow> string \<Rightarrow> cmd_step list res" where
  "edge_router_create_plan cfg environ q oid =
     (let ctx = prepare_gcp_context cfg environ q oid ''none'' None;
          env = edge_router_create_env q ctx;
          tf = tf_dir cfg ''edge-router''
      in Inr
        [(build_tf_init_cmd (ctx_bucket ctx) ''edge-router/state'' (ctx_sa ctx),
          tf, env, ''Terraform Init (1/2)'', ''Initializing edge router Terraform...''),
         (tf_run ''apply'' (edge_router_apply_vars q ctx),
          tf, env, ''Terraform Provisioning (1/2)'', ''Provisioning edge router VM...''),
         (playbook_cmd ''edge-router.yaml'' (edge_router_extra_vars q ctx),
          ansible_dir cfg, env, ''Ansible Configuration (2/2)'',
          ''Configuring Traefik reverse proxy and VIP routing...'')])"

definition edge_router_create_mock :: "rt \<Rightarrow> ref \<Rightarrow> string \<Rightarrow> unit act" where
  "edge_router_create_mock rt t oid =
     seqM
       [mock_step rt t oid ''Terraform Provisioning (1/2)'' ''Provisioning edge router compute instance...''
          [''google_compute_instance.edge_router: Creating...'',
           ''google_compute_instance.edge_router: Creation complete after 15s''],
        mock_step rt t oid ''Ansible Configuration (2/2)''
          ''Configuring Traefik proxy and MetalLB VIP routing...''
          [''PLAY [Configure GEM Edge Router] **********************************'',
           ''TASK [edge_router : Install and configure Traefik] *****************'',
           ''PLAY RECAP **********************************************************'']]"

definition run_edge_router_create :: "rt \<Rightarrow> ref \<Rightarrow> EdgeRouterCreateRequest \<Rightarrow> string \<Rightarrow> unit act" where
  "run_edge_router_create rt t q oid =
     pipeline rt t oid ''Edge router build failed''
       ''Edge router provisioned and configured successfully.'' False
       (if mock_enabled rt then edge_router_create_mock rt t oid
        else run_plan rt t oid (edge_router_create_plan (rt_cfg rt) (rt_environ rt) q oid))"

definition edge_router_delete_plan ::
    "Settings \<Rightarrow> string dict \<Rightarrow> EdgeRouterDeleteRequest \<Rightarrow> string \<Rightarrow> cmd_step list res" where
  "edge_router_delete_plan cfg environ q oid =
     (let ctx = prepare_gcp_context cfg environ q oid ''none'' (erd_tf_state_bucket q);
          env = edge_router_delete_env q ctx;
          tf = tf_dir cfg ''edge-router''
      in Inr
        [(build_tf_init_cmd (ctx_bucket ctx) ''edge-router/state'' (ctx_sa ctx),
          tf, env, ''Terraform Init (1/1)'', ''Initializing Terraform backend...''),
         (tf_run ''destroy'' (edge_router_destroy_vars q ctx),
          tf, env, ''Terraform Destruction (1/1)'', ''Destroying edge router resources...'')])"

definition edge_router_delete_mock :: "rt \<Rightarrow> ref \<Rightarrow> string \<Rightarrow> unit act" where
  "edge_router_delete_mock rt t oid =
     mock_step rt t oid ''Terraform Destruction (1/1)'' ''Destroying edge router VM...''
       [''google_compute_instance.edge_router: Destroying...'',
        ''Destroy complete! Resources: 2 destroyed.'']"

definition run_edge_router_delete :: "rt \<Rightarrow> ref \<Rightarrow> EdgeRouterDeleteRequest \<Rightarrow> string \<Rightarrow> unit act" where
  "run_edge_router_delete rt t q oid =
     pipeline rt t oid ''Edge router teardown failed'' ''Edge router destroyed successfully.'' False
       (if mock_enabled rt then edge_router_delete_mock rt t oid
        else run_plan rt t oid (edge_router_delete_plan (rt_cfg rt) (rt_environ rt) q oid))"


section \<open>Coroutines\<close>

text \<open>What a handler creates a task for: one of the six pipelines with its arguments.\<close>

datatype coroutine =
    RunClusterCreate ClusterCreateRequest string
  | RunClusterDelete ClusterDeleteRequest string
  | RunWorkstationCreate WorkstationCreateRequest string
  | RunWorkstationDelete WorkstationDeleteRequest string
  | RunEdgeRouterCreate EdgeRouterCreateRequest string
  | RunEdgeRouterDelete EdgeRouterDeleteRequest string

fun run_coroutine :: "rt \<Rightarrow> ref \<Rightarrow> coroutine \<Rightarrow> unit act" where
  "run_coroutine rt t (RunClusterCreate q oid) = run_cluster_create rt t q oid"
| "run_coroutine rt t (RunClusterDelete q oid) = run_cluster_delete rt t q oid"
| "run_coroutine rt t (RunWorkstationCreate q oid) = run_workstation_create rt t q oid"
| "run_coroutine rt t (RunWorkstationDelete q oid) = run_workstation_delete rt t q oid"
| "run_coroutine rt t (RunEdgeRouterCreate q oid) = run_edge_router_create rt t q oid"
| "run_coroutine rt t (RunEdgeRouterDelete q oid) = run_edge_router_delete rt t q oid"

fun coroutine_oid :: "coroutine \<Rightarrow> string" where
  "coroutine_oid (RunClusterCreate q oid) = oid"
| "coroutine_oid (RunClusterDelete q oid) = oid"
| "coroutine_oid (RunWorkstationCreate q oid) = oid"
| "coroutine_oid (RunWorkstationDelete q oid) = oid"
| "coroutine_oid (RunEdgeRouterCreate q oid) = oid"
| "coroutine_oid (RunEdgeRouterDelete q oid) = oid"

end
