(* ===== verification/Pipeline_Logic.thy ===== *)
theory Pipeline_Logic
  imports Pipelines
begin

text \<open>
  How the coroutines of \<open>api/gem_api/services/runner.py\<close> are reasoned about. A pipeline touches
  the world in a handful of ways only: it waits, logs a line, updates its operation, starts a
  command and notes it in its record, and in the end settles the operation. The locale
  \<open>pipeline_logic\<close> lists what the rest of the process promises about each of them, over an
  arbitrary ghost state that is carried along; the pipelines are treated once, inside it. It
  is interpreted in \<open>Runner_Lemmas\<close> (a rely condition on the other coroutines) and in
  \<open>Pipeline_System\<close> (the whole API process).
\<close>

section \<open>Judgement\<close>

text \<open>
  From a state in which the operation is \<open>ok\<close>, the action ends in a cancellation with the
  operation \<open>stopped\<close>, or with a result and state described by \<open>Q\<close>.
\<close>

definition proceeds ::
    "('g \<Rightarrow> 'g \<Rightarrow> bool) \<Rightarrow> ('g \<Rightarrow> mgr \<Rightarrow> bool) \<Rightarrow> ('g \<Rightarrow> mgr \<Rightarrow> bool) \<Rightarrow>
       ('a res \<Rightarrow> 'g \<Rightarrow> mgr \<Rightarrow> bool) \<Rightarrow> 'a act \<Rightarrow> bool" where
  "proceeds leads ok stopped Q m \<longleftrightarrow>
     (\<forall>g s r s'. ok g s \<longrightarrow> m s = (r, s') \<longrightarrow>
        (\<exists>g'. leads g g' \<and> (if r = Inl CancelledError then stopped g' s' else Q r g' s')))"

lemma proceedsI:
  assumes "\<And>g s r s'. ok g s \<Longrightarrow> m s = (r, s') \<Longrightarrow>
     \<exists>g'. leads g g' \<and> (if r = Inl CancelledError then stopped g' s' else Q r g' s')"
  shows "proceeds leads ok stopped Q m"
  using assms unfolding proceeds_def by blast

lemma proceedsD:
  assumes "proceeds leads ok stopped Q m" and "ok g s" and "m s = (r, s')"
  obtains g' where "leads g g'" and "if r = Inl CancelledError then stopped g' s' else Q r g' s'"
  using assms unfolding proceeds_def by blast

definition normal :: "'a res \<Rightarrow> bool" where
  "normal r \<longleftrightarrow> (\<exists>x. r = Inr x)"

lemma normal_simps [simp]: "normal (Inr x)" "\<not> normal (Inl e)"
  by (simp_all add: normal_def)

lemma normal_unit: "normal = (\<lambda>r. r = Inr ())"
  by (auto simp: normal_def)

lemma not_Exception: "\<not> is_Exception e \<longleftrightarrow> e = CancelledError"
  by (cases e) simp_all

lemma append_log_Exception: "append_log os cfg oid line s = (Inl e, s') \<Longrightarrow> is_Exception e"
  by (auto simp: append_log_def Let_def get_log_file_path_def
      split: option.splits if_splits sum.splits prod.splits)

section \<open>Results\<close>

text \<open>The result a command decides: whether it starts, and its return code.\<close>

definition command_result :: "string list \<Rightarrow> string + spawned \<Rightarrow> unit res" where
  "command_result cmd sp =
     (case sp of
        Inl m \<Rightarrow> Inl (OSError m)
      | Inr p \<Rightarrow>
          if sp_rc p = 0 then Inr ()
          else Inl (RuntimeError (''Command '' @ squote (hd cmd) @ '' failed with return code ''
                 @ show_int (sp_rc p))))"

lemma command_result_Exception: "command_result cmd sp \<noteq> Inl CancelledError"
  by (auto simp: command_result_def split: sum.split)

text \<open>
  A plan's commands run in order, and the first that fails decides: in general, and when the
  operating system always answers a command in the same way.
\<close>

fun may_end :: "rt \<Rightarrow> cmd_step list \<Rightarrow> unit res \<Rightarrow> bool" where
  "may_end rt [] r = (r = Inr ())"
| "may_end rt ((cmd, cwd, env, _, _) # steps) r =
     (\<exists>s. case command_result cmd (rt_spawn rt cmd cwd env s) of
            Inl e \<Rightarrow> r = Inl e
          | Inr _ \<Rightarrow> may_end rt steps r)"

fun plan_result :: "(string list \<Rightarrow> path \<Rightarrow> string dict \<Rightarrow> string + spawned) \<Rightarrow> cmd_step list \<Rightarrow> unit res" where
  "plan_result sp [] = Inr ()"
| "plan_result sp ((cmd, cwd, env, _, _) # steps) =
     bind_res (command_result cmd (sp cmd cwd env)) (\<lambda>_. plan_result sp steps)"

lemma may_end_plan_result:
  assumes "\<And>cmd cwd env s. rt_spawn rt cmd cwd env s = sp cmd cwd env"
  shows "may_end rt steps r \<longleftrightarrow> r = plan_result sp steps"
proof (induction steps)
  case (Cons a steps)
  obtain cmd cwd env nm msg where a: "a = (cmd, cwd, env, nm, msg)" by (cases a)
  show ?case by (cases "command_result cmd (sp cmd cwd env)") (simp_all add: a assms Cons)
qed simp

definition reports :: "ref \<Rightarrow> string \<Rightarrow> string option \<Rightarrow> mgr \<Rightarrow> bool" where
  "reports i msg err s \<longleftrightarrow> message (recs s i) = Some msg \<and> (err \<noteq> None \<longrightarrow> error (recs s i) = err)"

lemma reports_log_only: "log_only s s' \<Longrightarrow> reports i msg err s' \<longleftrightarrow> reports i msg err s"
  by (simp add: reports_def mgr_frame)

section \<open>The six pipelines as one\<close>

text \<open>What a handler starts a task for, and the parts in which the pipelines differ.\<close>

fun job_plan :: "rt \<Rightarrow> coroutine \<Rightarrow> cmd_step list res" where
  "job_plan rt (RunClusterCreate q oid) = cluster_create_plan (rt_cfg rt) (rt_environ rt) (rt_gv rt) q oid"
| "job_plan rt (RunClusterDelete q oid) = cluster_delete_plan (rt_cfg rt) (rt_environ rt) q oid"
| "job_plan rt (RunWorkstationCreate q oid) = workstation_create_plan (rt_cfg rt) (rt_environ rt) q oid"
| "job_plan rt (RunWorkstationDelete q oid) = workstation_delete_plan (rt_cfg rt) (rt_environ rt) q oid"
| "job_plan rt (RunEdgeRouterCreate q oid) = edge_router_create_plan (rt_cfg rt) (rt_environ rt) q oid"
| "job_plan rt (RunEdgeRouterDelete q oid) = edge_router_delete_plan (rt_cfg rt) (rt_environ rt) q oid"

fun job_mock :: "rt \<Rightarrow> ref \<Rightarrow> coroutine \<Rightarrow> unit act" where
  "job_mock rt t (RunClusterCreate q oid) = cluster_create_mock rt t oid q"
| "job_mock rt t (RunClusterDelete q oid) = cluster_delete_mock rt t oid"
| "job_mock rt t (RunWorkstationCreate q oid) = workstation_create_mock rt t oid"
| "job_mock rt t (RunWorkstationDelete q oid) = workstation_delete_mock rt t oid"
| "job_mock rt t (RunEdgeRouterCreate q oid) = edge_router_create_mock rt t oid"
| "job_mock rt t (RunEdgeRouterDelete q oid) = edge_router_delete_mock rt t oid"

fun failure_label :: "coroutine \<Rightarrow> string" where
  "failure_label (RunClusterCreate q oid) = ''Cluster provisioning failed''"
| "failure_label (RunClusterDelete q oid) = ''Cluster teardown failed''"
| "failure_label (RunWorkstationCreate q oid) = ''Workstation build failed''"
| "failure_label (RunWorkstationDelete q oid) = ''Workstation teardown failed''"
| "failure_label (RunEdgeRouterCreate q oid) = ''Edge router build failed''"
| "failure_label (RunEdgeRouterDelete q oid) = ''Edge router teardown failed''"

fun success_message :: "coroutine \<Rightarrow> string" where
  "success_message (RunClusterCreate q oid) =
     ''Cluster '' @ squote (cluster_name q) @ '' provisioned and configured successfully.''"
| "success_message (RunClusterDelete q oid) = ''Cluster '' @ squote (del_cluster_name q) @ '' successfully torn down.''"
| "success_message (RunWorkstationCreate q oid) = ''Admin workstation provisioned and configured successfully.''"
| "success_message (RunWorkstationDelete q oid) = ''Admin workstation destroyed successfully.''"
| "success_message (RunEdgeRouterCreate q oid) = ''Edge router provisioned and configured successfully.''"
| "success_message (RunEdgeRouterDelete q oid) = ''Edge router destroyed successfully.''"

fun logs_completion :: "coroutine \<Rightarrow> bool" where
  "logs_completion (RunClusterCreate q oid) = True"
| "logs_completion c = False"

lemma run_coroutine_pipeline:
  "run_coroutine rt t c =
     pipeline rt t (coroutine_oid c) (failure_label c) (success_message c) (logs_completion c)
       (if mock_enabled rt then job_mock rt t c else run_plan rt t (coroutine_oid c) (job_plan rt c))"
  by (cases c)
    (simp_all add: run_cluster_create_def run_cluster_delete_def run_workstation_create_def
      run_workstation_delete_def run_edge_router_create_def run_edge_router_delete_def)

text \<open>Only the group variables, which building a cluster reads, can keep a plan from being computed.\<close>

lemma get_abm_version_Inl: "get_abm_version gv v = Inl e \<Longrightarrow> gv = Inl e"
  by (cases gv) (auto simp: get_abm_version_def split: option.splits if_splits)

lemma job_plan_Inl:
  assumes "job_plan rt c = Inl e"
  shows "\<exists>q oid. c = RunClusterCreate q oid" and "rt_gv rt = Inl e"
proof -
  show "\<exists>q oid. c = RunClusterCreate q oid"
    using assms
    by (cases c) (simp_all add: cluster_delete_plan_def workstation_create_plan_def
      workstation_delete_plan_def edge_router_create_plan_def edge_router_delete_plan_def Let_def)
  then obtain q oid where q: "c = RunClusterCreate q oid" by blast
  then show "rt_gv rt = Inl e"
    using assms get_abm_version_Inl
    by (cases "get_abm_version (rt_gv rt) (emulate_gdc_version q)") (auto simp: cluster_create_plan_def Let_def)
qed

text \<open>What the steps of a coroutine may come to; with a usable log file, its commands decide.\<close>

definition job_ends :: "rt \<Rightarrow> coroutine \<Rightarrow> unit res \<Rightarrow> bool" where
  "job_ends rt c r \<longleftrightarrow>
     (if mock_enabled rt
      then (\<exists>p. get_log_file_path (rt_os rt) (rt_cfg rt) (coroutine_oid c) = Inr p) \<longrightarrow> normal r
      else case job_plan rt c of
             Inl e \<Rightarrow> r = Inl e
           | Inr steps \<Rightarrow>
               (\<exists>p. get_log_file_path (rt_os rt) (rt_cfg rt) (coroutine_oid c) = Inr p) \<longrightarrow> may_end rt steps r)"

section \<open>The reading loop in terms of actions\<close>

lemma read_loop_Nil: "read_loop h hp (suspend rt t) [] buf = bindM (awaitM rt t) (\<lambda>_. at_eof hp buf)"
  by (rule ext) (auto simp: bindM_def awaitM_def split: prod.split)

lemma read_loop_Cons:
  "read_loop h hp (suspend rt t) (c # cs) buf =
     bindM (awaitM rt t) (\<lambda>_.
       if c = [] then at_eof hp buf
       else bindM (drain_buffer h (buf @ c)) (\<lambda>rest.
              if length rest > max_partial \<and> nl \<notin> set rest
              then bindM (hp rest) (\<lambda>_. read_loop h hp (suspend rt t) cs [])
              else read_loop h hp (suspend rt t) cs rest))"
  by (rule ext) (auto simp: bindM_def awaitM_def split: prod.split sum.split)

lemma drain_buffer_step:
  "drain_buffer h buf =
     (if nl \<in> set buf
      then bindM (h (takeWhile (\<lambda>c. c \<noteq> nl) buf))
             (\<lambda>_. drain_buffer h (drop (Suc (length (takeWhile (\<lambda>c. c \<noteq> nl) buf))) buf))
      else returnM buf)"
  by (rule ext, subst drain_buffer.simps) (simp add: bindM_def returnM_def Let_def)

section \<open>The promises, and the pipelines that rest on them\<close>

locale pipeline_logic =
  fixes leads :: "'g \<Rightarrow> 'g \<Rightarrow> bool" and ok :: "'g \<Rightarrow> mgr \<Rightarrow> bool" and stopped :: "'g \<Rightarrow> mgr \<Rightarrow> bool"
    and finished :: "OperationStatus \<Rightarrow> 'g \<Rightarrow> mgr \<Rightarrow> bool"
    and rt :: rt and t :: ref and oid :: string and i :: ref
  assumes leads_refl: "leads g g"
    and leads_trans: "leads g g' \<Longrightarrow> leads g' g'' \<Longrightarrow> leads g g''"
    and known: "ok g s \<Longrightarrow> lookup s oid = Some i \<and> status (recs s i) \<noteq> CANCELLED"
    and resumes: "ok g s \<Longrightarrow> suspend rt t s = (c, s') \<Longrightarrow>
      \<exists>g'. leads g g' \<and> (if c then stopped g' s' else ok g' s')"
    and logs: "ok g s \<Longrightarrow> \<exists>g'. leads g g' \<and> ok g' (snd (append_log (rt_os rt) (rt_cfg rt) oid line s))"
    and updates: "ok g s \<Longrightarrow> st = None \<or> st = Some RUNNING \<Longrightarrow>
      \<exists>g'. leads g g' \<and> ok g' (snd (update_operation oid st step msg err False s))"
    and spawns: "ok g s \<Longrightarrow>
      \<exists>g'. leads g g' \<and> ok g' (s\<lparr>procs := (procs s)(p := \<lparr>pid = n, returncode = rc\<rparr>)\<rparr>)"
    and holds: "ok g s \<Longrightarrow> \<exists>g'. leads g g' \<and> ok g' (upd_rec i (\<lambda>r. r\<lparr>process := Some p\<rparr>) s)"
    and settles: "ok g s \<Longrightarrow> v = SUCCEEDED \<or> v = FAILED \<Longrightarrow>
      s1 = snd (update_operation oid (Some v) step msg err True s) \<Longrightarrow>
      s' = s1 \<or> s' = snd (append_log (rt_os rt) (rt_cfg rt) oid line (snd (now s1))) \<Longrightarrow>
      \<exists>g'. leads g g' \<and> finished v g' s'"
begin

text \<open>The steps before the last: the operation stays \<open>ok\<close>, and the result satisfies \<open>R\<close>.\<close>

abbreviation ends :: "('a res \<Rightarrow> bool) \<Rightarrow> 'a act \<Rightarrow> bool" where
  "ends R \<equiv> proceeds leads ok stopped (\<lambda>r g s. R r \<and> ok g s)"

abbreviation usable :: bool where
  "usable \<equiv> \<exists>p. get_log_file_path (rt_os rt) (rt_cfg rt) oid = Inr p"

lemma proceeds_bind:
  assumes "ends P m" and "\<And>x. P (Inr x) \<Longrightarrow> proceeds leads ok stopped Q (f x)"
    and "\<And>e g s. P (Inl e) \<Longrightarrow> e \<noteq> CancelledError \<Longrightarrow> ok g s \<Longrightarrow> Q (Inl e) g s"
  shows "proceeds leads ok stopped Q (bindM m f)"
proof (rule proceedsI)
  fix g s r s' assume ok: "ok g s" and b: "bindM m f s = (r, s')"
  obtain r1 s1 where m: "m s = (r1, s1)" by fastforce
  obtain g1 where g1: "leads g g1" "if r1 = Inl CancelledError then stopped g1 s1 else P r1 \<and> ok g1 s1"
    using assms(1) ok m by (rule proceedsD)
  show "\<exists>g'. leads g g' \<and> (if r = Inl CancelledError then stopped g' s' else Q r g' s')"
  proof (cases r1)
    case (Inl e)
    with m b g1 assms(3) show ?thesis by (auto simp: bindM_def split: if_splits)
  next
    case (Inr x)
    with g1 have "P (Inr x)" and "ok g1 s1" by simp_all
    moreover have "f x s1 = (r, s')" using m b Inr by (simp add: bindM_def)
    ultimately obtain g2 where "leads g1 g2" "if r = Inl CancelledError then stopped g2 s' else Q r g2 s'"
      using proceedsD [OF assms(2)] by metis
    with g1(1) leads_trans show ?thesis by blast
  qed
qed

lemma ends_bind:
  assumes "ends P m" and "\<And>x. P (Inr x) \<Longrightarrow> ends R (f x)" and "\<And>e. P (Inl e) \<Longrightarrow> R (Inl e)"
  shows "ends R (bindM m f)"
  using assms(1) by (rule proceeds_bind) (use assms(2,3) in auto)

lemma ends_then:
  assumes "ends (\<lambda>r. usable \<longrightarrow> normal r) m" and "\<And>x. ends (\<lambda>r. usable \<longrightarrow> R r) (f x)"
  shows "ends (\<lambda>r. usable \<longrightarrow> R r) (bindM m f)"
  using assms(1) by (rule ends_bind) (use assms(2) in auto)

lemma ends_weaken: "ends P m \<Longrightarrow> (\<And>r. P r \<Longrightarrow> R r) \<Longrightarrow> ends R m"
  unfolding proceeds_def by metis

text \<open>A step that keeps the operation going, from the promise about its effect.\<close>

lemma ends_step:
  assumes "\<And>g s. ok g s \<Longrightarrow> \<exists>g'. leads g g' \<and> ok g' (snd (m s))"
    and "\<And>g s. ok g s \<Longrightarrow> fst (m s) \<noteq> Inl CancelledError \<and> R (fst (m s))"
  shows "ends R m"
  using assms by (intro proceedsI) (metis fst_conv snd_conv)

lemma ends_pure:
  assumes "\<And>s. m s = (x, s)" and "x \<noteq> Inl CancelledError" and "R x"
  shows "ends R m"
  using assms leads_refl by (intro ends_step) (auto simp: assms(1))

lemma ends_return: "R (Inr x) \<Longrightarrow> ends R (returnM x)"
  by (rule ends_pure [where x = "Inr x"]) (simp_all add: returnM_def)

lemma ends_raise: "is_Exception e \<Longrightarrow> R (Inl e) \<Longrightarrow> ends R (raiseM e)"
  by (rule ends_pure [where x = "Inl e"]) (auto simp: raiseM_def)

lemma ends_await: "ends normal (awaitM rt t)"
proof (rule proceedsI)
  fix g s r s' assume ok: "ok g s" and a: "awaitM rt t s = (r, s')"
  obtain c s1 where c: "suspend rt t s = (c, s1)" by fastforce
  from resumes [OF ok c] c a
  show "\<exists>g'. leads g g' \<and> (if r = Inl CancelledError then stopped g' s' else normal r \<and> ok g' s')"
    by (cases c) (auto simp: awaitM_def)
qed

lemma ends_log: "ends (\<lambda>r. usable \<longrightarrow> normal r) (log_line rt oid line)"
proof (rule ends_step)
  fix g s assume "ok g s"
  then show "\<exists>g'. leads g g' \<and> ok g' (snd (log_line rt oid line s))" using logs by (simp add: log_line_def)
  obtain r s' where a: "append_log (rt_os rt) (rt_cfg rt) oid line s = (r, s')" by fastforce
  have "r \<noteq> Inl CancelledError" using append_log_Exception a by fastforce
  moreover have "usable \<longrightarrow> normal r" using append_log_ok a by (metis normal_simps(1) fst_conv)
  ultimately show "fst (log_line rt oid line s) \<noteq> Inl CancelledError \<and> (usable \<longrightarrow> normal (fst (log_line rt oid line s)))"
    by (simp add: log_line_def a)
qed

lemma ends_update:
  assumes "st = None \<or> st = Some RUNNING"
  shows "ends normal (locked_update rt t oid st step msg err False)"
proof -
  have "ends normal (update_operation oid st step msg err False)"
  proof (rule ends_step)
    fix g s assume ok: "ok g s"
    then show "\<exists>g'. leads g g' \<and> ok g' (snd (update_operation oid st step msg err False s))"
      using updates assms by blast
    have "fst (update_operation oid st step msg err False s) = Inr i"
      using known [OF ok] update_operation_known(1) by blast
    then show "fst (update_operation oid st step msg err False s) \<noteq> Inl CancelledError \<and>
        normal (fst (update_operation oid st step msg err False s))" by simp
  qed
  then show ?thesis
    unfolding locked_update_def
    by (intro ends_bind [OF ends_await] ends_bind [where P = normal] ends_return) simp_all
qed

subsubsection \<open>One command\<close>

lemma ends_handle_line: "ends (\<lambda>r. usable \<longrightarrow> normal r) (handle_line rt t oid l)"
  unfolding handle_line_def Let_def
  by (auto intro!: ends_return ends_then ends_log ends_weaken [OF ends_update] split: option.split)

lemma ends_handle_rest: "ends (\<lambda>r. usable \<longrightarrow> normal r) (handle_rest rt oid l)"
  unfolding handle_rest_def Let_def by (auto intro!: ends_return ends_log)

lemma ends_drain:
  assumes "\<And>l. ends (\<lambda>r. usable \<longrightarrow> normal r) (h l)"
  shows "ends (\<lambda>r. usable \<longrightarrow> normal r) (drain_buffer h buf)"
proof (induction buf rule: length_induct)
  case (1 buf)
  show ?case
  proof (cases "nl \<in> set buf")
    case True
    then have "length (drop (Suc (length (takeWhile (\<lambda>c. c \<noteq> nl) buf))) buf) < length buf"
      by (auto dest: length_pos_if_in_set)
    with 1 True assms show ?thesis by (subst drain_buffer_step) (auto intro!: ends_then)
  next
    case False
    then show ?thesis by (subst drain_buffer_step) (auto intro!: ends_return)
  qed
qed

lemma ends_at_eof:
  assumes "ends (\<lambda>r. usable \<longrightarrow> normal r) (hp buf)"
  shows "ends (\<lambda>r. usable \<longrightarrow> normal r) (at_eof hp buf)"
proof (cases "buf = []")
  case True
  then show ?thesis by (intro ends_pure [where x = "Inr ()"]) (simp_all add: at_eof_def)
next
  case False
  then have "at_eof hp buf = hp buf" by (simp add: at_eof_def fun_eq_iff)
  with assms show ?thesis by simp
qed

lemma ends_read_loop:
  assumes h: "\<And>l. ends (\<lambda>r. usable \<longrightarrow> normal r) (h l)" and hp: "\<And>l. ends (\<lambda>r. usable \<longrightarrow> normal r) (hp l)"
  shows "ends (\<lambda>r. usable \<longrightarrow> normal r) (read_loop h hp (suspend rt t) cs buf)"
proof (induction cs arbitrary: buf)
  case Nil
  show ?case unfolding read_loop_Nil by (intro ends_then ends_weaken [OF ends_await] ends_at_eof hp) simp
next
  case (Cons c cs)
  show ?case
    unfolding read_loop_Cons
    by (rule ends_then [OF ends_weaken [OF ends_await]])
      (auto intro!: ends_then [OF ends_drain] ends_then [OF hp] ends_at_eof h hp Cons)
qed

lemma ends_spawn:
  "ends (\<lambda>r. \<exists>s. r = (case rt_spawn rt cmd cwd env s of Inl m \<Rightarrow> Inl (OSError m) | Inr sp \<Rightarrow> Inr sp))
     (create_subprocess_exec rt t cmd cwd env)"
  unfolding create_subprocess_exec_def
proof (rule ends_bind [OF ends_await], rule proceedsI)
  fix u :: unit and g s r s'
  assume ok: "ok g s" and m: "(case rt_spawn rt cmd cwd env s of Inl m \<Rightarrow> (Inl (OSError m), s)
    | Inr sp \<Rightarrow> (Inr sp, s\<lparr>procs := (procs s)(sp_ref sp := \<lparr>pid = sp_pid sp, returncode = None\<rparr>)\<rparr>)) = (r, s')"
  show "\<exists>g'. leads g g' \<and> (if r = Inl CancelledError then stopped g' s'
      else (\<exists>s. r = (case rt_spawn rt cmd cwd env s of Inl m \<Rightarrow> Inl (OSError m) | Inr sp \<Rightarrow> Inr sp)) \<and> ok g' s')"
  proof (cases "rt_spawn rt cmd cwd env s")
    case (Inl e)
    with m have "r = (case rt_spawn rt cmd cwd env s of Inl m \<Rightarrow> Inl (OSError m) | Inr sp \<Rightarrow> Inr sp)"
      and "r \<noteq> Inl CancelledError" and "s' = s" by auto
    with ok leads_refl show ?thesis by auto
  next
    case (Inr sp)
    with m have "r = (case rt_spawn rt cmd cwd env s of Inl m \<Rightarrow> Inl (OSError m) | Inr sp \<Rightarrow> Inr sp)"
      and "r \<noteq> Inl CancelledError"
      and "s' = s\<lparr>procs := (procs s)(sp_ref sp := \<lparr>pid = sp_pid sp, returncode = None\<rparr>)\<rparr>" by auto
    with spawns [OF ok, of "sp_ref sp" "sp_pid sp" None] show ?thesis by (simp only: if_False) blast
  qed
qed simp

lemma ends_wait: "ends (\<lambda>r. r = Inr (sp_rc sp)) (wait_process rt t sp)"
  unfolding wait_process_def
  by (rule ends_bind [OF ends_await], rule ends_step) (use spawns in auto)

lemma ends_note: "ends normal (\<lambda>s. (Inr (), upd_rec i (\<lambda>r. r\<lparr>process := Some p\<rparr>) s))"
  by (rule ends_step) (use holds in auto)

text \<open>A step that first looks at the operation takes the branch for one that is not cancelled.\<close>

lemma proceeds_branch:
  assumes "\<And>s. lookup s oid = Some i \<Longrightarrow> status (recs s i) \<noteq> CANCELLED \<Longrightarrow> m s = m' s"
    and "proceeds leads ok stopped Q m'"
  shows "proceeds leads ok stopped Q m"
  unfolding proceeds_def
proof (intro allI impI)
  fix g s r s' assume "ok g s" and "m s = (r, s')"
  moreover from this have "m' s = (r, s')" using assms(1) known by simp
  ultimately show "\<exists>g'. leads g g' \<and> (if r = Inl CancelledError then stopped g' s' else Q r g' s')"
    using assms(2) unfolding proceeds_def by blast
qed

lemma ends_check:
  "ends (\<lambda>r. usable \<longrightarrow> r = command_result cmd (Inr sp)) (check_return_code rt i oid cmd (sp_rc sp))"
proof (cases "sp_rc sp = 0")
  case True
  then show ?thesis
    by (intro ends_pure [where x = "Inr ()"]) (simp_all add: check_return_code_def command_result_def)
next
  case False
  define e where "e = ''Command '' @ squote (hd cmd) @ '' failed with return code '' @ show_int (sp_rc sp)"
  have "ends (\<lambda>r. usable \<longrightarrow> r = Inl (RuntimeError e))
      (bindM (log_line rt oid (''ERROR: '' @ e)) (\<lambda>_. raiseM (RuntimeError e)))"
    by (rule ends_then [OF ends_log ends_raise]) simp_all
  then have "ends (\<lambda>r. usable \<longrightarrow> r = command_result cmd (Inr sp))
      (bindM (log_line rt oid (''ERROR: '' @ e)) (\<lambda>_. raiseM (RuntimeError e)))"
    using False by (simp add: command_result_def e_def)
  then show ?thesis
    by (rule proceeds_branch [rotated])
      (use False in \<open>simp add: check_return_code_def e_def Let_def\<close>)
qed

lemma ends_run_process:
  "ends (\<lambda>r. usable \<longrightarrow> (\<exists>s. r = command_result cmd (rt_spawn rt cmd cwd env s)))
     (run_process rt t i oid cmd cwd env)"
  unfolding run_process_def
proof (rule ends_bind [OF ends_spawn])
  fix sp assume "\<exists>s. Inr sp = (case rt_spawn rt cmd cwd env s of Inl m \<Rightarrow> Inl (OSError m) | Inr sp \<Rightarrow> Inr sp)"
  then obtain s where "Inr sp = (case rt_spawn rt cmd cwd env s of Inl m \<Rightarrow> Inl (OSError m) | Inr sp \<Rightarrow> Inr sp)" ..
  then have s: "rt_spawn rt cmd cwd env s = Inr sp" by (cases "rt_spawn rt cmd cwd env s") simp_all
  have "ends (\<lambda>r. usable \<longrightarrow> r = command_result cmd (Inr sp))
      (bindM (\<lambda>s. (Inr (), upd_rec i (\<lambda>r. r\<lparr>process := Some (sp_ref sp)\<rparr>) s))
        (\<lambda>_. bindM (read_loop (handle_line rt t oid) (handle_rest rt oid) (suspend rt t) (sp_chunks sp) [])
           (\<lambda>_. bindM (wait_process rt t sp) (check_return_code rt i oid cmd))))"
    by (intro ends_then [OF ends_weaken [OF ends_note]] ends_then [OF ends_read_loop] ends_handle_line
          ends_handle_rest ends_bind [OF ends_wait]) (auto intro: ends_check)
  then show "ends (\<lambda>r. usable \<longrightarrow> (\<exists>s. r = command_result cmd (rt_spawn rt cmd cwd env s)))
      (bindM (\<lambda>s. (Inr (), upd_rec i (\<lambda>r. r\<lparr>process := Some (sp_ref sp)\<rparr>) s))
        (\<lambda>_. bindM (read_loop (handle_line rt t oid) (handle_rest rt oid) (suspend rt t) (sp_chunks sp) [])
           (\<lambda>_. bindM (wait_process rt t sp) (check_return_code rt i oid cmd))))"
    by (rule ends_weaken) (auto intro!: exI [of _ s] simp: s)
next
  fix e :: exc
  assume "\<exists>s. Inl e = (case rt_spawn rt cmd cwd env s of Inl m \<Rightarrow> Inl (OSError m) | Inr sp \<Rightarrow> Inr sp)"
  then obtain s where s: "Inl e = (case rt_spawn rt cmd cwd env s of Inl m \<Rightarrow> Inl (OSError m) | Inr sp \<Rightarrow> Inr sp)" ..
  then have "Inl e = command_result cmd (rt_spawn rt cmd cwd env s)"
    by (cases "rt_spawn rt cmd cwd env s") (simp_all add: command_result_def)
  then show "usable \<longrightarrow> (\<exists>s. Inl e = command_result cmd (rt_spawn rt cmd cwd env s))" by blast
qed


lemma ends_execution_exception:
  assumes "is_Exception e"
  shows "ends (\<lambda>r. usable \<longrightarrow> r = Inl e) (execution_exception rt i oid e)"
proof (rule proceeds_branch)
  show "ends (\<lambda>r. usable \<longrightarrow> r = Inl e)
      (bindM (log_line rt oid (''Execution exception: '' @ exc_str e)) (\<lambda>_. raiseM e))"
    by (rule ends_then [OF ends_log ends_raise]) (use assms in simp_all)
qed (use assms in \<open>simp add: execution_exception_def\<close>)

lemma ends_try_reraise:
  assumes m: "ends (\<lambda>r. usable \<longrightarrow> R r) m"
    and h: "\<And>e. is_Exception e \<Longrightarrow> ends (\<lambda>r. usable \<longrightarrow> r = Inl e) (h e)"
    and c: "\<And>s. h CancelledError s = (Inl CancelledError, s)"
  shows "ends (\<lambda>r. usable \<longrightarrow> R r) (tryM m h)"
proof (rule proceedsI)
  fix g s r s' assume ok: "ok g s" and tr: "tryM m h s = (r, s')"
  obtain r1 s1 where m1: "m s = (r1, s1)" by fastforce
  obtain g1 where g1: "leads g g1" "if r1 = Inl CancelledError then stopped g1 s1 else (usable \<longrightarrow> R r1) \<and> ok g1 s1"
    using m ok m1 by (rule proceedsD)
  show "\<exists>g'. leads g g' \<and> (if r = Inl CancelledError then stopped g' s' else (usable \<longrightarrow> R r) \<and> ok g' s')"
  proof (cases r1)
    case (Inl e)
    show ?thesis
    proof (cases "e = CancelledError")
      case True
      with tr m1 Inl c g1 show ?thesis by (auto simp: tryM_def)
    next
      case False
      then have "is_Exception e" using not_Exception by blast
      from h [OF this] g1(2) False Inl obtain g2 where g2: "leads g1 g2"
        "if r = Inl CancelledError then stopped g2 s' else (usable \<longrightarrow> r = Inl e) \<and> ok g2 s'"
        using tr m1 by (auto simp: tryM_def elim: proceedsD)
      have "usable \<longrightarrow> R (Inl e)" using g1(2) Inl False by simp
      with g2 g1(1) leads_trans show ?thesis by (metis (no_types, lifting))
    qed
  next
    case (Inr x)
    with tr m1 g1 show ?thesis by (auto simp: tryM_def)
  qed
qed

lemma ends_execute_command:
  "ends (\<lambda>r. usable \<longrightarrow> (\<exists>s. r = command_result cmd (rt_spawn rt cmd cwd env s)))
     (execute_command rt t oid cmd cwd env nm msg)"
proof (rule proceeds_branch)
  let ?line = "''> Running: '' @ join '' '' cmd @ '' (cwd: '' @ path_str cwd @ '')''"
  have "execution_exception rt i oid CancelledError s = (Inl CancelledError, s)" for s
    by (simp add: execution_exception_def)
  then show "ends (\<lambda>r. usable \<longrightarrow> (\<exists>s. r = command_result cmd (rt_spawn rt cmd cwd env s)))
      (bindM (locked_update rt t oid (Some RUNNING) (Some nm) (Some msg) None False)
        (\<lambda>_. bindM (log_line rt oid ?line)
          (\<lambda>_. tryM (run_process rt t i oid cmd cwd env) (execution_exception rt i oid))))"
    by (intro ends_then [OF ends_weaken [OF ends_update]] ends_then [OF ends_log]
          ends_try_reraise [OF ends_run_process ends_execution_exception]) simp_all
qed (simp add: execute_command_def)

lemma ends_run_commands: "ends (\<lambda>r. usable \<longrightarrow> may_end rt steps r) (run_commands rt t oid steps)"
proof (induction steps)
  case Nil
  show ?case by (simp add: run_commands_def ends_return)
next
  case (Cons a steps)
  obtain cmd cwd env nm msg where a: "a = (cmd, cwd, env, nm, msg)" by (cases a)
  have "ends (\<lambda>r. usable \<longrightarrow> may_end rt (a # steps) r)
      (bindM (execute_command rt t oid cmd cwd env nm msg) (\<lambda>_. run_commands rt t oid steps))"
  proof (rule ends_bind [OF ends_execute_command])
    fix x :: unit assume x: "usable \<longrightarrow> (\<exists>s. Inr x = command_result cmd (rt_spawn rt cmd cwd env s))"
    show "ends (\<lambda>r. usable \<longrightarrow> may_end rt (a # steps) r) (run_commands rt t oid steps)"
    proof (rule ends_weaken [OF Cons])
      fix r assume r: "usable \<longrightarrow> may_end rt steps r"
      show "usable \<longrightarrow> may_end rt (a # steps) r"
      proof
        assume u: usable
        with x obtain s where "command_result cmd (rt_spawn rt cmd cwd env s) = Inr x" by metis
        with r u show "may_end rt (a # steps) r" by (auto simp: a intro!: exI [of _ s])
      qed
    qed
  next
    fix e assume e: "usable \<longrightarrow> (\<exists>s. Inl e = command_result cmd (rt_spawn rt cmd cwd env s))"
    show "usable \<longrightarrow> may_end rt (a # steps) (Inl e)"
    proof
      assume usable
      with e obtain s where "command_result cmd (rt_spawn rt cmd cwd env s) = Inl e" by metis
      then show "may_end rt (a # steps) (Inl e)" by (auto simp: a intro!: exI [of _ s])
    qed
  qed
  then show ?case by (simp add: run_commands_def a)
qed

subsubsection \<open>Mock steps\<close>

lemma ends_mock_logs: "ends (\<lambda>r. usable \<longrightarrow> normal r) (mock_logs rt t i oid ls)"
proof (induction ls)
  case Nil
  show ?case by (rule ends_pure [where x = "Inr ()"]) simp_all
next
  case (Cons l ls)
  show ?case
  proof (rule proceeds_branch)
    show "ends (\<lambda>r. usable \<longrightarrow> normal r)
        (bindM (log_line rt oid l) (\<lambda>_. bindM (awaitM rt t) (\<lambda>_. mock_logs rt t i oid ls)))"
      by (intro ends_then [OF ends_log] ends_then [OF ends_weaken [OF ends_await]] Cons) simp
  qed simp
qed

lemma ends_mock_step: "ends (\<lambda>r. usable \<longrightarrow> normal r) (mock_step rt t oid nm msg ls)"
proof (rule proceeds_branch)
  show "ends (\<lambda>r. usable \<longrightarrow> normal r)
      (bindM (locked_update rt t oid (Some RUNNING) (Some nm) (Some msg) None False)
        (\<lambda>_. mock_logs rt t i oid ls))"
    by (rule ends_then [OF ends_weaken [OF ends_update] ends_mock_logs]) simp_all
qed (simp add: mock_step_def)

lemma ends_seq:
  assumes "\<forall>m \<in> set ms. ends (\<lambda>r. usable \<longrightarrow> normal r) m"
  shows "ends (\<lambda>r. usable \<longrightarrow> normal r) (seqM ms)"
  using assms by (induction ms) (auto intro: ends_return ends_then)

lemma ends_run_plan:
  assumes "\<And>e. p = Inl e \<Longrightarrow> is_Exception e"
  shows "ends (\<lambda>r. case p of Inl e \<Rightarrow> r = Inl e | Inr steps \<Rightarrow> usable \<longrightarrow> may_end rt steps r) (run_plan rt t oid p)"
  using assms by (cases p) (simp_all add: run_plan_def ends_raise ends_run_commands)


subsubsection \<open>The end\<close>

text \<open>Settled as \<open>st\<close>, with this message and, when given, this error.\<close>

abbreviation concluded :: "OperationStatus \<Rightarrow> string \<Rightarrow> string option \<Rightarrow> 'g \<Rightarrow> mgr \<Rightarrow> bool" where
  "concluded st msg err g s \<equiv> finished st g s \<and> reports i msg err s"

text \<open>The final update, and what may follow it without another wait.\<close>

lemma settle_then:
  assumes st: "st = SUCCEEDED \<or> st = FAILED"
    and k: "\<And>s1 r s'. k s1 = (r, s') \<Longrightarrow> r = Inr () \<and>
       (s' = s1 \<or> (\<exists>line. s' = snd (append_log (rt_os rt) (rt_cfg rt) oid line (snd (now s1)))))"
  shows "proceeds leads ok stopped (\<lambda>r g s. r = Inr () \<and> concluded st msg err g s)
     (bindM (locked_update rt t oid (Some st) step (Some msg) err True) (\<lambda>_. k))"
proof -
  have "proceeds leads ok stopped (\<lambda>r g s. r = Inr () \<and> concluded st msg err g s)
      (bindM (update_operation oid (Some st) step (Some msg) err True) (\<lambda>_. k))"
  proof (rule proceedsI)
    fix g s r s'
    assume ok: "ok g s"
      and m: "bindM (update_operation oid (Some st) step (Some msg) err True) (\<lambda>_. k) s = (r, s')"
    define s1 where "s1 = snd (update_operation oid (Some st) step (Some msg) err True s)"
    have l: "lookup s oid = Some i" using known [OF ok] by simp
    have "fst (update_operation oid (Some st) step (Some msg) err True s) = Inr i"
      by (rule update_operation_known(1) [OF l s1_def])
    then have "k s1 = (r, s')"
      using m by (cases "update_operation oid (Some st) step (Some msg) err True s") (simp add: bindM_def s1_def)
    from k [OF this] have r: "r = Inr ()"
      and s': "s' = s1 \<or> (\<exists>line. s' = snd (append_log (rt_os rt) (rt_cfg rt) oid line (snd (now s1))))" by auto
    then obtain line where s'l: "s' = s1 \<or> s' = snd (append_log (rt_os rt) (rt_cfg rt) oid line (snd (now s1)))" by blast
    have "reports i msg err s1" using update_operation_text(2,3) [OF l s1_def] by (auto simp: reports_def)
    moreover have "log_only s1 s'" using s'l log_only_trans [OF log_only_now log_only_append_log] by auto
    ultimately have "reports i msg err s'" by (simp add: reports_log_only)
    with settles [OF ok st s1_def s'l] r
    show "\<exists>g'. leads g g' \<and> (if r = Inl CancelledError then stopped g' s' else r = Inr () \<and> concluded st msg err g' s')"
      by auto
  qed
  moreover have "bindM (locked_update rt t oid (Some st) step (Some msg) err True) (\<lambda>_. k) =
      bindM (awaitM rt t) (\<lambda>_. bindM (update_operation oid (Some st) step (Some msg) err True) (\<lambda>_. k))"
    by (rule ext) (simp add: locked_update_def bindM_def returnM_def split: prod.split sum.split)
  ultimately show ?thesis using proceeds_bind [OF ends_await] by (metis (no_types, lifting) normal_simps(2))
qed

lemma concludes_fail:
  "proceeds leads ok stopped
     (\<lambda>r g s. r = Inr () \<and> concluded FAILED (label @ '': '' @ exc_str e) (Some (exc_str e)) g s)
     (fail_pipeline rt t oid label e)"
proof (rule proceeds_branch)
  let ?u = "locked_update rt t oid (Some FAILED) (Some ''Failed'') (Some (label @ '': '' @ exc_str e)) (Some (exc_str e)) True"
  have "?u = bindM ?u (\<lambda>_. returnM ())"
    by (rule ext) (simp add: bindM_def returnM_def split: prod.split sum.split)
  moreover have "proceeds leads ok stopped
     (\<lambda>r g s. r = Inr () \<and> concluded FAILED (label @ '': '' @ exc_str e) (Some (exc_str e)) g s)
     (bindM ?u (\<lambda>_. returnM ()))"
    by (rule settle_then) (simp_all add: returnM_def)
  ultimately show "proceeds leads ok stopped
     (\<lambda>r g s. r = Inr () \<and> concluded FAILED (label @ '': '' @ exc_str e) (Some (exc_str e)) g s) ?u" by simp
qed (simp add: fail_pipeline_def)

lemma concludes_finalize:
  assumes "logc \<Longrightarrow> usable"
  shows "proceeds leads ok stopped (\<lambda>r g s. r = Inr () \<and> concluded SUCCEEDED msg None g s)
     (finalize_pipeline rt t oid msg logc)"
proof (rule proceeds_branch)
  let ?k = "\<lambda>s1. if logc
     then (let (d, s2) = now s1 in log_line rt oid (stamp d @ ''Cluster build completed successfully.'') s2)
     else (Inr (), s1)"
  show "proceeds leads ok stopped (\<lambda>r g s. r = Inr () \<and> concluded SUCCEEDED msg None g s)
     (bindM (locked_update rt t oid (Some SUCCEEDED) (Some ''Completed'') (Some msg) None True) (\<lambda>_. ?k))"
  proof (rule settle_then)
    fix s1 r s' assume k: "?k s1 = (r, s')"
    show "r = Inr () \<and> (s' = s1 \<or> (\<exists>line. s' = snd (append_log (rt_os rt) (rt_cfg rt) oid line (snd (now s1)))))"
    proof (cases logc)
      case True
      with assms obtain p where p: "get_log_file_path (rt_os rt) (rt_cfg rt) oid = Inr p" by blast
      obtain s3 where a: "append_log (rt_os rt) (rt_cfg rt) oid
          (stamp (fst (now s1)) @ ''Cluster build completed successfully.'') (snd (now s1)) = (Inr (), s3)"
        using append_log_ok [OF p] by blast
      with k True have "r = Inr ()" "s' = s3" by (simp_all add: log_line_def case_prod_beta)
      with a show ?thesis by (metis snd_conv)
    qed (use k in simp)
  qed simp
qed (simp add: finalize_pipeline_def)

text \<open>
  A pipeline whose steps end in \<open>R\<close>: success if that is a normal result, and otherwise failure
  with the text of the exception.
\<close>

definition verdict :: "(unit res \<Rightarrow> bool) \<Rightarrow> string \<Rightarrow> string \<Rightarrow> unit res \<Rightarrow> 'g \<Rightarrow> mgr \<Rightarrow> bool" where
  "verdict R label msg r g s \<longleftrightarrow> r = Inr () \<and>
     (R (Inr ()) \<and> concluded SUCCEEDED msg None g s \<or>
      (\<exists>e. R (Inl e) \<and> concluded FAILED (label @ '': '' @ exc_str e) (Some (exc_str e)) g s))"

lemma concludes_pipeline:
  assumes body: "ends R body" and "logc \<Longrightarrow> usable"
  shows "proceeds leads ok stopped (verdict R label msg) (pipeline rt t oid label msg logc body)"
proof (rule proceedsI)
  fix g s r s' assume ok: "ok g s" and p: "pipeline rt t oid label msg logc body s = (r, s')"
  obtain r1 s1 where b: "body s = (r1, s1)" by fastforce
  obtain g1 where g1: "leads g g1" "if r1 = Inl CancelledError then stopped g1 s1 else R r1 \<and> ok g1 s1"
    using body ok b by (rule proceedsD)
  show "\<exists>g'. leads g g' \<and> (if r = Inl CancelledError then stopped g' s' else verdict R label msg r g' s')"
  proof (cases r1)
    case (Inl e)
    show ?thesis
    proof (cases "e = CancelledError")
      case True
      with p b Inl g1 show ?thesis by (auto simp: pipeline_def tryM_def bindM_def raiseM_def)
    next
      case False
      then have "is_Exception e" using not_Exception by blast
      with p b Inl have f: "fail_pipeline rt t oid label e s1 = (r, s')"
        by (simp add: pipeline_def tryM_def bindM_def)
      have "ok g1 s1" and "R (Inl e)" using g1 Inl False by simp_all
      obtain g2 where g2: "leads g1 g2" "if r = Inl CancelledError then stopped g2 s'
          else r = Inr () \<and> concluded FAILED (label @ '': '' @ exc_str e) (Some (exc_str e)) g2 s'"
        by (rule proceedsD [OF concludes_fail \<open>ok g1 s1\<close> f])
      have "leads g g2" by (rule leads_trans [OF g1(1) g2(1)])
      with g2(2) \<open>R (Inl e)\<close> show ?thesis unfolding verdict_def by (cases "r = Inl CancelledError") auto
    qed
  next
    case (Inr x)
    then have "ok g1 s1" and R: "R (Inr ())" using g1 by simp_all
    obtain r2 s2 where f: "finalize_pipeline rt t oid msg logc s1 = (r2, s2)" by fastforce
    obtain g2 where g2: "leads g1 g2" "if r2 = Inl CancelledError then stopped g2 s2
        else r2 = Inr () \<and> concluded SUCCEEDED msg None g2 s2"
      by (rule proceedsD [OF concludes_finalize [OF assms(2)] \<open>ok g1 s1\<close> f])
    have "leads g g2" by (rule leads_trans [OF g1(1) g2(1)])
    moreover have "r = r2 \<and> s' = s2"
      using p b Inr f g2(2)
      by (cases "r2 = Inl CancelledError") (simp_all add: pipeline_def tryM_def bindM_def raiseM_def)
    ultimately show ?thesis
      using g2(2) R unfolding verdict_def by (cases "r2 = Inl CancelledError") auto
  qed
qed


subsubsection \<open>The pipelines\<close>

lemma ends_job_mock:
  assumes "coroutine_oid c = oid"
  shows "ends (\<lambda>r. usable \<longrightarrow> normal r) (job_mock rt t c)"
  using assms
  by (cases c)
    (auto simp: cluster_create_mock_def cluster_delete_mock_def workstation_create_mock_def
      workstation_delete_mock_def edge_router_create_mock_def edge_router_delete_mock_def
      simp del: seqM.simps intro!: ends_seq ends_mock_step)

lemma concludes_coroutine:
  assumes c: "coroutine_oid c = oid" and "logs_completion c \<Longrightarrow> usable"
    and "logs_completion c \<Longrightarrow> \<forall>e. rt_gv rt = Inl e \<longrightarrow> is_Exception e"
  shows "proceeds leads ok stopped (verdict (job_ends rt c) (failure_label c) (success_message c))
     (run_coroutine rt t c)"
  unfolding run_coroutine_pipeline c
proof (rule concludes_pipeline [OF _ assms(2)])
  have "is_Exception e" if "job_plan rt c = Inl e" for e
    using job_plan_Inl [OF that] assms(3) by auto
  from ends_run_plan [of "job_plan rt c", OF this] ends_job_mock [OF c]
  show "ends (job_ends rt c)
     (if mock_enabled rt then job_mock rt t c else run_plan rt t oid (job_plan rt c))"
    unfolding job_ends_def [abs_def] c by simp
qed

lemma coroutine_concluded:
  assumes "coroutine_oid c = oid" and "logs_completion c \<Longrightarrow> usable"
    and "logs_completion c \<Longrightarrow> \<forall>e. rt_gv rt = Inl e \<longrightarrow> is_Exception e"
    and "ok g s" and "run_coroutine rt t c s = (r, s')"
  obtains (cancelled) g' where "leads g g'" and "r = Inl CancelledError" and "stopped g' s'"
    | (succeeded) g' where "leads g g'" and "r = Inr ()" and "job_ends rt c (Inr ())"
        and "finished SUCCEEDED g' s'" and "reports i (success_message c) None s'"
    | (failed) g' e where "leads g g'" and "r = Inr ()" and "job_ends rt c (Inl e)"
        and "finished FAILED g' s'"
        and "reports i (failure_label c @ '': '' @ exc_str e) (Some (exc_str e)) s'"
proof -
  obtain g' where g': "leads g g'" "if r = Inl CancelledError then stopped g' s'
      else verdict (job_ends rt c) (failure_label c) (success_message c) r g' s'"
    by (rule proceedsD [OF concludes_coroutine [OF assms(1-3)] assms(4,5)])
  show thesis
  proof (cases "r = Inl CancelledError")
    case True
    with g' cancelled show thesis by simp
  next
    case False
    with g' have "verdict (job_ends rt c) (failure_label c) (success_message c) r g' s'" by simp
    with g'(1) succeeded failed show thesis unfolding verdict_def by blast
  qed
qed

end

end
