(* ===== verification/Demo.thy ===== *)
theory Demo
  imports Operation_Lemmas Requests
begin

text \<open>
  A concrete world on which the hypotheses of the theorems are seen to hold: a file system in
  which every path resolves to itself and every directory can be made, settings, an empty
  manager, a manager with one running cluster operation driven by task 0, and two requests.
\<close>

definition demo_os :: osys where
  "demo_os = \<lparr>os_resolve = id, mkdir_error = (\<lambda>_. None)\<rparr>"

definition demo_cfg :: Settings where
  "demo_cfg =
     \<lparr>repo_root = [''srv'', ''gem''], default_project_id = ''gem-proj'', default_zone = ''us-central1-a'',
      log_dir = [''var'', ''log''], max_log_buffer_lines = 1000\<rparr>"

definition demo_time :: datetime where
  "demo_time = Datetime 2026 1 2 3 4 5 0"

definition demo_record :: "string \<Rightarrow> OperationStatus \<Rightarrow> ref option \<Rightarrow> OperationRecord" where
  "demo_record oid st t =
     \<lparr>operation_id = oid, operation_type = CLUSTER_CREATE, target_resource = oid, status = st,
      current_step = Some ''Initializing'', message = None, created_at = demo_time,
      updated_at = demo_time, completed_at = (if active st then None else Some demo_time), error = None,
      log_buffer = deque_new 1000, subscribers = [], process = None, task = t\<rparr>"

definition demo_mgr :: mgr where
  "demo_mgr =
     \<lparr>operations = [], recs = (\<lambda>_. demo_record [] CANCELLED None), next_rec = 0,
      queues = (\<lambda>_. aqueue_new 100), next_queue = 0,
      procs = (\<lambda>_. \<lparr>pid = 0, returncode = None\<rparr>), tasks = (\<lambda>_. TReturned), done_callbacks = [],
      signals = [], kill_timers = [], files = (\<lambda>_. None), clock = (\<lambda>_. demo_time),
      io_ok = (\<lambda>_. True), ticks = 0\<rparr>"

definition demo_running :: mgr where
  "demo_running =
     demo_mgr\<lparr>operations := [(''c1'', 0)],
              recs := (\<lambda>_. demo_record ''c1'' RUNNING (Some 0)), next_rec := 1,
              tasks := (\<lambda>_. TReturned)(0 := TPending False), done_callbacks := [(0, ''c1'')]\<rparr>"

text \<open>Two requests.\<close>

definition demo_create :: ClusterCreateRequest where
  "demo_create =
     \<lparr>project_id = None, zone = None, region = None, provisioning_sa_email = None,
      cluster_name = ''c1'', hardware_variant = ''n2-standard-16'', emulate_gdc_version = ''1.12.0'',
      gcp_cluster_admin_sa = None, gce_network = ''vpc'', gce_subnetwork = ''sub'',
      node_storage_size = ''100GB'', pod_cidr_blocks = ''10.0.0.0/17'',
      services_cidr_blocks = ''10.96.0.0/12'', max_pods_per_node = 250, secondary_networks = None\<rparr>"

definition demo_delete :: ClusterDeleteRequest where
  "demo_delete =
     \<lparr>project_id = None, zone = None, region = None, provisioning_sa_email = None,
      del_cluster_name = ''c1'', del_tf_state_bucket = None\<rparr>"

lemma demo_path:
  "oid \<noteq> [] \<Longrightarrow> CHR ''/'' \<notin> set oid \<Longrightarrow> CHR 0x5C \<notin> set oid \<Longrightarrow> \<not> contains ''..'' oid \<Longrightarrow>
     get_log_file_path demo_os demo_cfg oid = Inr [''var'', ''log'', oid @ ''.log'']"
  by (simp add: get_log_file_path_def demo_os_def demo_cfg_def)

lemma demo_path_c1: "get_log_file_path demo_os demo_cfg ''c1'' = Inr [''var'', ''log'', ''c1.log'']"
  by (simp add: demo_path startswith_def)

lemma demo_running_sel:
  "lookup demo_running ''c1'' = Some 0" "task (recs demo_running 0) = Some 0"
  "status (recs demo_running 0) = RUNNING" "tasks demo_running 0 = TPending False"
  "operations demo_running = [(''c1'', 0)]" "recs demo_running = (\<lambda>_. demo_record ''c1'' RUNNING (Some 0))"
  by (simp_all add: demo_running_def demo_record_def lookup_def dict_get_def)

end
