(* ===== verification/Operation_Props.thy ===== *)
theory Operation_Props
  imports Demo
begin

text \<open>
  What the operation manager (\<open>api/gem_api/services/operations.py\<close>) promises, operation by
  operation: registering and its conflict check, logging and its three destinations, reading
  logs back, publishing to subscribers, cancelling, and the callback of a finished task.
\<close>

section \<open>Helper lemmas\<close>

lemma register_operation_conflict:
  "find_conflict s target = Some i \<Longrightarrow>
     register_operation os cfg oid ty target step msg s = (Inl (conflict_exc (recs s i) target), s)"
  by (simp add: register_operation_def register_insert_conflict)

lemma get_log_file_path_not_409: "get_log_file_path os cfg oid \<noteq> Inl (HTTPException 409 d)"
  by (auto simp: get_log_file_path_def Let_def split: if_splits option.splits)

lemma publish_queues:
  assumes "distinct (subscribers (recs s i))"
  shows "queues (publish i x s) q =
     (if q \<in> set (subscribers (recs s i)) then publish_loop (queues s q) x else queues s q)"
proof -
  have "distinct qs \<Longrightarrow> foldl (\<lambda>f q. f(q := publish_loop (f q) x)) f qs q =
      (if q \<in> set qs then publish_loop (f q) x else f q)" for qs and f :: "ref \<Rightarrow> string option aqueue"
    by (induction qs arbitrary: f) auto
  with assms show ?thesis by (simp add: publish_def)
qed

text \<open>The line that is logged: trimmed at its end, and stamped unless it already is.\<close>

definition formatted :: "mgr \<Rightarrow> string \<Rightarrow> string" where
  "formatted s line =
     (if startswith (rstrip line) ''[20'' then rstrip line
      else stamp (clock s (ticks s)) @ rstrip line)"

definition write_tick :: "mgr \<Rightarrow> string \<Rightarrow> nat" where
  "write_tick s line = (if startswith (rstrip line) ''[20'' then ticks s else Suc (ticks s))"

lemma append_log_effect:
  assumes "lookup s oid = Some i" and "get_log_file_path os cfg oid = Inr p" and "rstrip line \<noteq> []"
  obtains s2 where "append_log os cfg oid line s = (Inr (), publish i (Some (formatted s line)) s2)"
    and "recs s2 = (recs s)(i := (recs s i)\<lparr>log_buffer := deque_append (log_buffer (recs s i)) (formatted s line)\<rparr>)"
    and "queues s2 = queues s"
    and "files s2 = (if io_ok s (write_tick s line)
           then (files s)(p \<mapsto> (case files s p of None \<Rightarrow> [] | Some old \<Rightarrow> old) @ formatted s line @ newline)
           else files s)"
proof -
  let ?f = "formatted s line"
  let ?s1 = "s\<lparr>ticks := write_tick s line\<rparr>"
  let ?s2 = "append_file p (?f @ newline)
     (upd_rec i (\<lambda>r. r\<lparr>log_buffer := deque_append (log_buffer r) ?f\<rparr>) ?s1)"
  have "append_log os cfg oid line s = (Inr (), publish i (Some ?f) ?s2)"
    using assms by (simp add: append_log_def formatted_def write_tick_def now_def Let_def)
  then show ?thesis
    by (rule that)
       (auto simp: append_file_def try_io_def upd_rec_def split: option.split)
qed

lemma formatted_clean:
  assumes "rstrip line \<noteq> []"
  shows "rstrip (formatted s line) = formatted s line" and "formatted s line \<noteq> []"
  using assms rstrip_last [OF assms] by (auto simp: formatted_def intro!: rstrip_id)


section \<open>Log files are read back line by line\<close>

definition plain_line :: "string \<Rightarrow> bool" where
  "plain_line l \<longleftrightarrow> rstrip l = l \<and> CHR 0x0A \<notin> set l \<and> CHR 0x0D \<notin> set l"

definition file_text :: "string list \<Rightarrow> string" where
  "file_text ls = concat (map (\<lambda>l. l @ newline) ls)"

lemma universal_newlines_id: "CHR 0x0D \<notin> set s \<Longrightarrow> universal_newlines s = s"
  by (induction s rule: universal_newlines.induct) auto

lemma split_file_text:
  "\<forall>l \<in> set ls. CHR 0x0A \<notin> set l \<Longrightarrow> split_on CHR 0x0A (file_text ls) = ls @ [[]]"
  by (induction ls) (auto simp: file_text_def newline_def split_on_append)

lemma file_lines_text:
  assumes "\<forall>l \<in> set ls. plain_line l"
  shows "file_lines (file_text ls) = ls"
proof -
  have "CHR 0x0D \<notin> set (file_text ls)"
    using assms by (auto simp: file_text_def newline_def plain_line_def)
  then have "universal_newlines (file_text ls) = file_text ls" by (rule universal_newlines_id)
  then show ?thesis using assms split_file_text [of ls] by (simp add: file_lines_def plain_line_def Let_def)
qed

lemma map_rstrip_plain: "\<forall>l \<in> set ls. plain_line l \<Longrightarrow> map rstrip ls = ls"
  by (induction ls) (auto simp: plain_line_def)

lemma file_text_snoc: "file_text ls @ l @ newline = file_text (ls @ [l])"
  by (simp add: file_text_def)

lemma get_logs_file:
  assumes "get_log_file_path os cfg oid = Inr p" and "files s p = Some (file_text ls)"
    and "\<forall>l \<in> set ls. plain_line l" and "io_ok s (ticks s)"
  shows "fst (get_logs os cfg oid tail s) = Inr (tail_lines tail ls)"
  using assms by (simp add: get_logs_def try_io_def file_lines_text map_rstrip_plain)

lemma show_nat_chars: "c \<in> set (show_nat n) \<Longrightarrow> \<not> py_space c"
proof (induction n rule: show_nat.induct)
  case (1 n)
  have sp: "\<not> py_space (char_of (48 + d))" if "d < 10" for d :: nat
    using that by (simp add: py_space_def of_char_of Let_def)
  from 1 show ?case
    by (subst (asm) show_nat.simps) (auto simp: sp split: if_splits)
qed

lemma zfill_chars: "c \<in> set (zfill n s) \<Longrightarrow> c = CHR ''0'' \<or> c \<in> set s"
  by (auto simp: zfill_def)

lemma stamp_no_newline: "CHR 0x0A \<notin> set (stamp t)" "CHR 0x0D \<notin> set (stamp t)"
proof -
  have "py_space CHR 0x0A" "py_space CHR 0x0D" by (simp_all add: py_space_def)
  then show "CHR 0x0A \<notin> set (stamp t)" "CHR 0x0D \<notin> set (stamp t)"
    using show_nat_chars zfill_chars by (fastforce simp: stamp_def strftime_utc_def)+
qed

lemma formatted_plain:
  assumes "rstrip line \<noteq> []" and "plain_line (rstrip line)"
  shows "plain_line (formatted s line)"
  using formatted_clean [OF assms(1)] assms(2) stamp_no_newline
  by (auto simp: plain_line_def formatted_def)

section \<open>Registering\<close>

text \<open>
  C13: the conflict check is exact. Registering an operation is refused with status 409, and
  without touching the manager's state, if some operation on the target resource is queued or
  running; otherwise it is never refused with 409.
\<close>

theorem register_conflict_exact:
  "if \<exists>k i. (k, i) \<in> set (operations s) \<and> target_resource (recs s i) = target \<and> active (status (recs s i))
   then (\<exists>d. register_operation os cfg oid ty target step msg s = (Inl (HTTPException 409 d), s))
   else (\<forall>d. fst (register_operation os cfg oid ty target step msg s) \<noteq> Inl (HTTPException 409 d))"
proof (cases "find_conflict s target")
  case None
  then have "\<not> (\<exists>k i. (k, i) \<in> set (operations s) \<and> target_resource (recs s i) = target \<and>
      active (status (recs s i)))"
    unfolding find_conflict_None by blast
  moreover have "fst (register_operation os cfg oid ty target step msg s) \<noteq> Inl (HTTPException 409 d)" for d
    using get_log_file_path_not_409 [of os cfg oid d] None
    by (auto simp: register_operation_def register_insert_new split: sum.splits)
  ultimately show ?thesis by auto
next
  case (Some i)
  with find_conflict_Some [OF Some] show ?thesis
    by (auto simp: register_operation_conflict conflict_exc_def)
qed

text \<open>
  C14: a successful registration. On a free target and with a usable log file, registering
  creates a queued record without a task under the given identifier, leaves every other
  identifier alone, and starts the log: the first line is both the buffer's only line and the
  content of the log file.
\<close>

theorem register_effect:
  assumes "find_conflict s target = None" and "get_log_file_path os cfg oid = Inr p"
    and "\<forall>n. io_ok s n" and "0 < max_log_buffer_lines cfg"
    and "register_operation os cfg oid ty target step msg s = (r, s')"
  shows "r = Inr (next_rec s) \<and> lookup s' oid = Some (next_rec s) \<and>
    (\<forall>k. k \<noteq> oid \<longrightarrow> lookup s' k = lookup s k) \<and>
    status (recs s' (next_rec s)) = QUEUED \<and> task (recs s' (next_rec s)) = None \<and>
    target_resource (recs s' (next_rec s)) = target \<and>
    elems (log_buffer (recs s' (next_rec s))) = [init_line (recs s' (next_rec s))] \<and>
    files s' p = Some (init_line (recs s' (next_rec s)) @ newline)"
  using assms
  by (auto simp: register_operation_def register_insert_new register_finish_def write_file_def try_io_def
      upd_rec_def lookup_def init_line_def deque_append_def deque_new_def)

theorem register_effect_witness:
  "\<exists>s'. register_operation demo_os demo_cfg ''c1'' CLUSTER_CREATE ''c1'' [] [] demo_mgr = (Inr 0, s') \<and>
        lookup s' ''c1'' = Some 0 \<and> status (recs s' 0) = QUEUED"
proof -
  obtain r s' where r: "register_operation demo_os demo_cfg ''c1'' CLUSTER_CREATE ''c1'' [] [] demo_mgr = (r, s')"
    by fastforce
  have "find_conflict demo_mgr ''c1'' = None" "\<forall>n. io_ok demo_mgr n" "0 < max_log_buffer_lines demo_cfg"
    "next_rec demo_mgr = 0"
    by (simp_all add: find_conflict_def demo_mgr_def demo_cfg_def)
  with register_effect [OF _ demo_path_c1 _ _ r] r show ?thesis by simp
qed

text \<open>
  C21: a registration that cannot name its log file blocks its target. When the identifier
  gives no log file (it is malformed, or the log directory cannot be made), registering raises
  the error after the record has been entered; the record stays queued without a task, and
  from then on every registration for the same target is refused with status 409.
\<close>

theorem register_bad_path:
  assumes "find_conflict s target = None" and "get_log_file_path os cfg oid = Inl e"
    and "register_operation os cfg oid ty target step msg s = (r, s')"
  shows "r = Inl e \<and> lookup s' oid = Some (next_rec s) \<and>
    status (recs s' (next_rec s)) = QUEUED \<and> task (recs s' (next_rec s)) = None \<and>
    (\<forall>oid' ty' step' msg'. \<exists>d.
       register_operation os cfg oid' ty' target step' msg' s' = (Inl (HTTPException 409 d), s'))"
proof -
  let ?i = "next_rec s"
  have r: "r = Inl e" and s': "s' = s\<lparr>ticks := Suc (Suc (ticks s)), recs := (recs s)(?i :=
        fresh_record oid ty target step msg (max_log_buffer_lines cfg) s),
      next_rec := Suc ?i, operations := dict_set (operations s) oid ?i\<rparr>"
    using assms by (auto simp: register_operation_def register_insert_new)
  have "dict_get (operations s') oid = Some ?i" by (simp add: s')
  then have mem: "(oid, ?i) \<in> set (operations s')" by (rule dict_get_mem)
  have "find_conflict s' target \<noteq> None"
  proof
    assume "find_conflict s' target = None"
    then have "target_resource (recs s' ?i) = target \<longrightarrow> \<not> active (status (recs s' ?i))"
      unfolding find_conflict_None using mem by blast
    then show False by (simp add: s')
  qed
  then obtain j where "find_conflict s' target = Some j" by blast
  then have "\<exists>d. register_operation os cfg oid' ty' target step' msg' s' = (Inl (HTTPException 409 d), s')"
    for oid' ty' step' msg'
    by (simp add: register_operation_conflict conflict_exc_def)
  with r show ?thesis by (simp add: s' lookup_def)
qed

theorem register_bad_path_witness:
  "\<exists>e s'. register_operation demo_os demo_cfg ''a/b'' CLUSTER_CREATE ''c1'' [] [] demo_mgr = (Inl e, s') \<and>
     (\<exists>d. register_operation demo_os demo_cfg ''c1'' CLUSTER_CREATE ''c1'' [] [] s' = (Inl (HTTPException 409 d), s'))"
proof -
  obtain r s' where r: "register_operation demo_os demo_cfg ''a/b'' CLUSTER_CREATE ''c1'' [] [] demo_mgr = (r, s')"
    by fastforce
  have c: "find_conflict demo_mgr ''c1'' = None" by (simp add: find_conflict_def demo_mgr_def)
  have "contains ''/'' ''a/b''" by (simp add: startswith_def)
  then have p: "get_log_file_path demo_os demo_cfg ''a/b'' =
      Inl (HTTPException 400 (''Invalid operation_id '' @ squote ''a/b'' @ ''.''))"
    by (simp add: get_log_file_path_def)
  from register_bad_path [OF c p r] r show ?thesis by metis
qed

text \<open>
  Updating an operation that is not registered. The code means to answer with status 404;
  its parameter \<open>status\<close> hides the module of the status codes, so the handler itself fails:
  whatever the arguments, an \<open>AttributeError\<close> is raised and the state is unchanged.
\<close>

lemma update_unknown_attribute_error:
  assumes "lookup s oid = None"
  shows "\<exists>m. update_operation oid st step msg err completed s = (Inl (AttributeError m), s)"
  using assms by (simp add: update_operation_unknown shadowed_status_error_def)

lemma update_unknown_attribute_error_witness:
  "\<exists>m. update_operation ''x'' (Some RUNNING) None None None False demo_mgr = (Inl (AttributeError m), demo_mgr)"
proof -
  have "lookup demo_mgr ''x'' = None" by (simp add: lookup_def demo_mgr_def)
  then show ?thesis by (rule update_unknown_attribute_error)
qed


section \<open>Logging\<close>

text \<open>
  C22: a log line reaches its three destinations. For a known operation with a usable log file,
  a line that is not blank is trimmed at its end and stamped with the time unless it carries a
  stamp; the result is appended to the buffer (which keeps the newest lines that fit), appended
  to the log file, and offered to every subscriber, whose queue keeps the newest entries.
\<close>

theorem append_log_destinations:
  assumes "lookup s oid = Some i" and "get_log_file_path os cfg oid = Inr p" and "rstrip line \<noteq> []"
    and "\<forall>n. io_ok s n" and "distinct (subscribers (recs s i))" and "q \<in> set (subscribers (recs s i))"
    and "maxsize (queues s q) = 100" and "append_log os cfg oid line s = (r, s')"
  shows "r = Inr () \<and>
    elems (log_buffer (recs s' i)) =
      last_n (maxlen (log_buffer (recs s i))) (elems (log_buffer (recs s i)) @ [formatted s line]) \<and>
    files s' p = Some ((case files s p of None \<Rightarrow> [] | Some old \<Rightarrow> old) @ formatted s line @ newline) \<and>
    items (queues s' q) = last_n 100 (items (queues s q) @ [Some (formatted s line)])"
proof -
  obtain s2 where a: "append_log os cfg oid line s = (Inr (), publish i (Some (formatted s line)) s2)"
    and recs: "recs s2 = (recs s)(i := (recs s i)\<lparr>log_buffer := deque_append (log_buffer (recs s i)) (formatted s line)\<rparr>)"
    and qs: "queues s2 = queues s"
    and fs: "files s2 = (if io_ok s (write_tick s line)
           then (files s)(p \<mapsto> (case files s p of None \<Rightarrow> [] | Some old \<Rightarrow> old) @ formatted s line @ newline)
           else files s)"
    by (rule append_log_effect [OF assms(1-3)])
  have s': "r = Inr ()" "s' = publish i (Some (formatted s line)) s2" using a assms(8) by simp_all
  have "queues s' q = publish_loop (queues s q) (Some (formatted s line))"
    unfolding s' using publish_queues [of s2 i] recs qs assms(5,6) by simp
  then show ?thesis
    using s' recs fs assms(4,7)
    by (simp add: publish_def deque_append_elems publish_loop_items queue_keep_def)
qed

text \<open>A manager whose operation has one subscriber.\<close>

definition demo_subscribed :: mgr where
  "demo_subscribed = snd (stream_open ''c1'' demo_running)"

lemma demo_subscribed_sel:
  "lookup demo_subscribed ''c1'' = Some 0" "\<forall>n. io_ok demo_subscribed n"
  "subscribers (recs demo_subscribed 0) = [0]" "maxsize (queues demo_subscribed 0) = 100"
  "items (queues demo_subscribed 0) = []" "status (recs demo_subscribed 0) = RUNNING"
  by (simp_all add: demo_subscribed_def stream_open_def demo_running_def demo_mgr_def demo_record_def
        lookup_def dict_get_def upd_rec_def aqueue_new_def)

theorem append_log_destinations_witness:
  "\<exists>s'. append_log demo_os demo_cfg ''c1'' ''hello '' demo_subscribed = (Inr (), s') \<and>
     items (queues s' 0) = [Some (formatted demo_subscribed ''hello '')]"
proof -
  obtain r s' where a: "append_log demo_os demo_cfg ''c1'' ''hello '' demo_subscribed = (r, s')" by fastforce
  have "rstrip ''hello '' \<noteq> []" by (simp add: rstrip_def py_space_def)
  from append_log_destinations [OF demo_subscribed_sel(1) demo_path_c1 this demo_subscribed_sel(2) _ _ demo_subscribed_sel(4) a] a
  show ?thesis by (simp add: demo_subscribed_sel)
qed

text \<open>
  C23: what is logged is read back. If the log file holds the lines \<open>ls\<close> and another single
  line is logged, reading the logs returns \<open>ls\<close> followed by the new line as it was formatted,
  cut to the requested number of newest lines.
\<close>

theorem logs_roundtrip:
  assumes "lookup s oid = Some i" and "get_log_file_path os cfg oid = Inr p"
    and "files s p = Some (file_text ls)" and "\<forall>l \<in> set ls. plain_line l"
    and "rstrip line \<noteq> []" and "plain_line (rstrip line)" and "\<forall>n. io_ok s n"
  shows "fst (get_logs os cfg oid tail (snd (append_log os cfg oid line s))) =
           Inr (tail_lines tail (ls @ [formatted s line]))"
proof -
  obtain s2 where a: "append_log os cfg oid line s = (Inr (), publish i (Some (formatted s line)) s2)"
    and fs: "files s2 = (if io_ok s (write_tick s line)
           then (files s)(p \<mapsto> (case files s p of None \<Rightarrow> [] | Some old \<Rightarrow> old) @ formatted s line @ newline)
           else files s)"
    by (rule append_log_effect [OF assms(1,2,5)])
  let ?s = "snd (append_log os cfg oid line s)"
  have io: "io_ok ?s = io_ok s" using log_only_append_log [of s os cfg oid line] by (simp add: log_only_def)
  have "files ?s p = Some (file_text (ls @ [formatted s line]))"
    using a fs assms(3,7) by (simp add: publish_def file_text_snoc)
  moreover have "\<forall>l \<in> set (ls @ [formatted s line]). plain_line l"
    using assms(4) formatted_plain [OF assms(5,6)] by simp
  ultimately show ?thesis using get_logs_file [OF assms(2)] io assms(7) by simp
qed

theorem logs_roundtrip_witness:
  "fst (get_logs demo_os demo_cfg ''c1'' (Some 1)
      (snd (append_log demo_os demo_cfg ''c1'' ''hello''
         (demo_running\<lparr>files := [[''var'', ''log'', ''c1.log''] \<mapsto> file_text [''start'']]\<rparr>)))) =
   Inr [formatted demo_running ''hello'']"
proof -
  let ?s = "demo_running\<lparr>files := [[''var'', ''log'', ''c1.log''] \<mapsto> file_text [''start'']]\<rparr>"
  have l: "lookup ?s ''c1'' = Some 0" using demo_running_sel(1) by (simp add: lookup_def)
  have f: "files ?s [''var'', ''log'', ''c1.log''] = Some (file_text [''start''])" by simp
  have pl: "plain_line ''start''" "plain_line (rstrip ''hello'')" "rstrip ''hello'' \<noteq> []"
    by (simp_all add: plain_line_def rstrip_def py_space_def)
  have io: "\<forall>n. io_ok ?s n" by (simp add: demo_running_def demo_mgr_def)
  have "formatted ?s ''hello'' = formatted demo_running ''hello''"
    by (simp add: formatted_def)
  with logs_roundtrip [OF l demo_path_c1 f _ pl(3,2) io, of "Some 1"] pl(1) show ?thesis
    by (simp add: tail_lines_def last_n_def)
qed

section \<open>Cancelling\<close>

lemma cancel_operation_full:
  assumes "lookup s oid = Some i" and "active (status (recs s i))" and "get_log_file_path os cfg oid = Inr p"
    and "cancel_operation os cfg oid s = (r, s')"
  obtains resp m s4 where "r = Inr resp" and "cancel_success resp" and "cancel_status resp = CANCELLED"
    and "log_only s4 s'" and "procs s4 = procs s"
    and "signals s4 = signals (terminate_process i s)" and "kill_timers s4 = kill_timers (terminate_process i s)"
    and "tasks s4 = flag_task (task (recs s i)) (tasks s)"
    and "recs s4 = (recs s)(i := (recs s i)\<lparr>status := CANCELLED, completed_at := Some (clock s (ticks s)),
           message := Some m, updated_at := clock s (Suc (ticks s))\<rparr>)"
proof -
  define m where "m = ''Operation '' @ squote oid @ '' was cancelled and background processes terminated.''"
  define s3 where "s3 = upd_rec i
     (\<lambda>r. r\<lparr>completed_at := Some (clock s (ticks s)), message := Some m, updated_at := clock s (Suc (ticks s))\<rparr>)
     ((upd_rec i (\<lambda>r. r\<lparr>status := CANCELLED\<rparr>) s)\<lparr>ticks := Suc (Suc (ticks s))\<rparr>)"
  define s4 where "s4 = cancel_task i (terminate_process i s3)"
  obtain s5 where a: "append_log os cfg oid (stamp (clock s (ticks s)) @ ''Operation cancelled by user request.'') s4 = (Inr (), s5)"
    using append_log_ok [OF assms(3)] by blast
  have c: "cancel_operation os cfg oid s =
      (Inr \<lparr>cancel_success = True, cancel_operation_id = oid, cancel_status = CANCELLED, cancel_message = m\<rparr>,
       publish i None s5)"
    using assms(1,2) a
    by (simp add: cancel_operation_def terminal_iff_not_active now_def Let_def s4_def s3_def m_def)
  have "log_only s4 s5"
    using log_only_append_log [of s4 os cfg oid "stamp (clock s (ticks s)) @ ''Operation cancelled by user request.''"] a
    by simp
  then have lo: "log_only s4 s'" using log_only_trans [OF _ log_only_publish] c assms(4) by simp
  have s3: "process (recs s3 i) = process (recs s i)" "procs s3 = procs s" "signals s3 = signals s"
    "kill_timers s3 = kill_timers s" by (simp_all add: s3_def upd_rec_recs)
  show ?thesis
  proof (rule that [of "\<lparr>cancel_success = True, cancel_operation_id = oid, cancel_status = CANCELLED, cancel_message = m\<rparr>" s4 m])
    show "log_only s4 s'" by (rule lo)
    show "signals s4 = signals (terminate_process i s)" "kill_timers s4 = kill_timers (terminate_process i s)"
      using s3 by (auto simp: s4_def terminate_process_def split: option.split)
    show "tasks s4 = flag_task (task (recs s i)) (tasks s)"
      by (simp add: s4_def tasks_cancel_task s3_def upd_rec_def)
    show "recs s4 = (recs s)(i := (recs s i)\<lparr>status := CANCELLED, completed_at := Some (clock s (ticks s)),
           message := Some m, updated_at := clock s (Suc (ticks s))\<rparr>)"
      by (simp add: s4_def s3_def upd_rec_def)
  qed (use c assms(4) s3 in \<open>simp_all add: s4_def\<close>)
qed

text \<open>
  C24: cancelling an active operation. The answer reports success, the record is cancelled with
  a completion time, the operation's task is told to stop unless it is over, and the process
  group of a command that still runs is sent SIGTERM and given a timer for SIGKILL. The
  processes themselves are not waited for: at this point they may still run, although the
  answer's message says that they were terminated.
\<close>

theorem cancel_effect:
  assumes "lookup s oid = Some i" and "active (status (recs s i))" and "get_log_file_path os cfg oid = Inr p"
    and "process (recs s i) = Some q" and "returncode (procs s q) = None"
    and "cancel_operation os cfg oid s = (r, s')"
  shows "(\<exists>resp. r = Inr resp \<and> cancel_success resp \<and> cancel_status resp = CANCELLED) \<and>
    status (recs s' i) = CANCELLED \<and> completed_at (recs s' i) = Some (clock s (ticks s)) \<and>
    tasks s' = flag_task (task (recs s i)) (tasks s) \<and>
    signals s' = signals s @ [(pid (procs s q), SIGTERM)] \<and>
    (q, pid (procs s q)) \<in> set (kill_timers s') \<and> returncode (procs s' q) = None"
proof (rule cancel_operation_full [OF assms(1-3,6)])
  fix resp m s4
  assume h: "r = Inr resp" "cancel_success resp" "cancel_status resp = CANCELLED" "log_only s4 s'" "procs s4 = procs s"
    "signals s4 = signals (terminate_process i s)" "kill_timers s4 = kill_timers (terminate_process i s)"
    "tasks s4 = flag_task (task (recs s i)) (tasks s)"
    "recs s4 = (recs s)(i := (recs s i)\<lparr>status := CANCELLED, completed_at := Some (clock s (ticks s)),
           message := Some m, updated_at := clock s (Suc (ticks s))\<rparr>)"
  have t: "signals (terminate_process i s) = signals s @ [(pid (procs s q), SIGTERM)]"
    "(q, pid (procs s q)) \<in> set (kill_timers (terminate_process i s))"
    using assms(4,5) by (simp_all add: terminate_process_def)
  show ?thesis
    using h t assms(5) log_only_frame [OF h(4)] log_only_recs [OF h(4), of i] by simp
qed

definition demo_process :: mgr where
  "demo_process =
     upd_rec 0 (\<lambda>r. r\<lparr>process := Some 5\<rparr>)
       (demo_running\<lparr>procs := (\<lambda>_. \<lparr>pid = 77, returncode = None\<rparr>)\<rparr>)"

theorem cancel_effect_witness:
  "\<exists>resp s'. cancel_operation demo_os demo_cfg ''c1'' demo_process = (Inr resp, s') \<and>
     signals s' = [(77, SIGTERM)] \<and> tasks s' 0 = TPending True \<and> returncode (procs s' 5) = None"
proof -
  obtain r s' where c: "cancel_operation demo_os demo_cfg ''c1'' demo_process = (r, s')" by fastforce
  have d: "lookup demo_process ''c1'' = Some 0" "active (status (recs demo_process 0))"
    "process (recs demo_process 0) = Some 5" "returncode (procs demo_process 5) = None"
    "signals demo_process = []" "pid (procs demo_process 5) = 77" "task (recs demo_process 0) = Some 0"
    "tasks demo_process 0 = TPending False"
    by (simp_all add: demo_process_def demo_running_def demo_mgr_def demo_record_def lookup_def dict_get_def upd_rec_def)
  from cancel_effect [OF d(1,2) demo_path_c1 d(3,4) c] c d show ?thesis by (auto simp: flag_task_def)
qed

text \<open>
  Cancelling what cannot be cancelled changes nothing. An unknown operation is answered
  with status 404; exactly the operations that already have an outcome are answered with
  \<open>success = false\<close>; in both cases the state is untouched.
\<close>

lemma cancel_refused:
  "case lookup s oid of
     None \<Rightarrow> \<exists>d. cancel_operation os cfg oid s = (Inl (HTTPException 404 d), s)
   | Some i \<Rightarrow> terminal (status (recs s i)) =
       (\<exists>resp. cancel_operation os cfg oid s = (Inr resp, s) \<and> \<not> cancel_success resp)"
proof (cases "lookup s oid")
  case None
  then show ?thesis by (simp add: cancel_operation_def)
next
  case (Some i)
  have "\<not> (\<exists>resp. cancel_operation os cfg oid s = (Inr resp, s) \<and> \<not> cancel_success resp)"
    if "\<not> terminal (status (recs s i))"
    using that Some by (auto simp: cancel_operation_def Let_def split: prod.splits sum.splits)
  with Some show ?thesis by (auto simp: cancel_operation_def)
qed


section \<open>Finished tasks\<close>

text \<open>
  C25: the callback of a finished task. For the operation the task drives, if it has no outcome
  yet, the callback records one: cancelled if the task was cancelled, failed with the type and
  text of the exception if it raised, failed with a fixed explanation if it returned without
  reporting; the completion time is set. A callback of a task that no longer drives the
  operation, or that finds an outcome, changes nothing.
\<close>

theorem finalize_effect:
  assumes "lookup s oid = Some i" and "get_log_file_path os cfg oid = Inr p" and "task_done (tasks s t)"
    and "finalize_task os cfg oid t s = (r, s')"
  shows "r = Inr () \<and>
    (if task (recs s i) = Some t \<and> active (status (recs s i))
     then completed_at (recs s' i) = Some (clock s (Suc (ticks s))) \<and>
       (case tasks s t of
          TCancelled \<Rightarrow> status (recs s' i) = CANCELLED
        | TRaised ty m \<Rightarrow> status (recs s' i) = FAILED \<and> error (recs s' i) = Some (ty @ '': '' @ m)
        | _ \<Rightarrow> status (recs s' i) = FAILED \<and>
            error (recs s' i) = Some ''Pipeline exited without reporting a final status.'')
     else s' = s)"
proof (cases "task (recs s i) = Some t \<and> active (status (recs s i))")
  case True
  let ?s4 = "upd_rec i (\<lambda>r. r\<lparr>updated_at := clock s (ticks s), completed_at := Some (clock s (Suc (ticks s)))\<rparr>)
     ((upd_rec i (finalize_outcome oid (tasks s t)) s)\<lparr>ticks := Suc (Suc (ticks s))\<rparr>)"
  obtain s5 where a: "append_log os cfg oid (the (message (recs ?s4 i))) ?s4 = (Inr (), s5)"
    using append_log_ok [OF assms(2)] by blast
  have f: "r = Inr ()" "s' = publish i None s5"
    using assms(1,4) True a by (simp_all add: finalize_task_def terminal_iff_not_active now_def Let_def)
  have "log_only ?s4 s5" using log_only_append_log [of ?s4 os cfg oid "the (message (recs ?s4 i))"] a by simp
  then have lo: "log_only ?s4 s'" using log_only_trans [OF _ log_only_publish] f by simp
  note k = log_only_recs(4,9,10) [OF lo, of i]
  show ?thesis
    using True f(1) assms(3)
    by (cases "tasks s t") (simp_all add: k upd_rec_recs finalize_outcome_def)
next
  case False
  then have "finalize_task os cfg oid t s = (Inr (), s)"
    using assms(1) by (intro finalize_task_skip) (auto simp: terminal_iff_not_active)
  with False assms(4) show ?thesis by auto
qed

theorem finalize_effect_witness:
  "\<exists>s'. finalize_task demo_os demo_cfg ''c1'' 0 (demo_running\<lparr>tasks := (\<lambda>_. TRaised ''KeyError'' ''x'')\<rparr>) = (Inr (), s') \<and>
     status (recs s' 0) = FAILED \<and> error (recs s' 0) = Some ''KeyError: x''"
proof -
  let ?s = "demo_running\<lparr>tasks := (\<lambda>_. TRaised ''KeyError'' ''x'')\<rparr>"
  obtain r s' where f: "finalize_task demo_os demo_cfg ''c1'' 0 ?s = (r, s')" by fastforce
  have l: "lookup ?s ''c1'' = Some 0" using demo_running_sel(1) by (simp add: lookup_def)
  have "task_done (tasks ?s 0)" by simp
  from finalize_effect [OF l demo_path_c1 this f] f show ?thesis
    by (simp add: demo_running_sel demo_record_def)
qed

section \<open>Log files stay in the log directory\<close>

lemma name_log_file:
  assumes "gce_name oid" and "mkdir_error os (os_resolve os (log_dir cfg)) = None"
    and "os_resolve os (os_resolve os (log_dir cfg) @ [oid @ ''.log'']) =
         os_resolve os (log_dir cfg) @ [oid @ ''.log'']"
  shows "get_log_file_path os cfg oid = Inr (os_resolve os (log_dir cfg) @ [oid @ ''.log''])"
  using assms gce_name_plain [OF assms(1)] by (simp add: get_log_file_path_def)

text \<open>
  C26: no identifier escapes the log directory. Whatever the identifier and however the file
  system resolves paths (symbolic links included), the file an operation logs to is a direct
  child of the resolved log directory, and an identifier with a slash, a backslash or two dots
  is refused.
\<close>

theorem log_path_confined:
  "case get_log_file_path os cfg oid of
     Inr p \<Rightarrow> butlast p = os_resolve os (log_dir cfg) \<and>
       oid \<noteq> [] \<and> CHR ''/'' \<notin> set oid \<and> CHR 0x5C \<notin> set oid \<and> \<not> contains ''..'' oid
   | Inl e \<Rightarrow> (\<exists>d. e = HTTPException 400 d) \<or> (\<exists>d. e = OSError d)"
  by (auto simp: get_log_file_path_def Let_def split: option.splits if_splits)

text \<open>
  Every name a request can carry can be logged. If the log directory can be made and a
  file name in it that is no link resolves to itself, every valid GCE resource name, hence
  every operation identifier the handlers make, gives a log file.
\<close>

lemma valid_name_has_log_file:
  assumes "gce_name oid" and "mkdir_error os (os_resolve os (log_dir cfg)) = None"
    and "os_resolve os (os_resolve os (log_dir cfg) @ [oid @ ''.log'']) =
         os_resolve os (log_dir cfg) @ [oid @ ''.log'']"
  shows "get_log_file_path os cfg oid = Inr (os_resolve os (log_dir cfg) @ [oid @ ''.log''])"
  using assms by (rule name_log_file)

lemma valid_name_has_log_file_witness:
  "get_log_file_path demo_os demo_cfg ''gem-cluster-1'' = Inr [''var'', ''log'', ''gem-cluster-1.log'']"
proof -
  have "gce_name ''gem-cluster-1''"
    by (simp add: gce_name_def name_char_def an_char_def az_char_def less_eq_char_def)
  from valid_name_has_log_file [OF this, of demo_os demo_cfg] show ?thesis
    by (simp add: demo_os_def demo_cfg_def)
qed


section \<open>Streaming\<close>

lemma publish_all_queue:
  assumes "distinct (subscribers (recs s i))" and "q \<in> set (subscribers (recs s i))"
  shows "queues (foldl (\<lambda>s x. publish i x s) s xs) q = foldl publish_loop (queues s q) xs"
  using assms
proof (induction xs arbitrary: s)
  case (Cons x xs)
  have "subscribers (recs (publish i x s) i) = subscribers (recs s i)" by (simp add: publish_frame)
  then have "queues (foldl (\<lambda>s x. publish i x s) (publish i x s) xs) q =
      foldl publish_loop (queues (publish i x s) q) xs"
    using Cons by simp
  with Cons.prems show ?case by (simp add: publish_queues)
qed simp

lemma live_lines_all: "live_lines (map Some xs @ None # ys) = xs"
  by (induction xs) simp_all



end
