(* ===== verification/Runner_Lemmas.thy ===== *)
theory Runner_Lemmas
  imports Pipeline_Logic Operation_Props
begin

text \<open>
  How a pipeline ends. The other coroutines are bound by a rely condition only: as long as
  the operation of the pipeline is running, they leave it running or cancel it, and cancelling
  it requests the cancellation of the task. The promises of \<open>pipeline_logic\<close> are then met with
  no ghost state at all.
\<close>

section \<open>The rely condition\<close>

definition running :: "string \<Rightarrow> ref \<Rightarrow> ref \<Rightarrow> mgr \<Rightarrow> bool" where
  "running oid i t s \<longleftrightarrow>
     lookup s oid = Some i \<and> task (recs s i) = Some t \<and> active (status (recs s i)) \<and>
     tasks s t = TPending False"

definition interrupted :: "string \<Rightarrow> ref \<Rightarrow> ref \<Rightarrow> mgr \<Rightarrow> bool" where
  "interrupted oid i t s \<longleftrightarrow>
     lookup s oid = Some i \<and> status (recs s i) = CANCELLED \<and> tasks s t = TPending True"

definition well_behaved :: "string \<Rightarrow> ref \<Rightarrow> ref \<Rightarrow> (mgr \<Rightarrow> mgr) \<Rightarrow> bool" where
  "well_behaved oid i t others \<longleftrightarrow>
     (\<forall>s. running oid i t s \<longrightarrow> running oid i t (others s) \<or> interrupted oid i t (others s))"

definition settled :: "string \<Rightarrow> ref \<Rightarrow> OperationStatus \<Rightarrow> mgr \<Rightarrow> bool" where
  "settled oid i st s \<longleftrightarrow>
     lookup s oid = Some i \<and> status (recs s i) = st \<and> completed_at (recs s i) \<noteq> None"

lemma running_not_cancelled: "running oid i t s \<Longrightarrow> status (recs s i) \<noteq> CANCELLED"
  by (auto simp: running_def)

lemma running_log_only: "log_only s s' \<Longrightarrow> running oid i t s' \<longleftrightarrow> running oid i t s"
  by (simp add: running_def mgr_frame)

lemma running_procs [simp]: "running oid i t (s\<lparr>procs := p\<rparr>) = running oid i t s"
  by (simp add: running_def lookup_def)

lemma settled_log_only: "log_only s s' \<Longrightarrow> settled oid i st s' \<longleftrightarrow> settled oid i st s"
  by (simp add: settled_def mgr_frame)

lemma running_update:
  assumes "running oid i t s" and "st = None \<or> st = Some RUNNING"
  shows "running oid i t (snd (update_operation oid st step msg err False s))"
proof -
  have l: "lookup s oid = Some i" using assms by (simp add: running_def)
  define s' where "s' = snd (update_operation oid st step msg err False s)"
  from update_operation_known(2,4,9,12) [OF l s'_def] assms show ?thesis
    by (auto simp: running_def lookup_def s'_def [symmetric])
qed

lemma settled_update:
  assumes "running oid i t s" and "s1 = snd (update_operation oid (Some st) step msg err True s)"
  shows "settled oid i st s1"
proof -
  have l: "lookup s oid = Some i" using assms by (simp add: running_def)
  from update_operation_known(2,9,14) [OF l assms(2)] l show ?thesis
    by (simp add: settled_def lookup_def)
qed

lemma rely_suspend:
  assumes "well_behaved oid i t (rt_others rt)" and "running oid i t s" and "suspend rt t s = (c, s')"
  shows "if c then interrupted oid i t s' else running oid i t s'"
proof -
  have "running oid i t (s\<lparr>ticks := n\<rparr>)" for n using assms(2) by (simp add: running_def lookup_def)
  then have "running oid i t s' \<or> interrupted oid i t s'" and "c = (tasks s' t = TPending True)"
    using assms(1,3) by (auto simp: suspend_def Let_def well_behaved_def)
  then show ?thesis by (auto simp: running_def interrupted_def)
qed

interpretation rely:
  pipeline_logic "\<lambda>_ _. True" "\<lambda>(_ :: unit) s. well_behaved oid i t (rt_others rt) \<and> running oid i t s"
    "\<lambda>_ s. interrupted oid i t s" "\<lambda>st _ s. settled oid i st s" rt t oid i
  for oid i t rt
proof
  fix s s1 s' v step msg err line
  assume ok: "well_behaved oid i t (rt_others rt) \<and> running oid i t s"
  show "lookup s oid = Some i \<and> status (recs s i) \<noteq> CANCELLED"
    using ok running_not_cancelled by (auto simp: running_def)
  show "\<exists>g' :: unit. True \<and> well_behaved oid i t (rt_others rt) \<and>
      running oid i t (snd (append_log (rt_os rt) (rt_cfg rt) oid line s))"
    using ok running_log_only [OF log_only_append_log] by simp
  show "\<exists>g' :: unit. True \<and> well_behaved oid i t (rt_others rt) \<and>
      running oid i t (upd_rec i (\<lambda>r. r\<lparr>process := Some p\<rparr>) s)" for p
    using ok by (simp add: running_def upd_rec_recs)
  assume "s1 = snd (update_operation oid (Some v) step msg err True s)"
    and s': "s' = s1 \<or> s' = snd (append_log (rt_os rt) (rt_cfg rt) oid line (snd (now s1)))"
  then have "settled oid i v s1" using settled_update ok by blast
  moreover have "log_only s1 s'" using s' log_only_trans [OF log_only_now log_only_append_log] by auto
  ultimately show "\<exists>g' :: unit. True \<and> settled oid i v s'" by (simp add: settled_log_only)
qed (use rely_suspend running_update in \<open>auto split: if_splits\<close>)

lemma coroutine_ends_with_outcome:
  assumes "well_behaved oid i t (rt_others rt)"
    and "coroutine_oid c = oid" and "logs_completion c \<Longrightarrow> \<exists>p. get_log_file_path (rt_os rt) (rt_cfg rt) oid = Inr p"
    and "logs_completion c \<Longrightarrow> \<forall>e. rt_gv rt = Inl e \<longrightarrow> is_Exception e"
    and "running oid i t s" and "run_coroutine rt t c s = (r, s')"
  shows "r = Inr () \<and> (settled oid i SUCCEEDED s' \<or> settled oid i FAILED s') \<or>
         r = Inl CancelledError \<and> interrupted oid i t s'"
  by (rule rely.coroutine_concluded [where oid = oid and i = i and t = t and rt = rt, OF assms(2-4) _ assms(6)])
    (use assms(1,5) in auto)

section \<open>Properties\<close>

text \<open>
  C11: the six pipelines (building and tearing down a cluster, the admin workstation and the
  edge router) always end with an outcome. Started while its operation is active, and whatever
  the commands print and return, whether or not they can be started, in mock mode or not, and
  however the other coroutines interfere within what they may do, a pipeline returns with the
  operation succeeded or failed and its completion time set; if it is cancelled on the way, it
  ends by \<open>CancelledError\<close> with the operation cancelled. No other exception escapes it. Only
  building a cluster needs a usable log file and group variables that can be read or fail by
  an ordinary exception: it alone logs a line after its final update.
\<close>

theorem pipelines_end:
  assumes "well_behaved oid i t (rt_others rt)"
    and "coroutine_oid c = oid" and "logs_completion c \<Longrightarrow> \<exists>p. get_log_file_path (rt_os rt) (rt_cfg rt) oid = Inr p"
    and "logs_completion c \<Longrightarrow> \<forall>e. rt_gv rt = Inl e \<longrightarrow> is_Exception e"
    and "running oid i t s" and "run_coroutine rt t c s = (r, s')"
  shows "r = Inr () \<and> (settled oid i SUCCEEDED s' \<or> settled oid i FAILED s') \<or>
         r = Inl CancelledError \<and> interrupted oid i t s'"
  using assms by (rule coroutine_ends_with_outcome)

text \<open>A world without interference, in which every command starts and returns \<open>rc\<close>.\<close>

definition demo_rt :: "int \<Rightarrow> rt" where
  "demo_rt rc =
     \<lparr>rt_os = demo_os, rt_cfg = demo_cfg, rt_others = id,
      rt_spawn = (\<lambda>_ _ _ _. Inr \<lparr>sp_ref = 0, sp_pid = 7, sp_chunks = [''ok''], sp_rc = rc\<rparr>),
      rt_decode = id, rt_environ = [], rt_gv = Inr []\<rparr>"

lemma demo_rt_ok:
  "well_behaved ''c1'' 0 0 (rt_others (demo_rt rc))"
  "\<forall>e. rt_gv (demo_rt rc) = Inl e \<longrightarrow> is_Exception e"
  "get_log_file_path (rt_os (demo_rt rc)) (rt_cfg (demo_rt rc)) ''c1'' = Inr [''var'', ''log'', ''c1.log'']"
  "running ''c1'' 0 0 demo_running"
  "\<not> mock_enabled (demo_rt rc)"
  by (simp_all add: well_behaved_def demo_rt_def demo_path_c1 running_def demo_running_sel demo_record_def
        mock_enabled_def is_mock_enabled_def getenv_def lower_def lower_char_def)

theorem pipelines_end_witness:
  "\<exists>r s'. run_coroutine (demo_rt 1) 0 (RunClusterCreate demo_create ''c1'') demo_running = (r, s') \<and>
     (r = Inr () \<and> (settled ''c1'' 0 SUCCEEDED s' \<or> settled ''c1'' 0 FAILED s') \<or>
      r = Inl CancelledError \<and> interrupted ''c1'' 0 0 s')"
proof -
  obtain r s' where c: "run_coroutine (demo_rt 1) 0 (RunClusterCreate demo_create ''c1'') demo_running = (r, s')" by fastforce
  note c' = pipelines_end [OF demo_rt_ok(1) _ _ _ demo_rt_ok(4) c, simplified]
  show ?thesis by (intro exI conjI, rule c, rule c') (use demo_rt_ok(2,3) in blast)+
qed

text \<open>
  C12: the commands decide the outcome. With a usable log file and not in mock mode, a pipeline
  that is not cancelled succeeds with its success message exactly when all the commands of its
  plan (for a cluster \<open>terraform init\<close>, \<open>terraform apply\<close> and the Ansible playbook), in their
  order, start and return zero; otherwise the operation fails, and its error is that of the
  first command that did not (\<open>plan_result\<close>), whatever the commands print.
\<close>

theorem pipelines_decided:
  assumes "well_behaved oid i t (rt_others rt)" and "coroutine_oid c = oid" and "\<not> mock_enabled rt"
    and "get_log_file_path (rt_os rt) (rt_cfg rt) oid = Inr p"
    and "\<forall>cmd cwd env s. rt_spawn rt cmd cwd env s = sp cmd cwd env"
    and "job_plan rt c = Inr steps"
    and "running oid i t s" and "run_coroutine rt t c s = (r, s')"
  shows "r = Inl CancelledError \<and> interrupted oid i t s' \<or>
    (case plan_result sp steps of
       Inr _ \<Rightarrow> settled oid i SUCCEEDED s' \<and> reports i (success_message c) None s'
     | Inl e \<Rightarrow> settled oid i FAILED s' \<and>
         reports i (failure_label c @ '': '' @ exc_str e) (Some (exc_str e)) s')"
proof -
  have ends: "res = plan_result sp steps" if "job_ends rt c res" for res
    using that assms(2,3,4,6) may_end_plan_result [of rt sp] assms(5) by (auto simp: job_ends_def)
  have gv: "\<forall>e. rt_gv rt = Inl e \<longrightarrow> is_Exception e" if "logs_completion c"
  proof (intro allI impI)
    fix e assume "rt_gv rt = Inl e"
    moreover have "\<exists>q oid. c = RunClusterCreate q oid" using that by (cases c) simp_all
    ultimately show "is_Exception e"
      using assms(6) by (auto simp: cluster_create_plan_def get_abm_version_def)
  qed
  show ?thesis
    by (rule rely.coroutine_concluded [where oid = oid and i = i and t = t and rt = rt, OF assms(2) _ gv _ assms(8)])
      (use assms(1,4,7) ends in \<open>auto split: sum.split\<close>)
qed

theorem pipelines_decided_witness:
  "\<exists>r s'. run_coroutine (demo_rt 1) 0 (RunClusterCreate demo_create ''c1'') demo_running = (r, s') \<and>
     (r = Inl CancelledError \<and> interrupted ''c1'' 0 0 s' \<or>
      settled ''c1'' 0 FAILED s' \<and> error (recs s' 0) =
        Some (''Command '' @ squote ''terraform'' @ '' failed with return code '' @ show_int 1))"
proof -
  obtain r s' where c: "run_coroutine (demo_rt 1) 0 (RunClusterCreate demo_create ''c1'') demo_running = (r, s')" by fastforce
  define sp :: "string list \<Rightarrow> path \<Rightarrow> string dict \<Rightarrow> string + spawned" where
    "sp = (\<lambda>_ _ _. Inr \<lparr>sp_ref = 0, sp_pid = 7, sp_chunks = [''ok''], sp_rc = 1\<rparr>)"
  have spawn: "\<forall>cmd cwd env s. rt_spawn (demo_rt 1) cmd cwd env s = sp cmd cwd env"
    by (simp add: demo_rt_def sp_def)
  obtain steps where plan: "job_plan (demo_rt 1) (RunClusterCreate demo_create ''c1'') = Inr steps"
    and res: "plan_result sp steps = command_result [''terraform''] (Inr \<lparr>sp_ref = 0, sp_pid = 7, sp_chunks = [''ok''], sp_rc = 1\<rparr>)"
    by (simp add: cluster_create_plan_def demo_rt_def get_abm_version_def yaml_get_def as_dict_def Let_def
          command_result_def sp_def build_tf_init_cmd_def)
  from pipelines_decided [OF demo_rt_ok(1) _ demo_rt_ok(5,3) spawn plan demo_rt_ok(4) c] c res show ?thesis
    by (auto simp: command_result_def reports_def)
qed

section \<open>The last line of a build is not streamed\<close>

lemma live_lines_stop: "live_lines (xs @ None # ys) = live_lines (xs @ [None])"
  by (induction xs rule: live_lines.induct) simp_all

lemma live_lines_None: "live_lines (xs @ [None]) = live_lines xs"
  by (induction xs rule: live_lines.induct) simp_all

lemma update_completed_queues:
  assumes "lookup s oid = Some i" and "distinct (subscribers (recs s i))"
    and "s' = snd (update_operation oid st step msg err True s)"
  shows "queues s' q = (if q \<in> set (subscribers (recs s i)) then publish_loop (queues s q) None else queues s q)"
    and "subscribers (recs s' i) = subscribers (recs s i)"
proof -
  obtain s2 where s': "s' = publish i None s2" and "subscribers (recs s2 i) = subscribers (recs s i)"
    and "queues s2 = queues s"
    using assms(1,3) by (auto simp: update_operation_def now_def upd_rec_def set_opt_def Let_def split: option.splits)
  with assms(2) show "queues s' q = (if q \<in> set (subscribers (recs s i)) then publish_loop (queues s q) None else queues s q)"
    and "subscribers (recs s' i) = subscribers (recs s i)"
    by (simp_all add: publish_queues publish_frame)
qed

text \<open>
  C28: a live stream never shows the last line of a successful build. The pipeline marks the
  operation as succeeded, which sends the end marker to every subscriber, and only then logs
  the line saying that the build completed. Even when nothing interferes, a subscriber who
  reads its queue up to the end marker sees what was queued before and not that line.
\<close>

theorem completion_line_not_streamed:
  assumes "rt_others rt = id" and "running oid i t s"
    and "get_log_file_path (rt_os rt) (rt_cfg rt) oid = Inr p"
    and "distinct (subscribers (recs s i))" and "q \<in> set (subscribers (recs s i))"
    and "maxsize (queues s q) = 100" and "length (items (queues s q)) \<le> 98"
  shows "live_lines (items (queues (snd (finalize_pipeline rt t oid msg True s)) q)) =
         live_lines (items (queues s q))"
proof -
  define s0 where "s0 = s\<lparr>ticks := Suc (ticks s)\<rparr>"
  define s1 where "s1 = snd (update_operation oid (Some SUCCEEDED) (Some ''Completed'') (Some msg) None True s0)"
  define s2 where "s2 = snd (now s1)"
  define line where "line = stamp (fst (now s1)) @ ''Cluster build completed successfully.''"
  have l: "lookup s0 oid = Some i" and ts: "tasks s0 t = TPending False"
    and subs: "subscribers (recs s0 i) = subscribers (recs s i)" and qs: "queues s0 = queues s"
    using assms(2) by (simp_all add: s0_def running_def lookup_def)
  have "fst (update_operation oid (Some SUCCEEDED) (Some ''Completed'') (Some msg) None True s0) = Inr i"
    using update_operation_known(1) [OF l s1_def] .
  then have u: "locked_update rt t oid (Some SUCCEEDED) (Some ''Completed'') (Some msg) None True s = (Inr (), s1)"
    using ts assms(1)
    by (simp add: locked_update_def bindM_def awaitM_def suspend_def s0_def [symmetric] Let_def returnM_def s1_def
        prod_eq_iff split: prod.split sum.split)
  have f: "snd (finalize_pipeline rt t oid msg True s) = snd (append_log (rt_os rt) (rt_cfg rt) oid line s2)"
    using assms(2) running_not_cancelled [OF assms(2)] u
    by (simp add: finalize_pipeline_def running_def bindM_def log_line_def line_def s2_def case_prod_beta)
  have q1: "queues s1 q = publish_loop (queues s q) None" and subs1: "subscribers (recs s1 i) = subscribers (recs s i)"
    using update_completed_queues [OF l _ s1_def] subs qs assms(4,5) by simp_all
  have s2: "queues s2 = queues s1" "recs s2 = recs s1" "lookup s2 oid = Some i"
    using l update_operation_known(2) [OF l s1_def] by (simp_all add: s2_def now_def lookup_def)
  have "rstrip line \<noteq> []" by (simp add: line_def rstrip_def py_space_def)
  from append_log_effect [OF s2(3) assms(3) this] obtain s3 where
    a: "append_log (rt_os rt) (rt_cfg rt) oid line s2 = (Inr (), publish i (Some (formatted s2 line)) s3)"
    and s3: "recs s3 = (recs s2)(i := (recs s2 i)\<lparr>log_buffer := deque_append (log_buffer (recs s2 i)) (formatted s2 line)\<rparr>)"
      "queues s3 = queues s2" by metis
  have "queues (snd (finalize_pipeline rt t oid msg True s)) q =
      publish_loop (publish_loop (queues s q) None) (Some (formatted s2 line))"
    using f a s3 s2 subs1 q1 assms(4,5) publish_queues [of s3 i] by simp
  then have "items (queues (snd (finalize_pipeline rt t oid msg True s)) q) =
      items (queues s q) @ None # [Some (formatted s2 line)]"
    using assms(6,7) by (simp add: publish_loop_items queue_keep_def publish_loop_maxsize)
  then show ?thesis using live_lines_stop [of "items (queues s q)"] live_lines_None by metis
qed

theorem completion_line_not_streamed_witness:
  "live_lines (items (queues (snd (finalize_pipeline (demo_rt 0) 0 ''c1'' ''done'' True demo_subscribed)) 0)) = []"
proof -
  have o: "rt_others (demo_rt 0) = id" by (simp add: demo_rt_def)
  have r: "running ''c1'' 0 0 demo_subscribed"
    by (simp add: running_def demo_subscribed_def stream_open_def demo_running_def demo_mgr_def demo_record_def
        lookup_def dict_get_def upd_rec_def)
  from completion_line_not_streamed [OF o r demo_rt_ok(3), of 0 "''done''"] show ?thesis
    by (simp add: demo_subscribed_sel)
qed

end
