(* ===== verification/Routers.thy ===== *)
theory Routers
  imports Runner_Lemmas
begin

text \<open>
  The handlers of \<open>api/gem_api/routers/clusters.py\<close>, \<open>workstation.py\<close>, \<open>edge_router.py\<close> and
  \<open>operations.py\<close> that work on operations. A handler that starts a pipeline registers the
  operation, creates a task for the pipeline's coroutine and attaches it; which coroutine a
  task runs is part of the state here. The body has been validated before (theory
  \<open>Requests\<close>), and the file is written between the two halves of the registration.
\<close>

section \<open>State\<close>

record api =
  api_mgr :: mgr
  api_tasks :: "ref \<Rightarrow> coroutine option"
  api_next :: ref

record OperationAcceptedResponse =
  acc_operation_id :: string
  acc_status :: OperationStatus
  acc_message :: string
  acc_target_resource :: string

definition create_task :: "coroutine \<Rightarrow> api \<Rightarrow> ref \<times> api" where
  "create_task c a =
     (api_next a,
      a\<lparr>api_mgr := (api_mgr a)\<lparr>tasks := (tasks (api_mgr a))(api_next a := TPending False)\<rparr>,
        api_tasks := (api_tasks a)(api_next a \<mapsto> c), api_next := Suc (api_next a)\<rparr>)"

text \<open>What the six handlers share; each passes its own texts, type and coroutine.\<close>

definition accept_operation ::
    "osys \<Rightarrow> Settings \<Rightarrow> string \<Rightarrow> OperationType \<Rightarrow> string \<Rightarrow> string \<Rightarrow> coroutine \<Rightarrow> string \<Rightarrow> api \<Rightarrow>
       OperationAcceptedResponse res \<times> api" where
  "accept_operation os cfg oid ty initial_step initial_message c msg a =
     (case register_operation os cfg oid ty oid initial_step initial_message (api_mgr a) of
        (Inl e, m) \<Rightarrow> (Inl e, a\<lparr>api_mgr := m\<rparr>)
      | (Inr i, m) \<Rightarrow>
          (let (t, a1) = create_task c (a\<lparr>api_mgr := m\<rparr>);
               a2 = a1\<lparr>api_mgr := attach_task oid t (api_mgr a1)\<rparr>
           in (Inr \<lparr>acc_operation_id = oid, acc_status = status (recs (api_mgr a2) i),
                    acc_message = msg, acc_target_resource = oid\<rparr>, a2)))"


section \<open>Handlers\<close>

definition create_cluster ::
    "osys \<Rightarrow> Settings \<Rightarrow> ClusterCreateRequest \<Rightarrow> api \<Rightarrow> OperationAcceptedResponse res \<times> api" where
  "create_cluster os cfg q =
     accept_operation os cfg (cluster_name q) CLUSTER_CREATE ''Terraform Provisioning (1/2)''
       (''Starting build for cluster '' @ squote (cluster_name q) @ ''...'')
       (RunClusterCreate q (cluster_name q))
       (''Cluster build initiated for '' @ squote (cluster_name q) @ ''.'')"

definition delete_cluster ::
    "osys \<Rightarrow> Settings \<Rightarrow> ClusterDeleteRequest \<Rightarrow> api \<Rightarrow> OperationAcceptedResponse res \<times> api" where
  "delete_cluster os cfg q =
     accept_operation os cfg (del_cluster_name q) CLUSTER_DELETE ''Ansible Cleanup (1/2)''
       (''Starting teardown for cluster '' @ squote (del_cluster_name q) @ ''...'')
       (RunClusterDelete q (del_cluster_name q))
       (''Cluster teardown initiated for '' @ squote (del_cluster_name q) @ ''.'')"

definition create_workstation ::
    "osys \<Rightarrow> Settings \<Rightarrow> WorkstationCreateRequest \<Rightarrow> api \<Rightarrow> OperationAcceptedResponse res \<times> api" where
  "create_workstation os cfg q =
     accept_operation os cfg ''gem-admin-ws'' WORKSTATION_CREATE ''Terraform Provisioning (1/2)''
       ''Starting Admin Workstation build...'' (RunWorkstationCreate q ''gem-admin-ws'')
       ''Admin Workstation build initiated.''"

definition delete_workstation ::
    "osys \<Rightarrow> Settings \<Rightarrow> WorkstationDeleteRequest \<Rightarrow> api \<Rightarrow> OperationAcceptedResponse res \<times> api" where
  "delete_workstation os cfg q =
     accept_operation os cfg ''gem-admin-ws'' WORKSTATION_DELETE ''Terraform Destruction (1/1)''
       ''Starting Admin Workstation teardown...'' (RunWorkstationDelete q ''gem-admin-ws'')
       ''Admin Workstation teardown initiated.''"

definition create_edge_router ::
    "osys \<Rightarrow> Settings \<Rightarrow> EdgeRouterCreateRequest \<Rightarrow> api \<Rightarrow> OperationAcceptedResponse res \<times> api" where
  "create_edge_router os cfg q =
     accept_operation os cfg (edge_router_name q) EDGE_ROUTER_CREATE ''Terraform Provisioning (1/2)''
       (''Starting build for edge router '' @ squote (edge_router_name q) @ ''...'')
       (RunEdgeRouterCreate q (edge_router_name q))
       (''Edge router build initiated for '' @ squote (edge_router_name q) @ ''.'')"

definition delete_edge_router ::
    "osys \<Rightarrow> Settings \<Rightarrow> EdgeRouterDeleteRequest \<Rightarrow> api \<Rightarrow> OperationAcceptedResponse res \<times> api" where
  "delete_edge_router os cfg q =
     accept_operation os cfg (erd_edge_router_name q) EDGE_ROUTER_DELETE ''Terraform Destruction (1/1)''
       (''Starting teardown for edge router '' @ squote (erd_edge_router_name q) @ ''...'')
       (RunEdgeRouterDelete q (erd_edge_router_name q))
       (''Edge router teardown initiated for '' @ squote (erd_edge_router_name q) @ ''.'')"

definition get_operation_route :: "string \<Rightarrow> mgr \<Rightarrow> OperationResponse res" where
  "get_operation_route oid s =
     (case get_operation s oid of
        None \<Rightarrow> Inl (HTTPException 404 (''Operation '' @ squote oid @ '' not found.''))
      | Some r \<Rightarrow> Inr r)"

record OperationLogsResponse =
  logs_operation_id :: string
  logs_status :: "OperationStatus option"
  log_lines :: "string list"

text \<open>The JSON answer, or the stream that the event source opens.\<close>

datatype logs_answer = LogsJson OperationLogsResponse | LogsStream string

definition get_operation_logs ::
    "osys \<Rightarrow> Settings \<Rightarrow> string \<Rightarrow> int option \<Rightarrow> bool \<Rightarrow> mgr \<Rightarrow> logs_answer res \<times> mgr" where
  "get_operation_logs os cfg oid tail stream s =
     (let op = get_operation s oid
      in if stream
         then (if op = None
               then (Inl (HTTPException 404 (''Operation '' @ squote oid @ '' not found.'')), s)
               else (Inr (LogsStream oid), s))
         else (case get_logs os cfg oid tail s of
                 (Inl e, s') \<Rightarrow> (Inl e, s')
               | (Inr lines, s') \<Rightarrow>
                   (Inr (LogsJson \<lparr>logs_operation_id = oid, logs_status = map_option resp_status op,
                                   log_lines = lines\<rparr>), s')))"

definition cancel_operation_route ::
    "osys \<Rightarrow> Settings \<Rightarrow> string \<Rightarrow> mgr \<Rightarrow> OperationCancelResponse res \<times> mgr" where
  "cancel_operation_route os cfg oid s = cancel_operation os cfg oid s"

section \<open>Properties\<close>

lemma accept_operation_ok:
  assumes "find_conflict (api_mgr a) oid = None" and "get_log_file_path os cfg oid = Inr p"
    and "accept_operation os cfg oid ty step msg c acc a = (r, a')"
  shows "r = Inr \<lparr>acc_operation_id = oid, acc_status = QUEUED, acc_message = acc, acc_target_resource = oid\<rparr>"
    and "running oid (next_rec (api_mgr a)) (api_next a) (api_mgr a')"
    and "target_resource (recs (api_mgr a') (next_rec (api_mgr a))) = oid"
    and "api_tasks a' (api_next a) = Some c"
    and "(api_next a, oid) \<in> set (done_callbacks (api_mgr a'))"
proof -
  obtain r0 m where m: "register_operation os cfg oid ty oid step msg (api_mgr a) = (r0, m)" by fastforce
  let ?i = "next_rec (api_mgr a)"
  note k = register_operation_new [OF assms(1,2) m]
  let ?m' = "(upd_rec ?i (\<lambda>r. r\<lparr>task := Some (api_next a)\<rparr>) (m\<lparr>tasks := (tasks m)(api_next a := TPending False)\<rparr>))
     \<lparr>done_callbacks := done_callbacks m @ [(api_next a, oid)]\<rparr>"
  have l: "lookup (m\<lparr>tasks := x\<rparr>) oid = Some ?i" for x using k(2) [of oid] by (simp add: lookup_def)
  have "r = Inr \<lparr>acc_operation_id = oid, acc_status = status (recs ?m' ?i), acc_message = acc, acc_target_resource = oid\<rparr>"
    and a': "a' = a\<lparr>api_mgr := ?m', api_tasks := (api_tasks a)(api_next a \<mapsto> c), api_next := Suc (api_next a)\<rparr>"
    using assms(3) m k(1) by (auto simp: accept_operation_def create_task_def attach_task_known l Let_def)
  then show "r = Inr \<lparr>acc_operation_id = oid, acc_status = QUEUED, acc_message = acc, acc_target_resource = oid\<rparr>"
    using k(3) by (simp add: upd_rec_def)
  have "lookup ?m' oid = Some ?i" using l by (simp add: lookup_def upd_rec_def)
  then show "running oid ?i (api_next a) (api_mgr a')"
    using k(3) by (simp add: a' running_def upd_rec_def)
  show "target_resource (recs (api_mgr a') ?i) = oid" "api_tasks a' (api_next a) = Some c"
    "(api_next a, oid) \<in> set (done_callbacks (api_mgr a'))"
    using k(5) by (simp_all add: a' upd_rec_def)
qed

lemma running_conflict:
  assumes "running oid i t m" and "target_resource (recs m i) = oid"
  shows "\<exists>j. find_conflict m oid = Some j"
proof -
  have "(oid, i) \<in> set (operations m)" and "active (status (recs m i))"
    using assms(1) dict_get_mem by (auto simp: running_def lookup_def)
  then have "find_conflict m oid \<noteq> None" using assms(2) unfolding find_conflict_None by blast
  then show ?thesis by blast
qed

lemma accept_operation_conflict:
  assumes "find_conflict (api_mgr a) oid = Some j"
  shows "\<exists>d. accept_operation os cfg oid ty step msg c acc a = (Inl (HTTPException 409 d), a)"
  using assms by (simp add: accept_operation_def register_operation_def register_insert_conflict conflict_exc_def)

text \<open>
  An accepted request has a pipeline. If the cluster has no active operation and its log
  file is usable, the handler answers that the operation is queued, and from that moment the
  operation is in the state a pipeline starts from: it is registered under the cluster's name,
  its task runs the pipeline for this very request, and the callback that settles it when the
  task ends is in place.
\<close>

lemma create_cluster_starts_pipeline:
  assumes "find_conflict (api_mgr a) (cluster_name q) = None"
    and "get_log_file_path os cfg (cluster_name q) = Inr p"
    and "create_cluster os cfg q a = (r, a')"
  shows "(\<exists>resp. r = Inr resp \<and> acc_status resp = QUEUED \<and> acc_operation_id resp = cluster_name q) \<and>
    running (cluster_name q) (next_rec (api_mgr a)) (api_next a) (api_mgr a') \<and>
    api_tasks a' (api_next a) = Some (RunClusterCreate q (cluster_name q)) \<and>
    (api_next a, cluster_name q) \<in> set (done_callbacks (api_mgr a'))"
  using accept_operation_ok [OF assms(1,2) assms(3) [unfolded create_cluster_def]] by simp

definition demo_api :: api where
  "demo_api = \<lparr>api_mgr = demo_mgr, api_tasks = (\<lambda>_. None), api_next = 0\<rparr>"

lemma demo_api_free: "find_conflict (api_mgr demo_api) oid = None"
  by (simp add: demo_api_def find_conflict_def demo_mgr_def)

lemma demo_create_name: "cluster_name demo_create = ''c1''"
  by (simp add: demo_create_def)

lemma create_cluster_starts_pipeline_witness:
  "\<exists>resp a'. create_cluster demo_os demo_cfg demo_create demo_api = (Inr resp, a') \<and>
     running ''c1'' 0 0 (api_mgr a') \<and> api_tasks a' 0 = Some (RunClusterCreate demo_create ''c1'')"
proof -
  obtain r a' where c: "create_cluster demo_os demo_cfg demo_create demo_api = (r, a')" by fastforce
  have p: "get_log_file_path demo_os demo_cfg (cluster_name demo_create) = Inr [''var'', ''log'', ''c1.log'']"
    unfolding demo_create_name by (rule demo_path_c1)
  have "next_rec (api_mgr demo_api) = 0" "api_next demo_api = 0" by (simp_all add: demo_api_def demo_mgr_def)
  with create_cluster_starts_pipeline [OF demo_api_free p c] c show ?thesis by (auto simp: demo_create_name)
qed

text \<open>
  A cluster is not torn down while it is being built. After a build of a cluster has been
  accepted, a request to tear the same cluster down (or to build it again) is refused with
  status 409 and changes nothing.
\<close>

lemma build_excludes_teardown:
  assumes "find_conflict (api_mgr a) (cluster_name q) = None"
    and "get_log_file_path os cfg (cluster_name q) = Inr p"
    and "create_cluster os cfg q a = (r, a')" and "del_cluster_name d = cluster_name q"
  shows "(\<exists>m. delete_cluster os cfg d a' = (Inl (HTTPException 409 m), a')) \<and>
         (\<exists>m. create_cluster os cfg q a' = (Inl (HTTPException 409 m), a'))"
proof -
  note k = accept_operation_ok [OF assms(1,2) assms(3) [unfolded create_cluster_def]]
  from running_conflict [OF k(2,3)] show ?thesis
    using accept_operation_conflict assms(4) by (auto simp: delete_cluster_def create_cluster_def)
qed

lemma build_excludes_teardown_witness:
  "\<exists>m. delete_cluster demo_os demo_cfg demo_delete (snd (create_cluster demo_os demo_cfg demo_create demo_api)) =
     (Inl (HTTPException 409 m), snd (create_cluster demo_os demo_cfg demo_create demo_api))"
proof -
  have p: "get_log_file_path demo_os demo_cfg (cluster_name demo_create) = Inr [''var'', ''log'', ''c1.log'']"
    unfolding demo_create_name by (rule demo_path_c1)
  have "del_cluster_name demo_delete = cluster_name demo_create" by (simp add: demo_delete_def demo_create_name)
  from build_excludes_teardown [OF demo_api_free p _ this] show ?thesis by (metis prod.collapse)
qed

text \<open>
  Resources of different kinds share one name space. Operations are keyed by the bare name
  of their resource, and the admin workstation's name is also a valid cluster name: while a
  cluster of that name is being built, building the workstation is refused with status 409
  although the two are different resources.
\<close>

lemma workstation_name_collision:
  assumes "find_conflict (api_mgr a) ''gem-admin-ws'' = None"
    and "get_log_file_path os cfg ''gem-admin-ws'' = Inr p"
    and "cluster_name q = ''gem-admin-ws''" and "create_cluster os cfg q a = (r, a')"
  shows "validate_cluster_name ''gem-admin-ws'' = Inr ''gem-admin-ws'' \<and> (\<exists>resp. r = Inr resp) \<and>
         (\<exists>m. create_workstation os cfg w a' = (Inl (HTTPException 409 m), a'))"
proof -
  have c: "accept_operation os cfg ''gem-admin-ws'' CLUSTER_CREATE ''Terraform Provisioning (1/2)''
       (''Starting build for cluster '' @ squote ''gem-admin-ws'' @ ''...'')
       (RunClusterCreate q ''gem-admin-ws'') (''Cluster build initiated for '' @ squote ''gem-admin-ws'' @ ''.'') a = (r, a')"
    using assms(3,4) by (simp add: create_cluster_def)
  note k = accept_operation_ok [OF assms(1,2) c]
  have "strip ''gem-admin-ws'' = ''gem-admin-ws''"
    using gce_name_plain(5) [OF gce_default_names(3)] by (rule strip_id)
  then have "validate_cluster_name ''gem-admin-ws'' = Inr ''gem-admin-ws''"
    using gce_default_names(3) by (simp add: validate_cluster_name_def gce.accepts)
  with running_conflict [OF k(2,3)] k(1) show ?thesis
    using accept_operation_conflict by (auto simp: create_workstation_def)
qed

lemma workstation_name_collision_witness:
  "\<exists>m a'. create_workstation demo_os demo_cfg
       \<lparr>project_id = None, zone = None, region = None, provisioning_sa_email = None,
        ws_gce_network = [], ws_gce_subnetwork = [], workstation_ip = None\<rparr> a' = (Inl (HTTPException 409 m), a')"
proof -
  obtain r a' where c: "create_cluster demo_os demo_cfg (demo_create\<lparr>cluster_name := ''gem-admin-ws''\<rparr>) demo_api = (r, a')"
    by fastforce
  have p: "get_log_file_path demo_os demo_cfg ''gem-admin-ws'' = Inr [''var'', ''log'', ''gem-admin-ws.log'']"
    using demo_path [of "''gem-admin-ws''"] gce_name_plain [OF gce_default_names(3)] by simp
  have "cluster_name (demo_create\<lparr>cluster_name := ''gem-admin-ws''\<rparr>) = ''gem-admin-ws''" by simp
  note w = workstation_name_collision [OF demo_api_free p this c]
  show ?thesis by (rule exE [OF conjunct2 [OF conjunct2 [OF w]]]) blast
qed

end
