(* ===== verification/Op_System.thy ===== *)
theory Op_System
  imports Runner_Lemmas
begin

text \<open>
  The API process as a whole: requests that register, cancel and stream operations, the tasks
  that run the pipelines, and the event loop's callbacks, interleaved arbitrarily between the
  points where a coroutine awaits. A step of the system is a stretch of code between two such
  points. The manager's \<open>asyncio.Lock\<close> is held across one await only, the writing of the
  initial log file in \<open>register_operation\<close>; a registration in that phase is \<open>sy_reg\<close>, and no
  registration or cancellation runs meanwhile. (The updates a pipeline makes of its own
  operation wait for the lock as well; the steps below allow them at any time, since nothing
  shown here depends on it.) The handlers of \<open>api/gem_api/routers\<close> register an
  operation under the name of its target resource and start its task in the same stretch in
  which the registration returns.
\<close>

section \<open>States and steps\<close>

record sys =
  sy_mgr :: mgr
  sy_reg :: "(ref \<times> path \<times> string) option"
  sy_next :: ref
  sy_oid :: "ref \<Rightarrow> string"

text \<open>A task that has been started and is neither finished nor told to stop.\<close>

definition live :: "sys \<Rightarrow> ref \<Rightarrow> bool" where
  "live y t \<longleftrightarrow> t < sy_next y \<and> tasks (sy_mgr y) t = TPending False"

definition set_task :: "ref \<Rightarrow> task_state \<Rightarrow> mgr \<Rightarrow> mgr" where
  "set_task t ts m = m\<lparr>tasks := (tasks m)(t := ts)\<rparr>"

definition start_task :: "string \<Rightarrow> sys \<Rightarrow> sys" where
  "start_task oid y =
     y\<lparr>sy_mgr := attach_task oid (sy_next y) (set_task (sy_next y) (TPending False) (sy_mgr y)),
       sy_next := Suc (sy_next y), sy_oid := (sy_oid y)(sy_next y := oid)\<rparr>"

definition run_callback :: "osys \<Rightarrow> Settings \<Rightarrow> ref \<Rightarrow> string \<Rightarrow> mgr \<Rightarrow> mgr" where
  "run_callback os cfg t oid m =
     (let m' = snd (finalize_task os cfg oid t m)
      in m'\<lparr>done_callbacks := remove1 (t, oid) (done_callbacks m')\<rparr>)"

inductive sys_step :: "osys \<Rightarrow> Settings \<Rightarrow> sys \<Rightarrow> sys \<Rightarrow> bool" for os cfg where
  reg_begin:
    "sy_reg y = None \<Longrightarrow> gce_name oid \<Longrightarrow>
     register_insert os cfg oid ty oid step msg (sy_mgr y) = (Inr (i, p), m) \<Longrightarrow>
     sys_step os cfg y (y\<lparr>sy_mgr := m, sy_reg := Some (i, p, oid)\<rparr>)"
| reg_error:
    "sy_reg y = None \<Longrightarrow> gce_name oid \<Longrightarrow>
     register_insert os cfg oid ty oid step msg (sy_mgr y) = (Inl e, m) \<Longrightarrow>
     sys_step os cfg y (y\<lparr>sy_mgr := m\<rparr>)"
| reg_end:
    "sy_reg y = Some (i, p, oid) \<Longrightarrow>
     sys_step os cfg y
       (start_task oid (y\<lparr>sy_mgr := register_finish i p (sy_mgr y), sy_reg := None\<rparr>))"
| pipe_update:
    "live y t \<Longrightarrow> oid = sy_oid y t \<Longrightarrow> st = None \<or> st = Some RUNNING \<Longrightarrow>
     sys_step os cfg y
       (y\<lparr>sy_mgr := snd (update_operation oid st step msg err False (sy_mgr y))\<rparr>)"
| pipe_log:
    "live y t \<Longrightarrow> oid = sy_oid y t \<Longrightarrow>
     sys_step os cfg y (y\<lparr>sy_mgr := snd (append_log os cfg oid line (sy_mgr y))\<rparr>)"
| pipe_spawn:
    "live y t \<Longrightarrow>
     sys_step os cfg y
       (y\<lparr>sy_mgr := (sy_mgr y)\<lparr>procs := (procs (sy_mgr y))(p := \<lparr>pid = n, returncode = None\<rparr>)\<rparr>\<rparr>)"
| pipe_process:
    "live y t \<Longrightarrow> lookup (sy_mgr y) (sy_oid y t) = Some i \<Longrightarrow>
     sys_step os cfg y
       (y\<lparr>sy_mgr := upd_rec i (\<lambda>r. r\<lparr>process := Some p\<rparr>) (sy_mgr y)\<rparr>)"
| pipe_settle:
    "live y t \<Longrightarrow> oid = sy_oid y t \<Longrightarrow> st = SUCCEEDED \<or> st = FAILED \<Longrightarrow>
     m = snd (update_operation oid (Some st) step msg err True (sy_mgr y)) \<Longrightarrow>
     m' = m \<or> m' = snd (append_log os cfg oid line (snd (now m))) \<Longrightarrow>
     sys_step os cfg y (y\<lparr>sy_mgr := set_task t TReturned m'\<rparr>)"
| task_raises:
    "live y t \<Longrightarrow>
     sys_step os cfg y (y\<lparr>sy_mgr := set_task t (TRaised nm msg) (sy_mgr y)\<rparr>)"
| task_returns:
    "live y t \<Longrightarrow> sys_step os cfg y (y\<lparr>sy_mgr := set_task t TReturned (sy_mgr y)\<rparr>)"
| task_cancelled:
    "t < sy_next y \<Longrightarrow> tasks (sy_mgr y) t = TPending True \<Longrightarrow>
     sys_step os cfg y (y\<lparr>sy_mgr := set_task t TCancelled (sy_mgr y)\<rparr>)"
| callback:
    "(t, oid) \<in> set (done_callbacks (sy_mgr y)) \<Longrightarrow> task_done (tasks (sy_mgr y) t) \<Longrightarrow>
     sys_step os cfg y (y\<lparr>sy_mgr := run_callback os cfg t oid (sy_mgr y)\<rparr>)"
| cancel:
    "sy_reg y = None \<Longrightarrow>
     sys_step os cfg y (y\<lparr>sy_mgr := snd (cancel_operation os cfg oid (sy_mgr y))\<rparr>)"
| stream_begin:
    "sys_step os cfg y (y\<lparr>sy_mgr := snd (stream_open oid (sy_mgr y))\<rparr>)"
| stream_end:
    "sys_step os cfg y (y\<lparr>sy_mgr := stream_close i q (sy_mgr y)\<rparr>)"
| process_exit:
    "sys_step os cfg y
       (y\<lparr>sy_mgr := (sy_mgr y)\<lparr>procs := (procs (sy_mgr y))(p := \<lparr>pid = n, returncode = Some rc\<rparr>)\<rparr>\<rparr>)"
| kill_timer:
    "(p, n) \<in> set (kill_timers (sy_mgr y)) \<Longrightarrow>
     sys_step os cfg y (y\<lparr>sy_mgr := force_kill p n (sy_mgr y)\<rparr>)"
| clock_read:
    "sys_step os cfg y (y\<lparr>sy_mgr := snd (now (sy_mgr y))\<rparr>)"

text \<open>A freshly started process: no operations, no tasks.\<close>

definition initial :: "sys \<Rightarrow> bool" where
  "initial y \<longleftrightarrow>
     operations (sy_mgr y) = [] \<and> next_rec (sy_mgr y) = 0 \<and> done_callbacks (sy_mgr y) = [] \<and>
     sy_reg y = None \<and> sy_next y = 0"

inductive reachable :: "osys \<Rightarrow> Settings \<Rightarrow> sys \<Rightarrow> bool" for os cfg where
  start: "initial y \<Longrightarrow> reachable os cfg y"
| step: "reachable os cfg y \<Longrightarrow> sys_step os cfg y y' \<Longrightarrow> reachable os cfg y'"

section \<open>The invariant\<close>

text \<open>
  An active operation has a driver: its registration is in flight, or its task is live, or the
  task is over and the callback that will settle the operation is still to run.
\<close>

definition driven :: "sys \<Rightarrow> string \<Rightarrow> ref \<Rightarrow> bool" where
  "driven y k i \<longleftrightarrow>
     (\<exists>p. sy_reg y = Some (i, p, k)) \<or>
     (\<exists>t. task (recs (sy_mgr y) i) = Some t \<and>
        (live y t \<or> task_done (tasks (sy_mgr y) t) \<and> (t, k) \<in> set (done_callbacks (sy_mgr y))))"

definition rec_ok :: "sys \<Rightarrow> string \<Rightarrow> ref \<Rightarrow> bool" where
  "rec_ok y k i \<longleftrightarrow>
     i < next_rec (sy_mgr y) \<and> operation_id (recs (sy_mgr y) i) = k \<and>
     target_resource (recs (sy_mgr y) i) = k \<and>
     (\<forall>t. task (recs (sy_mgr y) i) = Some t \<longrightarrow> t < sy_next y \<and> sy_oid y t = k) \<and>
     (active (status (recs (sy_mgr y) i)) \<longrightarrow> driven y k i) \<and>
     (completed_at (recs (sy_mgr y) i) = None \<longleftrightarrow> active (status (recs (sy_mgr y) i)))"

definition task_ok :: "sys \<Rightarrow> ref \<Rightarrow> bool" where
  "task_ok y t \<longleftrightarrow>
     (\<exists>i. running (sy_oid y t) i t (sy_mgr y)) \<and> (t, sy_oid y t) \<in> set (done_callbacks (sy_mgr y))"

definition reg_ok :: "sys \<Rightarrow> ref \<Rightarrow> string \<Rightarrow> bool" where
  "reg_ok y i k \<longleftrightarrow>
     lookup (sy_mgr y) k = Some i \<and> active (status (recs (sy_mgr y) i)) \<and>
     task (recs (sy_mgr y) i) = None"

definition sys_inv :: "sys \<Rightarrow> bool" where
  "sys_inv y \<longleftrightarrow>
     distinct (map fst (operations (sy_mgr y))) \<and>
     (\<forall>k i. lookup (sy_mgr y) k = Some i \<longrightarrow> rec_ok y k i) \<and>
     (\<forall>t. live y t \<longrightarrow> task_ok y t) \<and>
     (\<forall>i p k. sy_reg y = Some (i, p, k) \<longrightarrow> reg_ok y i k)"

lemma invI:
  assumes "distinct (map fst (operations (sy_mgr y)))"
    and "\<And>k i. lookup (sy_mgr y) k = Some i \<Longrightarrow> rec_ok y k i"
    and "\<And>t. live y t \<Longrightarrow> task_ok y t"
    and "\<And>i p k. sy_reg y = Some (i, p, k) \<Longrightarrow> reg_ok y i k"
  shows "sys_inv y"
  using assms by (simp add: sys_inv_def)

lemma invD:
  assumes "sys_inv y"
  shows "distinct (map fst (operations (sy_mgr y)))"
    and "lookup (sy_mgr y) k = Some i \<Longrightarrow> rec_ok y k i"
    and "live y t \<Longrightarrow> task_ok y t"
    and "sy_reg y = Some (i, p, k) \<Longrightarrow> reg_ok y i k"
  using assms by (auto simp: sys_inv_def)

lemma inv_initial: "initial y \<Longrightarrow> sys_inv y"
  by (simp add: sys_inv_def initial_def lookup_def live_def)

lemma inv_key:
  assumes "sys_inv y" and "lookup (sy_mgr y) k = Some i" and "lookup (sy_mgr y) k' = Some i"
  shows "k = k'"
  using invD(2) [OF assms(1)] assms(2,3) unfolding rec_ok_def by blast

lemma inv_task_key:
  assumes "sys_inv y" and "lookup (sy_mgr y) k = Some i" and "task (recs (sy_mgr y) i) = Some t"
  shows "sy_oid y t = k" and "t < sy_next y"
  using invD(2) [OF assms(1,2)] assms(3) by (auto simp: rec_ok_def)


section \<open>Steps that leave the view unchanged\<close>

text \<open>What the invariant sees of a record and of the manager.\<close>

definition view :: "OperationRecord \<Rightarrow> string \<times> string \<times> bool \<times> ref option \<times> bool" where
  "view r = (operation_id r, target_resource r, active (status r), task r, completed_at r = None)"

definition same_view :: "mgr \<Rightarrow> mgr \<Rightarrow> bool" where
  "same_view m m' \<longleftrightarrow>
     operations m' = operations m \<and> next_rec m' = next_rec m \<and> tasks m' = tasks m \<and>
     done_callbacks m' = done_callbacks m \<and> (\<forall>i. view (recs m' i) = view (recs m i))"

lemma same_view_sel:
  assumes "same_view m m'"
  shows "operations m' = operations m" and "next_rec m' = next_rec m" and "tasks m' = tasks m"
    and "done_callbacks m' = done_callbacks m" and "lookup m' = lookup m"
    and "operation_id (recs m' i) = operation_id (recs m i)"
    and "target_resource (recs m' i) = target_resource (recs m i)"
    and "active (status (recs m' i)) = active (status (recs m i))"
    and "task (recs m' i) = task (recs m i)"
    and "(completed_at (recs m' i) = None) = (completed_at (recs m i) = None)"
  using assms by (auto simp: same_view_def view_def lookup_def fun_eq_iff)

lemma inv_same_view:
  assumes "same_view (sy_mgr y) m"
  shows "sys_inv (y\<lparr>sy_mgr := m\<rparr>) = sys_inv y"
  by (simp add: sys_inv_def rec_ok_def task_ok_def reg_ok_def driven_def live_def running_def
        same_view_sel [OF assms] cong: conj_cong)

lemma same_view_refl [simp]: "same_view m m"
  by (simp add: same_view_def)

lemma same_view_log_only: "log_only m m' \<Longrightarrow> same_view m m'"
  by (simp add: same_view_def view_def mgr_frame)

text \<open>The last line of a pipeline: read the clock, then log.\<close>

lemma log_only_stamped: "log_only m (snd (append_log os cfg oid line (snd (now m))))"
  by (rule log_only_trans [OF log_only_now log_only_append_log])

lemma same_view_trans: "same_view a b \<Longrightarrow> same_view b c \<Longrightarrow> same_view a c"
  by (simp add: same_view_def)

lemma same_view_update:
  assumes "running oid i t m" and "st = None \<or> st = Some RUNNING"
  shows "same_view m (snd (update_operation oid st step msg err False m))"
proof -
  have l: "lookup m oid = Some i" and a: "active (status (recs m i))" using assms by (auto simp: running_def)
  define m' where "m' = snd (update_operation oid st step msg err False m)"
  note k = update_operation_known [OF l m'_def]
  have "view (recs m' j) = view (recs m j)" for j
    using k(8-14) a assms(2) by (cases "j = i") (auto simp: view_def)
  with k(2-5) show ?thesis by (simp add: same_view_def m'_def)
qed

text \<open>
  Logging, streaming, reading the clock and the books on child processes: nothing an operation
  is judged by changes.
\<close>

definition facts :: "OperationRecord \<Rightarrow> string \<times> string \<times> OperationType \<times> OperationStatus \<times> ref option \<times> datetime option" where
  "facts r = (operation_id r, target_resource r, operation_type r, status r, task r, completed_at r)"

definition calm :: "mgr \<Rightarrow> mgr \<Rightarrow> bool" where
  "calm m m' \<longleftrightarrow>
     operations m' = operations m \<and> next_rec m' = next_rec m \<and> tasks m' = tasks m \<and>
     done_callbacks m' = done_callbacks m \<and> (\<forall>i. facts (recs m' i) = facts (recs m i))"

lemma calm_same_view: "calm m m' \<Longrightarrow> same_view m m'"
  by (simp add: calm_def same_view_def facts_def view_def)

lemma calm_refl [simp]: "calm m m"
  by (simp add: calm_def)

lemma calm_log_only: "log_only m m' \<Longrightarrow> calm m m'"
  by (simp add: calm_def facts_def mgr_frame)

lemma calm_acts [simp]:
  "calm m (snd (append_log os cfg oid line m))" "calm m (snd (now m))"
  "calm m (m\<lparr>procs := ps\<rparr>)" "calm m (force_kill p n m)"
  "calm m (upd_rec i (\<lambda>r. r\<lparr>process := ph\<rparr>) m)"
  "calm m (snd (stream_open oid m))" "calm m (stream_close i q m)"
  by (simp_all add: calm_log_only log_only_append_log log_only_now)
    (simp_all add: calm_def facts_def force_kill_def upd_rec_def stream_open_def stream_close_def
      Let_def split: option.split)

section \<open>Steps that settle an operation\<close>

text \<open>
  The common shape of succeeding, failing, finalising and cancelling: one record stops being
  active and gets its completion time, its task is live no more, and at most the callback of
  that task disappears.
\<close>

definition retires :: "string \<Rightarrow> ref \<Rightarrow> mgr \<Rightarrow> mgr \<Rightarrow> bool" where
  "retires k i m m' \<longleftrightarrow>
     operations m' = operations m \<and> next_rec m' = next_rec m \<and>
     (\<forall>j. j \<noteq> i \<longrightarrow> view (recs m' j) = view (recs m j)) \<and>
     view (recs m' i) =
       (operation_id (recs m i), target_resource (recs m i), False, task (recs m i), False) \<and>
     (\<forall>u. task (recs m i) \<noteq> Some u \<longrightarrow> tasks m' u = tasks m u) \<and>
     (\<forall>u. task (recs m i) = Some u \<longrightarrow> tasks m' u \<noteq> TPending False) \<and>
     (\<forall>u k'. (u, k') \<in> set (done_callbacks m) \<longrightarrow> k' \<noteq> k \<or> task (recs m i) \<noteq> Some u \<longrightarrow>
        (u, k') \<in> set (done_callbacks m'))"

lemma retires_view:
  assumes "retires k i m m'" and "same_view m' m''"
  shows "retires k i m m''"
  using assms by (auto simp: retires_def same_view_def)

lemma retires_other:
  assumes "retires k i m m'"
  shows "lookup m' = lookup m" and "operations m' = operations m" and "next_rec m' = next_rec m"
    and "j \<noteq> i \<Longrightarrow> operation_id (recs m' j) = operation_id (recs m j)"
    and "j \<noteq> i \<Longrightarrow> target_resource (recs m' j) = target_resource (recs m j)"
    and "j \<noteq> i \<Longrightarrow> active (status (recs m' j)) = active (status (recs m j))"
    and "j \<noteq> i \<Longrightarrow> task (recs m' j) = task (recs m j)"
    and "j \<noteq> i \<Longrightarrow> (completed_at (recs m' j) = None) = (completed_at (recs m j) = None)"
  using assms by (auto simp: retires_def view_def lookup_def fun_eq_iff)

lemma retires_tasks:
  assumes "retires k i m m'" and "task (recs m i) \<noteq> Some u"
  shows "tasks m' u = tasks m u" and "(u, k') \<in> set (done_callbacks m) \<Longrightarrow> (u, k') \<in> set (done_callbacks m')"
  using assms by (auto simp: retires_def)

text \<open>A live task of the new state belongs to another record.\<close>

lemma retires_live:
  assumes "retires k i (sy_mgr y) m" and "live (y\<lparr>sy_mgr := m\<rparr>) u"
  shows "task (recs (sy_mgr y) i) \<noteq> Some u" and "live y u"
proof -
  show n: "task (recs (sy_mgr y) i) \<noteq> Some u" using assms by (auto simp: retires_def live_def)
  show "live y u" using assms(2) retires_tasks(1) [OF assms(1) n] by (simp add: live_def)
qed

lemma retires_driven:
  assumes inv: "sys_inv y" and l: "lookup (sy_mgr y) k = Some i" and r: "retires k i (sy_mgr y) m"
    and j: "lookup (sy_mgr y) k' = Some j" "j \<noteq> i" and d: "driven y k' j"
  shows "driven (y\<lparr>sy_mgr := m\<rparr>) k' j"
proof -
  have "task (recs (sy_mgr y) i) \<noteq> Some u" if "task (recs (sy_mgr y) j) = Some u" for u
    using inv_task_key(1) [OF inv l] inv_task_key(1) [OF inv j(1) that] j l by auto
  note keep = retires_tasks [OF r this] and other = retires_other(7) [OF r j(2)]
  from d show ?thesis
    unfolding driven_def by (auto simp: other keep live_def)
qed

lemma inv_retires:
  assumes inv: "sys_inv y" and l: "lookup (sy_mgr y) k = Some i"
    and r: "retires k i (sy_mgr y) m" and reg: "\<And>p k'. sy_reg y \<noteq> Some (i, p, k')"
  shows "sys_inv (y\<lparr>sy_mgr := m\<rparr>)" (is "sys_inv ?y")
proof (rule invI)
  note other = retires_other [OF r]
  show "distinct (map fst (operations (sy_mgr ?y)))" using invD(1) [OF inv] other(2) by simp
  fix k' j assume "lookup (sy_mgr ?y) k' = Some j"
  then have l': "lookup (sy_mgr y) k' = Some j" using other(1) by simp
  show "rec_ok ?y k' j"
  proof (cases "j = i")
    case True
    with invD(2) [OF inv l'] r show ?thesis by (auto simp: rec_ok_def retires_def view_def)
  next
    case False
    with invD(2) [OF inv l'] retires_driven [OF inv l r l'] other show ?thesis by (simp add: rec_ok_def)
  qed
next
  note other = retires_other [OF r]
  fix t assume t: "live ?y t"
  note n = retires_live [OF r t] and keep = retires_tasks [OF r retires_live(1) [OF r t]]
  obtain j where j: "running (sy_oid y t) j t (sy_mgr y)" "(t, sy_oid y t) \<in> set (done_callbacks (sy_mgr y))"
    using invD(3) [OF inv n(2)] by (auto simp: task_ok_def)
  moreover from j n have "j \<noteq> i" by (auto simp: running_def)
  ultimately have "running (sy_oid y t) j t m" using other keep by (simp add: running_def)
  with j(2) keep(2) show "task_ok ?y t" by (auto simp: task_ok_def)
next
  fix j p k' assume "sy_reg ?y = Some (j, p, k')"
  then have "j \<noteq> i" and "reg_ok y j k'" using reg invD(4) [OF inv] by auto
  then show "reg_ok ?y j k'" using retires_other [OF r] by (simp add: reg_ok_def)
qed

lemma inv_reg_task:
  assumes "sys_inv y" and "lookup (sy_mgr y) k = Some i" and "task (recs (sy_mgr y) i) = Some t"
  shows "sy_reg y \<noteq> Some (i, p, k')"
  using invD(4) [OF assms(1)] assms(3) by (auto simp: reg_ok_def)

text \<open>Succeeding and failing.\<close>

lemma retires_settle:
  assumes run: "running oid i t m" and st: "st = SUCCEEDED \<or> st = FAILED"
    and m': "m' = snd (update_operation oid (Some st) step msg err True m)" and v: "same_view m' m''"
  shows "retires oid i m (set_task t TReturned m'')"
proof -
  have l: "lookup m oid = Some i" and t: "task (recs m i) = Some t" using run by (auto simp: running_def)
  note k = update_operation_known [OF l m']
  have "view (recs m' i) = (operation_id (recs m i), target_resource (recs m i), False, Some t, False)"
    using k(9-12,14) st t by (auto simp: view_def)
  moreover have "view (recs m' j) = view (recs m j)" if "j \<noteq> i" for j using k(8) that by (simp add: view_def)
  ultimately show ?thesis
    using k(2-5) v t by (auto simp: retires_def set_task_def same_view_def)
qed

text \<open>Cancelling.\<close>

lemma retires_cancel:
  assumes l: "lookup m oid = Some i" and a: "active (status (recs m i))"
  shows "retires oid i m (snd (cancel_operation os cfg oid m))"
proof -
  obtain s4 x where s4: "recs s4 = (recs m)(i := (recs m i)\<lparr>status := CANCELLED,
        completed_at := Some (clock m (ticks m)), message := Some x,
        updated_at := clock m (Suc (ticks m))\<rparr>)"
    "operations s4 = operations m" "next_rec s4 = next_rec m"
    "tasks s4 = flag_task (task (recs m i)) (tasks m)" "done_callbacks s4 = done_callbacks m"
    and lo: "log_only s4 (snd (cancel_operation os cfg oid m))"
    by (rule cancel_operation_acts [OF l a, of os cfg]) blast
  have "retires oid i m s4"
    using s4 by (auto simp: retires_def view_def flag_task_def split: option.splits)
  then show ?thesis by (rule retires_view) (rule same_view_log_only [OF lo])
qed

text \<open>Finalising, with the callback gone.\<close>

lemma retires_callback:
  assumes l: "lookup m oid = Some i" and t: "task (recs m i) = Some t" and a: "active (status (recs m i))"
    and d: "task_done (tasks m t)"
  shows "retires oid i m (run_callback os cfg t oid m)"
proof -
  define f where "f = snd (finalize_task os cfg oid t m)"
  obtain s4 where s4: "recs s4 = (recs m)(i := (finalize_outcome oid (tasks m t) (recs m i))
        \<lparr>updated_at := clock m (ticks m), completed_at := Some (clock m (Suc (ticks m)))\<rparr>)"
    "operations s4 = operations m" "next_rec s4 = next_rec m" "tasks s4 = tasks m"
    "done_callbacks s4 = done_callbacks m" and lo: "log_only s4 f"
    unfolding f_def by (rule finalize_task_acts [OF l t a, of os cfg]) blast
  have na: "\<not> active (status (finalize_outcome oid (tasks m t) (recs m i)))"
    using finalize_outcome_sel(1) terminal_iff_not_active by blast
  have "retires oid i m s4"
    using s4 t d na by (auto simp: retires_def view_def)
  then have "retires oid i m f" by (rule retires_view) (rule same_view_log_only [OF lo])
  then have r: "retires oid i m f" and c: "done_callbacks f = done_callbacks m"
    using log_only_frame(4) [OF lo] s4 by simp_all
  have "x \<in> set (remove1 (t, oid) (done_callbacks m))" if "x \<in> set (done_callbacks m)" "x \<noteq> (t, oid)" for x
    using that by (simp add: in_set_remove1)
  with r c t show ?thesis by (auto simp: retires_def run_callback_def Let_def f_def [symmetric])
qed

section \<open>Tasks that end, callbacks that find nothing to do\<close>

lemma inv_task_over:
  assumes inv: "sys_inv y" and t: "t < sy_next y" and p: "tasks (sy_mgr y) t = TPending b" and d: "task_done ts"
  shows "sys_inv (y\<lparr>sy_mgr := set_task t ts (sy_mgr y)\<rparr>)"
proof -
  let ?y = "y\<lparr>sy_mgr := set_task t ts (sy_mgr y)\<rparr>"
  have live: "live ?y u \<longleftrightarrow> live y u \<and> u \<noteq> t" for u using d by (auto simp: live_def set_task_def)
  have cb: "live y t \<Longrightarrow> lookup (sy_mgr y) k = Some i \<Longrightarrow> task (recs (sy_mgr y) i) = Some t \<Longrightarrow>
      (t, k) \<in> set (done_callbacks (sy_mgr y))" for k i
    using invD(3) [OF inv] inv_task_key(1) [OF inv] by (auto simp: task_ok_def)
  have driven: "driven ?y k i" if "driven y k i" "lookup (sy_mgr y) k = Some i" for k i
    using that cb [OF _ that(2)] d p unfolding driven_def live by (auto simp: set_task_def)
  show ?thesis
  proof (rule invI)
    show "distinct (map fst (operations (sy_mgr ?y)))" using invD(1) [OF inv] by (simp add: set_task_def)
  next
    fix k i assume "lookup (sy_mgr ?y) k = Some i"
    then have l: "lookup (sy_mgr y) k = Some i" by (simp add: set_task_def lookup_def)
    from invD(2) [OF inv l] driven [OF _ l] show "rec_ok ?y k i" by (auto simp: rec_ok_def set_task_def)
  next
    fix u assume "live ?y u"
    then have "task_ok y u" and "u \<noteq> t" using invD(3) [OF inv] live by auto
    then show "task_ok ?y u" by (auto simp: task_ok_def set_task_def running_def lookup_def)
  next
    fix i p k assume "sy_reg ?y = Some (i, p, k)"
    then have "reg_ok y i k" using invD(4) [OF inv] by simp
    then show "reg_ok ?y i k" by (simp add: reg_ok_def set_task_def lookup_def)
  qed
qed

lemma inv_drop_callback:
  assumes inv: "sys_inv y" and d: "task_done (tasks (sy_mgr y) t)"
    and no: "\<And>i. lookup (sy_mgr y) oid = Some i \<Longrightarrow>
       task (recs (sy_mgr y) i) \<noteq> Some t \<or> \<not> active (status (recs (sy_mgr y) i))"
  shows "sys_inv (y\<lparr>sy_mgr := (sy_mgr y)\<lparr>done_callbacks := remove1 (t, oid) (done_callbacks (sy_mgr y))\<rparr>\<rparr>)"
    (is "sys_inv ?y")
proof -
  have keep: "x \<in> set (remove1 (t, oid) cs)" if "x \<in> set cs" "x \<noteq> (t, oid)" for x and cs :: "(ref \<times> string) list"
    using that by (simp add: in_set_remove1)
  have live: "live ?y u \<longleftrightarrow> live y u" for u by (simp add: live_def)
  have lk: "lookup (sy_mgr ?y) = lookup (sy_mgr y)" by (simp add: lookup_def fun_eq_iff)
  have driven: "driven ?y k i"
    if "driven y k i" "lookup (sy_mgr y) k = Some i" "active (status (recs (sy_mgr y) i))" for k i
  proof -
    have "(u, k) \<noteq> (t, oid)" if "task (recs (sy_mgr y) i) = Some u" for u
      using no that \<open>lookup (sy_mgr y) k = Some i\<close> \<open>active _\<close> by auto
    with \<open>driven y k i\<close> keep show ?thesis unfolding driven_def live by fastforce
  qed
  show ?thesis
  proof (rule invI)
    show "distinct (map fst (operations (sy_mgr ?y)))" using invD(1) [OF inv] by simp
  next
    fix k i assume "lookup (sy_mgr ?y) k = Some i"
    then have l: "lookup (sy_mgr y) k = Some i" by (simp only: lk)
    from invD(2) [OF inv l] driven [OF _ l] show "rec_ok ?y k i" by (simp add: rec_ok_def)
  next
    fix u assume "live ?y u"
    then have u: "task_ok y u" "live y u" using invD(3) [OF inv] live by auto
    then have "u \<noteq> t" using d by (auto simp: live_def)
    with u show "task_ok ?y u" by (simp add: task_ok_def running_def lookup_def keep)
  next
    fix i p k assume "sy_reg ?y = Some (i, p, k)"
    then have "reg_ok y i k" using invD(4) [OF inv] by simp
    then show "reg_ok ?y i k" by (simp add: reg_ok_def lookup_def)
  qed
qed

lemma inv_callback:
  assumes inv: "sys_inv y" and d: "task_done (tasks (sy_mgr y) t)"
  shows "sys_inv (y\<lparr>sy_mgr := run_callback os cfg t oid (sy_mgr y)\<rparr>)"
proof (cases "\<exists>i. lookup (sy_mgr y) oid = Some i \<and> task (recs (sy_mgr y) i) = Some t \<and>
                  active (status (recs (sy_mgr y) i))")
  case True
  then obtain i where i: "lookup (sy_mgr y) oid = Some i" "task (recs (sy_mgr y) i) = Some t"
    "active (status (recs (sy_mgr y) i))" by blast
  show ?thesis
    by (rule inv_retires [OF inv i(1) retires_callback [OF i d]]) (rule inv_reg_task [OF inv i(1,2)])
next
  case False
  have "finalize_task os cfg oid t (sy_mgr y) = (Inr (), sy_mgr y)"
    using False by (cases "lookup (sy_mgr y) oid") (auto intro!: finalize_task_skip simp: terminal_iff_not_active)
  then have "run_callback os cfg t oid (sy_mgr y) =
      (sy_mgr y)\<lparr>done_callbacks := remove1 (t, oid) (done_callbacks (sy_mgr y))\<rparr>"
    by (simp add: run_callback_def Let_def)
  with inv_drop_callback [OF inv d, of oid] False show ?thesis by auto
qed


section \<open>Registration\<close>

lemma lookup_insert:
  "lookup (m\<lparr>ticks := n, recs := f, next_rec := j, operations := dict_set (operations m) oid i\<rparr>) k =
     (if k = oid then Some i else lookup m k)"
  by (simp add: lookup_def)

lemma inv_register:
  assumes inv: "sys_inv y" and reg: "sy_reg y = None"
    and r: "register_insert os cfg oid ty oid step msg (sy_mgr y) = (Inr (i, p), m)"
  shows "sys_inv (y\<lparr>sy_mgr := m, sy_reg := Some (i, p, oid)\<rparr>)" (is "sys_inv ?y")
proof -
  let ?m = "sy_mgr y"
  have fc: "find_conflict ?m oid = None"
    using r register_insert_conflict by (cases "find_conflict ?m oid") (auto simp: register_insert_def)
  define f where "f = fresh_record oid ty oid step msg (max_log_buffer_lines cfg) ?m"
  have i: "i = next_rec ?m" and m: "m = ?m\<lparr>ticks := Suc (Suc (ticks ?m)), recs := (recs ?m)(i := f),
      next_rec := Suc i, operations := dict_set (operations ?m) oid i\<rparr>"
    using r register_insert_new [OF fc, of os cfg oid ty step msg]
    by (auto simp: f_def split: sum.splits)
  have idle: "\<not> active (status (recs ?m j))" if "lookup ?m oid = Some j" for j
    using fc that invD(2) [OF inv that] dict_get_mem [of "operations ?m" oid j]
    unfolding find_conflict_None by (fastforce simp: lookup_def rec_ok_def)
  have lk: "lookup m k = (if k = oid then Some i else lookup ?m k)" for k
    unfolding m by (rule lookup_insert)
  have old: "recs m j = recs ?m j" if "lookup ?m k = Some j" for j k
    using invD(2) [OF inv that] i m by (simp add: rec_ok_def)
  have live: "live ?y u \<longleftrightarrow> live y u" for u by (simp add: live_def m)
  show ?thesis
  proof (rule invI)
    show "distinct (map fst (operations (sy_mgr ?y)))" using invD(1) [OF inv] m by (simp add: distinct_dict_set)
  next
    fix k j assume l: "lookup (sy_mgr ?y) k = Some j"
    show "rec_ok ?y k j"
    proof (cases "k = oid")
      case True
      with l lk have "j = i" by simp
      with True show ?thesis by (simp add: rec_ok_def driven_def m f_def)
    next
      case False
      with l lk have l': "lookup ?m k = Some j" by simp
      from invD(2) [OF inv l'] old [OF l'] reg show ?thesis
        by (auto simp: rec_ok_def driven_def live_def m i)
    qed
  next
    fix t assume "live ?y t"
    then have ok: "task_ok y t" using live invD(3) [OF inv] by blast
    then obtain j where j: "running (sy_oid y t) j t ?m" by (auto simp: task_ok_def)
    then have "sy_oid y t \<noteq> oid" using idle by (auto simp: running_def)
    with j old have "running (sy_oid y t) j t m" by (auto simp: running_def lk) (simp_all add: m)
    with ok show "task_ok ?y t" by (auto simp: task_ok_def m)
  next
    fix j q k assume "sy_reg ?y = Some (j, q, k)"
    then show "reg_ok ?y j k" by (auto simp: reg_ok_def lk) (simp_all add: m f_def)
  qed
qed


lemma inv_start:
  assumes inv: "sys_inv y" and reg: "sy_reg y = Some (i, p, oid)"
  shows "sys_inv (start_task oid (y\<lparr>sy_mgr := register_finish i p (sy_mgr y), sy_reg := None\<rparr>))" (is "sys_inv ?z")
proof -
  define m where "m = register_finish i p (sy_mgr y)"
  define y1 where "y1 = y\<lparr>sy_mgr := m\<rparr>"
  have inv1: "sys_inv y1"
    using inv inv_same_view [OF same_view_log_only [OF log_only_register_finish]] by (simp add: y1_def m_def)
  have "reg_ok y1 i oid" using invD(4) [OF inv1] reg by (simp add: y1_def)
  then have l: "lookup m oid = Some i" and a: "active (status (recs m i))" and nt: "task (recs m i) = None"
    by (auto simp: reg_ok_def y1_def)
  define n where "n = sy_next y"
  define m' where "m' = m\<lparr>recs := (recs m)(i := (recs m i)\<lparr>task := Some n\<rparr>),
     tasks := (tasks m)(n := TPending False), done_callbacks := done_callbacks m @ [(n, oid)]\<rparr>"
  have "lookup (set_task n (TPending False) m) oid = Some i" using l by (simp add: set_task_def lookup_def)
  then have z: "?z = y\<lparr>sy_mgr := m', sy_reg := None, sy_next := Suc n, sy_oid := (sy_oid y)(n := oid)\<rparr>"
    by (simp add: start_task_def attach_task_known m_def [symmetric] n_def [symmetric] m'_def
          set_task_def upd_rec_def)
  have lk: "lookup m' = lookup m" by (simp add: m'_def lookup_def fun_eq_iff)
  have live: "live ?z u \<longleftrightarrow> u = n \<or> live y1 u" for u
    by (auto simp: z live_def m'_def y1_def n_def)
  have fresh: "task (recs m j) \<noteq> Some n" if "lookup m k = Some j" for k j
    using inv_task_key(2) [OF inv1, of k j n] that by (auto simp: y1_def n_def)
  show ?thesis
  proof (rule invI)
    show "distinct (map fst (operations (sy_mgr ?z)))"
      using invD(1) [OF inv1] by (simp add: z m'_def y1_def)
  next
    fix k j assume "lookup (sy_mgr ?z) k = Some j"
    then have l': "lookup m k = Some j" by (simp add: z lk)
    have old: "rec_ok y1 k j" using invD(2) [OF inv1] l' by (simp add: y1_def)
    show "rec_ok ?z k j"
    proof (cases "j = i")
      case True
      have "k = oid" using inv_key [OF inv1] l l' True by (simp add: y1_def)
      moreover have "driven ?z oid i" unfolding driven_def by (auto simp: live) (simp add: z m'_def)
      ultimately show ?thesis using old True a
        by (auto simp: rec_ok_def z m'_def y1_def n_def)
    next
      case False
      have "driven ?z k j" if "driven y1 k j"
        using that reg False fresh [OF l'] unfolding driven_def live
        by (auto simp: z m'_def y1_def)
      with old False fresh [OF l'] show ?thesis by (auto simp: rec_ok_def z m'_def y1_def n_def)
    qed
  next
    fix u assume "live ?z u"
    then consider "u = n" | "u \<noteq> n" "live y1 u" using live by blast
    then show "task_ok ?z u"
    proof cases
      case 1
      then show ?thesis using l a
        by (auto simp: task_ok_def z running_def lookup_def m'_def intro!: exI [of _ i])
    next
      case 2
      then have ok: "task_ok y1 u" using invD(3) [OF inv1] by blast
      then obtain j where j: "running (sy_oid y u) j u m" by (auto simp: task_ok_def y1_def)
      then have "j \<noteq> i" using nt by (auto simp: running_def)
      with ok j 2 show ?thesis by (auto simp: task_ok_def z y1_def running_def lookup_def m'_def intro!: exI [of _ j])
    qed
  qed (simp add: z)
qed


section \<open>Reachable states\<close>

text \<open>
  The log directory is usable: every name a request may carry gives a log file. Without this a
  registration fails after it has entered its record (theorem \<open>register_bad_path\<close>).
\<close>

definition paths_ok :: "osys \<Rightarrow> Settings \<Rightarrow> bool" where
  "paths_ok os cfg \<longleftrightarrow> (\<forall>oid. gce_name oid \<longrightarrow> (\<exists>p. get_log_file_path os cfg oid = Inr p))"

lemma inv_reg_error:
  assumes "sys_inv y" and "paths_ok os cfg" and "gce_name oid"
    and "register_insert os cfg oid ty oid step msg (sy_mgr y) = (Inl e, m)"
  shows "m = sy_mgr y"
proof (cases "find_conflict (sy_mgr y) oid")
  case None
  with assms(2-4) show ?thesis by (auto simp: register_insert_new paths_ok_def)
next
  case (Some i)
  with assms(4) show ?thesis by (simp add: register_insert_conflict)
qed

lemma inv_cancel:
  assumes "sys_inv y" and "sy_reg y = None"
  shows "sys_inv (y\<lparr>sy_mgr := snd (cancel_operation os cfg oid (sy_mgr y))\<rparr>)"
proof (cases "\<exists>i. lookup (sy_mgr y) oid = Some i \<and> active (status (recs (sy_mgr y) i))")
  case True
  then obtain i where "lookup (sy_mgr y) oid = Some i" "active (status (recs (sy_mgr y) i))" by blast
  with assms show ?thesis by (intro inv_retires [OF assms(1) _ retires_cancel]) simp_all
next
  case False
  then have "snd (cancel_operation os cfg oid (sy_mgr y)) = sy_mgr y"
    by (cases "lookup (sy_mgr y) oid") (auto intro!: cancel_operation_skip simp: terminal_iff_not_active)
  with assms(1) show ?thesis by simp
qed

lemma live_running:
  assumes "sys_inv y" and "live y t"
  obtains i where "running (sy_oid y t) i t (sy_mgr y)"
  using invD(3) [OF assms] that by (auto simp: task_ok_def)

text \<open>
  What a step of a reachable state amounts to. Ten of the rules leave every operation as it is
  (\<open>calm\<close>); a task's update and its end find the operation it drives.
\<close>

lemma sys_step_kinds:
  assumes "sys_step os cfg y y'" and "paths_ok os cfg" and inv: "sys_inv y"
  obtains
    (calm) m where "y' = y\<lparr>sy_mgr := m\<rparr>" "calm (sy_mgr y) m"
  | (registers) oid ty step msg i p m where "sy_reg y = None" "gce_name oid"
      "register_insert os cfg oid ty oid step msg (sy_mgr y) = (Inr (i, p), m)"
      "y' = y\<lparr>sy_mgr := m, sy_reg := Some (i, p, oid)\<rparr>"
  | (starts) i p oid where "sy_reg y = Some (i, p, oid)"
      "y' = start_task oid (y\<lparr>sy_mgr := register_finish i p (sy_mgr y), sy_reg := None\<rparr>)"
  | (updates) oid i t st step msg err where "running oid i t (sy_mgr y)" "st = None \<or> st = Some RUNNING"
      "y' = y\<lparr>sy_mgr := snd (update_operation oid st step msg err False (sy_mgr y))\<rparr>"
  | (settles) oid i t st step msg err m m' where "running oid i t (sy_mgr y)" "live y t"
      "st = SUCCEEDED \<or> st = FAILED" "m = snd (update_operation oid (Some st) step msg err True (sy_mgr y))"
      "log_only m m'" "y' = y\<lparr>sy_mgr := set_task t TReturned m'\<rparr>"
  | (ends) t b ts where "t < sy_next y" "tasks (sy_mgr y) t = TPending b" "task_done ts"
      "y' = y\<lparr>sy_mgr := set_task t ts (sy_mgr y)\<rparr>"
  | (calls_back) t oid where "task_done (tasks (sy_mgr y) t)"
      "y' = y\<lparr>sy_mgr := run_callback os cfg t oid (sy_mgr y)\<rparr>"
  | (cancels) oid where "sy_reg y = None" "y' = y\<lparr>sy_mgr := snd (cancel_operation os cfg oid (sy_mgr y))\<rparr>"
  using assms(1)
proof cases
  case (reg_error oid ty step msg e m)
  then have "m = sy_mgr y" using inv_reg_error [OF inv assms(2)] by blast
  with reg_error calm [of "sy_mgr y"] show ?thesis by simp
next
  case (pipe_update t oid st step msg err)
  with live_running [OF inv] show ?thesis using updates by metis
next
  case (pipe_settle t oid st m step msg err m' line)
  moreover have "log_only m m'" using pipe_settle(6) log_only_stamped by auto
  ultimately show ?thesis using live_running [OF inv] settles by metis
next
  case (task_raises t nm msg)
  with ends [of t False "TRaised nm msg"] show ?thesis by (simp add: live_def)
next
  case (task_returns t)
  with ends [of t False TReturned] show ?thesis by (simp add: live_def)
next
  case (task_cancelled t)
  with ends [of t True TCancelled] show ?thesis by simp
qed (use registers starts calls_back cancels calm in auto)

lemma inv_step:
  assumes "sys_step os cfg y y'" and "paths_ok os cfg" and inv: "sys_inv y"
  shows "sys_inv y'"
  using assms
proof (cases rule: sys_step_kinds)
  case (calm m)
  then show ?thesis using inv_same_view [OF calm_same_view] inv by simp
next
  case (updates oid i t st step msg err)
  then show ?thesis using inv_same_view [OF same_view_update] inv by simp
next
  case (settles oid i t st step msg err m m')
  then have l: "lookup (sy_mgr y) oid = Some i" "task (recs (sy_mgr y) i) = Some t" by (simp_all add: running_def)
  have "retires oid i (sy_mgr y) (set_task t TReturned m')"
    using retires_settle [OF settles(1,3,4)] same_view_log_only [OF settles(5)] by blast
  then show ?thesis unfolding settles(6) by (rule inv_retires [OF inv l(1)]) (rule inv_reg_task [OF inv l])
next
  case (ends t b ts)
  then show ?thesis using inv_task_over [OF inv] by simp
qed (simp_all add: inv_register [OF inv] inv_start [OF inv] inv_callback [OF inv] inv_cancel [OF inv])

lemma inv_reachable: "reachable os cfg y \<Longrightarrow> paths_ok os cfg \<Longrightarrow> sys_inv y"
  by (induction rule: reachable.induct) (auto intro: inv_initial inv_step)

section \<open>Settled operations stay settled\<close>

definition outcome_kept :: "mgr \<Rightarrow> mgr \<Rightarrow> bool" where
  "outcome_kept m m' \<longleftrightarrow>
     next_rec m \<le> next_rec m' \<and>
     (\<forall>i < next_rec m. terminal (status (recs m i)) \<longrightarrow>
        status (recs m' i) = status (recs m i) \<and> completed_at (recs m' i) = completed_at (recs m i))"

lemma kept_refl [simp]: "outcome_kept m m"
  by (simp add: outcome_kept_def)

lemma kept_trans: "outcome_kept a b \<Longrightarrow> outcome_kept b c \<Longrightarrow> outcome_kept a c"
  by (auto simp: outcome_kept_def)

lemma kept_log_only: "log_only m m' \<Longrightarrow> outcome_kept m m'"
  by (simp add: outcome_kept_def mgr_frame)

lemma kept_set_task [simp]: "outcome_kept m (set_task t ts m') = outcome_kept m m'"
  by (simp add: outcome_kept_def set_task_def)

lemma kept_update:
  assumes "running oid i t m"
  shows "outcome_kept m (snd (update_operation oid st step msg err c m))"
proof -
  have l: "lookup m oid = Some i" and a: "\<not> terminal (status (recs m i))"
    using assms by (auto simp: running_def terminal_iff_not_active)
  define m' where "m' = snd (update_operation oid st step msg err c m)"
  note k = update_operation_known [OF l m'_def]
  show ?thesis
    unfolding outcome_kept_def m'_def [symmetric] using k(3) k(8) a by (metis order_refl)
qed

lemma kept_active_only:
  assumes "active (status (recs m i))" and "recs m' = (recs m)(i := r)" and "next_rec m' = next_rec m"
    and "log_only m' m''"
  shows "outcome_kept m m''"
proof -
  have "outcome_kept m m'" using assms(1-3) by (auto simp: outcome_kept_def terminal_iff_not_active)
  then show ?thesis using kept_trans kept_log_only [OF assms(4)] by blast
qed

lemma kept_cancel: "outcome_kept m (snd (cancel_operation os cfg oid m))"
proof (cases "\<exists>i. lookup m oid = Some i \<and> active (status (recs m i))")
  case True
  then obtain i where i: "lookup m oid = Some i" "active (status (recs m i))" by blast
  show ?thesis by (rule cancel_operation_acts [OF i, of os cfg]) (rule kept_active_only [OF i(2)])
next
  case False
  then have "snd (cancel_operation os cfg oid m) = m"
    by (cases "lookup m oid") (auto intro!: cancel_operation_skip simp: terminal_iff_not_active)
  then show ?thesis by simp
qed

lemma kept_callback: "outcome_kept m (run_callback os cfg t oid m)"
proof -
  have "outcome_kept m (snd (finalize_task os cfg oid t m))"
  proof (cases "\<exists>i. lookup m oid = Some i \<and> task (recs m i) = Some t \<and> active (status (recs m i))")
    case True
    then obtain i where i: "lookup m oid = Some i" "task (recs m i) = Some t" "active (status (recs m i))" by blast
    show ?thesis by (rule finalize_task_acts [OF i, of os cfg]) (rule kept_active_only [OF i(3)])
  next
    case False
    then have "finalize_task os cfg oid t m = (Inr (), m)"
      by (cases "lookup m oid") (auto intro!: finalize_task_skip simp: terminal_iff_not_active)
    then show ?thesis by simp
  qed
  then show ?thesis by (simp add: run_callback_def Let_def outcome_kept_def)
qed

lemma kept_register: "outcome_kept m (snd (register_insert os cfg oid ty target step msg m))"
proof (cases "find_conflict m target")
  case None
  then show ?thesis by (simp add: register_insert_new outcome_kept_def)
next
  case (Some i)
  then show ?thesis by (simp add: register_insert_conflict)
qed

lemma kept_attach: "outcome_kept m m' \<Longrightarrow> outcome_kept m (attach_task oid t m')"
  by (auto simp: attach_task_def outcome_kept_def upd_rec_def split: option.split)

lemma kept_calm: "calm m m' \<Longrightarrow> outcome_kept m m'"
  by (simp add: outcome_kept_def calm_def facts_def)

lemma kept_step:
  assumes "sys_step os cfg y y'" and "paths_ok os cfg" and "sys_inv y"
  shows "outcome_kept (sy_mgr y) (sy_mgr y')"
  using assms
proof (cases rule: sys_step_kinds)
  case (registers oid ty step msg i p m)
  then show ?thesis using kept_register [of "sy_mgr y" os cfg oid ty oid step msg] by simp
next
  case (starts i p oid)
  then show ?thesis
    using kept_log_only [OF log_only_register_finish] by (simp add: start_task_def kept_attach)
next
  case (settles oid i t st step msg err m m')
  have "outcome_kept (sy_mgr y) m" unfolding settles(4) by (rule kept_update [OF settles(1)])
  with settles show ?thesis using kept_trans [OF _ kept_log_only] by simp
qed (simp_all add: kept_calm kept_update kept_callback kept_cancel)


section \<open>What a step does to the operation of a running task\<close>

lemma sy_oid_step:
  assumes "sys_step os cfg y y'" and "t < sy_next y"
  shows "sy_oid y' t = sy_oid y t" and "t < sy_next y'"
  using assms by (cases; simp add: start_task_def)+

lemma cancel_interrupts:
  assumes inv: "sys_inv y" and lt: "live y t"
    and f: "tasks (snd (cancel_operation os cfg oid (sy_mgr y))) t = TPending True"
  shows "\<exists>i. interrupted (sy_oid y t) i t (snd (cancel_operation os cfg oid (sy_mgr y)))"
proof -
  let ?m = "sy_mgr y" and ?m' = "snd (cancel_operation os cfg oid (sy_mgr y))"
  have "\<exists>i. lookup ?m oid = Some i \<and> active (status (recs ?m i))"
  proof (rule ccontr)
    assume n: "\<not> ?thesis"
    have "?m' = ?m" using n
      by (cases "lookup ?m oid") (auto intro!: cancel_operation_skip simp: terminal_iff_not_active)
    with f lt show False by (simp add: live_def)
  qed
  then obtain i where i: "lookup ?m oid = Some i" "active (status (recs ?m i))" by blast
  obtain s4 x where s4: "recs s4 = (recs ?m)(i := (recs ?m i)\<lparr>status := CANCELLED,
        completed_at := Some (clock ?m (ticks ?m)), message := Some x,
        updated_at := clock ?m (Suc (ticks ?m))\<rparr>)"
    "operations s4 = operations ?m" "tasks s4 = flag_task (task (recs ?m i)) (tasks ?m)"
    and lo: "log_only s4 ?m'"
    by (rule cancel_operation_acts [OF i, of os cfg]) blast
  have ts: "tasks ?m' = flag_task (task (recs ?m i)) (tasks ?m)" using s4 log_only_frame(3) [OF lo] by simp
  have "task (recs ?m i) = Some t"
    using f lt unfolding ts by (auto simp: flag_task_def live_def split: option.splits if_splits)
  then have "sy_oid y t = oid" using inv_task_key(1) [OF inv i(1)] by simp
  moreover have "status (recs ?m' i) = CANCELLED" using log_only_recs(4) [OF lo] s4 by simp
  moreover have "lookup ?m' oid = Some i" using log_only_frame(7) [OF lo] s4 i(1) by (simp add: lookup_def)
  ultimately show ?thesis using f by (auto simp: interrupted_def)
qed

lemma tasks_register: "tasks (snd (register_insert os cfg oid ty target step msg m)) = tasks m"
  by (cases "find_conflict m target") (simp_all add: register_insert_new register_insert_conflict)

lemma tasks_callback: "tasks (run_callback os cfg t oid m) = tasks m"
  by (simp add: run_callback_def Let_def finalize_task_tasks)

lemma tasks_start:
  "tasks (sy_mgr (start_task oid (y\<lparr>sy_mgr := register_finish i p (sy_mgr y), sy_reg := r\<rparr>))) =
     (tasks (sy_mgr y))(sy_next y := TPending False)"
  using log_only_frame(3) [OF log_only_register_finish, of i p "sy_mgr y"]
  by (simp add: start_task_def attach_task_def set_task_def upd_rec_def split: option.split)

lemma tasks_settle:
  assumes "running oid i t m" and "m1 = snd (update_operation oid st step msg err c m)" and "log_only m1 m2"
  shows "tasks m2 = tasks m"
  using assms log_only_frame(3) [OF assms(3)] update_operation_known(4) [OF _ assms(2)] by (simp add: running_def)

lemma step_flag:
  assumes "sys_step os cfg y y'" and "paths_ok os cfg" and inv: "sys_inv y" and lt: "live y t"
    and f: "tasks (sy_mgr y') t = TPending True"
  shows "\<exists>i. interrupted (sy_oid y t) i t (sy_mgr y')"
  using assms(1-3)
proof (cases rule: sys_step_kinds)
  case (cancels oid)
  then show ?thesis using cancel_interrupts [OF inv lt] f by simp
next
  case (calm m)
  then show ?thesis using f lt by (simp add: calm_def live_def)
next
  case (registers oid ty step msg i p m)
  then show ?thesis using f lt tasks_register [of os cfg oid ty oid step msg "sy_mgr y"] by (simp add: live_def)
next
  case (starts i p oid)
  then show ?thesis using f lt by (simp add: tasks_start live_def split: if_splits)
next
  case (updates oid i u st step msg err)
  then show ?thesis using tasks_settle [OF updates(1) refl log_only_refl] f lt by (simp add: live_def)
next
  case (settles oid i u st step msg err m m')
  then show ?thesis using tasks_settle [OF settles(1,4,5)] f lt by (simp add: set_task_def live_def split: if_splits)
next
  case (ends u b ts)
  then show ?thesis using f lt by (auto simp: set_task_def live_def split: if_splits)
next
  case (calls_back u oid)
  then show ?thesis using f lt by (simp add: tasks_callback live_def)
qed

section \<open>A run of the system\<close>

lemma demo_paths_ok: "paths_ok demo_os demo_cfg"
  unfolding paths_ok_def using demo_path gce_name_plain by blast

text \<open>The empty system, the registration of \<open>c1\<close> under way, and its task started.\<close>

definition demo_sys :: sys where
  "demo_sys = \<lparr>sy_mgr = demo_mgr, sy_reg = None, sy_next = 0, sy_oid = (\<lambda>_. [])\<rparr>"

definition demo_queued :: mgr where
  "demo_queued = snd (register_insert demo_os demo_cfg ''c1'' CLUSTER_CREATE ''c1'' [] [] demo_mgr)"

definition demo_registering :: sys where
  "demo_registering =
     demo_sys\<lparr>sy_mgr := demo_queued, sy_reg := Some (0, [''var'', ''log'', ''c1.log''], ''c1'')\<rparr>"

definition demo_started :: sys where
  "demo_started =
     start_task ''c1''
       (demo_registering\<lparr>sy_mgr := register_finish 0 [''var'', ''log'', ''c1.log''] demo_queued,
                         sy_reg := None\<rparr>)"

lemma demo_c1_name: "gce_name ''c1''"
  by (simp add: gce_name_def name_char_def an_char_def az_char_def less_eq_char_def)

lemma demo_register:
  "register_insert demo_os demo_cfg ''c1'' CLUSTER_CREATE ''c1'' [] [] demo_mgr =
     (Inr (0, [''var'', ''log'', ''c1.log'']), demo_queued)"
proof -
  have "find_conflict demo_mgr ''c1'' = None" by (simp add: find_conflict_def demo_mgr_def)
  from register_insert_new [OF this, of demo_os demo_cfg "''c1''" CLUSTER_CREATE "[]" "[]"] show ?thesis
    unfolding demo_queued_def by (simp add: demo_path_c1 demo_mgr_def)
qed

lemma demo_reachable: "reachable demo_os demo_cfg demo_registering" "reachable demo_os demo_cfg demo_started"
proof -
  have "reachable demo_os demo_cfg demo_sys"
    by (rule reachable.start) (simp add: initial_def demo_sys_def demo_mgr_def)
  moreover have "sys_step demo_os demo_cfg demo_sys demo_registering"
    unfolding demo_registering_def
    by (rule sys_step.reg_begin [where ty = CLUSTER_CREATE and step = "[]" and msg = "[]"])
      (simp_all add: demo_sys_def demo_register demo_c1_name)
  ultimately show r: "reachable demo_os demo_cfg demo_registering" by (rule reachable.step)
  have "demo_started = start_task ''c1''
      (demo_registering\<lparr>sy_mgr := register_finish 0 [''var'', ''log'', ''c1.log''] (sy_mgr demo_registering),
                        sy_reg := None\<rparr>)"
    by (simp add: demo_started_def demo_registering_def)
  moreover have "sy_reg demo_registering = Some (0, [''var'', ''log'', ''c1.log''], ''c1'')"
    by (simp add: demo_registering_def)
  ultimately have "sys_step demo_os demo_cfg demo_registering demo_started"
    by (metis sys_step.reg_end)
  with r show "reachable demo_os demo_cfg demo_started" by (rule reachable.step)
qed

lemma demo_started_sel:
  "live demo_started 0" "sy_oid demo_started 0 = ''c1''" "sy_reg demo_started = None"
proof -
  show "sy_oid demo_started 0 = ''c1''" "sy_reg demo_started = None"
    by (simp_all add: demo_started_def start_task_def demo_registering_def demo_sys_def)
  show "live demo_started 0"
    by (simp add: live_def demo_started_def start_task_def demo_registering_def demo_sys_def
          attach_task_def set_task_def upd_rec_def split: option.split)
qed

lemma cancel_status:
  assumes "lookup m oid = Some i" and "active (status (recs m i))"
  shows "status (recs (snd (cancel_operation os cfg oid m)) i) = CANCELLED"
    and "next_rec (snd (cancel_operation os cfg oid m)) = next_rec m"
    and "lookup (snd (cancel_operation os cfg oid m)) = lookup m"
  by (rule cancel_operation_acts [OF assms, of os cfg],
      simp add: log_only_recs(4) log_only_frame(2,7) lookup_def fun_eq_iff)+

text \<open>The same operation, cancelled.\<close>

definition demo_cancelled :: sys where
  "demo_cancelled =
     demo_started\<lparr>sy_mgr := snd (cancel_operation demo_os demo_cfg ''c1'' (sy_mgr demo_started))\<rparr>"

lemma demo_cancelled_reachable: "reachable demo_os demo_cfg demo_cancelled"
  unfolding demo_cancelled_def
  by (rule reachable.step [OF demo_reachable(2) sys_step.cancel]) (rule demo_started_sel)

lemma demo_started_c1:
  obtains i where "lookup (sy_mgr demo_started) ''c1'' = Some i"
    and "active (status (recs (sy_mgr demo_started) i))" and "i < next_rec (sy_mgr demo_started)"
proof -
  note inv = inv_reachable [OF demo_reachable(2) demo_paths_ok]
  obtain i where "running ''c1'' i 0 (sy_mgr demo_started)"
    using live_running [OF inv demo_started_sel(1)] unfolding demo_started_sel(2) .
  with invD(2) [OF inv] that show ?thesis by (auto simp: running_def rec_ok_def)
qed


section \<open>Properties of the whole\<close>

text \<open>
  C1: at most one pipeline works on a resource. In every reachable state of the API process,
  whatever the interleaving of requests, tasks and callbacks, two tasks that are running (not
  finished and not told to stop) and drive the operation of the same resource are the same
  task. The log directory is assumed usable for the names requests may carry.
\<close>

theorem one_pipeline_per_resource:
  assumes "reachable os cfg y" and "paths_ok os cfg"
    and "live y t1" and "live y t2" and "sy_oid y t1 = sy_oid y t2"
  shows "t1 = t2"
proof -
  note inv = inv_reachable [OF assms(1,2)]
  obtain i j where "running (sy_oid y t1) i t1 (sy_mgr y)" and "running (sy_oid y t2) j t2 (sy_mgr y)"
    using live_running [OF inv assms(3)] live_running [OF inv assms(4)] by metis
  with assms(5) show ?thesis by (auto simp: running_def)
qed

theorem one_pipeline_per_resource_witness:
  "reachable demo_os demo_cfg demo_started \<and> live demo_started 0 \<and>
   {t. live demo_started t \<and> sy_oid demo_started t = ''c1''} = {0}"
  using one_pipeline_per_resource [OF demo_reachable(2) demo_paths_ok, of _ 0]
    demo_reachable(2) demo_started_sel by auto

text \<open>
  C2: the outcome of an operation is final. Along any run of the process from a reachable
  state, a record whose status is succeeded, failed or cancelled keeps that status and its
  completion time, even when a new operation takes over its name.
\<close>

theorem outcome_is_final:
  assumes "reachable os cfg y" and "paths_ok os cfg" and "(sys_step os cfg)\<^sup>*\<^sup>* y y'"
    and "i < next_rec (sy_mgr y)" and "terminal (status (recs (sy_mgr y) i))"
  shows "status (recs (sy_mgr y') i) = status (recs (sy_mgr y) i) \<and>
         completed_at (recs (sy_mgr y') i) = completed_at (recs (sy_mgr y) i)"
proof -
  from assms(3) have "sys_inv y' \<and> outcome_kept (sy_mgr y) (sy_mgr y')"
  proof (induction rule: rtranclp_induct)
    case base
    show ?case using inv_reachable [OF assms(1,2)] by simp
  next
    case (step y1 y2)
    then show ?case using inv_step [OF step.hyps(2) assms(2)] kept_step [OF step.hyps(2) assms(2)] kept_trans by blast
  qed
  with assms(4,5) show ?thesis by (simp add: outcome_kept_def)
qed


theorem outcome_is_final_witness:
  "\<exists>i y'. sys_step demo_os demo_cfg demo_cancelled y' \<and>
     status (recs (sy_mgr demo_cancelled) i) = CANCELLED \<and> status (recs (sy_mgr y') i) = CANCELLED"
proof -
  obtain i where i: "lookup (sy_mgr demo_started) ''c1'' = Some i"
    "active (status (recs (sy_mgr demo_started) i))" "i < next_rec (sy_mgr demo_started)"
    by (rule demo_started_c1)
  have c: "status (recs (sy_mgr demo_cancelled) i) = CANCELLED" "i < next_rec (sy_mgr demo_cancelled)"
    using cancel_status [OF i(1,2)] i(3) by (simp_all add: demo_cancelled_def)
  let ?y = "demo_cancelled\<lparr>sy_mgr := snd (stream_open ''c1'' (sy_mgr demo_cancelled))\<rparr>"
  have step: "sys_step demo_os demo_cfg demo_cancelled ?y" by (rule sys_step.stream_begin)
  have "status (recs (sy_mgr ?y) i) = CANCELLED"
    using outcome_is_final [OF demo_cancelled_reachable demo_paths_ok _ c(2), of ?y]
      r_into_rtranclp [of "sys_step demo_os demo_cfg", OF step] c(1) by simp
  with step c show ?thesis by blast
qed

text \<open>
  C3: no operation is forgotten. In every reachable state an active operation has somebody who
  will settle it: its registration is still in flight, its task is running, or its task has
  ended and the callback that settles it is queued. So when nothing is in flight, no task runs
  and no callback is queued, every operation has an outcome.
\<close>

theorem active_operation_is_driven:
  assumes "reachable os cfg y" and "paths_ok os cfg"
    and "lookup (sy_mgr y) k = Some i" and "active (status (recs (sy_mgr y) i))"
  shows "driven y k i"
  using invD(2) [OF inv_reachable [OF assms(1,2)] assms(3)] assms(4) by (simp add: rec_ok_def)

theorem active_operation_is_driven_witness:
  "\<exists>i. lookup (sy_mgr demo_started) ''c1'' = Some i \<and> driven demo_started ''c1'' i"
  using demo_started_c1 active_operation_is_driven [OF demo_reachable(2) demo_paths_ok] by metis

text \<open>
  C4: a resource can always be freed. From every reachable state, an operation that is active
  can be brought to an end: the registration in flight, if any, completes, and the operation
  can then be cancelled, whatever its task does.
\<close>

theorem active_operation_can_end:
  assumes "reachable os cfg y" and "paths_ok os cfg"
    and "lookup (sy_mgr y) k = Some i" and "active (status (recs (sy_mgr y) i))"
  shows "\<exists>y'. (sys_step os cfg)\<^sup>*\<^sup>* y y' \<and> status (recs (sy_mgr y') i) = CANCELLED"
proof -
  have unlocked: "\<exists>y'. (sys_step os cfg)\<^sup>*\<^sup>* y y' \<and> status (recs (sy_mgr y') i) = CANCELLED"
    if "sy_reg y = None" "lookup (sy_mgr y) k = Some i" "active (status (recs (sy_mgr y) i))" for y
  proof -
    have "sys_step os cfg y (y\<lparr>sy_mgr := snd (cancel_operation os cfg k (sy_mgr y))\<rparr>)"
      using that(1) by (rule sys_step.cancel)
    then show ?thesis using cancel_status(1) [OF that(2,3), of os cfg]
      by (intro exI conjI) (rule r_into_rtranclp, assumption, simp)
  qed
  show ?thesis
  proof (cases "sy_reg y")
    case None
    then show ?thesis using unlocked assms(3,4) by blast
  next
    case (Some r)
    obtain j p oid where r: "r = (j, p, oid)" by (cases r)
    let ?y = "start_task oid (y\<lparr>sy_mgr := register_finish j p (sy_mgr y), sy_reg := None\<rparr>)"
    have step: "sys_step os cfg y ?y" using Some r by (simp add: sys_step.reg_end)
    have "lookup (sy_mgr ?y) k = Some i" "active (status (recs (sy_mgr ?y) i))" "sy_reg ?y = None"
      using assms(3,4) log_only_frame(7) [OF log_only_register_finish, of j p "sy_mgr y"]
        log_only_recs(4) [OF log_only_register_finish, of j p "sy_mgr y"]
      by (auto simp: start_task_def attach_task_def set_task_def upd_rec_def lookup_def fun_eq_iff
          split: option.split)
    then obtain y' where "(sys_step os cfg)\<^sup>*\<^sup>* ?y y'" "status (recs (sy_mgr y') i) = CANCELLED"
      using unlocked by blast
    with step show ?thesis by (meson converse_rtranclp_into_rtranclp)
  qed
qed

theorem active_operation_can_end_witness:
  "\<exists>i y'. lookup (sy_mgr demo_started) ''c1'' = Some i \<and>
     (sys_step demo_os demo_cfg)\<^sup>*\<^sup>* demo_started y' \<and> status (recs (sy_mgr y') i) = CANCELLED"
  using demo_started_c1 active_operation_can_end [OF demo_reachable(2) demo_paths_ok] by metis

text \<open>
  C5: what the rest of the process may do to a running pipeline. A step of the system, taken
  in a reachable state in which task \<open>t\<close> runs, leaves its operation running, or cancels the
  operation and tells the task to stop, or is the end of the task itself. This is what the
  pipelines rely on at every await (\<open>well_behaved\<close>).
\<close>

theorem step_respects_running_task:
  assumes "reachable os cfg y" and "paths_ok os cfg" and "sys_step os cfg y y'" and "live y t"
  shows "(\<exists>i. running (sy_oid y t) i t (sy_mgr y')) \<or> (\<exists>i. interrupted (sy_oid y t) i t (sy_mgr y')) \<or>
         task_done (tasks (sy_mgr y') t)"
proof -
  note inv = inv_reachable [OF assms(1,2)]
  have t: "t < sy_next y" using assms(4) by (simp add: live_def)
  note s = sy_oid_step [OF assms(3) t]
  show ?thesis
  proof (cases "tasks (sy_mgr y') t")
    case (TPending b)
    show ?thesis
    proof (cases b)
      case True
      with TPending step_flag [OF assms(3,2) inv assms(4)] show ?thesis by auto
    next
      case False
      with TPending s have "live y' t" by (simp add: live_def)
      with s show ?thesis using live_running [OF inv_step [OF assms(3,2) inv]] by metis
    qed
  qed simp_all
qed

theorem step_respects_running_task_witness:
  "sys_step demo_os demo_cfg demo_started demo_cancelled \<and>
   ((\<exists>i. running ''c1'' i 0 (sy_mgr demo_cancelled)) \<or> (\<exists>i. interrupted ''c1'' i 0 (sy_mgr demo_cancelled)) \<or>
    task_done (tasks (sy_mgr demo_cancelled) 0))"
proof -
  have step: "sys_step demo_os demo_cfg demo_started demo_cancelled"
    unfolding demo_cancelled_def by (rule sys_step.cancel) (rule demo_started_sel)
  from step_respects_running_task [OF demo_reachable(2) demo_paths_ok step demo_started_sel(1)] step
  show ?thesis by (simp add: demo_started_sel(2))
qed

end
