(* ===== verification/Op_Refinement.thy ===== *)
theory Op_Refinement
  imports Op_System
begin

text \<open>
  The specification of \<open>api/gem_api/services/operations.py\<close> in terms of a journal: the list of
  all operations ever accepted, oldest first, each with its resource, its type and its status.
  The journal grows only at its end and only by an operation on a resource that has no active
  one; an entry moves only from an active status to running or to an outcome. Every step of
  the API process is such a move or leaves the journal alone. The journal in turn is a lock
  table: the resources with an active operation, each acquired when it is free and released
  once. The locale \<open>refinement\<close> carries the two simulations and their composition.
\<close>

section \<open>Refinement\<close>

locale refinement =
  fixes inv :: "'s \<Rightarrow> bool" and step :: "'s \<Rightarrow> 's \<Rightarrow> bool"
    and spec :: "'a \<Rightarrow> 'a \<Rightarrow> bool" and abs :: "'s \<Rightarrow> 'a"
  assumes kept: "inv s \<Longrightarrow> step s s' \<Longrightarrow> inv s'"
    and simulation: "inv s \<Longrightarrow> step s s' \<Longrightarrow> spec\<^sup>=\<^sup>= (abs s) (abs s')"
begin

lemma kept_run: "step\<^sup>*\<^sup>* s s' \<Longrightarrow> inv s \<Longrightarrow> inv s'"
  by (induction rule: rtranclp_induct) (auto intro: kept)

lemma simulated_run: "step\<^sup>*\<^sup>* s s' \<Longrightarrow> inv s \<Longrightarrow> spec\<^sup>*\<^sup>* (abs s) (abs s')"
proof (induction rule: rtranclp_induct)
  case base
  show ?case by simp
next
  case (step t u)
  have "spec\<^sup>=\<^sup>= (abs t) (abs u)" using simulation kept_run step by blast
  with step show ?case by (auto intro: rtranclp.rtrancl_into_rtrancl)
qed

lemma transfer:
  assumes "\<And>a a'. P a \<Longrightarrow> spec a a' \<Longrightarrow> P a'" and "inv s" and "step s s'" and "P (abs s)"
  shows "P (abs s')"
  using simulation [OF assms(2,3)] assms(1,4) by auto

end

text \<open>Two refinements in a row.\<close>

locale refinement_chain =
  upper: refinement inv step mid abs + lower: refinement inv' mid spec abs'
  for inv :: "'s \<Rightarrow> bool" and step mid and abs :: "'s \<Rightarrow> 'b" and inv' and spec and abs' :: "'b \<Rightarrow> 'a"
begin

sublocale composed: refinement "\<lambda>s. inv s \<and> inv' (abs s)" step spec "\<lambda>s. abs' (abs s)"
proof
  fix s s' assume s: "inv s \<and> inv' (abs s)" "step s s'"
  then show "inv s' \<and> inv' (abs s')" using upper.kept upper.transfer [of inv'] lower.kept by blast
  show "spec\<^sup>=\<^sup>= (abs' (abs s)) (abs' (abs s'))"
    using upper.simulation [of s s'] lower.simulation [of "abs s" "abs s'"] s by auto
qed

end

section \<open>The journal\<close>

record entry =
  e_name :: string
  e_type :: OperationType
  e_status :: OperationStatus

inductive journal_step :: "entry list \<Rightarrow> entry list \<Rightarrow> bool" where
  opens:
    "(\<And>e. e \<in> set js \<Longrightarrow> e_name e = k \<Longrightarrow> terminal (e_status e)) \<Longrightarrow>
     journal_step js (js @ [\<lparr>e_name = k, e_type = ty, e_status = QUEUED\<rparr>])"
| runs:
    "i < length js \<Longrightarrow> active (e_status (js ! i)) \<Longrightarrow>
     journal_step js (js[i := (js ! i)\<lparr>e_status := RUNNING\<rparr>])"
| settles:
    "i < length js \<Longrightarrow> active (e_status (js ! i)) \<Longrightarrow> terminal st \<Longrightarrow>
     journal_step js (js[i := (js ! i)\<lparr>e_status := st\<rparr>])"

inductive_cases journal_stepE: "journal_step js js'"

text \<open>A resource has at most one active entry.\<close>

definition exclusive :: "entry list \<Rightarrow> bool" where
  "exclusive js \<longleftrightarrow>
     (\<forall>i < length js. \<forall>j < length js.
        active (e_status (js ! i)) \<longrightarrow> active (e_status (js ! j)) \<longrightarrow>
        e_name (js ! i) = e_name (js ! j) \<longrightarrow> i = j)"

definition busy :: "entry list \<Rightarrow> string set" where
  "busy js = {e_name e | e. e \<in> set js \<and> active (e_status e)}"

inductive lock_step :: "string set \<Rightarrow> string set \<Rightarrow> bool" where
  acquire: "k \<notin> S \<Longrightarrow> lock_step S (insert k S)"
| release: "k \<in> S \<Longrightarrow> lock_step S (S - {k})"

lemma busy_nth: "k \<in> busy js \<longleftrightarrow> (\<exists>i < length js. e_name (js ! i) = k \<and> active (e_status (js ! i)))"
  by (auto simp: busy_def in_set_conv_nth)

lemma exclusive_update:
  "exclusive js \<Longrightarrow> i < length js \<Longrightarrow> active (e_status (js ! i)) \<Longrightarrow>
     exclusive (js[i := (js ! i)\<lparr>e_status := st\<rparr>])"
  unfolding exclusive_def by (auto simp: nth_list_update split: if_splits)

lemma exclusive_step: "exclusive js \<Longrightarrow> journal_step js js' \<Longrightarrow> exclusive js'"
proof (erule journal_stepE)
  fix k ty assume e: "exclusive js"
    and free: "\<And>e. e \<in> set js \<Longrightarrow> e_name e = k \<Longrightarrow> terminal (e_status e)"
    and js': "js' = js @ [\<lparr>e_name = k, e_type = ty, e_status = QUEUED\<rparr>]"
  have "e_name (js ! i) \<noteq> k" if "i < length js" "active (e_status (js ! i))" for i
    using free [OF nth_mem] that by (auto simp: terminal_iff_not_active)
  with e show ?thesis unfolding js' exclusive_def by (auto simp: nth_append less_Suc_eq split: if_splits)
qed (auto intro: exclusive_update)

lemma busy_settle:
  assumes "exclusive js" and "i < length js" and "active (e_status (js ! i))" and "terminal st"
  shows "busy (js[i := (js ! i)\<lparr>e_status := st\<rparr>]) = busy js - {e_name (js ! i)}"
proof -
  have "e_name (js ! j) = e_name (js ! i) \<and> active (e_status (js ! j)) \<longleftrightarrow> j = i" if "j < length js" for j
    using assms(1-3) that unfolding exclusive_def by blast
  then have "k \<in> busy (js[i := (js ! i)\<lparr>e_status := st\<rparr>]) \<longleftrightarrow> k \<in> busy js \<and> k \<noteq> e_name (js ! i)" for k
    using assms(2-4) by (simp add: busy_nth nth_list_update terminal_iff_not_active) metis
  then show ?thesis by blast
qed

lemma busy_run:
  "i < length js \<Longrightarrow> active (e_status (js ! i)) \<Longrightarrow> busy (js[i := (js ! i)\<lparr>e_status := RUNNING\<rparr>]) = busy js"
  by (force simp: busy_nth nth_list_update set_eq_iff split: if_splits)

lemma busy_open:
  assumes "\<And>e. e \<in> set js \<Longrightarrow> e_name e = k \<Longrightarrow> terminal (e_status e)"
  shows "busy (js @ [\<lparr>e_name = k, e_type = ty, e_status = QUEUED\<rparr>]) = insert k (busy js)" and "k \<notin> busy js"
proof -
  show "busy (js @ [\<lparr>e_name = k, e_type = ty, e_status = QUEUED\<rparr>]) = insert k (busy js)"
    by (auto simp: busy_def intro: exI [of _ "\<lparr>e_name = k, e_type = ty, e_status = QUEUED\<rparr>"])
  show "k \<notin> busy js" using assms by (auto simp: busy_def terminal_iff_not_active)
qed

interpretation locks: refinement exclusive journal_step lock_step busy
proof
  fix js js' assume js: "exclusive js" "journal_step js js'"
  then show "exclusive js'" by (rule exclusive_step)
  show "lock_step\<^sup>=\<^sup>= (busy js) (busy js')"
    using js(2)
  proof cases
    case (opens k ty)
    then show ?thesis using lock_step.acquire [OF busy_open(2) [of js k]] by (simp add: busy_open(1))
  next
    case (runs i)
    then show ?thesis by (simp add: busy_run)
  next
    case (settles i st)
    then have "e_name (js ! i) \<in> busy js" by (auto simp: busy_nth)
    from lock_step.release [OF this] settles js(1) show ?thesis by (simp add: busy_settle)
  qed
qed


section \<open>What a step does to the journal\<close>

definition entry_of :: "OperationRecord \<Rightarrow> entry" where
  "entry_of r = \<lparr>e_name = target_resource r, e_type = operation_type r, e_status = status r\<rparr>"

definition journal :: "sys \<Rightarrow> entry list" where
  "journal y = map (\<lambda>i. entry_of (recs (sy_mgr y) i)) [0..<next_rec (sy_mgr y)]"

text \<open>
  The three effects of the manager's code: none on the entries, a new status for the current
  operation of a resource while that is active, and a new operation on a resource whose last
  one is over.
\<close>

inductive effect :: "mgr \<Rightarrow> mgr \<Rightarrow> bool" where
  quiet:
    "next_rec m' = next_rec m \<Longrightarrow> lookup m' = lookup m \<Longrightarrow>
     (\<And>i. entry_of (recs m' i) = entry_of (recs m i)) \<Longrightarrow> effect m m'"
| moved:
    "lookup m k = Some i \<Longrightarrow> active (status (recs m i)) \<Longrightarrow> st = RUNNING \<or> terminal st \<Longrightarrow>
     next_rec m' = next_rec m \<Longrightarrow> lookup m' = lookup m \<Longrightarrow>
     (\<And>j. entry_of (recs m' j) =
        (if j = i then (entry_of (recs m i))\<lparr>e_status := st\<rparr> else entry_of (recs m j))) \<Longrightarrow>
     effect m m'"
| entered:
    "gce_name k \<Longrightarrow> (\<And>i. lookup m k = Some i \<Longrightarrow> \<not> active (status (recs m i))) \<Longrightarrow>
     next_rec m' = Suc (next_rec m) \<Longrightarrow> lookup m' = (lookup m)(k \<mapsto> next_rec m) \<Longrightarrow>
     entry_of (recs m' (next_rec m)) = \<lparr>e_name = k, e_type = ty, e_status = QUEUED\<rparr> \<Longrightarrow>
     (\<And>j. j \<noteq> next_rec m \<Longrightarrow> recs m' j = recs m j) \<Longrightarrow> effect m m'"

lemma effect_calm: "calm m m' \<Longrightarrow> effect m m'"
  by (rule effect.quiet) (simp_all add: calm_def facts_def entry_of_def lookup_def fun_eq_iff)

text \<open>Only the table and the records count.\<close>

lemma effect_cong:
  assumes "effect m m1" and "recs m2 = recs m1" and "next_rec m2 = next_rec m1" and "operations m2 = operations m1"
  shows "effect m m2"
proof -
  have "lookup m2 = lookup m1" using assms(4) by (simp add: lookup_def fun_eq_iff)
  note eqs = this assms(2,3)
  from assms(1) show ?thesis
  proof cases
    case quiet
    then show ?thesis by (intro effect.quiet) (simp_all add: eqs)
  next
    case (moved k i st)
    then show ?thesis by (intro effect.moved [of m k i st]) (simp_all add: eqs)
  next
    case (entered k ty)
    then show ?thesis by (intro effect.entered [of k m m2 ty]) (simp_all add: eqs)
  qed
qed

lemma effect_then_log:
  assumes "effect m m1" and "log_only m1 m2" and "next_rec m1 = next_rec m"
  shows "effect m m2"
  using assms(1)
proof cases
  case quiet
  with assms(2) show ?thesis by (intro effect.quiet) (simp_all add: entry_of_def mgr_frame)
next
  case (moved k i st)
  have "entry_of (recs m2 j) = entry_of (recs m1 j)" for j using assms(2) by (simp add: entry_of_def mgr_frame)
  with moved assms(2) show ?thesis by (intro effect.moved [of m k i st]) (simp_all add: mgr_frame)
qed (use assms(3) in simp)

lemma effect_update:
  assumes "running oid i t m"
    and "st = None \<or> st = Some RUNNING \<or> (\<exists>v. st = Some v \<and> terminal v)"
  shows "effect m (snd (update_operation oid st step msg err c m))"
    and "next_rec (snd (update_operation oid st step msg err c m)) = next_rec m"
proof -
  have l: "lookup m oid = Some i" and a: "active (status (recs m i))" using assms by (auto simp: running_def)
  define m' where "m' = snd (update_operation oid st step msg err c m)"
  note k = update_operation_known [OF l m'_def] and ty = update_operation_text(4) [OF l m'_def]
  have lk: "lookup m' = lookup m" using k(2) by (simp add: lookup_def fun_eq_iff)
  show "next_rec (snd (update_operation oid st step msg err c m)) = next_rec m"
    using k(3) by (simp add: m'_def)
  show "effect m (snd (update_operation oid st step msg err c m))"
    unfolding m'_def [symmetric]
  proof (cases st)
    case None
    have "entry_of (recs m' j) = entry_of (recs m j)" for j
      using k(8,9,11) ty None by (cases "j = i") (simp_all add: entry_of_def)
    with k(3) lk show "effect m m'" by (intro effect.quiet)
  next
    case (Some v)
    have "entry_of (recs m' j) = (if j = i then (entry_of (recs m i))\<lparr>e_status := v\<rparr> else entry_of (recs m j))" for j
      using k(8,9,11) ty Some by (simp add: entry_of_def)
    with k(3) lk l a assms(2) Some show "effect m m'" by (intro effect.moved [of m oid i v]) auto
  qed
qed

lemma effect_cancel: "effect m (snd (cancel_operation os cfg oid m))"
proof (cases "\<exists>i. lookup m oid = Some i \<and> active (status (recs m i))")
  case True
  then obtain i where i: "lookup m oid = Some i" "active (status (recs m i))" by blast
  show ?thesis
  proof (rule cancel_operation_acts [OF i, of os cfg])
    fix s4 x assume s4: "recs s4 = (recs m)(i := (recs m i)\<lparr>status := CANCELLED,
        completed_at := Some (clock m (ticks m)), message := Some x,
        updated_at := clock m (Suc (ticks m))\<rparr>)" "operations s4 = operations m" "next_rec s4 = next_rec m"
      and lo: "log_only s4 (snd (cancel_operation os cfg oid m))"
    have "effect m s4"
      using i s4 by (intro effect.moved [of m oid i CANCELLED]) (simp_all add: entry_of_def lookup_def fun_eq_iff)
    then show ?thesis using lo s4(3) by (rule effect_then_log)
  qed
next
  case False
  then have "snd (cancel_operation os cfg oid m) = m"
    by (cases "lookup m oid") (auto intro!: cancel_operation_skip simp: terminal_iff_not_active)
  then show ?thesis by (simp add: effect.quiet)
qed

lemma finalize_outcome_type: "operation_type (finalize_outcome oid ts r) = operation_type r"
  by (simp add: finalize_outcome_def split: task_state.split)

lemma effect_finalize: "effect m (snd (finalize_task os cfg oid t m))"
proof (cases "\<exists>i. lookup m oid = Some i \<and> task (recs m i) = Some t \<and> active (status (recs m i))")
  case True
  then obtain i where i: "lookup m oid = Some i" "task (recs m i) = Some t" "active (status (recs m i))" by blast
  show ?thesis
  proof (rule finalize_task_acts [OF i, of os cfg])
    fix s4 assume s4: "recs s4 = (recs m)(i := (finalize_outcome oid (tasks m t) (recs m i))
        \<lparr>updated_at := clock m (ticks m), completed_at := Some (clock m (Suc (ticks m)))\<rparr>)"
        "operations s4 = operations m" "next_rec s4 = next_rec m"
      and lo: "log_only s4 (snd (finalize_task os cfg oid t m))"
    have "effect m s4"
      using i s4
      by (intro effect.moved [of m oid i "status (finalize_outcome oid (tasks m t) (recs m i))"])
        (simp_all add: entry_of_def lookup_def fun_eq_iff finalize_outcome_type)
    then show ?thesis using lo s4(3) by (rule effect_then_log)
  qed
next
  case False
  then have "finalize_task os cfg oid t m = (Inr (), m)"
    by (cases "lookup m oid") (auto intro!: finalize_task_skip simp: terminal_iff_not_active)
  then show ?thesis by (simp add: effect.quiet)
qed

lemma effect_register:
  assumes inv: "sys_inv y" and "gce_name oid"
    and r: "register_insert os cfg oid ty oid step msg (sy_mgr y) = (Inr (i, p), m)"
  shows "effect (sy_mgr y) m"
proof -
  let ?m = "sy_mgr y"
  have fc: "find_conflict ?m oid = None"
    using r register_insert_conflict by (cases "find_conflict ?m oid") (auto simp: register_insert_def)
  have m: "m = snd (register_insert os cfg oid ty oid step msg ?m)" using r by simp
  have idle: "\<not> active (status (recs ?m j))" if "lookup ?m oid = Some j" for j
    using fc that invD(2) [OF inv that] dict_get_mem [of "operations ?m" oid j]
    unfolding find_conflict_None by (fastforce simp: lookup_def rec_ok_def)
  show ?thesis
    unfolding m register_insert_new [OF fc]
    by (rule effect.entered [of oid ?m _ ty]) (use assms(2) idle in \<open>auto simp: lookup_def fun_eq_iff entry_of_def\<close>)
qed

lemma effect_step:
  assumes "sys_step os cfg y y'" and "paths_ok os cfg" and inv: "sys_inv y"
  shows "effect (sy_mgr y) (sy_mgr y')"
  using assms
proof (cases rule: sys_step_kinds)
  case (registers oid ty step msg i p m)
  then show ?thesis using effect_register [OF inv] by simp
next
  case (starts i p oid)
  have "effect (sy_mgr y) (attach_task oid t (set_task t ts (register_finish i p (sy_mgr y))))" for t ts
    by (rule effect.quiet)
      (simp_all add: attach_task_def set_task_def entry_of_def lookup_def upd_rec_def fun_eq_iff
        register_finish_frame split: option.split)
  with starts show ?thesis by (simp add: start_task_def)
next
  case (updates oid i t st step msg err)
  then show ?thesis using effect_update(1) [OF updates(1)] by auto
next
  case (settles oid i t st step msg err m m')
  have "effect (sy_mgr y) m" "next_rec m = next_rec (sy_mgr y)"
    using effect_update [OF settles(1)] settles(3,4) by auto
  then have "effect (sy_mgr y) m'" using effect_then_log settles(5) by blast
  then have "effect (sy_mgr y) (set_task t TReturned m')"
    by (rule effect_cong) (simp_all add: set_task_def)
  with settles show ?thesis by simp
next
  case (ends t b ts)
  have "effect (sy_mgr y) (set_task t ts (sy_mgr y))"
    by (rule effect_cong [OF effect_calm [OF calm_refl]]) (simp_all add: set_task_def)
  with ends show ?thesis by simp
next
  case (calls_back t oid)
  have "effect (sy_mgr y) (snd (finalize_task os cfg oid t (sy_mgr y)))" by (rule effect_finalize)
  then have "effect (sy_mgr y) (run_callback os cfg t oid (sy_mgr y))"
    by (rule effect_cong) (simp_all add: run_callback_def Let_def)
  with calls_back show ?thesis by simp
qed (simp_all add: effect_calm effect_cancel)


section \<open>The API process refines the journal and the lock table\<close>

text \<open>Every active operation, among all ever accepted, is the one found under its resource's name.\<close>

definition listed :: "mgr \<Rightarrow> bool" where
  "listed m \<longleftrightarrow>
     (\<forall>i < next_rec m. active (status (recs m i)) \<longrightarrow> lookup m (target_resource (recs m i)) = Some i)"

lemma entry_of_eq:
  "entry_of r = entry_of r' \<longleftrightarrow>
     target_resource r = target_resource r' \<and> operation_type r = operation_type r' \<and> status r = status r'"
  by (simp add: entry_of_def)

lemma listed_effect:
  assumes "effect m m'" and "listed m"
  shows "listed m'"
  using assms(1)
proof cases
  case quiet
  with assms(2) show ?thesis by (simp add: listed_def entry_of_eq)
next
  case (moved k i st)
  have "target_resource (recs m' j) = target_resource (recs m j) \<and>
        (active (status (recs m' j)) \<longrightarrow> active (status (recs m j)))" for j
    using moved(2) moved(6) [of j] by (auto simp: entry_of_def split: if_splits)
  with assms(2) moved(4,5) show ?thesis by (auto simp: listed_def)
next
  case (entered k ty)
  have "target_resource (recs m' (next_rec m)) = k" using entered(5) by (simp add: entry_of_def)
  moreover have "target_resource (recs m j) \<noteq> k" if "j < next_rec m" "active (status (recs m j))" for j
    using assms(2) that entered(2) by (auto simp: listed_def)
  ultimately show ?thesis
    using assms(2) entered by (auto simp: listed_def less_Suc_eq)
qed

text \<open>Every key of the table is a name that passed validation, so its log file can be used.\<close>

lemma reachable_named:
  assumes "reachable os cfg y" and "paths_ok os cfg" and "lookup (sy_mgr y) k = Some i"
  shows "gce_name k" and "\<exists>p. get_log_file_path os cfg k = Inr p"
proof -
  have "\<forall>k i. lookup (sy_mgr y) k = Some i \<longrightarrow> gce_name k"
    using assms(1)
  proof induction
    case (start y)
    then show ?case by (simp add: initial_def lookup_def)
  next
    case (step y y')
    have "effect (sy_mgr y) (sy_mgr y')"
      using effect_step [OF step.hyps(2) assms(2)] inv_reachable [OF step.hyps(1) assms(2)] by blast
    then show ?case using step.IH by cases auto
  qed
  with assms(3) show "gce_name k" by blast
  with assms(2) show "\<exists>p. get_log_file_path os cfg k = Inr p" by (simp add: paths_ok_def)
qed

lemma journal_nth [simp]:
  "length (journal y) = next_rec (sy_mgr y)"
  "i < next_rec (sy_mgr y) \<Longrightarrow> journal y ! i = entry_of (recs (sy_mgr y) i)"
  by (simp_all add: journal_def)

lemma journal_effect:
  assumes "effect (sy_mgr y) (sy_mgr y')" and inv: "sys_inv y" and "listed (sy_mgr y)"
  shows "journal_step\<^sup>=\<^sup>= (journal y) (journal y')"
  using assms(1)
proof cases
  case quiet
  then have "journal y' = journal y" by (simp add: journal_def)
  then show ?thesis by simp
next
  case (moved k i st)
  have i: "i < next_rec (sy_mgr y)" using invD(2) [OF inv moved(1)] by (simp add: rec_ok_def)
  have "journal y' = (journal y)[i := (journal y ! i)\<lparr>e_status := st\<rparr>]"
    by (rule nth_equalityI) (use moved i in \<open>simp_all add: nth_list_update\<close>)
  moreover have "active (e_status (journal y ! i))" using moved i by (simp add: entry_of_def)
  ultimately have "journal_step (journal y) (journal y')"
    using moved(3) i journal_step.runs [of i "journal y"] journal_step.settles [of i "journal y" st] by auto
  then show ?thesis by simp
next
  case (entered k ty)
  have "journal y' = journal y @ [\<lparr>e_name = k, e_type = ty, e_status = QUEUED\<rparr>]"
    unfolding journal_def entered(3) by (simp add: entered)
  moreover have "terminal (e_status e)" if "e \<in> set (journal y)" "e_name e = k" for e
    using that entered(2) assms(3)
    by (auto simp: journal_def listed_def entry_of_def terminal_iff_not_active)
  ultimately show ?thesis using journal_step.opens by auto
qed

interpretation process_journal:
  refinement "\<lambda>y. paths_ok os cfg \<and> sys_inv y \<and> listed (sy_mgr y)" "sys_step os cfg" journal_step journal
  for os cfg
proof
  fix y y' assume y: "paths_ok os cfg \<and> sys_inv y \<and> listed (sy_mgr y)" "sys_step os cfg y y'"
  then have e: "effect (sy_mgr y) (sy_mgr y')" using effect_step by blast
  then show "paths_ok os cfg \<and> sys_inv y' \<and> listed (sy_mgr y')" using y inv_step listed_effect by blast
  show "journal_step\<^sup>=\<^sup>= (journal y) (journal y')" using journal_effect [OF e] y by blast
qed

interpretation process_locks:
  refinement_chain "\<lambda>y. paths_ok os cfg \<and> sys_inv y \<and> listed (sy_mgr y)" "sys_step os cfg" journal_step journal
    exclusive lock_step busy
  for os cfg
  by unfold_locales


lemma reachable_listed:
  assumes "reachable os cfg y" and "paths_ok os cfg"
  shows "paths_ok os cfg \<and> sys_inv y \<and> listed (sy_mgr y)" and "exclusive (journal y)"
proof -
  have "(paths_ok os cfg \<and> sys_inv y \<and> listed (sy_mgr y)) \<and> exclusive (journal y)"
    using assms(1)
  proof induction
    case (start y)
    then show ?case
      using inv_initial assms(2) by (simp add: initial_def listed_def exclusive_def)
  next
    case (step y y')
    then show ?case using process_locks.composed.kept [of os cfg y y'] by blast
  qed
  then show "paths_ok os cfg \<and> sys_inv y \<and> listed (sy_mgr y)" and "exclusive (journal y)" by blast+
qed


lemma find_conflict_busy:
  assumes "sys_inv y" and "listed (sy_mgr y)"
  shows "find_conflict (sy_mgr y) k = None \<longleftrightarrow> k \<notin> busy (journal y)"
proof -
  have "(\<exists>(n, i) \<in> set (operations (sy_mgr y)).
           target_resource (recs (sy_mgr y) i) = k \<and> active (status (recs (sy_mgr y) i))) \<longleftrightarrow>
        (\<exists>i < next_rec (sy_mgr y).
           target_resource (recs (sy_mgr y) i) = k \<and> active (status (recs (sy_mgr y) i)))"
    (is "?table = ?all")
  proof
    assume ?table
    then obtain n i where i: "(n, i) \<in> set (operations (sy_mgr y))"
        "target_resource (recs (sy_mgr y) i) = k" "active (status (recs (sy_mgr y) i))" by blast
    then have "lookup (sy_mgr y) n = Some i" using dict_get_iff [OF invD(1)] assms(1) by (simp add: lookup_def)
    then have "i < next_rec (sy_mgr y)" using invD(2) [OF assms(1)] by (simp add: rec_ok_def)
    with i show ?all by blast
  next
    assume ?all
    then obtain i where i: "target_resource (recs (sy_mgr y) i) = k" "active (status (recs (sy_mgr y) i))"
        "lookup (sy_mgr y) k = Some i" using assms(2) by (auto simp: listed_def)
    then have "(k, i) \<in> set (operations (sy_mgr y))" by (simp add: lookup_def dict_get_mem)
    with i show ?table by blast
  qed
  then show ?thesis
    by (auto simp: find_conflict_None busy_nth entry_of_def)
qed

lemma lookup_busy:
  assumes "sys_inv y" and "listed (sy_mgr y)"
  shows "k \<in> busy (journal y) \<longleftrightarrow>
     (\<exists>i. lookup (sy_mgr y) k = Some i \<and> active (status (recs (sy_mgr y) i)))"
proof
  assume "k \<in> busy (journal y)"
  then show "\<exists>i. lookup (sy_mgr y) k = Some i \<and> active (status (recs (sy_mgr y) i))"
    using assms(2) by (auto simp: busy_nth entry_of_def listed_def)
next
  assume "\<exists>i. lookup (sy_mgr y) k = Some i \<and> active (status (recs (sy_mgr y) i))"
  then show "k \<in> busy (journal y)"
    using invD(2) [OF assms(1)] by (force simp: busy_nth entry_of_def rec_ok_def)
qed

lemma register_refused_iff:
  "(\<exists>d. fst (register_operation os cfg k ty k step msg m) = Inl (HTTPException 409 d)) \<longleftrightarrow>
     find_conflict m k \<noteq> None"
  using get_log_file_path_not_409
  by (cases "find_conflict m k")
    (auto simp: register_operation_def register_insert_new register_insert_conflict conflict_exc_def
      split: sum.splits)

lemma cancel_success_iff:
  assumes "get_log_file_path os cfg k = Inr p"
  shows "(\<exists>resp. fst (cancel_operation os cfg k m) = Inr resp \<and> cancel_success resp) \<longleftrightarrow>
     (\<exists>i. lookup m k = Some i \<and> active (status (recs m i)))"
proof (cases "lookup m k")
  case (Some i)
  have "\<exists>s'. append_log os cfg k line s = (Inr (), s')" for line s by (rule append_log_ok [OF assms])
  then have "\<exists>s'. \<forall>line s. append_log os cfg k line s = (Inr (), s' line s)" by metis
  with Some show ?thesis
    by (auto simp: cancel_operation_def terminal_iff_not_active Let_def now_def)
qed (simp add: cancel_operation_def)

text \<open>A journal of the demo run.\<close>

lemma demo_c1_busy: "''c1'' \<in> busy (journal demo_started)"
  using demo_started_c1 lookup_busy reachable_listed(1) [OF demo_reachable(2) demo_paths_ok] by metis

section \<open>Properties\<close>

text \<open>
  C6: the operations of the API process follow the journal. Whatever a step of the process does
  in a reachable state, the list of all operations ever accepted stays as it is, or grows at
  its end by a queued operation on a resource that has no active one, or moves one active
  operation to running or to an outcome; resource, type and all other entries stay. So no
  operation is lost or rewritten, and no outcome is revised, at any interleaving.
\<close>

theorem operations_refine_journal:
  assumes "reachable os cfg y" and "paths_ok os cfg" and "sys_step os cfg y y'"
  shows "journal y' = journal y \<or> journal_step (journal y) (journal y')"
  using process_journal.simulation [OF reachable_listed(1) [OF assms(1,2)] assms(3)] by auto

theorem operations_refine_journal_witness:
  "sys_step demo_os demo_cfg demo_started demo_cancelled \<and>
   (journal demo_cancelled = journal demo_started \<or> journal_step (journal demo_started) (journal demo_cancelled))"
proof -
  have step: "sys_step demo_os demo_cfg demo_started demo_cancelled"
    unfolding demo_cancelled_def by (rule sys_step.cancel) (rule demo_started_sel)
  from operations_refine_journal [OF demo_reachable(2) demo_paths_ok step] step show ?thesis by blast
qed

text \<open>
  C7: requests are answered as a lock table would. In every reachable state a registration is
  refused with status 409 exactly when some operation ever accepted for the resource is still
  active, and a cancellation succeeds exactly then, although both look only at the entry the
  table keeps under the resource's name. That set of busy resources changes by single
  acquisitions of a free resource and single releases.
\<close>

theorem requests_answer_lock_table:
  assumes "reachable os cfg y" and "paths_ok os cfg" and "gce_name k"
  shows "((\<exists>d. fst (register_operation os cfg k ty k step msg (sy_mgr y)) = Inl (HTTPException 409 d)) \<longleftrightarrow>
          k \<in> busy (journal y)) \<and>
         ((\<exists>resp. fst (cancel_operation os cfg k (sy_mgr y)) = Inr resp \<and> cancel_success resp) \<longleftrightarrow>
          k \<in> busy (journal y)) \<and>
         (sys_step os cfg y y' \<longrightarrow> busy (journal y') = busy (journal y) \<or>
            lock_step (busy (journal y)) (busy (journal y')))"
proof -
  note ok = reachable_listed [OF assms(1,2)]
  obtain p where p: "get_log_file_path os cfg k = Inr p" using assms(2,3) by (auto simp: paths_ok_def)
  have "sys_step os cfg y y' \<Longrightarrow> lock_step\<^sup>=\<^sup>= (busy (journal y)) (busy (journal y'))"
    using process_locks.composed.simulation ok by blast
  then show ?thesis
    using ok find_conflict_busy lookup_busy
    by (auto simp: register_refused_iff cancel_success_iff [OF p])
qed

theorem requests_answer_lock_table_witness:
  "reachable demo_os demo_cfg demo_started \<and> gce_name ''c1'' \<and>
   (\<exists>d. fst (register_operation demo_os demo_cfg ''c1'' CLUSTER_DELETE ''c1'' [] [] (sy_mgr demo_started)) =
      Inl (HTTPException 409 d)) \<and>
   (\<exists>resp. fst (cancel_operation demo_os demo_cfg ''c1'' (sy_mgr demo_started)) = Inr resp \<and> cancel_success resp)"
  using requests_answer_lock_table [OF demo_reachable(2) demo_paths_ok demo_c1_name, of CLUSTER_DELETE "[]" "[]"]
    demo_reachable(2) demo_c1_name demo_c1_busy by blast

end
