(* ===== verification/Pipeline_System.thy ===== *)
theory Pipeline_System
  imports Op_Refinement
begin

text \<open>
  The pipelines of \<open>api/gem_api/services/runner.py\<close> inside the API process: a pipeline that runs
  in the task of its operation is a run of the system of theory \<open>Op_System\<close>. Every wait is a
  stretch of that run in which the rest of the process does what it likes; every stretch of
  the pipeline's own code between two waits is one or more of the system's steps for a running
  task. This is shown by interpreting \<open>pipeline_logic\<close> with the state of the process as the
  ghost state.
\<close>

section \<open>Tasks over a run\<close>

lemma reachable_run: "(sys_step os cfg)\<^sup>*\<^sup>* y y' \<Longrightarrow> reachable os cfg y \<Longrightarrow> reachable os cfg y'"
  by (induction rule: rtranclp_induct) (auto intro: reachable.step)

text \<open>
  A step changes the state of at most one task: a new one, or one that is not over, and never
  back to running.
\<close>

definition task_change :: "sys \<Rightarrow> (ref \<Rightarrow> task_state) \<Rightarrow> bool" where
  "task_change y ts \<longleftrightarrow>
     ts = tasks (sy_mgr y) \<or>
     (\<exists>u v. ts = (tasks (sy_mgr y))(u := v) \<and>
        (u = sy_next y \<or> \<not> task_done (tasks (sy_mgr y) u) \<and> v \<noteq> TPending False))"

lemma task_change_same: "ts = tasks (sy_mgr y) \<Longrightarrow> task_change y ts"
  by (simp add: task_change_def)

lemma task_change_set:
  "ts = (tasks (sy_mgr y))(u := v) \<Longrightarrow> \<not> task_done (tasks (sy_mgr y) u) \<Longrightarrow> v \<noteq> TPending False \<Longrightarrow>
     task_change y ts"
  unfolding task_change_def by blast

lemma task_change_cancel:
  "task_change y (tasks (snd (cancel_operation os cfg oid (sy_mgr y))))"
proof (cases "\<exists>i. lookup (sy_mgr y) oid = Some i \<and> active (status (recs (sy_mgr y) i))")
  case True
  then obtain i where i: "lookup (sy_mgr y) oid = Some i" "active (status (recs (sy_mgr y) i))" by blast
  show ?thesis
  proof (rule cancel_operation_acts [OF i, of os cfg])
    fix s4
    assume "tasks s4 = flag_task (task (recs (sy_mgr y) i)) (tasks (sy_mgr y))"
      and lo: "log_only s4 (snd (cancel_operation os cfg oid (sy_mgr y)))"
    then have ts: "tasks (snd (cancel_operation os cfg oid (sy_mgr y))) =
        flag_task (task (recs (sy_mgr y) i)) (tasks (sy_mgr y))"
      using log_only_frame(3) [OF lo] by simp
    show ?thesis
      unfolding ts flag_task_def
      by (auto split: option.split if_splits intro: task_change_same task_change_set)
  qed
next
  case False
  then have "snd (cancel_operation os cfg oid (sy_mgr y)) = sy_mgr y"
    by (cases "lookup (sy_mgr y) oid") (auto intro!: cancel_operation_skip simp: terminal_iff_not_active)
  then show ?thesis by (simp add: task_change_same)
qed

lemma tasks_step:
  assumes "sys_step os cfg y y'" and "paths_ok os cfg" and "sys_inv y"
  shows "task_change y (tasks (sy_mgr y'))"
  using assms
proof (cases rule: sys_step_kinds)
  case (registers oid ty step msg i p m)
  then show ?thesis using tasks_register [of os cfg oid ty oid step msg "sy_mgr y"] by (simp add: task_change_same)
next
  case (starts i p oid)
  then show ?thesis unfolding task_change_def using tasks_start by blast
next
  case (updates oid i t st step msg err)
  then show ?thesis using tasks_settle [OF updates(1) refl log_only_refl] by (simp add: task_change_same)
next
  case (settles oid i t st step msg err m m')
  then show ?thesis using tasks_settle [OF settles(1,4,5)]
    by (intro task_change_set [of _ _ t TReturned]) (simp_all add: set_task_def live_def)
next
  case (ends t b ts)
  then show ?thesis by (intro task_change_set [of _ _ t ts]) (auto simp: set_task_def)
qed (simp_all add: task_change_same calm_def tasks_callback task_change_cancel)

text \<open>
  The life of a task over a run of the process: it runs and drives the record it was created
  for, or it has been told to stop and that record is cancelled, or it is over.
\<close>

definition task_life :: "ref \<Rightarrow> string \<Rightarrow> ref \<Rightarrow> sys \<Rightarrow> bool" where
  "task_life t oid i y \<longleftrightarrow> t < sy_next y \<and> sy_oid y t = oid \<and> i < next_rec (sy_mgr y) \<and>
     (live y t \<and> running oid i t (sy_mgr y) \<or>
      tasks (sy_mgr y) t = TPending True \<and> status (recs (sy_mgr y) i) = CANCELLED \<or>
      task_done (tasks (sy_mgr y) t))"

text \<open>The name of an operation that is active stays with its record.\<close>

lemma lookup_kept:
  assumes "effect m m'" and "lookup m k = Some i" and "active (status (recs m i))"
  shows "lookup m' k = Some i"
  using assms by cases auto

lemma task_life_step:
  assumes step: "sys_step os cfg y y'" and "paths_ok os cfg" and inv: "sys_inv y" and life: "task_life t oid i y"
  shows "task_life t oid i y'"
proof -
  have t: "t < sy_next y" "sy_oid y t = oid" "i < next_rec (sy_mgr y)" using life by (auto simp: task_life_def)
  note s = sy_oid_step [OF step t(1)]
  have kept: "outcome_kept (sy_mgr y) (sy_mgr y')" by (rule kept_step [OF step assms(2) inv])
  then have i: "i < next_rec (sy_mgr y')" using t(3) by (auto simp: outcome_kept_def)
  have ch: "task_change y (tasks (sy_mgr y'))" by (rule tasks_step [OF step assms(2) inv])
  consider (running) "live y t" "running oid i t (sy_mgr y)"
    | (flagged) "tasks (sy_mgr y) t = TPending True" "status (recs (sy_mgr y) i) = CANCELLED"
    | (over) "task_done (tasks (sy_mgr y) t)"
    using life by (auto simp: task_life_def)
  then have "live y' t \<and> running oid i t (sy_mgr y') \<or>
      tasks (sy_mgr y') t = TPending True \<and> status (recs (sy_mgr y') i) = CANCELLED \<or>
      task_done (tasks (sy_mgr y') t)"
  proof cases
    case running
    have l: "lookup (sy_mgr y') oid = Some i"
      using lookup_kept [OF effect_step [OF step assms(2) inv]] running(2) by (simp add: running_def)
    show ?thesis
    proof (cases "tasks (sy_mgr y') t")
      case (TPending b)
      show ?thesis
      proof (cases b)
        case True
        then obtain j where "interrupted oid j t (sy_mgr y')"
          using step_flag [OF step assms(2) inv running(1)] TPending t(2) by auto
        with l TPending True show ?thesis by (simp add: interrupted_def)
      next
        case False
        then have "live y' t" using TPending s(2) by (simp add: live_def)
        moreover from this obtain j where "running oid j t (sy_mgr y')"
          using live_running [OF inv_step [OF step assms(2) inv]] s(1) t(2) by metis
        ultimately show ?thesis using l by (simp add: running_def)
      qed
    qed simp_all
  next
    case flagged
    have "status (recs (sy_mgr y') i) = CANCELLED"
      using kept flagged(2) t(3) by (auto simp: outcome_kept_def)
    moreover have "tasks (sy_mgr y') t = TPending True \<or> task_done (tasks (sy_mgr y') t)"
      using ch flagged(1) t(1) by (cases "tasks (sy_mgr y') t") (auto simp: task_change_def split: if_splits)
    ultimately show ?thesis by blast
  next
    case over
    then show ?thesis using ch t(1) by (auto simp: task_change_def split: if_splits)
  qed
  with s t i show ?thesis by (simp add: task_life_def)
qed

lemma task_life_run:
  assumes "(sys_step os cfg)\<^sup>*\<^sup>* y y'" and "paths_ok os cfg" and "reachable os cfg y" and "task_life t oid i y"
  shows "task_life t oid i y'"
  using assms(1)
proof (induction rule: rtranclp_induct)
  case (step y1 y2)
  have "sys_inv y1" using inv_reachable [OF reachable_run [OF step.hyps(1) assms(3)] assms(2)] .
  then show ?case using task_life_step [OF step.hyps(2) assms(2)] step.IH by blast
qed (rule assms(4))


section \<open>A pipeline is a run of the system\<close>

text \<open>
  The rest of the process: while the task waits, it takes the system from one state to another
  by steps of the system, and does not run the task's own code to its end.
\<close>

definition cooperative :: "rt \<Rightarrow> ref \<Rightarrow> bool" where
  "cooperative rt t \<longleftrightarrow>
     (\<forall>y. reachable (rt_os rt) (rt_cfg rt) y \<longrightarrow> live y t \<longrightarrow>
        (\<exists>y'. (sys_step (rt_os rt) (rt_cfg rt))\<^sup>*\<^sup>* y y' \<and>
           sy_mgr y' = rt_others rt ((sy_mgr y)\<lparr>ticks := Suc (ticks (sy_mgr y))\<rparr>) \<and>
           \<not> task_done (tasks (sy_mgr y') t)))"

definition at_work :: "rt \<Rightarrow> ref \<Rightarrow> string \<Rightarrow> ref \<Rightarrow> sys \<Rightarrow> mgr \<Rightarrow> bool" where
  "at_work rt t oid i y s \<longleftrightarrow> paths_ok (rt_os rt) (rt_cfg rt) \<and> cooperative rt t \<and>
     reachable (rt_os rt) (rt_cfg rt) y \<and> task_life t oid i y \<and> live y t \<and> sy_mgr y = s"

definition told_to_stop :: "rt \<Rightarrow> ref \<Rightarrow> string \<Rightarrow> ref \<Rightarrow> sys \<Rightarrow> mgr \<Rightarrow> bool" where
  "told_to_stop rt t oid i y s \<longleftrightarrow> reachable (rt_os rt) (rt_cfg rt) y \<and> task_life t oid i y \<and>
     tasks s t = TPending True \<and> status (recs s i) = CANCELLED \<and> sy_mgr y = s"

definition done_with :: "rt \<Rightarrow> ref \<Rightarrow> string \<Rightarrow> ref \<Rightarrow> OperationStatus \<Rightarrow> sys \<Rightarrow> mgr \<Rightarrow> bool" where
  "done_with rt t oid i st y s \<longleftrightarrow> reachable (rt_os rt) (rt_cfg rt) y \<and> task_life t oid i y \<and>
     status (recs s i) = st \<and> sy_mgr y = set_task t TReturned s"

lemma at_workD:
  assumes "at_work rt t oid i y s"
  shows "paths_ok (rt_os rt) (rt_cfg rt)" and "reachable (rt_os rt) (rt_cfg rt) y" and "live y t"
    and "sy_oid y t = oid" and "sy_mgr y = s" and "running oid i t s" and "task_life t oid i y"
  using assms by (auto simp: at_work_def task_life_def live_def)

lemma at_work_run:
  assumes "at_work rt t oid i y s" and "(sys_step (rt_os rt) (rt_cfg rt))\<^sup>*\<^sup>* y y'" and "sy_mgr y' = s'"
    and "\<not> task_done (tasks s' t)"
  shows "if tasks s' t = TPending True then told_to_stop rt t oid i y' s' else at_work rt t oid i y' s'"
proof -
  note w = at_workD [OF assms(1)]
  have life: "task_life t oid i y'" by (rule task_life_run [OF assms(2) w(1,2,7)])
  have r: "reachable (rt_os rt) (rt_cfg rt) y'" by (rule reachable_run [OF assms(2) w(2)])
  show ?thesis
  proof (cases "tasks s' t = TPending True")
    case True
    with life r assms(3) show ?thesis by (auto simp: told_to_stop_def task_life_def running_def live_def)
  next
    case False
    with life assms(3,4) have "live y' t" by (auto simp: task_life_def)
    with life r assms(1,3) False show ?thesis by (simp add: at_work_def)
  qed
qed

text \<open>One step of the pipeline's own code.\<close>

lemma at_work_step:
  assumes "at_work rt t oid i y s" and "sys_step (rt_os rt) (rt_cfg rt) y (y\<lparr>sy_mgr := s'\<rparr>)"
    and "tasks s' t = tasks s t"
  shows "\<exists>y'. (sys_step (rt_os rt) (rt_cfg rt))\<^sup>*\<^sup>* y y' \<and> at_work rt t oid i y' s'"
proof (intro exI conjI)
  show run: "(sys_step (rt_os rt) (rt_cfg rt))\<^sup>*\<^sup>* y (y\<lparr>sy_mgr := s'\<rparr>)" using assms(2) by blast
  have "tasks s' t = TPending False" using at_workD(6) [OF assms(1)] assms(3) by (simp add: running_def)
  with at_work_run [OF assms(1) run, of s'] show "at_work rt t oid i (y\<lparr>sy_mgr := s'\<rparr>) s'" by simp
qed

lemma at_work_suspend:
  assumes "at_work rt t oid i y s" and "suspend rt t s = (c, s')"
  shows "\<exists>y'. (sys_step (rt_os rt) (rt_cfg rt))\<^sup>*\<^sup>* y y' \<and>
     (if c then told_to_stop rt t oid i y' s' else at_work rt t oid i y' s')"
proof -
  note w = at_workD [OF assms(1)]
  have "cooperative rt t" using assms(1) by (simp add: at_work_def)
  then obtain y' where y': "(sys_step (rt_os rt) (rt_cfg rt))\<^sup>*\<^sup>* y y'"
      "sy_mgr y' = rt_others rt (s\<lparr>ticks := Suc (ticks s)\<rparr>)" "\<not> task_done (tasks (sy_mgr y') t)"
    using w unfolding cooperative_def by blast
  have s': "s' = sy_mgr y'" and c: "c = (tasks (sy_mgr y') t = TPending True)"
    using assms(2) y'(2) by (auto simp: suspend_def Let_def)
  from at_work_run [OF assms(1) y'(1) refl y'(3)] y'(1) show ?thesis unfolding s' c by blast
qed

lemma at_work_settle:
  assumes w: "at_work rt t oid i y s" and st: "st = SUCCEEDED \<or> st = FAILED"
    and s1: "s1 = snd (update_operation oid (Some st) step (msg :: string option) err True s)"
    and s': "s' = s1 \<or> s' = snd (append_log (rt_os rt) (rt_cfg rt) oid line (snd (now s1)))"
  shows "\<exists>y'. (sys_step (rt_os rt) (rt_cfg rt))\<^sup>*\<^sup>* y y' \<and> done_with rt t oid i st y' s'"
proof -
  note d = at_workD [OF w]
  let ?y = "y\<lparr>sy_mgr := set_task t TReturned s'\<rparr>"
  have "sys_step (rt_os rt) (rt_cfg rt) y ?y"
    by (rule sys_step.pipe_settle [OF d(3) _ st]) (use d s1 s' in auto)
  then have run: "(sys_step (rt_os rt) (rt_cfg rt))\<^sup>*\<^sup>* y ?y" by blast
  have l: "lookup s oid = Some i" using d(6) by (simp add: running_def)
  have "status (recs s1 i) = st" using update_operation_known(9) [OF l s1] by simp
  moreover have "log_only s1 s'" using s' log_only_stamped by auto
  ultimately have "status (recs s' i) = st" by (simp add: mgr_frame)
  with run reachable_run [OF run d(2)] task_life_run [OF run d(1,2,7)] show ?thesis
    by (auto simp: done_with_def)
qed

interpretation in_system:
  pipeline_logic "(sys_step (rt_os rt) (rt_cfg rt))\<^sup>*\<^sup>*" "at_work rt t oid i" "told_to_stop rt t oid i"
    "done_with rt t oid i" rt t oid i
  for rt t oid i
proof
  fix y s assume w: "at_work rt t oid i y s"
  note d = at_workD [OF w]
  have l: "lookup s oid = Some i" using d(6) by (simp add: running_def)
  show "lookup s oid = Some i \<and> status (recs s i) \<noteq> CANCELLED"
    using l running_not_cancelled [OF d(6)] by simp
  show "\<exists>y'. (sys_step (rt_os rt) (rt_cfg rt))\<^sup>*\<^sup>* y y' \<and>
      at_work rt t oid i y' (snd (append_log (rt_os rt) (rt_cfg rt) oid line s))" for line
    by (rule at_work_step [OF w])
      (use sys_step.pipe_log [OF d(3), of oid] d(4,5) log_only_frame(3) [OF log_only_append_log] in auto)
  show "\<exists>y'. (sys_step (rt_os rt) (rt_cfg rt))\<^sup>*\<^sup>* y y' \<and>
      at_work rt t oid i y' (snd (update_operation oid st step msg err False s))"
    if "st = None \<or> st = Some RUNNING" for st step msg err
  proof (rule at_work_step [OF w])
    show "sys_step (rt_os rt) (rt_cfg rt) y (y\<lparr>sy_mgr := snd (update_operation oid st step msg err False s)\<rparr>)"
      using sys_step.pipe_update [OF d(3) d(4) [symmetric] that] unfolding d(5) .
    show "tasks (snd (update_operation oid st step msg err False s)) t = tasks s t"
      using update_operation_known(4) [OF l refl] by simp
  qed
  show "\<exists>y'. (sys_step (rt_os rt) (rt_cfg rt))\<^sup>*\<^sup>* y y' \<and> at_work rt t oid i y'
      (s\<lparr>procs := (procs s)(p := \<lparr>pid = n, returncode = rc\<rparr>)\<rparr>)" for p n rc
    by (rule at_work_step [OF w])
      (use sys_step.pipe_spawn [OF d(3)] sys_step.process_exit [where y = y] d(5) in \<open>cases rc; auto\<close>)+
  show "\<exists>y'. (sys_step (rt_os rt) (rt_cfg rt))\<^sup>*\<^sup>* y y' \<and>
      at_work rt t oid i y' (upd_rec i (\<lambda>r. r\<lparr>process := Some p\<rparr>) s)" for p
    by (rule at_work_step [OF w])
      (use sys_step.pipe_process [OF d(3)] d(4,5) l in \<open>auto simp: upd_rec_def\<close>)
next
  fix y s c s' assume "at_work rt t oid i y s" and "suspend rt t s = (c, s')"
  then show "\<exists>y'. (sys_step (rt_os rt) (rt_cfg rt))\<^sup>*\<^sup>* y y' \<and>
      (if c then told_to_stop rt t oid i y' s' else at_work rt t oid i y' s')" by (rule at_work_suspend)
next
  fix y s v s1 s' line and step msg err :: "string option"
  assume "at_work rt t oid i y s" and "v = SUCCEEDED \<or> v = FAILED"
    and "s1 = snd (update_operation oid (Some v) step msg err True s)"
    and "s' = s1 \<or> s' = snd (append_log (rt_os rt) (rt_cfg rt) oid line (snd (now s1)))"
  then show "\<exists>y'. (sys_step (rt_os rt) (rt_cfg rt))\<^sup>*\<^sup>* y y' \<and> done_with rt t oid i v y' s'"
    by (rule at_work_settle)
qed (rule rtranclp.rtrancl_refl, rule rtranclp_trans)


lemma live_at_work:
  assumes "paths_ok (rt_os rt) (rt_cfg rt)" and "cooperative rt t"
    and "reachable (rt_os rt) (rt_cfg rt) y" and "live y t"
  obtains i where "lookup (sy_mgr y) (sy_oid y t) = Some i" and "at_work rt t (sy_oid y t) i y (sy_mgr y)"
proof -
  note inv = inv_reachable [OF assms(3,1)]
  obtain i where i: "running (sy_oid y t) i t (sy_mgr y)" using live_running [OF inv assms(4)] .
  then have l: "lookup (sy_mgr y) (sy_oid y t) = Some i" by (simp add: running_def)
  then have "i < next_rec (sy_mgr y)" using invD(2) [OF inv] by (simp add: rec_ok_def)
  with i assms have "at_work rt t (sy_oid y t) i y (sy_mgr y)"
    by (simp add: at_work_def task_life_def live_def)
  with l that show thesis by blast
qed

lemma coroutine_in_system:
  assumes "paths_ok (rt_os rt) (rt_cfg rt)" and "cooperative rt t"
    and "reachable (rt_os rt) (rt_cfg rt) y" and "live y t" and "sy_oid y t = coroutine_oid c"
    and "logs_completion c \<Longrightarrow> \<forall>e. rt_gv rt = Inl e \<longrightarrow> is_Exception e"
    and "run_coroutine rt t c (sy_mgr y) = (r, s')"
  shows "\<exists>y' i. (sys_step (rt_os rt) (rt_cfg rt))\<^sup>*\<^sup>* y y' \<and>
     lookup (sy_mgr y) (coroutine_oid c) = Some i \<and>
     (r = Inr () \<and> sy_mgr y' = set_task t TReturned s' \<and>
        (status (recs s' i) = SUCCEEDED \<or> status (recs s' i) = FAILED) \<or>
      r = Inl CancelledError \<and> sy_mgr y' = s' \<and> tasks s' t = TPending True \<and>
        status (recs s' i) = CANCELLED)"
proof -
  obtain i where l: "lookup (sy_mgr y) (coroutine_oid c) = Some i"
    and w: "at_work rt t (coroutine_oid c) i y (sy_mgr y)"
    using live_at_work [OF assms(1-4)] unfolding assms(5) .
  have path: "\<exists>p. get_log_file_path (rt_os rt) (rt_cfg rt) (coroutine_oid c) = Inr p"
    by (rule reachable_named(2) [OF assms(3,1) l])
  show ?thesis
    by (rule in_system.coroutine_concluded [OF refl path assms(6) w assms(7)])
      (use l in \<open>auto simp: done_with_def told_to_stop_def\<close>)
qed

text \<open>A world without interference.\<close>

lemma demo_cooperative: "cooperative (demo_rt rc) t"
  unfolding cooperative_def
proof (intro allI impI exI conjI)
  fix y assume "live y t"
  have n: "snd (now (sy_mgr y)) = (sy_mgr y)\<lparr>ticks := Suc (ticks (sy_mgr y))\<rparr>" by (simp add: now_def)
  show "(sys_step (rt_os (demo_rt rc)) (rt_cfg (demo_rt rc)))\<^sup>*\<^sup>* y (y\<lparr>sy_mgr := snd (now (sy_mgr y))\<rparr>)"
    by (rule r_into_rtranclp) (rule sys_step.clock_read)
  show "sy_mgr (y\<lparr>sy_mgr := snd (now (sy_mgr y))\<rparr>) =
      rt_others (demo_rt rc) ((sy_mgr y)\<lparr>ticks := Suc (ticks (sy_mgr y))\<rparr>)"
    by (simp add: n demo_rt_def)
  show "\<not> task_done (tasks (sy_mgr (y\<lparr>sy_mgr := snd (now (sy_mgr y))\<rparr>)) t)"
    using \<open>live y t\<close> by (simp add: n live_def)
qed

text \<open>
  C9: the pipelines play by the rules of the whole. Started in a reachable state of the API
  process, in the task of its operation, while every wait is filled with any steps the process
  can take (new requests, cancellations, streams, other pipelines, callbacks), a pipeline is
  itself a run of the process. It ends with its task returned and its record succeeded or
  failed, or, after somebody has told the task to stop, by \<open>CancelledError\<close> with the record
  cancelled, even if a new operation has taken over the name by then.
\<close>

theorem pipeline_runs_in_system:
  assumes "paths_ok (rt_os rt) (rt_cfg rt)" and "cooperative rt t"
    and "reachable (rt_os rt) (rt_cfg rt) y" and "live y t" and "sy_oid y t = coroutine_oid c"
    and "logs_completion c \<Longrightarrow> \<forall>e. rt_gv rt = Inl e \<longrightarrow> is_Exception e"
    and "run_coroutine rt t c (sy_mgr y) = (r, s')"
  shows "\<exists>y' i. (sys_step (rt_os rt) (rt_cfg rt))\<^sup>*\<^sup>* y y' \<and>
     lookup (sy_mgr y) (coroutine_oid c) = Some i \<and>
     (r = Inr () \<and> sy_mgr y' = set_task t TReturned s' \<and>
        (status (recs s' i) = SUCCEEDED \<or> status (recs s' i) = FAILED) \<or>
      r = Inl CancelledError \<and> sy_mgr y' = s' \<and> tasks s' t = TPending True \<and>
        status (recs s' i) = CANCELLED)"
  using assms by (rule coroutine_in_system)

theorem pipeline_runs_in_system_witness:
  "\<exists>y' r s' i. run_coroutine (demo_rt 1) 0 (RunClusterCreate demo_create ''c1'') (sy_mgr demo_started) = (r, s') \<and>
     (sys_step demo_os demo_cfg)\<^sup>*\<^sup>* demo_started y' \<and> terminal (status (recs (sy_mgr y') i))"
proof -
  obtain r s' where c: "run_coroutine (demo_rt 1) 0 (RunClusterCreate demo_create ''c1'') (sy_mgr demo_started) = (r, s')"
    by fastforce
  have d: "rt_os (demo_rt 1) = demo_os" "rt_cfg (demo_rt 1) = demo_cfg" by (simp_all add: demo_rt_def)
  have oid: "sy_oid demo_started 0 = coroutine_oid (RunClusterCreate demo_create ''c1'')"
    by (simp add: demo_started_sel)
  have gv: "\<forall>e. rt_gv (demo_rt 1) = Inl e \<longrightarrow> is_Exception e" by (rule demo_rt_ok)
  from pipeline_runs_in_system [where rt = "demo_rt 1", unfolded d, OF demo_paths_ok demo_cooperative
      demo_reachable(2) demo_started_sel(1) oid gv c]
  obtain y' i where y': "(sys_step demo_os demo_cfg)\<^sup>*\<^sup>* demo_started y'"
    and e: "r = Inr () \<and> sy_mgr y' = set_task 0 TReturned s' \<and>
          (status (recs s' i) = SUCCEEDED \<or> status (recs s' i) = FAILED) \<or>
        r = Inl CancelledError \<and> sy_mgr y' = s' \<and> tasks s' 0 = TPending True \<and> status (recs s' i) = CANCELLED"
    by blast
  from e have "terminal (status (recs (sy_mgr y') i))" by (auto simp: set_task_def)
  with c y' show ?thesis by blast
qed

end
