(* ===== verification/Request_System.thy ===== *)
theory Request_System
  imports Routers Pipeline_System
begin

text \<open>
  The six handlers that start a pipeline, inside the API process: accepting a request is two
  steps of the system of theory \<open>Op_System\<close> (the registration up to the writing of the log
  file, and the rest of the handler), and refusing one leaves the process as it is. With theory
  \<open>Pipeline_System\<close> this covers the way of a request from its handler to the outcome.
\<close>

section \<open>Requests that start a pipeline\<close>

datatype build_request =
    BuildCluster ClusterCreateRequest
  | TeardownCluster ClusterDeleteRequest
  | BuildWorkstation WorkstationCreateRequest
  | TeardownWorkstation WorkstationDeleteRequest
  | BuildEdgeRouter EdgeRouterCreateRequest
  | TeardownEdgeRouter EdgeRouterDeleteRequest

fun handle :: "osys \<Rightarrow> Settings \<Rightarrow> build_request \<Rightarrow> api \<Rightarrow> OperationAcceptedResponse res \<times> api" where
  "handle os cfg (BuildCluster q) = create_cluster os cfg q"
| "handle os cfg (TeardownCluster q) = delete_cluster os cfg q"
| "handle os cfg (BuildWorkstation q) = create_workstation os cfg q"
| "handle os cfg (TeardownWorkstation q) = delete_workstation os cfg q"
| "handle os cfg (BuildEdgeRouter q) = create_edge_router os cfg q"
| "handle os cfg (TeardownEdgeRouter q) = delete_edge_router os cfg q"

fun request_target :: "build_request \<Rightarrow> string" where
  "request_target (BuildCluster q) = cluster_name q"
| "request_target (TeardownCluster q) = del_cluster_name q"
| "request_target (BuildWorkstation q) = ''gem-admin-ws''"
| "request_target (TeardownWorkstation q) = ''gem-admin-ws''"
| "request_target (BuildEdgeRouter q) = edge_router_name q"
| "request_target (TeardownEdgeRouter q) = erd_edge_router_name q"

fun request_coroutine :: "build_request \<Rightarrow> coroutine" where
  "request_coroutine (BuildCluster q) = RunClusterCreate q (cluster_name q)"
| "request_coroutine (TeardownCluster q) = RunClusterDelete q (del_cluster_name q)"
| "request_coroutine (BuildWorkstation q) = RunWorkstationCreate q ''gem-admin-ws''"
| "request_coroutine (TeardownWorkstation q) = RunWorkstationDelete q ''gem-admin-ws''"
| "request_coroutine (BuildEdgeRouter q) = RunEdgeRouterCreate q (edge_router_name q)"
| "request_coroutine (TeardownEdgeRouter q) = RunEdgeRouterDelete q (erd_edge_router_name q)"

lemma request_coroutine_oid [simp]: "coroutine_oid (request_coroutine q) = request_target q"
  by (cases q) simp_all

lemma handle_accepts:
  "\<exists>ty step msg acc. handle os cfg q =
     accept_operation os cfg (request_target q) ty step msg (request_coroutine q) acc"
  by (cases q)
    (simp_all add: create_cluster_def [abs_def] delete_cluster_def [abs_def] create_workstation_def [abs_def]
      delete_workstation_def [abs_def] create_edge_router_def [abs_def] delete_edge_router_def [abs_def], blast+)

text \<open>The state of the handlers and the state of the system.\<close>

definition in_step :: "sys \<Rightarrow> api \<Rightarrow> bool" where
  "in_step y a \<longleftrightarrow> api_mgr a = sy_mgr y \<and> api_next a = sy_next y"

lemma accept_steps:
  assumes "sy_reg y = None" and "gce_name oid" and "in_step y a"
    and new: "find_conflict (api_mgr a) oid = None" and path: "get_log_file_path os cfg oid = Inr p"
    and acc: "accept_operation os cfg oid ty step msg c txt a = (r, a')"
  shows "\<exists>y'. (sys_step os cfg)\<^sup>*\<^sup>* y y' \<and> in_step y' a' \<and> sy_reg y' = None \<and>
     live y' (api_next a) \<and> sy_oid y' (api_next a) = oid"
proof -
  define m i n where "m = sy_mgr y" and "i = next_rec m" and "n = sy_next y"
  have a: "api_mgr a = m" "api_next a = n" using assms(3) by (simp_all add: in_step_def m_def n_def)
  obtain m1 where ins: "register_insert os cfg oid ty oid step msg m = (Inr (i, p), m1)"
    and m1: "lookup m1 oid = Some i"
    using register_insert_new [OF new [unfolded a(1)], of os cfg oid ty step msg] path
    by (auto simp: i_def lookup_def)
  define m2 where "m2 = register_finish i p m1"
  define y1 where "y1 = y\<lparr>sy_mgr := m1, sy_reg := Some (i, p, oid)\<rparr>"
  define y2 where "y2 = start_task oid (y1\<lparr>sy_mgr := m2, sy_reg := None\<rparr>)"
  have "sys_step os cfg y y1"
    unfolding y1_def using sys_step.reg_begin [OF assms(1,2), of os cfg ty step msg i p m1] ins
    by (simp add: m_def)
  moreover have "sys_step os cfg y1 y2"
    unfolding y2_def m2_def using sys_step.reg_end [of y1 i p oid os cfg] by (simp add: y1_def)
  ultimately have run: "(sys_step os cfg)\<^sup>*\<^sup>* y y2" by (meson converse_rtranclp_into_rtranclp r_into_rtranclp)
  have "register_operation os cfg oid ty oid step msg m = (Inr i, m2)"
    by (simp add: register_operation_def ins m2_def)
  then have a': "api_mgr a' = attach_task oid n (set_task n (TPending False) m2)" "api_next a' = Suc n"
    using acc a by (auto simp: accept_operation_def create_task_def set_task_def Let_def)
  have "lookup m2 oid = Some i" using log_only_frame(7) [OF log_only_register_finish] m1 by (simp add: m2_def)
  then have "lookup (set_task n (TPending False) m2) oid = Some i" by (simp add: set_task_def lookup_def)
  then have "tasks (attach_task oid n (set_task n (TPending False) m2)) n = TPending False"
    by (simp add: attach_task_known upd_rec_def set_task_def)
  with run a a' show ?thesis
    by (intro exI [of _ y2])
      (simp add: in_step_def live_def y2_def y1_def start_task_def n_def [symmetric])
qed

lemma handler_in_system:
  assumes "paths_ok os cfg" and "reachable os cfg y" and "sy_reg y = None"
    and "gce_name (request_target q)" and "in_step y a" and "handle os cfg q a = (r, a')"
  shows "if request_target q \<in> busy (journal y)
     then a' = a \<and> (\<exists>d. r = Inl (HTTPException 409 d))
     else (\<exists>resp. r = Inr resp \<and> acc_status resp = QUEUED \<and> acc_operation_id resp = request_target q) \<and>
       api_tasks a' (api_next a) = Some (request_coroutine q) \<and>
       (\<exists>y'. (sys_step os cfg)\<^sup>*\<^sup>* y y' \<and> in_step y' a' \<and> sy_reg y' = None \<and>
          live y' (api_next a) \<and> sy_oid y' (api_next a) = request_target q)"
proof -
  obtain ty step msg acc where
    h: "accept_operation os cfg (request_target q) ty step msg (request_coroutine q) acc a = (r, a')"
    using assms(6) handle_accepts by metis
  have m: "api_mgr a = sy_mgr y" using assms(5) by (simp add: in_step_def)
  obtain p where p: "get_log_file_path os cfg (request_target q) = Inr p"
    using assms(1,4) by (auto simp: paths_ok_def)
  have free: "find_conflict (api_mgr a) (request_target q) = None \<longleftrightarrow> request_target q \<notin> busy (journal y)"
    using find_conflict_busy reachable_listed(1) [OF assms(2,1)] m by simp
  show ?thesis
  proof (cases "request_target q \<in> busy (journal y)")
    case True
    with free obtain j where "find_conflict (api_mgr a) (request_target q) = Some j" by auto
    from accept_operation_conflict [OF this] h True show ?thesis by (metis Pair_inject)
  next
    case False
    with free have new: "find_conflict (api_mgr a) (request_target q) = None" by blast
    note k = accept_operation_ok [OF new p h]
    from accept_steps [OF assms(3-5) new p h] k(1,4) False show ?thesis by simp
  qed
qed

lemma handler_steps:
  assumes "paths_ok os cfg" and "reachable os cfg y" and "sy_reg y = None"
    and "gce_name (request_target q)" and "in_step y a" and "handle os cfg q a = (Inr resp, a')"
  shows "api_tasks a' (api_next a) = Some (request_coroutine q) \<and>
     (\<exists>y'. (sys_step os cfg)\<^sup>*\<^sup>* y y' \<and> in_step y' a' \<and> sy_reg y' = None \<and>
        live y' (api_next a) \<and> sy_oid y' (api_next a) = request_target q)"
  using handler_in_system [OF assms] by (auto split: if_splits)

lemma handler_accepts:
  assumes "paths_ok os cfg" and "reachable os cfg y" and "sy_reg y = None"
    and "gce_name (request_target q)" and "in_step y a" and "request_target q \<notin> busy (journal y)"
  shows "\<exists>resp a'. handle os cfg q a = (Inr resp, a')"
proof -
  obtain r a' where "handle os cfg q a = (r, a')" by fastforce
  with handler_in_system [OF assms(1-5) this] assms(6) show ?thesis by auto
qed

text \<open>
  C8: a handler is a run of the process. In every reachable state in which no registration
  holds the lock, a request for a validated name is refused with status 409, and nothing
  changes, exactly when the resource is busy; otherwise it is answered with a queued operation,
  and the handler's effects are steps of the system, after which a live task for the request's
  own pipeline drives the operation under the resource's name.
\<close>

theorem handlers_run_in_system:
  assumes "paths_ok os cfg" and "reachable os cfg y" and "sy_reg y = None"
    and "gce_name (request_target q)" and "in_step y a" and "handle os cfg q a = (r, a')"
  shows "if request_target q \<in> busy (journal y)
     then a' = a \<and> (\<exists>d. r = Inl (HTTPException 409 d))
     else (\<exists>resp. r = Inr resp \<and> acc_status resp = QUEUED \<and> acc_operation_id resp = request_target q) \<and>
       api_tasks a' (api_next a) = Some (request_coroutine q) \<and>
       (\<exists>y'. (sys_step os cfg)\<^sup>*\<^sup>* y y' \<and> in_step y' a' \<and> sy_reg y' = None \<and>
          live y' (api_next a) \<and> sy_oid y' (api_next a) = request_target q)"
  using assms by (rule handler_in_system)

lemma demo_in_step: "in_step demo_sys demo_api" "sy_reg demo_sys = None" "reachable demo_os demo_cfg demo_sys"
  by (simp_all add: in_step_def demo_sys_def demo_api_def reachable.start initial_def demo_mgr_def)

lemma demo_not_busy: "k \<notin> busy (journal demo_sys)"
  by (simp add: busy_def journal_def demo_sys_def demo_mgr_def)

theorem handlers_run_in_system_witness:
  "\<exists>resp a' y'. handle demo_os demo_cfg (BuildCluster demo_create) demo_api = (Inr resp, a') \<and>
     acc_status resp = QUEUED \<and> (sys_step demo_os demo_cfg)\<^sup>*\<^sup>* demo_sys y' \<and> in_step y' a' \<and> live y' 0"
proof -
  obtain r a' where h: "handle demo_os demo_cfg (BuildCluster demo_create) demo_api = (r, a')" by fastforce
  have n: "gce_name (request_target (BuildCluster demo_create))" and z: "api_next demo_api = 0"
    using demo_c1_name by (simp_all add: demo_create_name demo_api_def)
  from handlers_run_in_system [OF demo_paths_ok demo_in_step(3,2) n demo_in_step(1) h] demo_not_busy h z
  show ?thesis by auto
qed

end
