(* ===== verification/Request_Props.thy ===== *)
theory Request_Props
  imports Gcp_Context Demo
begin

text \<open>
  What the request models guarantee about a request that gets through, and what the pipelines
  make of it.
\<close>

section \<open>Zones and regions\<close>

text \<open>
  C30: the contract of the zone and region check. The optimistic path through the error
  messages aside, the validator accepts exactly the pairs of the specification: nothing given,
  a well-formed region alone, a well-formed zone alone (its region is then filled in), or a
  zone together with the very region it lies in; and it returns the sanitised values.
\<close>

theorem zone_region_contract:
  "accepted (validate_zone_and_region zo ro) =
     zone_region_spec (sanitize_optional_str (opt_any zo)) (sanitize_optional_str (opt_any ro))"
  by (rule validate_zone_and_region_refines)

text \<open>
  C31: a pipeline works in the zone and region that were validated. For a request that passed
  validation and names a zone, the context of its pipeline has that zone and the region the
  validator filled in or checked; the pipeline's own correction of swapped values never acts.
  Without zone and region it has the configured zone and that zone's region.
\<close>

theorem context_zone_region:
  assumes "valid_target (GcpTargetRequest.truncate q)" and "is_zone (default_zone cfg)"
    and "zone q \<noteq> None \<or> region q = None"
    and "ctx = prepare_gcp_context cfg environ q oid cname b"
  shows "ctx_zone ctx = str_or (zone q) (default_zone cfg) \<and>
         ctx_region ctx = rsplit_head CHR ''-'' (ctx_zone ctx) \<and>
         (region q = None \<or> region q = Some (ctx_region ctx))"
proof (cases "zone q")
  case None
  with assms(3) have "region q = None" by simp
  with None context_sel(2) [OF assms(4)] resolve_default [OF assms(2)] show ?thesis by simp
next
  case (Some z)
  with assms(1) have z: "is_zone z" and r: "region q = Some (rsplit_head CHR ''-'' z)"
    by (auto simp: valid_target_def GcpTargetRequest.truncate_def)
  from context_sel(2) [OF assms(4)] resolve_given [OF z r] Some r z show ?thesis by simp
qed

definition demo_target :: GcpTargetRequest where
  "demo_target =
     \<lparr>project_id = None, zone = Some ''us-east5-b'', region = Some ''us-east5'', provisioning_sa_email = None\<rparr>"

lemma is_region_demo: "is_region ''us-east5''" "is_region ''us-central1''" "is_region ''europe-west1''"
proof -
  have "list_all az_char ''us''" "list_all az_char ''europe''"
    by (simp_all add: az_char_def less_eq_char_def)
  moreover have "list_all an_char ''east5''" "list_all an_char ''central1''" "list_all an_char ''west1''"
    by (simp_all add: an_char_def az_char_def less_eq_char_def)
  ultimately show "is_region ''us-east5''" "is_region ''us-central1''" "is_region ''europe-west1''"
    unfolding is_region_def
    by (intro exI [of _ "''us''"] exI [of _ "''east5''"], simp,
        intro exI [of _ "''us''"] exI [of _ "''central1''"], simp,
        intro exI [of _ "''europe''"] exI [of _ "''west1''"], simp)
qed

lemma is_zone_demo: "is_zone ''us-east5-b''" "is_zone ''us-central1-a''"
  unfolding is_zone_def
  by (intro exI [of _ "''us-east5''"] exI [of _ "CHR ''b''"],
      simp add: is_region_demo az_char_def less_eq_char_def,
      intro exI [of _ "''us-central1''"] exI [of _ "CHR ''a''"],
      simp add: is_region_demo az_char_def less_eq_char_def)

lemma rsplit_demo: "rsplit_head CHR ''-'' ''us-east5-b'' = ''us-east5''"
  using rsplit_head_append [of "CHR ''-''" "''b''" "''us-east5''"] by simp

theorem context_zone_region_witness:
  "ctx_region (prepare_gcp_context demo_cfg [] demo_target ''c1'' ''c1'' None) = ''us-east5''"
proof -
  have "valid_target (GcpTargetRequest.truncate demo_target)"
    by (simp add: valid_target_def demo_target_def GcpTargetRequest.truncate_def is_zone_demo is_region_demo rsplit_demo)
  from context_zone_region [OF this _ _ refl, of demo_cfg "[]" "''c1''" "''c1''" None] show ?thesis
    by (simp add: demo_target_def demo_cfg_def is_zone_demo rsplit_demo)
qed

text \<open>
  A region without a zone. Validation accepts a request that names only a region; its
  pipeline then runs in the configured default zone and in the requested region, whether or
  not that zone lies in that region.
\<close>

lemma region_only_mismatch:
  assumes "zone q = None" and "region q = Some r" and "is_region r"
  shows "(\<exists>v. validate_zone_and_region (zone q) (region q) = Inr v) \<and>
    ctx_zone (prepare_gcp_context cfg environ q oid cname b) = default_zone cfg \<and>
    ctx_region (prepare_gcp_context cfg environ q oid cname b) = r"
proof -
  have "accepted (validate_zone_and_region (zone q) (region q)) = Some (None, Some r)"
    using assms clean_region [OF assms(3)]
    by (simp add: validate_zone_and_region_refines clean_str_sanitize)
  then have "\<exists>v. validate_zone_and_region (zone q) (region q) = Inr v"
    by (cases "validate_zone_and_region (zone q) (region q)") simp_all
  with context_sel(2) [OF refl, of cfg environ q oid cname b] resolve_region_only [OF assms(3)] assms(1,2)
  show ?thesis by simp
qed

lemma region_only_mismatch_witness:
  "ctx_zone (prepare_gcp_context demo_cfg [] (demo_target\<lparr>zone := None, region := Some ''europe-west1''\<rparr>) ''c1'' ''c1'' None)
     = ''us-central1-a'' \<and>
   ctx_region (prepare_gcp_context demo_cfg [] (demo_target\<lparr>zone := None, region := Some ''europe-west1''\<rparr>) ''c1'' ''c1'' None)
     = ''europe-west1''"
  using region_only_mismatch [OF _ _ is_region_demo(3), of "demo_target\<lparr>zone := None, region := Some ''europe-west1''\<rparr>" demo_cfg "[]" "''c1''" "''c1''" None]
  by (simp add: demo_cfg_def)

section \<open>Requests\<close>

text \<open>
  C32: what a validated cluster request guarantees. Whatever the body, a request that is built
  has a project, service accounts, a zone and a region that are well formed where given, a
  cluster name that is a GCE name of at most 26 characters and short enough for the node names
  of its project and zone, a hardware variant and a version that the manifest lists, a storage
  size, IPv4 networks, between 1 and 250 pods per node, and secondary networks that are valid
  themselves.
\<close>

theorem create_request_valid:
  assumes "make_ClusterCreateRequest cfg gv raw = Inr q"
  shows "valid_create cfg gv q"
  using assms by (rule make_ClusterCreateRequest_valid)

text \<open>An empty body, and a manifest with one version and one hardware variant.\<close>

definition demo_gv :: group_vars where
  "demo_gv =
     Inr [(YStr ''emulated_gdc_versions'',
             YDict [(YStr ''1.12.0'', YDict [(YStr ''abm_version'', YStr ''1.32.0'')])]),
          (YStr ''hardware_variants'', YList [YStr ''small''])]"

definition demo_raw :: cluster_create_raw where
  "demo_raw =
     \<lparr>raw_project_id = ANone, raw_zone = ANone, raw_region = ANone, raw_provisioning_sa_email = ANone,
      raw_cluster_name = None, raw_hardware_variant = None, raw_emulate_gdc_version = None,
      raw_gcp_cluster_admin_sa = ANone, raw_gce_network = None, raw_gce_subnetwork = None,
      raw_node_storage_size = None, raw_pod_cidr_blocks = None, raw_services_cidr_blocks = None,
      raw_max_pods_per_node = None, raw_secondary_networks = None\<rparr>"

lemma demo_raw_fields:
  "field (raw_hardware_variant demo_raw) (get_default_hardware_variant demo_gv) v = Inr ''small''"
  "field (raw_emulate_gdc_version demo_raw) (default_gdc_version demo_gv) w = Inr ''1.12.0''"
  by (simp_all add: demo_raw_def demo_gv_def field_def get_default_hardware_variant_def yaml_get_def
        get_valid_hardware_variants_def as_list_def as_dict_def str_yaml_def default_gdc_version_def
        get_default_gdc_version_def get_valid_gdc_versions_def Let_def)

lemma demo_raw_base:
  "gcp_field_errors (sanitize_optional_fields (gcp_target_raw.truncate demo_raw)) = []"
  "validate_gcp_target_parameters
     (validate_gcp_fields (sanitize_optional_fields (gcp_target_raw.truncate demo_raw))) =
   Inr \<lparr>project_id = None, zone = None, region = None, provisioning_sa_email = None\<rparr>"
  by (simp_all add: demo_raw_def gcp_target_raw.truncate_def sanitize_optional_fields_def
        sanitize_optional_str_def gcp_field_errors_def validate_project_id_def validate_email_or_sa_def
        errors_of_def validate_gcp_fields_def validate_gcp_target_parameters_def
        validate_zone_and_region_def opt_any_def truthy_def)

lemma demo_raw_accepted: "\<exists>q. make_ClusterCreateRequest demo_cfg demo_gv demo_raw = Inr q"
  unfolding make_ClusterCreateRequest_def Let_def demo_raw_fields demo_raw_base
  by (simp add: field_def demo_raw_def validate_email_or_sa_def sanitize_optional_str_def opt_any_def errors_of_def
        networks_field_def list_errors_def value_or_def networks_value_def
        validate_cluster_parameters_def demo_cfg_def Let_def)

theorem create_request_valid_witness:
  "\<exists>q. make_ClusterCreateRequest demo_cfg demo_gv demo_raw = Inr q \<and> valid_create demo_cfg demo_gv q"
  using demo_raw_accepted create_request_valid by blast

text \<open>
  Secondary networks are checked one by one. A list of networks is accepted exactly when
  each of them is accepted on its own, and the result is the list of their results: nothing
  relates the networks of a list to each other, so two of them may carry the same name, which
  the field's description calls unique, or the same VLAN.
\<close>

lemma networks_checked_one_by_one:
  "make_networks ns = Inr ns' \<longleftrightarrow> list_all2 (\<lambda>n n'. make_network n = Inr n') ns ns'"
proof (induction ns arbitrary: ns')
  case (Cons n ns)
  show ?case
  proof (cases "make_network n")
    case (Inl es)
    then show ?thesis by (auto simp: list_all2_Cons1 split: sum.split)
  next
    case (Inr n')
    with Cons show ?thesis by (cases "make_networks ns") (auto simp: list_all2_Cons1)
  qed
qed auto

text \<open>
  The advice in the error about long cluster names. If the project and the zone are so
  long that no cluster name fits, every name is refused, yet the message says that a name of
  one character is allowed.
\<close>

lemma name_limit_advice:
  assumes "48 \<le> length (str_or (zone q) (default_zone cfg)) + length (str_or (project_id q) (default_project_id cfg))"
    and "cluster_name q \<noteq> []"
  shows "\<exists>u. validate_cluster_parameters cfg q =
    Inl (ValueError (u @ ''Maximum allowed length for this project/zone is 1 characters.''))"
proof -
  define pid z where "pid = str_or (project_id q) (default_project_id cfg)" and "z = str_or (zone q) (default_zone cfg)"
  define u where "u = ''Cluster name '' @ squote (cluster_name q) @ '' is too long for project '' @ squote pid
     @ '' and zone '' @ squote z @ ''. ''
     @ ''Combined node FQDNs would exceed the 63-character Kubernetes metadata limit. ''"
  have "0 < length (cluster_name q)" using assms(2) by simp
  then have "63 < length (cluster_name q) + length z + length pid + 15"
    using assms(1) unfolding pid_def z_def by linarith
  moreover have "max 1 (63 - int (length z) - int (length pid) - 15) = 1"
    using assms(1) by (simp add: pid_def z_def)
  moreover have "show_int 1 = ''1''" by (simp add: show_int_def show_nat.simps)
  ultimately have "validate_cluster_parameters cfg q =
      Inl (ValueError (u @ ''Maximum allowed length for this project/zone is 1 characters.''))"
    unfolding validate_cluster_parameters_def Let_def pid_def [symmetric] z_def [symmetric] u_def by simp
  then show ?thesis by blast
qed

lemma name_limit_advice_witness:
  "\<exists>u. validate_cluster_parameters (demo_cfg\<lparr>default_project_id := replicate 40 CHR ''p''\<rparr>) demo_create =
     Inl (ValueError (u @ ''Maximum allowed length for this project/zone is 1 characters.''))"
  by (rule name_limit_advice) (simp_all add: demo_create_def demo_cfg_def)


section \<open>Commands and environments\<close>


text \<open>
  The service account a pipeline impersonates is a well-formed address. For a request that
  passed validation, the account is the one it names, or is made up from its project or from
  the default project; in each case it has the form that validation demands of accounts.
\<close>

lemma email_char_nonspace: "email_char c \<Longrightarrow> \<not> py_space c"
  unfolding email_char_def an_char_def
  by (elim disjE) (auto simp: az_char_def less_eq_char_def py_space_def Let_def)

lemma email_stripped:
  assumes "email_address e"
  shows "stripped e"
proof -
  obtain u d t where e: "e = u @ ''@'' @ d @ ''.'' @ t"
    and c: "list_all email_char u" "list_all (\<lambda>c. email_char c \<and> c \<notin> set ''_.+'') d"
      "list_all (\<lambda>c. email_char c \<and> c \<notin> set ''_+'') t"
    using assms unfolding email_address_def by blast
  have ns: "list_all (\<lambda>c. \<not> py_space c) w" if "list_all (\<lambda>c. email_char c \<and> P c) w" for P w
    using that email_char_nonspace unfolding list_all_iff by blast
  have "list_all (\<lambda>c. \<not> py_space c) u" using ns [of "\<lambda>_. True"] c(1) by simp
  moreover have "list_all (\<lambda>c. \<not> py_space c) d" by (rule ns) (rule c(2))
  moreover have "list_all (\<lambda>c. \<not> py_space c) t" by (rule ns) (rule c(3))
  moreover have "\<not> py_space CHR ''@''" "\<not> py_space CHR ''.''" by (simp_all add: py_space_def)
  ultimately show ?thesis unfolding e by (intro stripped_no_space) simp
qed

lemma clean_str_cases: "stripped s \<Longrightarrow> clean_str (Some s) = None \<or> clean_str (Some s) = Some s"
  by (simp add: clean_str_def strip_id Let_def)

lemma context_sa_wellformed:
  assumes "valid_target (GcpTargetRequest.truncate q)" and "gce_name (default_project_id cfg)"
  shows "email_address (ctx_sa (prepare_gcp_context cfg environ q oid cname b))"
proof -
  let ?ctx = "prepare_gcp_context cfg environ q oid cname b"
  note sel = context_sel [OF refl, of cfg environ q oid cname b]
  have p: "gce_name (ctx_project ?ctx)"
  proof (cases "project_id q")
    case (Some p)
    then have "gce_name p" using assms(1) by (simp add: valid_target_def GcpTargetRequest.truncate_def)
    with clean_str_cases [of p] gce_name_plain(1,5) [of p] Some assms(2) show ?thesis
      unfolding sel(1) by (auto simp: str_or_def)
  qed (use sel(1) assms(2) in simp)
  note d = get_provisioning_sa_email [OF p, of cfg]
  show ?thesis
  proof (cases "provisioning_sa_email q")
    case (Some e)
    then have e: "email_address e" using assms(1) by (simp add: valid_target_def GcpTargetRequest.truncate_def)
    with clean_str_cases [OF email_stripped [OF e]] Some d show ?thesis
      unfolding sel(3) by (auto simp: str_or_def)
  qed (use sel(3) d in simp)
qed

lemma context_sa_wellformed_witness:
  "email_address (ctx_sa (prepare_gcp_context demo_cfg [] demo_target ''c1'' ''c1'' None))"
proof -
  have "valid_target (GcpTargetRequest.truncate demo_target)"
    by (simp add: valid_target_def demo_target_def GcpTargetRequest.truncate_def is_zone_demo is_region_demo rsplit_demo)
  moreover have "gce_name (default_project_id demo_cfg)"
    by (simp add: demo_cfg_def gce_name_def name_char_def an_char_def az_char_def less_eq_char_def)
  ultimately show ?thesis by (rule context_sa_wellformed)
qed


section \<open>Defaults\<close>

text \<open>
  The defaults are usable. The default project and the default zone found in the
  environment or through \<open>gcloud\<close> are never empty and carry no white space at their ends; a
  default version and a default hardware variant, when the manifest has one, are among the
  values the manifest lists.
\<close>

lemma defaults_usable:
  "resolve_default_project env g run \<noteq> [] \<and> stripped (resolve_default_project env g run) \<and>
   resolve_default_zone env g run \<noteq> [] \<and> stripped (resolve_default_zone env g run) \<and>
   (case get_default_gdc_version gv of
      Inl _ \<Rightarrow> True | Inr v \<Rightarrow> \<exists>vs. get_valid_gdc_versions gv = Inr vs \<and> v \<in> set vs) \<and>
   (case get_default_hardware_variant gv of
      Inl _ \<Rightarrow> True | Inr v \<Rightarrow> \<exists>vs. get_valid_hardware_variants gv = Inr vs \<and> v \<in> set vs)"
  using resolve_default_project_clean [of env g run] resolve_default_zone_clean [of env g run]
  by (auto split: sum.split elim: default_gdc_version_valid default_hardware_variant_valid)

text \<open>
  The runner and the request models clean strings alike. The runner has a copy of the
  models' sanitiser; on every optional string the two give the same result, so a value that
  validation has sanitised passes the runner unchanged.
\<close>

lemma clean_agrees:
  "clean_str v = sanitize_optional_str (opt_any v) \<and>
   clean_str (sanitize_optional_str (opt_any v)) = sanitize_optional_str (opt_any v)"
  by (simp add: clean_str_sanitize)

end
