(* ===== verification/Py_Json_Loads.thy ===== *)
theory Py_Json_Loads
  imports Py_Json
begin

text \<open>
  \<open>json.loads\<close> with its default settings, the reader for the output of \<open>kubectl\<close> and \<open>gcloud\<close>:
  strings with their escapes, numbers (\<open>NaN\<close> and \<open>Infinity\<close> included, integers of at most
  4300 digits), arrays, objects whose repeated keys keep the first place and the last value.
  \<open>None\<close> is the \<open>JSONDecodeError\<close> (a \<open>ValueError\<close>). Characters are code points below 256 as
  everywhere in this development, so an escape above \<open>\u00ff\<close> has no value here and is refused.
  The nesting depth at which the interpreter gives up is not modelled.

  The reader recurses on fuel; \<open>jvalue_fuel\<close> shows that the fuel of \<open>loads\<close> is enough, and
  \<open>loads_dumps\<close> that it reads back what \<open>dumps\<close> writes.
\<close>

section \<open>Scanning\<close>

definition json_space :: "char \<Rightarrow> bool" where
  "json_space c \<longleftrightarrow> of_char c \<in> {9, 10, 13, 32 :: nat}"

definition skip_ws :: "string \<Rightarrow> string" where
  "skip_ws = dropWhile json_space"

definition hex_value :: "char \<Rightarrow> nat option" where
  "hex_value c =
     (let n = (of_char c :: nat)
      in if 48 \<le> n \<and> n \<le> 57 then Some (n - 48)
         else if 97 \<le> n \<and> n \<le> 102 then Some (n - 87)
         else if 65 \<le> n \<and> n \<le> 70 then Some (n - 55)
         else None)"

definition hex4_value :: "char \<Rightarrow> char \<Rightarrow> char \<Rightarrow> char \<Rightarrow> nat option" where
  "hex4_value a b c d =
     (case (hex_value a, hex_value b, hex_value c, hex_value d) of
        (Some w, Some x, Some y, Some z) \<Rightarrow> Some (((w * 16 + x) * 16 + y) * 16 + z)
      | _ \<Rightarrow> None)"

definition unescape :: "char \<Rightarrow> char option" where
  "unescape e =
     (let n = (of_char e :: nat)
      in if n = 0x22 \<or> n = 0x5C \<or> n = 0x2F then Some e
         else if n = 98 then Some (CHR 0x08)
         else if n = 102 then Some (CHR 0x0C)
         else if n = 110 then Some (CHR 0x0A)
         else if n = 114 then Some (CHR 0x0D)
         else if n = 116 then Some (CHR 0x09)
         else None)"

definition prepend :: "char \<Rightarrow> (string \<times> string) option \<Rightarrow> (string \<times> string) option" where
  "prepend c = map_option (\<lambda>(x, r). (c # x, r))"

text \<open>The rest of a string literal after its opening quote.\<close>

fun scan_str :: "string \<Rightarrow> (string \<times> string) option" where
  "scan_str [] = None"
| "scan_str (ch # s) =
     (if ch = CHR 0x22 then Some ([], s)
      else if ch = CHR 0x5C
      then (case s of
              [] \<Rightarrow> None
            | e # s' \<Rightarrow>
                if e = CHR ''u''
                then (case s' of
                        a # b # c # d # s'' \<Rightarrow>
                          (case hex4_value a b c d of
                             None \<Rightarrow> None
                           | Some n \<Rightarrow> if n < 256 then prepend (char_of n) (scan_str s'') else None)
                      | _ \<Rightarrow> None)
                else (case unescape e of None \<Rightarrow> None | Some x \<Rightarrow> prepend x (scan_str s')))
      else if of_char ch < (32::nat) then None
      else prepend ch (scan_str s))"

definition scan_int :: "string \<Rightarrow> (string \<times> string) option" where
  "scan_int s =
     (let (sg, t) = (case s of [] \<Rightarrow> ([], s) | c # t \<Rightarrow> if c = CHR ''-'' then ([c], t) else ([], s))
      in case t of
           [] \<Rightarrow> None
         | c # t' \<Rightarrow>
             if c = CHR ''0'' then Some (sg @ [c], t')
             else if digit_char c then Some (sg @ takeWhile digit_char t, dropWhile digit_char t)
             else None)"

definition scan_frac :: "string \<Rightarrow> string \<times> string" where
  "scan_frac s =
     (case s of
        [] \<Rightarrow> ([], s)
      | c # t \<Rightarrow>
          if c = CHR ''.'' \<and> takeWhile digit_char t \<noteq> []
          then (c # takeWhile digit_char t, dropWhile digit_char t)
          else ([], s))"

definition scan_exp :: "string \<Rightarrow> string \<times> string" where
  "scan_exp s =
     (case s of
        [] \<Rightarrow> ([], s)
      | c # t \<Rightarrow>
          if c = CHR ''e'' \<or> c = CHR ''E''
          then (let (sg, u) = (case t of [] \<Rightarrow> ([], t)
                               | d # u \<Rightarrow> if d = CHR ''-'' \<or> d = CHR ''+'' then ([d], u) else ([], t))
                in if takeWhile digit_char u \<noteq> []
                   then (c # sg @ takeWhile digit_char u, dropWhile digit_char u) else ([], s))
          else ([], s))"

definition int_digits :: "string \<Rightarrow> string" where
  "int_digits s = (if s \<noteq> [] \<and> hd s = CHR ''-'' then tl s else s)"

definition read_int :: "string \<Rightarrow> int" where
  "read_int s =
     (if s \<noteq> [] \<and> hd s = CHR ''-'' then - int (read_nat (tl s)) else int (read_nat s))"

definition scan_number :: "string \<Rightarrow> (json \<times> string) option" where
  "scan_number s =
     (case scan_int s of
        None \<Rightarrow> None
      | Some (i, r) \<Rightarrow>
          (let (f, r1) = scan_frac r; (e, r2) = scan_exp r1
           in if f @ e \<noteq> [] then Some (JFloat (i @ f @ e), r2)
              else if length (int_digits i) > 4300 then None
              else Some (JInt (read_int i), r2)))"

definition scan_const :: "string \<Rightarrow> (json \<times> string) option" where
  "scan_const s =
     (if startswith s ''null'' then Some (JNull, drop 4 s)
      else if startswith s ''true'' then Some (JBool True, drop 4 s)
      else if startswith s ''false'' then Some (JBool False, drop 5 s)
      else if startswith s ''NaN'' then Some (JFloat ''NaN'', drop 3 s)
      else if startswith s ''Infinity'' then Some (JFloat ''Infinity'', drop 8 s)
      else if startswith s ''-Infinity'' then Some (JFloat ''-Infinity'', drop 9 s)
      else None)"

definition scan_scalar :: "string \<Rightarrow> (json \<times> string) option" where
  "scan_scalar s = (case scan_number s of Some x \<Rightarrow> Some x | None \<Rightarrow> scan_const s)"

definition dict_of :: "(string \<times> 'v) list \<Rightarrow> 'v dict" where
  "dict_of kvs = foldl (\<lambda>d (k, v). dict_set d k v) [] kvs"


section \<open>Values\<close>

fun jvalue :: "nat \<Rightarrow> string \<Rightarrow> (json \<times> string) option"
  and jelems :: "nat \<Rightarrow> string \<Rightarrow> (json list \<times> string) option"
  and jmembers :: "nat \<Rightarrow> string \<Rightarrow> ((string \<times> json) list \<times> string) option"
where
  "jvalue 0 s = None"
| "jvalue (Suc n) s =
     (case s of
        [] \<Rightarrow> None
      | c # r \<Rightarrow>
          if c = CHR 0x22
          then (case scan_str r of None \<Rightarrow> None | Some (x, r1) \<Rightarrow> Some (JStr x, r1))
          else if c = CHR ''{''
          then (case skip_ws r of
                  [] \<Rightarrow> None
                | c1 # r1 \<Rightarrow>
                    if c1 = CHR ''}'' then Some (JObj [], r1)
                    else (case jmembers n (c1 # r1) of
                            None \<Rightarrow> None
                          | Some (kvs, r2) \<Rightarrow> Some (JObj (dict_of kvs), r2)))
          else if c = CHR ''[''
          then (case skip_ws r of
                  [] \<Rightarrow> None
                | c1 # r1 \<Rightarrow>
                    if c1 = CHR '']'' then Some (JList [], r1)
                    else (case jelems n (c1 # r1) of
                            None \<Rightarrow> None
                          | Some (vs, r2) \<Rightarrow> Some (JList vs, r2)))
          else scan_scalar s)"
| "jelems 0 s = None"
| "jelems (Suc n) s =
     (case jvalue n s of
        None \<Rightarrow> None
      | Some (v, r) \<Rightarrow>
          (case skip_ws r of
             [] \<Rightarrow> None
           | c # r1 \<Rightarrow>
               if c = CHR '']'' then Some ([v], r1)
               else if c = CHR '',''
               then (case jelems n (skip_ws r1) of
                       None \<Rightarrow> None | Some (vs, r2) \<Rightarrow> Some (v # vs, r2))
               else None))"
| "jmembers 0 s = None"
| "jmembers (Suc n) s =
     (case s of
        [] \<Rightarrow> None
      | q # r \<Rightarrow>
          if q \<noteq> CHR 0x22 then None
          else (case scan_str r of
                  None \<Rightarrow> None
                | Some (k, r1) \<Rightarrow>
                    (case skip_ws r1 of
                       [] \<Rightarrow> None
                     | c # r2 \<Rightarrow>
                         if c \<noteq> CHR '':'' then None
                         else (case jvalue n (skip_ws r2) of
                                 None \<Rightarrow> None
                               | Some (v, r3) \<Rightarrow>
                                   (case skip_ws r3 of
                                      [] \<Rightarrow> None
                                    | c3 # r4 \<Rightarrow>
                                        if c3 = CHR ''}'' then Some ([(k, v)], r4)
                                        else if c3 = CHR '',''
                                        then (case jmembers n (skip_ws r4) of
                                                None \<Rightarrow> None
                                              | Some (kvs, r5) \<Rightarrow> Some ((k, v) # kvs, r5))
                                        else None)))))"

definition loads :: "string \<Rightarrow> json option" where
  "loads s =
     (case jvalue (2 * length s + 1) (skip_ws s) of
        None \<Rightarrow> None
      | Some (v, r) \<Rightarrow> if skip_ws r = [] then Some v else None)"



section \<open>The reader consumes its input\<close>

lemma length_skip_ws: "length (skip_ws s) \<le> length s"
  by (simp add: skip_ws_def length_dropWhile_le)

lemma skip_ws_ConsD: "skip_ws s = c # r \<Longrightarrow> length r < length s"
  using length_skip_ws [of s] by simp

lemma scan_str_consumes: "scan_str s = Some (x, r) \<Longrightarrow> length r < length s"
proof (induction s arbitrary: x r rule: scan_str.induct)
  case (2 ch s)
  then show ?case
    by (fastforce simp: prepend_def split: if_splits list.splits option.splits)
qed simp

lemma scan_int_consumes: "scan_int s = Some (i, r) \<Longrightarrow> length r < length s"
  by (auto simp: scan_int_def Let_def le_imp_less_Suc length_dropWhile_le
      split: list.splits if_splits intro: order.strict_trans1 [OF length_dropWhile_le])

lemma scan_frac_le: "scan_frac s = (f, r) \<Longrightarrow> length r \<le> length s"
  by (auto simp: scan_frac_def length_dropWhile_le le_SucI split: list.splits if_splits)

lemma scan_exp_le: "scan_exp s = (e, r) \<Longrightarrow> length r \<le> length s"
  by (auto simp: scan_exp_def Let_def length_dropWhile_le le_SucI split: list.splits if_splits)

lemma scan_number_consumes: "scan_number s = Some (v, r) \<Longrightarrow> length r < length s"
  by (auto simp: scan_number_def Let_def split: option.splits prod.splits if_splits
      dest!: scan_int_consumes scan_frac_le scan_exp_le)

lemma scan_scalar_consumes: "scan_scalar s = Some (v, r) \<Longrightarrow> length r < length s"
  by (cases "s = []")
     (auto simp: scan_scalar_def scan_const_def startswith_def dest: scan_number_consumes
       split: option.splits if_splits)

lemma jelems_SucE:
  assumes "jelems (Suc n) s = Some (vs, r)"
  obtains (last) v r1 where "jvalue n s = Some (v, r1)" "skip_ws r1 = CHR '']'' # r" "vs = [v]"
  | (more) v r1 r2 ws where "jvalue n s = Some (v, r1)" "skip_ws r1 = CHR '','' # r2"
      "jelems n (skip_ws r2) = Some (ws, r)" "vs = v # ws"
proof -
  from assms obtain v r1 where v: "jvalue n s = Some (v, r1)"
    by (auto split: option.splits)
  with assms obtain c r2 where r1: "skip_ws r1 = c # r2"
    by (auto split: list.splits)
  show ?thesis
  proof (cases "c = CHR '']''")
    case True
    with assms v r1 last show ?thesis by simp
  next
    case False
    with assms v r1 show ?thesis by (auto split: if_splits option.splits intro: more)
  qed
qed

lemma jmembers_SucE:
  assumes "jmembers (Suc n) s = Some (kvs, r)"
  obtains (last) t k r1 r2 v r3 where "s = CHR 0x22 # t" "scan_str t = Some (k, r1)"
      "skip_ws r1 = CHR '':'' # r2" "jvalue n (skip_ws r2) = Some (v, r3)"
      "skip_ws r3 = CHR ''}'' # r" "kvs = [(k, v)]"
  | (more) t k r1 r2 v r3 r4 kws where "s = CHR 0x22 # t" "scan_str t = Some (k, r1)"
      "skip_ws r1 = CHR '':'' # r2" "jvalue n (skip_ws r2) = Some (v, r3)"
      "skip_ws r3 = CHR '','' # r4" "jmembers n (skip_ws r4) = Some (kws, r)" "kvs = (k, v) # kws"
proof -
  from assms obtain t where t: "s = CHR 0x22 # t"
    by (auto split: list.splits if_splits)
  with assms obtain k r1 where k: "scan_str t = Some (k, r1)"
    by (auto split: option.splits)
  with assms t obtain r2 where r2: "skip_ws r1 = CHR '':'' # r2"
    by (auto split: list.splits if_splits)
  with assms t k obtain v r3 where v: "jvalue n (skip_ws r2) = Some (v, r3)"
    by (auto split: option.splits)
  with assms t k r2 obtain c r4 where r4: "skip_ws r3 = c # r4"
    by (auto split: list.splits)
  show ?thesis
  proof (cases "c = CHR ''}''")
    case True
    with assms t k r2 v r4 last show ?thesis by simp
  next
    case False
    with assms t k r2 v r4 show ?thesis by (auto split: if_splits option.splits intro: more)
  qed
qed

lemma jvalue_SucE:
  assumes "jvalue (Suc n) s = Some (v, r)"
  obtains (str) t x where "s = CHR 0x22 # t" "scan_str t = Some (x, r)" "v = JStr x"
  | (obj0) t where "s = CHR ''{'' # t" "skip_ws t = CHR ''}'' # r" "v = JObj []"
  | (obj) t kvs c r1 where "s = CHR ''{'' # t" "jmembers n (skip_ws t) = Some (kvs, r)"
      "v = JObj (dict_of kvs)" "skip_ws t = c # r1" "c \<noteq> CHR ''}''"
  | (list0) t where "s = CHR ''['' # t" "skip_ws t = CHR '']'' # r" "v = JList []"
  | (list) t vs c r1 where "s = CHR ''['' # t" "jelems n (skip_ws t) = Some (vs, r)" "v = JList vs"
      "skip_ws t = c # r1" "c \<noteq> CHR '']''"
  | (scalar) c t where "scan_scalar s = Some (v, r)" "s = c # t"
      "c \<noteq> CHR 0x22" "c \<noteq> CHR ''{''" "c \<noteq> CHR ''[''"
proof -
  from assms obtain c t where s: "s = c # t"
    by (auto split: list.splits)
  consider "c = CHR 0x22" | "c = CHR ''{''" | "c = CHR ''[''"
    | "c \<noteq> CHR 0x22" "c \<noteq> CHR ''{''" "c \<noteq> CHR ''[''" by blast
  then show ?thesis
  proof cases
    case 1
    with assms s show ?thesis by (auto split: option.splits intro: str)
  next
    case 2
    with assms s obtain c1 r1 where t: "skip_ws t = c1 # r1" by (auto split: list.splits)
    with assms s 2 show ?thesis by (auto split: if_splits option.splits intro: obj obj0)
  next
    case 3
    with assms s obtain c1 r1 where t: "skip_ws t = c1 # r1" by (auto split: list.splits)
    with assms s 3 show ?thesis by (auto split: if_splits option.splits intro: list list0)
  next
    case 4
    with assms s show ?thesis by (auto intro: scalar)
  qed
qed

lemma reader_consumes:
  "jvalue n s = Some (v, r) \<Longrightarrow> length r < length s"
  "jelems n s = Some (vs, r) \<Longrightarrow> length r < length s"
  "jmembers n s = Some (kvs, r) \<Longrightarrow> length r < length s"
proof (induction n arbitrary: s v vs kvs r)
  case (Suc n)
  note skip = length_skip_ws [THEN [2] order.strict_trans2]
  {
    case 1
    then show ?case
      by (cases rule: jvalue_SucE)
         (auto dest!: Suc.IH scan_str_consumes scan_scalar_consumes skip_ws_ConsD skip
           simp: less_SucI)
  next
    case 2
    then show ?case
      by (cases rule: jelems_SucE) (auto dest!: Suc.IH skip_ws_ConsD skip)
  next
    case 3
    then show ?case
      by (cases rule: jmembers_SucE) (auto dest!: Suc.IH scan_str_consumes skip_ws_ConsD skip)
  }
qed simp_all

text \<open>
  Any fuel above twice the length of the input gives the same result, so running out of fuel
  never decides.
\<close>

lemma reader_fuel:
  "jvalue m s = Some (v, r) \<Longrightarrow> 2 * length s + 1 \<le> n \<Longrightarrow> jvalue n s = Some (v, r)"
  "jelems m s = Some (vs, r) \<Longrightarrow> 2 * length s + 2 \<le> n \<Longrightarrow> jelems n s = Some (vs, r)"
  "jmembers m s = Some (kvs, r) \<Longrightarrow> 2 * length s + 2 \<le> n \<Longrightarrow> jmembers n s = Some (kvs, r)"
proof (induction m arbitrary: s v vs kvs r n)
  case (Suc m)
  {
    case 1
    then obtain n' where n: "n = Suc n'" "2 * length s \<le> n'" by (cases n) auto
    from 1(1) show ?case
    proof (cases rule: jvalue_SucE)
      case (obj t kvs c r1)
      then have "2 * length (skip_ws t) + 2 \<le> n'" using n(2) length_skip_ws [of t] by simp
      from Suc.IH(3) [OF obj(2) this] obj n(1) show ?thesis
        by simp
    next
      case (list t vs c r1)
      then have "2 * length (skip_ws t) + 2 \<le> n'" using n(2) length_skip_ws [of t] by simp
      from Suc.IH(2) [OF list(2) this] list n(1) show ?thesis
        by simp
    next
      case (scalar c t)
      with n(1) show ?thesis by simp
    qed (use n in auto)
  next
    case 2
    then obtain n' where n: "n = Suc n'" "2 * length s + 1 \<le> n'" by (cases n) auto
    from 2(1) show ?case
    proof (cases rule: jelems_SucE)
      case (last v r1)
      then show ?thesis using Suc.IH(1) [OF last(1) n(2)] n by simp
    next
      case (more v r1 r2 ws)
      have "2 * length (skip_ws r2) + 2 \<le> n'"
        using n(2) length_skip_ws [of r2] skip_ws_ConsD [OF more(2)] reader_consumes(1) [OF more(1)]
        by simp
      then show ?thesis using Suc.IH(1) [OF more(1) n(2)] Suc.IH(2) [OF more(3)] more n by simp
    qed
  next
    case 3
    then obtain n' where n: "n = Suc n'" "2 * length s + 1 \<le> n'" by (cases n) auto
    from 3(1) show ?case
    proof (cases rule: jmembers_SucE)
      case (last t k r1 r2 v r3)
      then have "2 * length (skip_ws r2) + 1 \<le> n'"
        using n(2) length_skip_ws [of r2] skip_ws_ConsD [OF last(3)] scan_str_consumes [OF last(2)]
        by simp
      then show ?thesis using Suc.IH(1) [OF last(4)] last n by simp
    next
      case (more t k r1 r2 v r3 r4 kws)
      then have *: "2 * length (skip_ws r2) + 1 \<le> n'"
        using n(2) length_skip_ws [of r2] skip_ws_ConsD [OF more(3)] scan_str_consumes [OF more(2)]
        by simp
      then have "2 * length (skip_ws r4) + 2 \<le> n'"
        using length_skip_ws [of r4] skip_ws_ConsD [OF more(5)] reader_consumes(1) [OF more(4)]
        by simp
      then show ?thesis using Suc.IH(1) [OF more(4) *] Suc.IH(3) [OF more(6)] more n by simp
    qed
  }
qed simp_all

lemma jvalue_fuel:
  "2 * length s + 1 \<le> n \<Longrightarrow> 2 * length s + 1 \<le> m \<Longrightarrow> jvalue n s = jvalue m s"
  by (cases "jvalue n s"; cases "jvalue m s") (auto dest: reader_fuel(1))


section \<open>Reading back what was written\<close>

text \<open>
  What \<open>dumps\<close> writes of a value whose objects have distinct keys and whose integers stay
  below the digit limit is read back as the same value.
\<close>

fun json_ok :: "json \<Rightarrow> bool" where
  "json_ok (JInt i) = (length (show_nat (nat \<bar>i\<bar>)) \<le> 4300)"
| "json_ok (JFloat t) = False"
| "json_ok (JList xs) = list_all json_ok xs"
| "json_ok (JObj kvs) = (distinct (map fst kvs) \<and> list_all (\<lambda>(k, v). json_ok v) kvs)"
| "json_ok _ = True"

lemma less_16_cases: "(k::nat) < 16 \<Longrightarrow> k = 0 \<or> k = 1 \<or> k = 2 \<or> k = 3 \<or> k = 4 \<or> k = 5 \<or> k = 6
    \<or> k = 7 \<or> k = 8 \<or> k = 9 \<or> k = 10 \<or> k = 11 \<or> k = 12 \<or> k = 13 \<or> k = 14 \<or> k = 15"
  by presburger

lemma hex_value_digit: "k < 16 \<Longrightarrow> hex_value (''0123456789abcdef'' ! k) = Some k"
  by (drule less_16_cases) (elim disjE; simp add: hex_value_def)

lemma hex4_value_hex4:
  assumes "n < 256"
  shows "\<exists>a b c d. hex4 n = [a, b, c, d] \<and> hex4_value a b c d = Some n"
proof -
  have "n div 16 mod 16 * 16 + n mod 16 = n" using assms by simp
  with assms show ?thesis
    by (simp add: hex4_def hex4_value_def hex_value_digit hex_value_digit [of 0, simplified] Let_def power2_eq_square power3_eq_cube)
qed

lemma scan_str_esc: "scan_str (esc_char c @ s) = prepend c (scan_str s)"
proof -
  let ?n = "of_char c :: nat"
  obtain w x y z where h: "hex4 ?n = [w, x, y, z]" "hex4_value w x y z = Some ?n"
    using hex4_value_hex4 [of ?n] by auto
  have eqs: "?n = 34 \<longleftrightarrow> c = CHR 0x22" "?n = 92 \<longleftrightarrow> c = CHR 0x5C" "?n = 10 \<longleftrightarrow> c = CHR 0x0A"
    "?n = 13 \<longleftrightarrow> c = CHR 0x0D" "?n = 9 \<longleftrightarrow> c = CHR 0x09" "?n = 12 \<longleftrightarrow> c = CHR 0x0C"
    "?n = 8 \<longleftrightarrow> c = CHR 0x08"
    unfolding char_eq_nat by simp_all
  show ?thesis
  proof (cases "c \<in> {CHR 0x22, CHR 0x5C, CHR 0x0A, CHR 0x0D, CHR 0x09, CHR 0x0C, CHR 0x08}")
    case True
    then show ?thesis by (auto simp: esc_char_def unescape_def)
  next
    case False
    then have "esc_char c = (if 32 \<le> ?n \<and> ?n \<le> 126 then [c] else [CHR 0x5C, CHR ''u''] @ hex4 ?n)"
      unfolding esc_char_def Let_def eqs by simp
    with False h show ?thesis by auto
  qed
qed

lemma scan_str_escaped: "scan_str (concat (map esc_char s) @ CHR 0x22 # r) = Some (s, r)"
  by (induction s) (simp_all add: scan_str_esc prepend_def)

text \<open>A number ends where the separators and brackets of \<open>dumps\<close> follow.\<close>

definition ends_value :: "string \<Rightarrow> bool" where
  "ends_value r \<longleftrightarrow> r = [] \<or> hd r \<in> {CHR '','', CHR '']'', CHR ''}''}"

lemma ends_valueD:
  assumes "ends_value r"
  shows "takeWhile digit_char r = []" "dropWhile digit_char r = r"
    "scan_frac r = ([], r)" "scan_exp r = ([], r)"
  using assms by (cases r; auto simp: ends_value_def scan_frac_def scan_exp_def)+

lemma scan_int_show_nat:
  assumes "ends_value r"
  shows "scan_int (show_nat n @ r) = Some (show_nat n, r)"
    "scan_int (CHR ''-'' # show_nat n @ r) = Some (CHR ''-'' # show_nat n, r)"
proof -
  have digits: "\<And>c. c \<in> set (show_nat n) \<Longrightarrow> digit_char c"
    using show_nat_digits [of n] by (simp add: list_all_iff)
  obtain c t where ct: "show_nat n = c # t" by (cases "show_nat n") auto
  have c: "digit_char c" "c \<noteq> CHR ''-''"
    using digits [of c] ct by auto
  have t: "t = []" if "c = CHR ''0''"
  proof -
    have "n = 0" using show_nat_hd [of n] ct that by auto
    then show ?thesis using ct by (simp add: show_nat_small)
  qed
  have "takeWhile digit_char (show_nat n @ r) = show_nat n" "dropWhile digit_char (show_nat n @ r) = r"
    using digits ends_valueD [OF assms] by (simp_all add: takeWhile_append2 dropWhile_append2)
  then show "scan_int (show_nat n @ r) = Some (show_nat n, r)"
    "scan_int (CHR ''-'' # show_nat n @ r) = Some (CHR ''-'' # show_nat n, r)"
    using c t by (auto simp: scan_int_def ct Let_def simp del: digit_char.simps)
qed

lemma scan_number_show_int:
  assumes "ends_value r" "length (show_nat (nat \<bar>i\<bar>)) \<le> 4300"
  shows "scan_number (show_int i @ r) = Some (JInt i, r)"
proof -
  have "hd (show_nat (nat i)) \<noteq> CHR ''-''"
    using show_nat_digits [of "nat i"] by (cases "show_nat (nat i)") auto
  with assms show ?thesis
    by (cases "i < 0") (simp_all add: scan_number_def show_int_def scan_int_show_nat ends_valueD
        int_digits_def read_int_def)
qed

lemma skip_ws_space [simp]: "skip_ws (CHR '' '' # s) = skip_ws s"
  by (simp add: skip_ws_def json_space_def)

lemma skip_ws_id: "\<not> json_space c \<Longrightarrow> skip_ws (c # s) = c # s"
  by (simp add: skip_ws_def)

lemma show_int_hd: "\<exists>c t. show_int i = c # t \<and> (digit_char c \<or> c = CHR ''-'')"
  using show_nat_digits [of "nat i"]
  by (cases "show_nat (nat i)") (auto simp: show_int_def simp del: digit_char.simps)

lemma dumps_hd:
  assumes "json_ok j"
  shows "\<exists>c t. dumps j = c # t \<and> \<not> json_space c \<and> c \<noteq> CHR '']'' \<and> c \<noteq> CHR ''}''"
proof (cases j)
  case (JInt i)
  obtain c t where "show_int i = c # t" "digit_char c \<or> c = CHR ''-''"
    using show_int_hd by blast
  with JInt show ?thesis by (auto simp: json_space_def less_eq_char_def)
qed (use assms in \<open>auto simp: dumps_str_def json_space_def\<close>)

lemma skip_ws_dumps: "json_ok j \<Longrightarrow> skip_ws (dumps j @ r) = dumps j @ r"
  using dumps_hd [of j] by (auto simp: skip_ws_id)

definition reads :: "string \<Rightarrow> json \<Rightarrow> string \<Rightarrow> bool" where
  "reads s j r \<longleftrightarrow> jvalue (2 * length s + 1) s = Some (j, r)"

lemma readsI: "jvalue m s = Some (j, r) \<Longrightarrow> reads s j r"
  unfolding reads_def by (erule reader_fuel(1)) simp

lemma readsD: "reads s j r \<Longrightarrow> 2 * length s + 1 \<le> n \<Longrightarrow> jvalue n s = Some (j, r)"
  unfolding reads_def by (erule reader_fuel(1))

lemma jelems_last: "jvalue n s = Some (v, '']'' @ r) \<Longrightarrow> jelems (Suc n) s = Some ([v], r)"
  by (simp add: skip_ws_id json_space_def)

lemma jelems_more:
  "jvalue n s = Some (v, '', '' @ t) \<Longrightarrow> skip_ws t = t \<Longrightarrow> jelems n t = Some (vs, r) \<Longrightarrow>
     jelems (Suc n) s = Some (v # vs, r)"
  by (simp add: skip_ws_id json_space_def)

lemma jelems_dumps:
  assumes "\<And>x r. x \<in> set xs \<Longrightarrow> ends_value r \<Longrightarrow> reads (dumps x @ r) x r"
    and "list_all json_ok xs" and "xs \<noteq> []"
  shows "\<exists>m. jelems m (join '', '' (map dumps xs) @ '']'' @ r) = Some (xs, r)"
  using assms
proof (induction xs)
  case (Cons x xs)
  show ?case
  proof (cases "xs = []")
    case True
    have "reads (dumps x @ '']'' @ r) x ('']'' @ r)"
      using Cons.prems(1) by (simp add: ends_value_def)
    from jelems_last [OF readsD [OF this order_refl]] True show ?thesis
      by (simp del: jelems.simps jvalue.simps) blast
  next
    case False
    let ?rest = "join '', '' (map dumps xs) @ '']'' @ r"
    let ?s = "dumps x @ '', '' @ ?rest" and ?n = "2 * length (dumps x @ '', '' @ ?rest) + 2"
    obtain m where m: "jelems m ?rest = Some (xs, r)"
      using Cons False by auto
    obtain y ys where xs: "xs = y # ys" using False by (cases xs) auto
    have sp: "skip_ws ?rest = ?rest"
      using skip_ws_dumps [of y] Cons.prems(2) xs by (cases ys) simp_all
    have "reads ?s x ('', '' @ ?rest)"
      using Cons.prems(1) by (simp add: ends_value_def)
    then have v: "jvalue ?n ?s = Some (x, '', '' @ ?rest)" by (rule readsD) simp
    have e: "jelems ?n ?rest = Some (xs, r)" by (rule reader_fuel(2) [OF m]) simp
    show ?thesis using jelems_more [OF v sp e] False
      by (simp add: join_Cons del: jelems.simps jvalue.simps) blast
  qed
qed simp

lemma jmembers_last:
  "scan_str t = Some (k, '': '' @ u) \<Longrightarrow> skip_ws u = u \<Longrightarrow> jvalue n u = Some (v, ''}'' @ r) \<Longrightarrow>
     jmembers (Suc n) (CHR 0x22 # t) = Some ([(k, v)], r)"
  by (simp add: skip_ws_id json_space_def)

lemma jmembers_more:
  "scan_str t = Some (k, '': '' @ u) \<Longrightarrow> skip_ws u = u \<Longrightarrow> jvalue n u = Some (v, '', '' @ w) \<Longrightarrow>
     skip_ws w = w \<Longrightarrow> jmembers n w = Some (kvs, r) \<Longrightarrow>
     jmembers (Suc n) (CHR 0x22 # t) = Some ((k, v) # kvs, r)"
  by (simp add: skip_ws_id json_space_def)

definition dumps_member :: "string \<times> json \<Rightarrow> string" where
  "dumps_member kv = dumps_str (fst kv) @ '': '' @ dumps (snd kv)"

lemma dumps_JObj: "dumps (JObj kvs) = ''{'' @ join '', '' (map dumps_member kvs) @ ''}''"
  by (simp add: dumps_member_def [abs_def] case_prod_unfold)

lemma skip_ws_members:
  "kvs \<noteq> [] \<Longrightarrow> skip_ws (join '', '' (map dumps_member kvs) @ r) = join '', '' (map dumps_member kvs) @ r"
  by (cases kvs; cases "tl kvs") (simp_all add: dumps_member_def dumps_str_def skip_ws_id json_space_def)

lemma jmembers_dumps:
  assumes "\<And>k v r. (k, v) \<in> set kvs \<Longrightarrow> ends_value r \<Longrightarrow> reads (dumps v @ r) v r"
    and "list_all (\<lambda>(k, v). json_ok v) kvs" and "kvs \<noteq> []"
  shows "\<exists>m. jmembers m (join '', '' (map dumps_member kvs) @ ''}'' @ r) = Some (kvs, r)"
  using assms
proof (induction kvs)
  case (Cons kv kvs)
  obtain k v where kv: "kv = (k, v)" by fastforce
  have ok: "json_ok v" using Cons.prems(2) kv by simp
  have head: "dumps_member (k, v) @ s = CHR 0x22 # (concat (map esc_char k) @ CHR 0x22 # '': '' @ dumps v @ s)" for s
    by (simp add: dumps_member_def dumps_str_def)
  show ?case
  proof (cases "kvs = []")
    case True
    have "reads (dumps v @ ''}'' @ r) v (''}'' @ r)"
      by (rule Cons.prems(1) [of k]) (simp_all add: ends_value_def kv)
    from jmembers_last [OF scan_str_escaped skip_ws_dumps [OF ok] readsD [OF this order_refl]] True
    show ?thesis by (simp only: head list.map join.simps kv) blast
  next
    case False
    let ?rest = "join '', '' (map dumps_member kvs) @ ''}'' @ r"
    let ?s = "dumps v @ '', '' @ ?rest" and ?n = "2 * length (dumps v @ '', '' @ ?rest) + 2"
    obtain m where m: "jmembers m ?rest = Some (kvs, r)"
      using Cons False by auto
    have "reads ?s v ('', '' @ ?rest)"
      by (rule Cons.prems(1) [of k]) (simp_all add: ends_value_def kv)
    then have v: "jvalue ?n ?s = Some (v, '', '' @ ?rest)" by (rule readsD) simp
    have e: "jmembers ?n ?rest = Some (kvs, r)" by (rule reader_fuel(3) [OF m]) simp
    have "join '', '' (map dumps_member (kv # kvs)) @ ''}'' @ r = dumps_member kv @ '', '' @ ?rest"
      using False by (simp add: join_Cons)
    with jmembers_more [OF scan_str_escaped skip_ws_dumps [OF ok] v skip_ws_members [OF False] e] kv
    show ?thesis by (simp only: head kv) blast
  qed
qed simp

lemma dict_of_distinct: "distinct (map fst kvs) \<Longrightarrow> dict_of kvs = kvs"
proof (induction kvs rule: rev_induct)
  case (snoc kv kvs)
  then show ?case by (cases kv) (simp add: dict_of_def dict_set_new image_iff)
qed (simp add: dict_of_def)

lemma reads_scalar:
  "scan_scalar s = Some (v, r) \<Longrightarrow> s = c # t \<Longrightarrow> c \<noteq> CHR 0x22 \<Longrightarrow> c \<noteq> CHR ''{'' \<Longrightarrow> c \<noteq> CHR ''['' \<Longrightarrow>
     reads s v r"
  by (rule readsI [of 1]) simp

lemma reads_list:
  assumes "jelems m s = Some (xs, r)" "skip_ws s = s" "\<exists>c t. s = c # t \<and> c \<noteq> CHR '']''"
  shows "reads (''['' @ s) (JList xs) r"
  using assms by (intro readsI [of "Suc m"]) auto

lemma reads_obj:
  assumes "jmembers m s = Some (kvs, r)" "skip_ws s = s" "distinct (map fst kvs)"
  shows "reads (''{'' @ s) (JObj kvs) r"
proof -
  from assms(1) obtain t where "s = CHR 0x22 # t"
    by (cases m) (auto split: list.splits if_splits)
  with assms show ?thesis by (intro readsI [of "Suc m"]) (simp add: dict_of_distinct)
qed

lemma reads_dumps: "json_ok j \<Longrightarrow> ends_value r \<Longrightarrow> reads (dumps j @ r) j r"
proof (induction j arbitrary: r)
  case (JInt i)
  then have "scan_scalar (show_int i @ r) = Some (JInt i, r)"
    by (simp add: scan_scalar_def scan_number_show_int)
  moreover obtain c t where "show_int i = c # t" "digit_char c \<or> c = CHR ''-''"
    using show_int_hd by blast
  ultimately show ?case by (auto intro!: reads_scalar)
next
  case (JStr s)
  show ?case
    by (rule readsI [of 1]) (simp add: dumps_str_def scan_str_escaped)
next
  case (JList xs)
  show ?case
  proof (cases xs)
    case Nil
    then show ?thesis by (intro readsI [of 1]) (simp add: skip_ws_id json_space_def)
  next
    case (Cons y ys)
    have ok: "json_ok y" using JList.prems Cons by simp
    let ?s = "join '', '' (map dumps xs) @ '']'' @ r"
    obtain m where m: "jelems m ?s = Some (xs, r)"
      using jelems_dumps [of xs r] JList Cons by (auto simp: list_all_iff)
    have "\<exists>u. ?s = dumps y @ u" using Cons by (cases ys) auto
    then have "skip_ws ?s = ?s" "\<exists>c t. ?s = c # t \<and> c \<noteq> CHR '']''"
      using skip_ws_dumps [OF ok] dumps_hd [OF ok] by (metis, metis append_Cons)
    from reads_list [OF m this] show ?thesis by simp
  qed
next
  case (JObj kvs)
  show ?case
  proof (cases "kvs = []")
    case True
    then show ?thesis by (intro readsI [of 1]) (simp add: skip_ws_id json_space_def)
  next
    case False
    have "reads (dumps v @ r) v r" if "(k, v) \<in> set kvs" "ends_value r" for k v r
      using JObj.IH [OF that(1)] JObj.prems(1) that by (auto simp: list_all_iff)
    then obtain m where "jmembers m (join '', '' (map dumps_member kvs) @ ''}'' @ r) = Some (kvs, r)"
      using jmembers_dumps [of kvs r] JObj.prems False by auto
    from reads_obj [OF this skip_ws_members [OF False]] JObj.prems(1) show ?thesis
      unfolding dumps_JObj by simp
  qed
qed (auto intro!: reads_scalar simp: scan_scalar_def scan_number_def scan_int_def scan_const_def startswith_def)

lemma loads_dumps: "json_ok j \<Longrightarrow> loads (dumps j) = Some j"
  using reads_dumps [of j "[]"] skip_ws_dumps [of j "[]"]
  by (simp add: loads_def reads_def ends_value_def skip_ws_def)

end
