(* ===== verification/Py_Float.thy ===== *)
theory Py_Float
  imports Py_Json_Loads "HOL-Library.Log_Nat"
begin

text \<open>
  What Python makes of a JSON number with a fraction or an exponent: the double nearest to the
  decimal, ties to even, an infinity beyond the largest double. A finite double is its rational
  value (the sign of zero shows in no operation here). \<open>bool()\<close> and \<open>int()\<close> are all the clients
  apply to one.
\<close>

datatype dbl = Finite rat | Infinite bool | NotANumber

section \<open>Rounding\<close>

definition round_half_even :: "rat \<Rightarrow> int" where
  "round_half_even x =
     (let f = \<lfloor>x\<rfloor>; r = x - of_int f
      in if r < 1/2 \<or> r = 1/2 \<and> even f then f else f + 1)"

text \<open>A power of two, and the greatest one not above a positive number.\<close>

definition pow2 :: "int \<Rightarrow> rat" where
  "pow2 e = (if 0 \<le> e then 2 ^ nat e else 1 / 2 ^ nat (- e))"

definition exponent :: "rat \<Rightarrow> int" where
  "exponent q =
     (case quotient_of q of
        (n, d) \<Rightarrow> let e = bitlen n - bitlen d in if pow2 e \<le> q then e else e - 1)"

text \<open>53 bits of precision, down to the subnormal numbers.\<close>

definition dbl_of_rat :: "rat \<Rightarrow> dbl" where
  "dbl_of_rat q =
     (if q = 0 then Finite 0
      else let u = pow2 (max (exponent \<bar>q\<bar>) (- 1022) - 52);
               v = of_int (round_half_even (q / u)) * u
           in if \<bar>v\<bar> \<ge> 2 ^ 1024 then Infinite (q < 0) else Finite v)"


section \<open>Reading a numeral\<close>

definition pow10 :: "int \<Rightarrow> rat" where
  "pow10 e = (if 0 \<le> e then 10 ^ nat e else 1 / 10 ^ nat (- e))"

definition read_exponent :: "string \<Rightarrow> int" where
  "read_exponent e =
     (case e of
        [] \<Rightarrow> 0
      | _ # s \<Rightarrow> if s \<noteq> [] \<and> hd s = CHR ''+'' then read_int (tl s) else read_int s)"

definition decimal_value :: "string \<Rightarrow> rat" where
  "decimal_value t =
     (case scan_int t of
        None \<Rightarrow> 0
      | Some (i, r) \<Rightarrow>
          (let (f, r1) = scan_frac r; (e, r2) = scan_exp r1;
               ds = int_digits i @ tl f;
               m = (of_nat (read_nat ds) :: rat) * pow10 (read_exponent e - int (length (tl f)))
           in if i \<noteq> [] \<and> hd i = CHR ''-'' then - m else m))"

definition float_of_text :: "string \<Rightarrow> dbl" where
  "float_of_text t =
     (if t = ''NaN'' then NotANumber
      else if t = ''Infinity'' then Infinite False
      else if t = ''-Infinity'' then Infinite True
      else dbl_of_rat (decimal_value t))"


section \<open>What is done with it\<close>

definition float_true :: "string \<Rightarrow> bool" where
  "float_true t \<longleftrightarrow> float_of_text t \<noteq> Finite 0"

definition truncate_rat :: "rat \<Rightarrow> int" where
  "truncate_rat q = (if q < 0 then \<lceil>q\<rceil> else \<lfloor>q\<rfloor>)"

definition float_int :: "string \<Rightarrow> int res" where
  "float_int t =
     (case float_of_text t of
        Finite q \<Rightarrow> Inr (truncate_rat q)
      | Infinite _ \<Rightarrow> Inl (OverflowError ''cannot convert float infinity to integer'')
      | NotANumber \<Rightarrow> Inl (ValueError ''cannot convert float NaN to integer''))"


section \<open>Small integers are exact\<close>

lemma pow2_add: "pow2 (e + int n) = pow2 e * 2 ^ n"
proof (cases "0 \<le> e")
  case True
  then have "nat (e + int n) = nat e + n" by simp
  with True show ?thesis by (simp add: pow2_def power_add)
next
  case False
  show ?thesis
  proof (cases "0 \<le> e + int n")
    case True
    then have "n = nat (e + int n) + nat (- e)" using False by simp
    then have "(2 :: rat) ^ n = 2 ^ nat (e + int n) * 2 ^ nat (- e)" by (metis power_add)
    with False True show ?thesis by (simp add: pow2_def)
  next
    case neg: False
    then have "nat (- e) = nat (- (e + int n)) + n" using False by simp
    then have "(2 :: rat) ^ nat (- e) = 2 ^ nat (- (e + int n)) * 2 ^ n" by (metis power_add)
    with False neg show ?thesis by (simp add: pow2_def)
  qed
qed

lemma round_int [simp]: "round_half_even (of_int i) = i"
  by (simp add: round_half_even_def)

lemma pow2_pos: "0 < pow2 e"
  by (simp add: pow2_def)

lemma exponent_int:
  assumes "0 < i" and "i < 2 ^ 53"
  shows "exponent (of_int i) \<le> 52"
proof -
  have "bitlen i \<le> 53" using assms bitlen_le_iff_power [of i 53] by simp
  moreover have "quotient_of (of_int i :: rat) = (i, 1)" by (simp add: quotient_of_int [symmetric] of_int_rat [symmetric])
  moreover have "bitlen 1 = 1" by code_simp
  ultimately show ?thesis by (simp add: exponent_def Let_def)
qed

text \<open>A whole number of up to 53 bits is its own double.\<close>

lemma dbl_of_int:
  assumes "\<bar>i\<bar> < 2 ^ 53"
  shows "dbl_of_rat (of_int i) = Finite (of_int i)"
proof (cases "i = 0")
  case False
  define e where "e = max (exponent \<bar>of_int i :: rat\<bar>) (- 1022) - 52"
  have "exponent (of_int \<bar>i\<bar>) \<le> 52" by (rule exponent_int) (use False assms in simp_all)
  then have "e \<le> 0" by (simp add: e_def)
  then have "pow2 e * 2 ^ nat (- e) = 1" using pow2_add [of e "nat (- e)"] by (simp add: pow2_def)
  then have q: "(of_int i :: rat) / pow2 e = of_int (i * 2 ^ nat (- e))"
    using pow2_pos [of e] by (simp add: field_simps)
  then have "of_int (round_half_even (of_int i / pow2 e)) * pow2 e = (of_int i :: rat)"
    unfolding q round_int using \<open>pow2 e * 2 ^ nat (- e) = 1\<close> by (simp add: mult.commute)
  moreover have "\<bar>of_int i :: rat\<bar> < 2 ^ 1024"
  proof -
    have "\<bar>of_int i :: rat\<bar> < 2 ^ 53" using assms by (metis of_int_abs of_int_less_iff of_int_numeral of_int_power)
    also have "(2 :: rat) ^ 53 < 2 ^ 1024" by (rule power_strict_increasing) simp_all
    finally show ?thesis .
  qed
  ultimately show ?thesis using False by (simp add: dbl_of_rat_def e_def [symmetric] Let_def)
qed (simp add: dbl_of_rat_def)

end
