(* ===== verification/Py_Ip6.thy ===== *)
theory Py_Ip6
  imports Py_Ipaddress
begin

text \<open>
  The IPv6 half of Python's \<open>ipaddress.ip_interface\<close>, as the Kubernetes client uses it: parsing
  an address and a prefix length, clearing the host bits, and printing the network. An address
  is its list of eight hextets, with a scope identifier after a percent sign. \<open>None\<close> is one of
  the errors that \<open>ip_interface\<close> turns into \<open>ValueError\<close>. Printing follows Python 3.13 and later,
  the versions the project requires: an IPv4-mapped address ends in dotted decimals.
\<close>

section \<open>Hextets\<close>

fun hex_value :: "char \<Rightarrow> nat option" where
  "hex_value c =
     (if CHR ''0'' \<le> c \<and> c \<le> CHR ''9'' then Some (of_char c - 48)
      else if CHR ''a'' \<le> c \<and> c \<le> CHR ''f'' then Some (of_char c - 87)
      else if CHR ''A'' \<le> c \<and> c \<le> CHR ''F'' then Some (of_char c - 55)
      else None)"

definition hex_digit :: "nat \<Rightarrow> char" where
  "hex_digit n = char_of (if n < 10 then 48 + n else 87 + n)"

definition parse_hextet :: "string \<Rightarrow> nat option" where
  "parse_hextet s =
     (if s = [] \<or> list_ex (\<lambda>c. hex_value c = None) s \<or> length s > 4 then None
      else Some (foldl (\<lambda>n c. 16 * n + the (hex_value c)) 0 s))"

text \<open>\<open>'%x'\<close>\<close>

definition show_hextet :: "nat \<Rightarrow> string" where
  "show_hextet n =
     (let ds = [n div 4096 mod 16, n div 256 mod 16, n div 16 mod 16, n mod 16];
          sig = dropWhile (\<lambda>d. d = 0) ds
      in map hex_digit (if sig = [] then [0] else sig))"


section \<open>Addresses\<close>

text \<open>An IPv4 suffix becomes two hextets.\<close>

definition expand_suffix :: "string list \<Rightarrow> (string list) option" where
  "expand_suffix parts =
     (if CHR ''.'' \<in> set (last parts)
      then map_option
             (\<lambda>w. butlast parts @ [show_hextet (unat w div 65536), show_hextet (unat w mod 65536)])
             (IPv4Address (last parts))
      else Some parts)"

text \<open>The indices of the empty parts between the first and the last.\<close>

definition skips :: "string list \<Rightarrow> nat list" where
  "skips parts = filter (\<lambda>i. parts ! i = []) [1..<length parts - 1]"

definition parse_hextets :: "string list \<Rightarrow> (nat list) option" where
  "parse_hextets ps =
     (let hs = map parse_hextet ps
      in if None \<in> set hs then None else Some (map the hs))"

text \<open>The parts above and below the skipped run; an empty end is part of the run.\<close>

definition split_at_skip :: "nat \<Rightarrow> string list \<Rightarrow> (string list \<times> string list) option" where
  "split_at_skip k parts =
     (let hi = take k parts; lo = drop (Suc k) parts;
          hi' = (if hd parts = [] then tl hi else hi);
          lo' = (if last parts = [] then butlast lo else lo)
      in if hd parts = [] \<and> hi' \<noteq> [] then None
         else if last parts = [] \<and> lo' \<noteq> [] then None
         else Some (hi', lo'))"

definition ip6_from_string :: "string \<Rightarrow> (nat list) option" where
  "ip6_from_string s =
     (let parts0 = split_on CHR '':'' s
      in if s = [] \<or> length parts0 < 3 then None
         else (case expand_suffix parts0 of
             None \<Rightarrow> None
           | Some parts \<Rightarrow>
               if length parts > 9 then None
               else (case skips parts of
                   [] \<Rightarrow> if length parts \<noteq> 8 \<or> hd parts = [] \<or> last parts = [] then None
                         else parse_hextets parts
                 | [k] \<Rightarrow>
                     (case split_at_skip k parts of
                        None \<Rightarrow> None
                      | Some (hi, lo) \<Rightarrow>
                          if length hi + length lo > 7 then None
                          else (case (parse_hextets hi, parse_hextets lo) of
                              (Some h, Some l) \<Rightarrow> Some (h @ replicate (8 - (length h + length l)) 0 @ l)
                            | _ \<Rightarrow> None))
                 | _ \<Rightarrow> None)))"

text \<open>\<open>addr_str.partition('%')\<close>\<close>

definition split_scope_id :: "string \<Rightarrow> (string \<times> string option) option" where
  "split_scope_id s =
     (case split_on CHR ''%'' s of
        [a] \<Rightarrow> Some (a, None)
      | [a, sc] \<Rightarrow> if sc = [] then None else Some (a, Some sc)
      | _ \<Rightarrow> None)"

definition IPv6Address :: "string \<Rightarrow> (nat list \<times> string option) option" where
  "IPv6Address s =
     (if CHR ''/'' \<in> set s then None
      else (case split_scope_id s of
          None \<Rightarrow> None
        | Some (a, sc) \<Rightarrow> map_option (\<lambda>h. (h, sc)) (ip6_from_string a)))"


section \<open>Printing\<close>

text \<open>The longest run of zeros, the first of them if there are several: its start and length.\<close>

fun best_run :: "nat \<Rightarrow> nat \<Rightarrow> nat \<times> nat \<Rightarrow> nat list \<Rightarrow> nat \<times> nat" where
  "best_run i cur best [] = best"
| "best_run i cur best (h # hs) =
     (if h = 0
      then best_run (Suc i) (Suc cur)
             (if Suc cur > snd best then (Suc i - Suc cur, Suc cur) else best) hs
      else best_run (Suc i) 0 best hs)"

definition compress_hextets :: "nat list \<Rightarrow> string list" where
  "compress_hextets hs =
     (case best_run 0 0 (0, 0) hs of
        (start, len) \<Rightarrow>
          let ws = map show_hextet hs
          in if len > 1
             then (if start = 0 then [[]] else []) @ take start ws @ [[]] @ drop (start + len) ws
                  @ (if start + len = length hs then [[]] else [])
             else ws)"

definition hextets_str :: "nat list \<Rightarrow> string" where
  "hextets_str hs = join '':'' (compress_hextets hs)"

text \<open>\<open>IPv6Address.__str__\<close>\<close>

definition ip6_str :: "nat list \<times> string option \<Rightarrow> string" where
  "ip6_str a =
     (let hs = fst a;
          addr = (if take 6 hs = [0, 0, 0, 0, 0, 65535]
                  then hextets_str [0, 0, 0, 0, 0, 0, 0, 65535] @ '':''
                       @ ipv4_str (of_nat (hs ! 6 * 65536 + hs ! 7))
                  else hextets_str hs)
      in case snd a of None \<Rightarrow> addr | Some sc \<Rightarrow> addr @ ''%'' @ sc)"


section \<open>Networks\<close>

text \<open>The bits of a prefix length, hextet by hextet.\<close>

definition mask_hextet :: "nat \<Rightarrow> nat \<Rightarrow> nat" where
  "mask_hextet bits h = h - h mod 2 ^ (16 - min 16 bits)"

definition mask_hextets :: "nat \<Rightarrow> nat list \<Rightarrow> nat list" where
  "mask_hextets p hs = map (\<lambda>i. mask_hextet (p - 16 * i) (hs ! i)) [0..<length hs]"

definition prefix6 :: "string \<Rightarrow> nat option" where
  "prefix6 s =
     (if \<not> all_digits s \<or> length s > 4300 then None
      else if read_nat s \<le> 128 then Some (read_nat s) else None)"

text \<open>
  \<open>str(IPv6Interface(s).network)\<close>. An address without host bits is kept with its scope; clearing
  host bits makes a new address, which has none.
\<close>

definition ip6_network :: "string \<Rightarrow> string option" where
  "ip6_network s =
     (let network = (\<lambda>a p.
        map_option (\<lambda>(hs, sc).
          let ms = mask_hextets p hs
          in ip6_str (if ms = hs then (hs, sc) else (ms, None)) @ ''/'' @ show_nat p) (IPv6Address a))
      in case split_on CHR ''/'' s of
           [a] \<Rightarrow> network a 128
         | [a, m] \<Rightarrow> (case prefix6 m of None \<Rightarrow> None | Some p \<Rightarrow> network a p)
         | _ \<Rightarrow> None)"

end
