(* ===== verification/Py_Value.thy ===== *)
theory Py_Value
  imports Py_Float Py_Ip6 Manifest
begin

text \<open>
  What the Kubernetes and GCP clients do with the values \<open>json.loads\<close> gives them: attribute
  access, membership, iteration, truth, \<open>int()\<close>, \<open>sum()\<close> and \<open>str()\<close>, each with the exception
  Python raises for a value of the wrong type.

  Two things are parameters, collected in the record \<open>lib\<close>: the conversion pydantic applies
  to a field's value, and \<open>sum()\<close> over numbers of which one has a fraction or an exponent,
  which compensates for rounding in a way that differs between Python versions.
\<close>

section \<open>Parameters\<close>

record lib =
  float_sum :: "json list \<Rightarrow> json res"
  pd_str :: "json \<Rightarrow> string option"
  pd_int :: "json \<Rightarrow> int option"
  pd_bool :: "json \<Rightarrow> bool option"
  pd_yaml_str :: "yaml \<Rightarrow> string option"
  pd_yaml_vlan :: "yaml \<Rightarrow> (int + string) option"

text \<open>
  What pydantic documents of its conversions: a value of the field's own type is kept, and a
  \<open>str\<close> field takes nothing but strings.
\<close>

definition pydantic_documented :: "lib \<Rightarrow> bool" where
  "pydantic_documented L \<longleftrightarrow>
     (\<forall>j. pd_str L j = (case j of JStr s \<Rightarrow> Some s | _ \<Rightarrow> None)) \<and>
     (\<forall>i. pd_int L (JInt i) = Some i) \<and>
     (\<forall>b. pd_bool L (JBool b) = Some b) \<and>
     (\<forall>s. pd_yaml_str L (YStr s) = Some s) \<and>
     (\<forall>i. pd_yaml_vlan L (YInt i) = Some (Inl i)) \<and>
     (\<forall>s. pd_yaml_vlan L (YStr s) = Some (Inr s))"

text \<open>A field that does not convert makes the constructor raise \<open>ValidationError\<close>, a \<open>ValueError\<close>.\<close>

definition converted :: "'a option \<Rightarrow> 'a res" where
  "converted r = (case r of None \<Rightarrow> Inl (ValueError ''validation error'') | Some v \<Rightarrow> Inr v)"

definition str_field :: "lib \<Rightarrow> json \<Rightarrow> string res" where
  "str_field L j = converted (pd_str L j)"

definition opt_str_field :: "lib \<Rightarrow> json \<Rightarrow> (string option) res" where
  "opt_str_field L j =
     (case j of JNull \<Rightarrow> Inr None | _ \<Rightarrow> bind_res (str_field L j) (\<lambda>s. Inr (Some s)))"

definition opt_yaml_str :: "lib \<Rightarrow> yaml \<Rightarrow> (string option) res" where
  "opt_yaml_str L v =
     (if v = YNull then Inr None else bind_res (converted (pd_yaml_str L v)) (\<lambda>s. Inr (Some s)))"

definition int_field :: "lib \<Rightarrow> json \<Rightarrow> int res" where
  "int_field L j = converted (pd_int L j)"

definition bool_field :: "lib \<Rightarrow> json \<Rightarrow> bool res" where
  "bool_field L j = converted (pd_bool L j)"


section \<open>Access\<close>

fun type_name :: "json \<Rightarrow> string" where
  "type_name JNull = ''NoneType''"
| "type_name (JBool _) = ''bool''"
| "type_name (JInt _) = ''int''"
| "type_name (JFloat _) = ''float''"
| "type_name (JStr _) = ''str''"
| "type_name (JList _) = ''list''"
| "type_name (JObj _) = ''dict''"

definition no_attribute :: "json \<Rightarrow> string \<Rightarrow> exc" where
  "no_attribute j a =
     AttributeError (squote (type_name j) @ '' object has no attribute '' @ squote a)"

text \<open>\<open>j.get(k, d)\<close>\<close>

definition jget :: "json \<Rightarrow> string \<Rightarrow> json \<Rightarrow> json res" where
  "jget j k d =
     (case j of
        JObj kvs \<Rightarrow> Inr (case dict_get kvs k of Some v \<Rightarrow> v | None \<Rightarrow> d)
      | _ \<Rightarrow> Inl (no_attribute j ''get''))"

text \<open>\<open>for x in j\<close>\<close>

definition jiter :: "json \<Rightarrow> (json list) res" where
  "jiter j =
     (case j of
        JList xs \<Rightarrow> Inr xs
      | JObj kvs \<Rightarrow> Inr (map (\<lambda>kv. JStr (fst kv)) kvs)
      | JStr s \<Rightarrow> Inr (map (\<lambda>c. JStr [c]) s)
      | _ \<Rightarrow> Inl (TypeError (squote (type_name j) @ '' object is not iterable'')))"

text \<open>\<open>k in j\<close>\<close>

definition jin :: "string \<Rightarrow> json \<Rightarrow> bool res" where
  "jin k j =
     (case j of
        JObj kvs \<Rightarrow> Inr (dict_get kvs k \<noteq> None)
      | JList xs \<Rightarrow> Inr (JStr k \<in> set xs)
      | JStr s \<Rightarrow> Inr (contains k s)
      | _ \<Rightarrow> Inl (TypeError (''argument of type '' @ squote (type_name j) @ '' is not iterable'')))"

fun jtruthy :: "json \<Rightarrow> bool" where
  "jtruthy JNull = False"
| "jtruthy (JBool b) = b"
| "jtruthy (JInt i) = (i \<noteq> 0)"
| "jtruthy (JFloat t) = float_true t"
| "jtruthy (JStr s) = (s \<noteq> [])"
| "jtruthy (JList xs) = (xs \<noteq> [])"
| "jtruthy (JObj kvs) = (kvs \<noteq> [])"

text \<open>\<open>a or b\<close> for a \<open>b\<close> without effect\<close>

definition jor :: "json \<Rightarrow> json \<Rightarrow> json" where
  "jor a b = (if jtruthy a then a else b)"

text \<open>\<open>j[0]\<close> and \<open>j[:n]\<close>\<close>

definition jhead :: "json \<Rightarrow> json res" where
  "jhead j =
     (case j of
        JList xs \<Rightarrow> (case xs of [] \<Rightarrow> Inl (IndexError ''list index out of range'') | x # _ \<Rightarrow> Inr x)
      | JStr s \<Rightarrow> (case s of [] \<Rightarrow> Inl (IndexError ''string index out of range'') | c # _ \<Rightarrow> Inr (JStr [c]))
      | JObj _ \<Rightarrow> Inl (KeyError ''0'')
      | _ \<Rightarrow> Inl (TypeError (squote (type_name j) @ '' object is not subscriptable'')))"

definition jprefix :: "nat \<Rightarrow> json \<Rightarrow> json res" where
  "jprefix n j =
     (case j of
        JStr s \<Rightarrow> Inr (JStr (take n s))
      | JList xs \<Rightarrow> Inr (JList (take n xs))
      | JObj _ \<Rightarrow> Inl (KeyError ''slice'')
      | _ \<Rightarrow> Inl (TypeError (squote (type_name j) @ '' object is not subscriptable'')))"


section \<open>Numbers and text\<close>

text \<open>\<open>int(s)\<close> of a string: blanks around it, a sign, digits with single underscores between.\<close>

definition int_literal :: "string \<Rightarrow> int option" where
  "int_literal s =
     (let t = strip s;
          neg = (t \<noteq> [] \<and> hd t = CHR ''-'');
          body = (if t \<noteq> [] \<and> (hd t = CHR ''-'' \<or> hd t = CHR ''+'') then tl t else t);
          groups = split_on CHR ''_'' body;
          ds = concat groups
      in if list_all all_digits groups \<and> length ds \<le> 4300
         then Some (if neg then - int (read_nat ds) else int (read_nat ds)) else None)"

definition py_int :: "json \<Rightarrow> int res" where
  "py_int j =
     (case j of
        JInt i \<Rightarrow> Inr i
      | JBool b \<Rightarrow> Inr (if b then 1 else 0)
      | JFloat t \<Rightarrow> float_int t
      | JStr s \<Rightarrow> (case int_literal s of Some i \<Rightarrow> Inr i | None \<Rightarrow> Inl (ValueError ''invalid literal''))
      | _ \<Rightarrow> Inl (TypeError ''int() argument''))"

fun numeric :: "json \<Rightarrow> bool" where
  "numeric (JInt _) = True"
| "numeric (JBool _) = True"
| "numeric (JFloat _) = True"
| "numeric _ = False"

fun int_value :: "json \<Rightarrow> int option" where
  "int_value (JInt i) = Some i"
| "int_value (JBool b) = Some (if b then 1 else 0)"
| "int_value _ = None"

text \<open>\<open>sum(xs)\<close>: the numbers before the first value that cannot be added, then the error.\<close>

definition py_sum :: "lib \<Rightarrow> json list \<Rightarrow> json res" where
  "py_sum L xs =
     (let p = takeWhile numeric xs
      in bind_res
           (if list_all (\<lambda>x. int_value x \<noteq> None) p
            then Inr (JInt (sum_list (map (\<lambda>x. the (int_value x)) p)))
            else float_sum L p)
           (\<lambda>t. if length p = length xs then Inr t
                else Inl (TypeError ''unsupported operand type(s) for +'')))"

text \<open>
  \<open>str(j)\<close>. A float shows its literal here; the clients only use the text of one where any
  numeral leads to the same result.
\<close>

fun repr_json :: "json \<Rightarrow> string" where
  "repr_json JNull = ''None''"
| "repr_json (JBool b) = (if b then ''True'' else ''False'')"
| "repr_json (JInt i) = show_int i"
| "repr_json (JFloat t) = t"
| "repr_json (JStr s) = repr_str s"
| "repr_json (JList xs) = ''['' @ join '', '' (map repr_json xs) @ '']''"
| "repr_json (JObj kvs) =
     ''{'' @ join '', '' (map (\<lambda>(k, v). repr_str k @ '': '' @ repr_json v) kvs) @ ''}''"

definition str_json :: "json \<Rightarrow> string" where
  "str_json j = (case j of JStr s \<Rightarrow> s | _ \<Rightarrow> repr_json j)"

text \<open>\<open>str(ipaddress.ip_interface(s).network)\<close>; \<open>None\<close> is a \<open>ValueError\<close>.\<close>

definition interface_network :: "string \<Rightarrow> string option" where
  "interface_network s =
     (case IPv4Network s of Some nw \<Rightarrow> Some (network_str nw) | None \<Rightarrow> ip6_network s)"


section \<open>Sequences of fallible steps\<close>

text \<open>A list built item by item; the first exception ends it.\<close>

fun map_res :: "('a \<Rightarrow> 'b res) \<Rightarrow> 'a list \<Rightarrow> ('b list) res" where
  "map_res f [] = Inr []"
| "map_res f (x # xs) = bind_res (f x) (\<lambda>y. bind_res (map_res f xs) (\<lambda>ys. Inr (y # ys)))"

text \<open>
  A list that a loop appends to: what it holds when the loop ends, and the exception that
  ended the loop. A step may add nothing (\<open>continue\<close>).
\<close>

fun append_res :: "('a \<Rightarrow> ('b option) res) \<Rightarrow> 'a list \<Rightarrow> 'b list \<times> exc option" where
  "append_res f [] = ([], None)"
| "append_res f (x # xs) =
     (case f x of
        Inl e \<Rightarrow> ([], Some e)
      | Inr y \<Rightarrow>
          (let (ys, e) = append_res f xs in (case y of None \<Rightarrow> ys | Some v \<Rightarrow> v # ys, e)))"

text \<open>\<open>next((x for x in xs if p(x)), default)\<close> with a fallible test, as a loop with \<open>break\<close>.\<close>

fun find_res :: "('a \<Rightarrow> bool res) \<Rightarrow> 'a list \<Rightarrow> ('a option) res" where
  "find_res p [] = Inr None"
| "find_res p (x # xs) = bind_res (p x) (\<lambda>b. if b then Inr (Some x) else find_res p xs)"

text \<open>\<open>try: r except <caught>: d\<close>\<close>

definition except_res :: "(exc \<Rightarrow> bool) \<Rightarrow> 'a res \<Rightarrow> 'a res \<Rightarrow> 'a res" where
  "except_res caught r d = (case r of Inl e \<Rightarrow> if caught e then d else Inl e | Inr x \<Rightarrow> Inr x)"


section \<open>Lemmas\<close>

lemma map_res_Inr_iff: "map_res f xs = Inr ys \<longleftrightarrow> list_all2 (\<lambda>x y. f x = Inr y) xs ys"
proof (induction xs arbitrary: ys)
  case (Cons x xs)
  then show ?case by (cases ys) (auto simp: bind_res_eq_Inr)
qed auto

lemma map_res_length: "map_res f xs = Inr ys \<Longrightarrow> length ys = length xs"
  by (simp add: map_res_Inr_iff list_all2_lengthD)

lemma map_res_mem: "map_res f xs = Inr ys \<Longrightarrow> y \<in> set ys \<Longrightarrow> \<exists>x \<in> set xs. f x = Inr y"
  by (induction xs arbitrary: ys) (auto simp: bind_res_eq_Inr)

lemma map_res_all:
  assumes "map_res f xs = Inr ys" "\<And>x y. x \<in> set xs \<Longrightarrow> f x = Inr y \<Longrightarrow> P y"
  shows "list_all P ys"
  unfolding list_all_iff using assms(2) map_res_mem [OF assms(1)] by blast

lemma append_res_mem: "append_res f xs = (ys, e) \<Longrightarrow> y \<in> set ys \<Longrightarrow> \<exists>x \<in> set xs. f x = Inr (Some y)"
  by (induction xs arbitrary: ys e) (auto split: sum.splits option.splits prod.splits simp: Let_def)

lemma append_res_all:
  assumes "append_res f xs = (ys, e)" "\<And>x y. x \<in> set xs \<Longrightarrow> f x = Inr (Some y) \<Longrightarrow> P y"
  shows "list_all P ys"
  unfolding list_all_iff using assms(2) append_res_mem [OF assms(1)] by blast

lemma except_res_simps [simp]:
  "except_res c (Inr x) d = Inr x"
  "c e \<Longrightarrow> except_res c (Inl e) d = d"
  "\<not> c e \<Longrightarrow> except_res c (Inl e) d = Inl e"
  by (simp_all add: except_res_def)

lemma except_res_Inr: "except_res c r d = Inr y \<longleftrightarrow> r = Inr y \<or> (\<exists>e. r = Inl e \<and> c e \<and> d = Inr y)"
  by (cases r) (auto simp: except_res_def)

lemma jget_obj [simp]:
  "jget (JObj kvs) k d = Inr (case dict_get kvs k of Some v \<Rightarrow> v | None \<Rightarrow> d)"
  by (simp add: jget_def)

lemma jget_InrE:
  assumes "jget j k d = Inr v"
  obtains kvs where "j = JObj kvs" "v = (case dict_get kvs k of Some v \<Rightarrow> v | None \<Rightarrow> d)"
  using assms by (cases j) (auto simp: jget_def)

lemma documented_str_field:
  "pydantic_documented L \<Longrightarrow> str_field L j = Inr s \<longleftrightarrow> j = JStr s"
  by (cases j) (auto simp: pydantic_documented_def str_field_def converted_def)

lemma documented_fields [simp]:
  assumes "pydantic_documented L"
  shows "str_field L (JStr s) = Inr s" "opt_str_field L (JStr s) = Inr (Some s)"
    "int_field L (JInt i) = Inr i" "bool_field L (JBool b) = Inr b"
  using assms
  by (simp_all add: pydantic_documented_def str_field_def opt_str_field_def int_field_def
      bool_field_def converted_def)

end
