(* ===== verification/Client_Models.thy ===== *)
theory Client_Models
  imports Py_Value Requests
begin

text \<open>
  The models of \<open>api/gem_api/models/\<close> that the Kubernetes and GCP clients take and return:
  \<open>status.py\<close>, \<open>networks.py\<close>, \<open>vms.py\<close>, \<open>configsync.py\<close>, \<open>pods.py\<close>, \<open>projects.py\<close> and the cluster
  listing of \<open>clusters.py\<close>. Where a constructor is applied to values read from JSON, the
  \<open>make_\<close> function converts the fields as pydantic does; the request bodies are built from
  what was sent, omitted fields taking their defaults.
\<close>

section \<open>Status\<close>

record NodeStatusItem =
  ns_name :: string
  ns_status :: string
  ns_role :: string
  ns_ip :: string
  ns_cpu_usage :: string
  ns_cpu_percent :: int
  ns_mem_usage :: string
  ns_mem_percent :: int

record ClusterMetrics =
  total_cpu :: string
  used_cpu :: string
  total_mem :: string
  used_mem :: string
  storage_allocated :: string

record ClusterStatusResponse =
  connected :: bool
  cs_cluster_name :: string
  cs_mode :: string
  cs_nodes :: "NodeStatusItem list"
  cs_metrics :: "ClusterMetrics option"


section \<open>Secondary networks\<close>

text \<open>The VLAN identifier is \<open>int | str\<close>.\<close>

record SecondaryNetworkItem =
  sn_name :: string
  sn_vlan_id :: "int + string"
  sn_subnet :: string
  sn_gateway :: "string option"
  sn_vip_pool :: "string option"
  sn_purpose :: "string option"
  sn_interface_name :: "string option"
  sn_status :: string

definition make_SecondaryNetworkItem ::
    "lib \<Rightarrow> json \<Rightarrow> int \<Rightarrow> json \<Rightarrow> json \<Rightarrow> json \<Rightarrow> SecondaryNetworkItem res" where
  "make_SecondaryNetworkItem L nm vlan sub gw vip =
     bind_res (str_field L nm) (\<lambda>nm'.
     bind_res (str_field L sub) (\<lambda>sub'.
     bind_res (opt_str_field L gw) (\<lambda>gw'.
     bind_res (opt_str_field L vip) (\<lambda>vip'.
       Inr \<lparr>sn_name = nm', sn_vlan_id = Inl vlan, sn_subnet = sub', sn_gateway = gw',
            sn_vip_pool = vip', sn_purpose = Some ''Secondary VLAN Overlay'',
            sn_interface_name = Some (''gdcenet0.'' @ show_int vlan), sn_status = ''Active''\<rparr>))))"


section \<open>Virtual machines\<close>

record VirtualMachineItem =
  vmi_name :: string
  vmi_namespace :: string
  vmi_status :: string
  vmi_cpus :: int
  vmi_memory :: string
  vmi_ip :: "string option"
  vmi_image :: string
  vmi_uptime :: "string option"
  vmi_power_state :: string

datatype image_type = Preset | CustomUrl

record VirtualMachineDeployRequest =
  vmd_name :: string
  vmd_namespace :: string
  vmd_cpus :: int
  vmd_memory :: string
  vmd_image :: string
  vmd_image_type :: image_type

record vm_deploy_raw =
  raw_vmd_name :: "string option"
  raw_vmd_namespace :: "string option"
  raw_vmd_cpus :: "int option"
  raw_vmd_memory :: "string option"
  raw_vmd_image :: "string option"
  raw_vmd_image_type :: "string option"

definition field_required :: exc where
  "field_required = ValueError ''Field required''"

definition check_image_type :: "string option \<Rightarrow> image_type res" where
  "check_image_type v =
     (case v of
        None \<Rightarrow> Inr Preset
      | Some t \<Rightarrow>
          if t = ''preset'' then Inr Preset
          else if t = ''custom-url'' then Inr CustomUrl
          else Inl (ValueError (''Input should be '' @ squote ''preset'' @ '' or '' @ squote ''custom-url'')))"

definition make_VirtualMachineDeployRequest ::
    "vm_deploy_raw \<Rightarrow> exc list + VirtualMachineDeployRequest" where
  "make_VirtualMachineDeployRequest raw =
     (let nm = field (raw_vmd_name raw) (Inl field_required) Inr;
          cpu = field (raw_vmd_cpus raw) (Inr 2) (check_range 1 128);
          img = field (raw_vmd_image raw) (Inl field_required) Inr;
          ty = check_image_type (raw_vmd_image_type raw);
          errs = errors_of nm @ errors_of cpu @ errors_of img @ errors_of ty
      in if errs \<noteq> [] then Inl errs
         else Inr \<lparr>vmd_name = value_or [] nm,
                   vmd_namespace =
                     (case raw_vmd_namespace raw of None \<Rightarrow> ''default'' | Some v \<Rightarrow> v),
                   vmd_cpus = value_or 2 cpu,
                   vmd_memory = (case raw_vmd_memory raw of None \<Rightarrow> ''4Gi'' | Some v \<Rightarrow> v),
                   vmd_image = value_or [] img,
                   vmd_image_type = value_or Preset ty\<rparr>)"

record VirtualMachinePowerRequest =
  vmp_namespace :: string
  vmp_running :: bool

record vm_power_raw =
  raw_vmp_namespace :: "string option"
  raw_vmp_running :: "bool option"

definition make_VirtualMachinePowerRequest ::
    "vm_power_raw \<Rightarrow> exc list + VirtualMachinePowerRequest" where
  "make_VirtualMachinePowerRequest raw =
     (case raw_vmp_running raw of
        None \<Rightarrow> Inl [field_required]
      | Some b \<Rightarrow>
          Inr \<lparr>vmp_namespace = (case raw_vmp_namespace raw of None \<Rightarrow> ''default'' | Some v \<Rightarrow> v),
               vmp_running = b\<rparr>)"

record VirtualMachinePowerResponse =
  vpr_success :: bool
  vpr_vm_name :: string
  vpr_power_state :: string
  vpr_message :: string

record GenericActionResponse =
  ga_success :: bool
  ga_message :: string


section \<open>Config Sync\<close>

record RootSyncItem =
  rs_name :: string
  rs_namespace :: string
  rs_repo :: string
  rs_branch :: string
  rs_dir :: string
  rs_auth :: string
  rs_period :: string
  rs_status :: string
  rs_commit :: string
  rs_last_synced :: string
  rs_message :: string

definition make_RootSyncItem ::
    "lib \<Rightarrow> json \<Rightarrow> json \<Rightarrow> json \<Rightarrow> json \<Rightarrow> json \<Rightarrow> json \<Rightarrow> json \<Rightarrow> json \<Rightarrow> json \<Rightarrow> json \<Rightarrow> RootSyncItem res" where
  "make_RootSyncItem L nm nsp rep br di au pe st co ls =
     bind_res (str_field L nm) (\<lambda>nm'. bind_res (str_field L nsp) (\<lambda>nsp'.
     bind_res (str_field L rep) (\<lambda>rep'. bind_res (str_field L br) (\<lambda>br'.
     bind_res (str_field L di) (\<lambda>di'. bind_res (str_field L au) (\<lambda>au'.
     bind_res (str_field L pe) (\<lambda>pe'. bind_res (str_field L st) (\<lambda>st'.
     bind_res (str_field L co) (\<lambda>co'. bind_res (str_field L ls) (\<lambda>ls'.
       Inr \<lparr>rs_name = nm', rs_namespace = nsp', rs_repo = rep', rs_branch = br', rs_dir = di',
            rs_auth = au', rs_period = pe', rs_status = st', rs_commit = co', rs_last_synced = ls',
            rs_message = ''RootSync status retrieved from cluster.''\<rparr>))))))))))"


section \<open>Pods\<close>

record ContainerStatusItem =
  ct_name :: string
  ct_image :: string
  ct_ready :: bool
  ct_state :: string

record PodItem =
  pi_name :: string
  pi_namespace :: string
  pi_status :: string
  pi_ready :: string
  pi_restarts :: int
  pi_age :: "string option"
  pi_ip :: "string option"
  pi_node_name :: "string option"
  pi_containers :: "ContainerStatusItem list"

record PodCreateRequest =
  pcr_name :: string
  pcr_namespace :: string
  pcr_image :: string
  pcr_command :: "(string list) option"
  pcr_port :: "int option"
  pcr_env :: "(string dict) option"
  pcr_labels :: "(string dict) option"
  pcr_annotations :: "(string dict) option"
  pcr_raw_manifest :: "string option"

record pod_create_raw =
  raw_pcr_name :: "string option"
  raw_pcr_namespace :: "string option"
  raw_pcr_image :: "string option"
  raw_pcr_command :: "(string list) option"
  raw_pcr_port :: "int option"
  raw_pcr_env :: "(string dict) option"
  raw_pcr_labels :: "(string dict) option"
  raw_pcr_annotations :: "(string dict) option"
  raw_pcr_raw_manifest :: "string option"

definition make_PodCreateRequest :: "pod_create_raw \<Rightarrow> exc list + PodCreateRequest" where
  "make_PodCreateRequest raw =
     (let nm = field (raw_pcr_name raw) (Inl field_required) Inr;
          img = field (raw_pcr_image raw) (Inl field_required) Inr;
          errs = errors_of nm @ errors_of img
      in if errs \<noteq> [] then Inl errs
         else Inr \<lparr>pcr_name = value_or [] nm,
                   pcr_namespace =
                     (case raw_pcr_namespace raw of None \<Rightarrow> ''default'' | Some v \<Rightarrow> v),
                   pcr_image = value_or [] img, pcr_command = raw_pcr_command raw,
                   pcr_port = raw_pcr_port raw, pcr_env = raw_pcr_env raw,
                   pcr_labels = raw_pcr_labels raw, pcr_annotations = raw_pcr_annotations raw,
                   pcr_raw_manifest = raw_pcr_raw_manifest raw\<rparr>)"

record PodActionResponse =
  pa_success :: bool
  pa_pod_name :: string
  pa_namespace :: string
  pa_message :: string

definition make_ContainerStatusItem ::
    "lib \<Rightarrow> json \<Rightarrow> json \<Rightarrow> json \<Rightarrow> string \<Rightarrow> ContainerStatusItem res" where
  "make_ContainerStatusItem L nm img rdy st =
     bind_res (str_field L nm) (\<lambda>nm'.
     bind_res (str_field L img) (\<lambda>img'.
     bind_res (bool_field L rdy) (\<lambda>rdy'.
       Inr \<lparr>ct_name = nm', ct_image = img', ct_ready = rdy', ct_state = st\<rparr>)))"


section \<open>Projects and clusters\<close>

record ProjectItem =
  pr_project_id :: string
  pr_name :: string

record ClusterInfo =
  ci_name :: string
  ci_location :: string
  ci_master_version :: string
  ci_status :: string
  ci_node_count :: int
  ci_endpoint :: "string option"
  ci_create_time :: "string option"
  ci_hardware_variant :: "string option"
  ci_gdc_version :: "string option"
  ci_emulate_gdc_version :: "string option"
  ci_project_id :: "string option"

record ClusterListResponse =
  cl_clusters :: "ClusterInfo list"
  cl_total :: nat

end
