(* ===== verification/Process.thy ===== *)
theory Process
  imports Gem_Prelude
begin

text \<open>
  \<open>api/gem_api/services/process.py\<close>: waiting for a child process under a timeout and killing it
  when the timeout expires. The child is a parameter: a record of how it answers each of
  the three calls made on it. \<open>asyncio.wait_for\<close> raises \<open>TimeoutError\<close> when the awaited call
  is not done in time, which is one of the answers.
\<close>

record child =
  on_communicate :: "nat \<Rightarrow> string option \<Rightarrow> (string \<times> string) res"
  on_kill :: "unit res"
  on_wait :: "nat \<Rightarrow> unit res"
  returncode :: "int option"

text \<open>What is done to processes, in order; timeouts are in seconds.\<close>

datatype proc_event =
    Spawn "string list" bool
  | Communicate nat "string option"
  | Kill
  | Wait nat

definition REAP_TIMEOUT :: nat where
  "REAP_TIMEOUT = 5"

fun is_lookup_error :: "exc \<Rightarrow> bool" where
  "is_lookup_error (ProcessLookupError _) = True"
| "is_lookup_error _ = False"

text \<open>\<open>contextlib.suppress\<close>\<close>

definition suppress :: "(exc \<Rightarrow> bool) \<Rightarrow> unit res \<Rightarrow> unit res" where
  "suppress p r = (case r of Inl e \<Rightarrow> if p e then Inr () else Inl e | Inr u \<Rightarrow> Inr u)"

definition communicate_or_kill ::
    "child \<Rightarrow> nat \<Rightarrow> string option \<Rightarrow> proc_event list \<times> (string \<times> string) res" where
  "communicate_or_kill proc timeout input_bytes =
     (case on_communicate proc timeout input_bytes of
        Inr out \<Rightarrow> ([Communicate timeout input_bytes], Inr out)
      | Inl e \<Rightarrow>
          if e \<noteq> TimeoutError then ([Communicate timeout input_bytes], Inl e)
          else (case suppress is_lookup_error (on_kill proc) of
                  Inl k \<Rightarrow> ([Communicate timeout input_bytes, Kill], Inl k)
                | Inr _ \<Rightarrow>
                    ([Communicate timeout input_bytes, Kill, Wait REAP_TIMEOUT],
                     case suppress (\<lambda>w. w = TimeoutError) (on_wait proc REAP_TIMEOUT) of
                       Inl w \<Rightarrow> Inl w
                     | Inr _ \<Rightarrow> Inl TimeoutError)))"

text \<open>The subclasses of \<open>OSError\<close> among the modelled exceptions.\<close>

fun is_OSError :: "exc \<Rightarrow> bool" where
  "is_OSError (OSError _) = True"
| "is_OSError TimeoutError = True"
| "is_OSError (ProcessLookupError _) = True"
| "is_OSError _ = False"

fun is_ValueError :: "exc \<Rightarrow> bool" where
  "is_ValueError (ValueError _) = True"
| "is_ValueError _ = False"

end
