(* ===== verification/Gcp_Client.thy ===== *)
theory Gcp_Client
  imports Client_Models Process
begin

text \<open>
  \<open>api/gem_api/services/gcp_client.py\<close>: the projects and the fleet clusters that \<open>gcloud\<close> lists.
  The environment is a record: the binary's presence, how a started command behaves, strict
  UTF-8 decoding (an error is a \<open>ValueError\<close>), the group variables and the settings. As in the
  Kubernetes client an operation returns what it did to processes and its result.
\<close>

section \<open>Fleet states\<close>

text \<open>
  \<open>str.upper\<close>; the two characters below 256 whose capital lies above stay as they are, which
  no key of the table below can tell.
\<close>

definition upper_char :: "char \<Rightarrow> string" where
  "upper_char c =
     (let n = (of_char c :: nat)
      in if 97 \<le> n \<and> n \<le> 122 \<or> 224 \<le> n \<and> n \<le> 254 \<and> n \<noteq> 247 then [char_of (n - 32)]
         else if n = 223 then ''SS''
         else [c])"

definition upper :: "string \<Rightarrow> string" where
  "upper s = concat (map upper_char s)"

definition FLEET_STATUS_MAP :: "string dict" where
  "FLEET_STATUS_MAP =
     [(''READY'', ''RUNNING''), (''OK'', ''RUNNING''), (''RUNNING'', ''RUNNING''),
      (''CREATING'', ''PROVISIONING''), (''UPDATING'', ''PROVISIONING''),
      (''RECONCILING'', ''PROVISIONING''), (''PROVISIONING'', ''PROVISIONING''),
      (''DEGRADED'', ''DEGRADED''), (''SERVICE_DEGRADED'', ''DEGRADED''),
      (''DELETING'', ''STOPPED''), (''STOPPING'', ''STOPPED''), (''STOPPED'', ''STOPPED'')]"

definition map_fleet_status :: "string \<Rightarrow> string" where
  "map_fleet_status state_code =
     (case dict_get FLEET_STATUS_MAP (upper state_code) of Some s \<Rightarrow> s | None \<Rightarrow> ''ERROR'')"


section \<open>Running gcloud\<close>

record gcp =
  gcp_lib :: lib
  gcp_which :: bool
  gcp_spawn :: "string list \<Rightarrow> child res"
  gcp_decode :: "string \<Rightarrow> string res"
  gcp_gv :: group_vars
  gcp_cfg :: Settings

fun gcp_caught :: "exc \<Rightarrow> bool" where
  "gcp_caught (ValueError _) = True"
| "gcp_caught (KeyError _) = True"
| "gcp_caught e = is_OSError e"

text \<open>The decoded JSON of a command that returned zero with some output.\<close>

definition gcloud_json ::
    "gcp \<Rightarrow> string list \<Rightarrow> nat \<Rightarrow> proc_event list \<times> (json option) res" where
  "gcloud_json G cmd timeout =
     (case gcp_spawn G cmd of
        Inl e \<Rightarrow> ([], Inl e)
      | Inr proc \<Rightarrow>
          (let (evs, r) = communicate_or_kill proc timeout None
           in (Spawn cmd False # evs,
               bind_res r (\<lambda>(out, err).
                 if returncode proc = Some 0 \<and> out \<noteq> []
                 then bind_res (gcp_decode G out) (\<lambda>text.
                        case loads text of
                          None \<Rightarrow> Inl (ValueError ''JSONDecodeError'')
                        | Some data \<Rightarrow> Inr (Some data))
                 else Inr None))))"


section \<open>Projects\<close>

definition project_item :: "lib \<Rightarrow> json \<Rightarrow> (ProjectItem option) res" where
  "project_item L p =
     bind_res (jget p ''projectId'' JNull) (\<lambda>pid.
       if \<not> jtruthy pid then Inr None
       else bind_res (jget p ''name'' pid) (\<lambda>nm.
            bind_res (str_field L pid) (\<lambda>pid'.
            bind_res (str_field L nm) (\<lambda>nm'.
              Inr (Some \<lparr>pr_project_id = pid', pr_name = nm'\<rparr>)))))"

definition read_projects :: "lib \<Rightarrow> json \<Rightarrow> (ProjectItem list) res" where
  "read_projects L data =
     bind_res (jiter data) (\<lambda>ps.
       case append_res (project_item L) ps of
         (projects, None) \<Rightarrow> Inr projects
       | (_, Some e) \<Rightarrow> Inl e)"

definition list_projects :: "gcp \<Rightarrow> int \<Rightarrow> proc_event list \<times> (ProjectItem list) res" where
  "list_projects G limit =
     (if \<not> gcp_which G then ([], Inr [])
      else let (evs, r) = gcloud_json G
                 [''gcloud'', ''projects'', ''list'', ''--limit='' @ show_int limit, ''--format=json''] 5
           in (evs,
               except_res gcp_caught
                 (bind_res r (\<lambda>d. case d of None \<Rightarrow> Inr [] | Some data \<Rightarrow> read_projects (gcp_lib G) data))
                 (Inr [])))"


section \<open>Clusters\<close>

definition membership_name :: "json \<Rightarrow> string res" where
  "membership_name m =
     bind_res (jget m ''name'' (JStr [])) (\<lambda>n.
       case n of JStr s \<Rightarrow> Inr (last (split_on CHR ''/'' s)) | _ \<Rightarrow> Inl (no_attribute n ''split''))"

definition membership_item ::
    "lib \<Rightarrow> string \<Rightarrow> string \<Rightarrow> yaml \<Rightarrow> string \<Rightarrow> json \<Rightarrow> ((string \<times> ClusterInfo) option) res" where
  "membership_item L pid dzone default_gdc default_hw m =
     bind_res (membership_name m) (\<lambda>raw_name.
       if raw_name = [] then Inr None
       else
         bind_res (jget m ''monitoringConfig'' (JObj [])) (\<lambda>mc.
         bind_res (jget mc ''location'' JNull) (\<lambda>lc.
         bind_res (jget m ''endpoint'' (JObj [])) (\<lambda>ep.
         bind_res (jget ep ''kubernetesMetadata'' (JObj [])) (\<lambda>k8s_meta.
         bind_res (jget k8s_meta ''kubernetesApiServerVersion'' (JStr ''1.34.100-gke.97'')) (\<lambda>version.
         bind_res (jget k8s_meta ''nodeCount'' (JInt 3)) (\<lambda>node_count.
         bind_res (jget m ''state'' (JObj [])) (\<lambda>st.
         bind_res (jget st ''code'' (JStr ''READY'')) (\<lambda>code.
           let status = map_fleet_status (str_json code)
           in if status \<noteq> ''RUNNING'' then Inr None
              else
                bind_res (jget m ''createTime'' JNull) (\<lambda>ct.
                bind_res (str_field L (jor lc (JStr dzone))) (\<lambda>loc'.
                bind_res (str_field L version) (\<lambda>version'.
                bind_res (int_field L node_count) (\<lambda>count'.
                bind_res (opt_str_field L ct) (\<lambda>ct'.
                bind_res (opt_yaml_str L default_gdc) (\<lambda>gdc'.
                  Inr (Some (raw_name,
                    \<lparr>ci_name = raw_name, ci_location = loc', ci_master_version = version',
                     ci_status = status, ci_node_count = count', ci_endpoint = None,
                     ci_create_time = ct', ci_hardware_variant = Some default_hw,
                     ci_gdc_version = None, ci_emulate_gdc_version = gdc',
                     ci_project_id = Some pid\<rparr>)))))))))))))))))"

text \<open>
  The memberships read into the dictionary, and the exception that ended the loop: what was
  stored before it stays.
\<close>

definition read_memberships ::
    "(json \<Rightarrow> ((string \<times> ClusterInfo) option) res) \<Rightarrow> json \<Rightarrow> ClusterInfo dict \<times> exc option" where
  "read_memberships f data =
     (case jiter data of
        Inl e \<Rightarrow> ([], Some e)
      | Inr ms \<Rightarrow> (let (kvs, e) = append_res f ms in (dict_of kvs, e)))"

definition list_clusters ::
    "gcp \<Rightarrow> string option \<Rightarrow> proc_event list \<times> ClusterListResponse res" where
  "list_clusters G project_id' =
     (let pid = str_or project_id' (default_project_id (gcp_cfg G));
          dzone = default_zone (gcp_cfg G);
          reply = (\<lambda>m. Inr \<lparr>cl_clusters = map snd m, cl_total = length (map snd m)\<rparr>)
      in case (get_default_hardware_variant (gcp_gv G), get_default_gdc_version (gcp_gv G)) of
           (Inl e, _) \<Rightarrow> ([], Inl e)
         | (Inr _, Inl e) \<Rightarrow> ([], Inl e)
         | (Inr default_hw, Inr default_gdc) \<Rightarrow>
             if \<not> gcp_which G then ([], reply [])
             else let (evs, r) = gcloud_json G
                        [''gcloud'', ''container'', ''fleet'', ''memberships'', ''list'',
                         ''--project='' @ pid, ''--format=json''] 8;
                      (m, failed) =
                        (case r of
                           Inl e \<Rightarrow> ([], Some e)
                         | Inr None \<Rightarrow> ([], None)
                         | Inr (Some data) \<Rightarrow>
                             read_memberships
                               (membership_item (gcp_lib G) pid dzone default_gdc default_hw) data)
                  in (evs,
                      case failed of
                        None \<Rightarrow> reply m
                      | Some e \<Rightarrow> if gcp_caught e then reply m else Inl e))"

end
