(* ===== verification/K8s_Client.thy ===== *)
theory K8s_Client
  imports Client_Models Process
begin

text \<open>
  \<open>api/gem_api/services/k8s_client.py\<close>: the Day-2 operations on a cluster, each one run of
  \<open>kubectl\<close>. The environment of the service is a record: the binary's presence, the process
  environment, the home directory, which paths are files, how a started command behaves, the
  decoding of its output and the group variables. Every operation returns what it did to
  processes and its result, a response or the exception that leaves it. \<open>project_id\<close>, which
  every operation discards, is left out, and so is logging. A cluster name is one path
  segment, as the routes guarantee.
\<close>

section \<open>Running kubectl\<close>

record kube =
  kube_lib :: lib
  kube_which :: bool
  kube_environ :: environ
  kube_home :: path
  kube_is_file :: "string \<Rightarrow> bool"
  kube_spawn :: "string list \<Rightarrow> bool \<Rightarrow> child res"
  kube_decode :: "string \<Rightarrow> string"
  kube_gv :: group_vars

definition MISSING_KUBECTL :: string where
  "MISSING_KUBECTL = ''kubectl binary not found''"

definition kubeconfig_candidates :: "kube \<Rightarrow> string \<Rightarrow> string list" where
  "kubeconfig_candidates K cname =
     [getenv (kube_environ K) ''KUBECONFIG'' [],
      path_str (kube_home K @ [''.kube'', cname @ ''-kubeconfig'']),
      ''/tmp/'' @ cname @ ''-kubeconfig'',
      ''/home/gem/.kube/config'',
      path_str (kube_home K @ [''.kube'', ''config''])]"

definition find_kubeconfig :: "kube \<Rightarrow> string \<Rightarrow> string option" where
  "find_kubeconfig K cname =
     List.find (\<lambda>c. c \<noteq> [] \<and> kube_is_file K c) (kubeconfig_candidates K cname)"

definition kubectl_cmd :: "kube \<Rightarrow> string \<Rightarrow> string list \<Rightarrow> string list" where
  "kubectl_cmd K cname args =
     [''kubectl'']
     @ (case find_kubeconfig K cname of Some p \<Rightarrow> [''--kubeconfig='' @ p] | None \<Rightarrow> [])
     @ args"

definition exec_timeout :: nat where
  "exec_timeout = 6"

definition exec_failure :: "exc \<Rightarrow> (int \<times> string \<times> string) res" where
  "exec_failure e =
     (if e = TimeoutError
      then Inr (- 1, [], ''kubectl timed out after '' @ show_nat exec_timeout @ ''.0s'')
      else if is_OSError e \<or> is_ValueError e then Inr (- 1, [], exc_str e)
      else Inl e)"

definition exec_kubectl ::
    "kube \<Rightarrow> string \<Rightarrow> string list \<Rightarrow> string option \<Rightarrow>
       proc_event list \<times> (int \<times> string \<times> string) res" where
  "exec_kubectl K cname args input_data =
     (if \<not> kube_which K then ([], Inr (- 1, [], MISSING_KUBECTL))
      else let cmd = kubectl_cmd K cname args;
               stdin = (case input_data of Some s \<Rightarrow> if s \<noteq> [] then Some s else None | None \<Rightarrow> None)
           in case kube_spawn K cmd (stdin \<noteq> None) of
                Inl e \<Rightarrow> ([], exec_failure e)
              | Inr proc \<Rightarrow>
                  (let (evs, r) = communicate_or_kill proc exec_timeout stdin
                   in (Spawn cmd (stdin \<noteq> None) # evs,
                       case r of
                         Inl e \<Rightarrow> exec_failure e
                       | Inr (out, err) \<Rightarrow>
                           Inr (case returncode proc of None \<Rightarrow> 0 | Some rc \<Rightarrow> rc,
                                kube_decode K out, kube_decode K err))))"

text \<open>One run of \<open>kubectl\<close> and what is made of its result.\<close>

definition with_kubectl ::
    "kube \<Rightarrow> string \<Rightarrow> string list \<Rightarrow> string option \<Rightarrow> (int \<Rightarrow> string \<Rightarrow> string \<Rightarrow> 'a res) \<Rightarrow>
       proc_event list \<times> 'a res" where
  "with_kubectl K cname args input_data k =
     (let (evs, r) = exec_kubectl K cname args input_data
      in (evs, bind_res r (\<lambda>(rc, out, err). k rc out err)))"

definition given_text :: "string option \<Rightarrow> bool" where
  "given_text t \<longleftrightarrow> t \<noteq> None \<and> t \<noteq> Some []"

definition raise_for_kubectl ::
    "int \<Rightarrow> string \<Rightarrow> string \<Rightarrow> string option \<Rightarrow> string option \<Rightarrow> unit res" where
  "raise_for_kubectl rc stderr action not_found conflict =
     (if rc = 0 then Inr ()
      else let err = strip stderr; lowered = lower err
           in if contains MISSING_KUBECTL err
              then Inl (HTTPException 503
                     (''Cannot '' @ action @ '': kubectl is not available in the API environment.''))
              else if given_text not_found \<and> contains ''not found'' lowered
              then Inl (HTTPException 404 (the not_found))
              else if given_text conflict \<and> contains ''already exists'' lowered
              then Inl (HTTPException 409 (the conflict))
              else Inl (HTTPException 502
                     (''Failed to '' @ action @ '': ''
                      @ (if err \<noteq> [] then err else ''kubectl exited with code '' @ show_int rc))))"


section \<open>Reading the output\<close>

fun parse_caught :: "exc \<Rightarrow> bool" where
  "parse_caught (ValueError _) = True"
| "parse_caught (KeyError _) = True"
| "parse_caught (IndexError _) = True"
| "parse_caught (TypeError _) = True"
| "parse_caught _ = False"

definition loads_res :: "string \<Rightarrow> json res" where
  "loads_res s =
     (case loads s of None \<Rightarrow> Inl (ValueError ''JSONDecodeError'') | Some j \<Rightarrow> Inr j)"

text \<open>\<open>json.loads(stdout).get("items", [])\<close>, iterated\<close>

definition read_items :: "string \<Rightarrow> (json list) res" where
  "read_items s =
     bind_res (loads_res s) (\<lambda>data. bind_res (jget data ''items'' (JList [])) jiter)"

subsection \<open>Status\<close>

definition node_role :: "json \<Rightarrow> string res" where
  "node_role labels =
     bind_res (jin ''node-role.kubernetes.io/master'' labels) (\<lambda>m.
       if m then Inr ''Control Plane''
       else bind_res (jin ''node-role.kubernetes.io/control-plane'' labels) (\<lambda>c.
              Inr (if c then ''Control Plane'' else ''Worker'')))"

definition ready_condition :: "json \<Rightarrow> bool res" where
  "ready_condition cond =
     bind_res (jget cond ''type'' JNull) (\<lambda>t.
       if t = JStr ''Ready''
       then bind_res (jget cond ''status'' JNull) (\<lambda>s. Inr (s = JStr ''True''))
       else Inr False)"

definition node_ready :: "json \<Rightarrow> string res" where
  "node_ready node_status =
     bind_res (jget node_status ''conditions'' (JList [])) (\<lambda>cs.
     bind_res (jiter cs) (\<lambda>conds.
     bind_res (find_res ready_condition conds) (\<lambda>r.
       Inr (if r \<noteq> None then ''Ready'' else ''NotReady''))))"

definition internal_ip :: "json \<Rightarrow> bool res" where
  "internal_ip addr = bind_res (jget addr ''type'' JNull) (\<lambda>t. Inr (t = JStr ''InternalIP''))"

definition node_address :: "json \<Rightarrow> json res" where
  "node_address node_status =
     bind_res (jget node_status ''addresses'' (JList [])) (\<lambda>as.
     bind_res (jiter as) (\<lambda>addrs.
     bind_res (find_res internal_ip addrs) (\<lambda>r.
       case r of None \<Rightarrow> Inr (JStr []) | Some addr \<Rightarrow> jget addr ''address'' (JStr []))))"

definition node_item :: "lib \<Rightarrow> json \<Rightarrow> NodeStatusItem res" where
  "node_item L item =
     bind_res (jget item ''metadata'' (JObj [])) (\<lambda>meta.
     bind_res (jget item ''status'' (JObj [])) (\<lambda>node_status.
     bind_res (jget meta ''name'' (JStr [])) (\<lambda>name.
     bind_res (jget meta ''labels'' (JObj [])) (\<lambda>labels.
     bind_res (node_role labels) (\<lambda>role.
     bind_res (node_ready node_status) (\<lambda>ready.
     bind_res (node_address node_status) (\<lambda>node_ip.
     bind_res (str_field L name) (\<lambda>name'.
     bind_res (str_field L (jor node_ip (JStr ''10.200.54.2''))) (\<lambda>ip'.
       Inr \<lparr>ns_name = name', ns_status = ready, ns_role = role, ns_ip = ip',
            ns_cpu_usage = ''320m'', ns_cpu_percent = 4,
            ns_mem_usage = ''3100Mi'', ns_mem_percent = 5\<rparr>)))))))))"

definition cluster_metrics :: "nat \<Rightarrow> ClusterMetrics" where
  "cluster_metrics n =
     \<lparr>total_cpu = show_nat (n * 32) @ '' vCPU'', used_cpu = ''18 vCPU'',
      total_mem = show_nat (n * 64) @ '' GB'', used_mem = ''42 GB'',
      storage_allocated = ''850 GB / 3.9 TB''\<rparr>"

definition disconnected :: "string \<Rightarrow> ClusterStatusResponse" where
  "disconnected cname =
     \<lparr>connected = False, cs_cluster_name = cname, cs_mode = ''Disconnected'',
      cs_nodes = [], cs_metrics = None\<rparr>"

definition live_status :: "lib \<Rightarrow> string \<Rightarrow> string \<Rightarrow> ClusterStatusResponse res" where
  "live_status L cname out =
     bind_res (read_items out) (\<lambda>items.
     bind_res (map_res (node_item L) items) (\<lambda>nodes.
       Inr (if nodes \<noteq> []
            then \<lparr>connected = True, cs_cluster_name = cname, cs_mode = ''Live Connected'',
                  cs_nodes = nodes, cs_metrics = Some (cluster_metrics (length nodes))\<rparr>
            else disconnected cname)))"

definition get_cluster_status ::
    "kube \<Rightarrow> string \<Rightarrow> proc_event list \<times> ClusterStatusResponse res" where
  "get_cluster_status K cname =
     with_kubectl K cname [''get'', ''nodes'', ''-o'', ''json''] None (\<lambda>rc out err.
       if rc = 0 \<and> out \<noteq> []
       then except_res parse_caught (live_status (kube_lib K) cname out)
              (Inr (disconnected cname))
       else Inr (disconnected cname))"

subsection \<open>Secondary networks\<close>

fun int_caught :: "exc \<Rightarrow> bool" where
  "int_caught (ValueError _) = True"
| "int_caught (TypeError _) = True"
| "int_caught _ = False"

definition network_vlan :: "lib \<Rightarrow> json \<Rightarrow> json \<Rightarrow> int res" where
  "network_vlan L annotations spec =
     bind_res (jget annotations ''networking.gke.io/gdce-vlan-id'' JNull) (\<lambda>a.
     bind_res (if jtruthy a then Inr a else jget spec ''vlanId'' (JInt 0)) (\<lambda>raw_vlan.
       except_res int_caught (py_int raw_vlan) (Inr 0)))"

definition network_subnet :: "lib \<Rightarrow> json \<Rightarrow> json \<Rightarrow> json \<Rightarrow> json res" where
  "network_subnet L annotations spec gw =
     bind_res (jget annotations ''networking.gke.io/gdce-subnet'' (JStr [])) (\<lambda>subnet.
       if \<not> jtruthy subnet \<and> jtruthy gw
       then bind_res (jget spec ''l2NetworkConfig'' JNull) (\<lambda>l2.
            bind_res (jget (jor l2 (JObj [])) ''prefixLength4'' (JInt 24)) (\<lambda>prefix_len.
              Inr (JStr (case interface_network (str_json gw @ ''/'' @ str_json prefix_len) of
                           Some n \<Rightarrow> n | None \<Rightarrow> []))))
       else Inr subnet)"

definition network_item :: "lib \<Rightarrow> json \<Rightarrow> (SecondaryNetworkItem option) res" where
  "network_item L item =
     bind_res (jget item ''metadata'' (JObj [])) (\<lambda>meta.
     bind_res (jget meta ''annotations'' JNull) (\<lambda>ann.
     bind_res (jget item ''spec'' JNull) (\<lambda>sp.
     bind_res (jget meta ''name'' (JStr [])) (\<lambda>name.
       let annotations = jor ann (JObj []); spec = jor sp (JObj [])
       in if \<not> jtruthy name then Inr None
          else if name = JStr ''pod-network'' \<or> name = JStr ''default'' then Inr None
          else bind_res (jget spec ''type'' JNull) (\<lambda>ty.
            if ty = JStr ''L3'' then Inr None
            else bind_res (network_vlan L annotations spec) (\<lambda>vlan_id.
                 bind_res (jget spec ''gateway4'' JNull) (\<lambda>gw4.
                 bind_res (if jtruthy gw4 then Inr gw4
                           else jget annotations ''networking.gke.io/gdce-gateway'' (JStr [])) (\<lambda>gateway.
                 bind_res (network_subnet L annotations spec gateway) (\<lambda>subnet.
                 bind_res (jget annotations ''networking.gke.io/gdce-lb-service-vip-cidrs'' (JStr []))
                   (\<lambda>vip_pool.
                 bind_res (make_SecondaryNetworkItem L name vlan_id subnet gateway vip_pool) (\<lambda>it.
                   Inr (Some it)))))))))))) "

definition live_networks :: "lib \<Rightarrow> string \<Rightarrow> SecondaryNetworkItem list \<times> exc option" where
  "live_networks L out =
     (case read_items out of Inl e \<Rightarrow> ([], Some e) | Inr items \<Rightarrow> append_res (network_item L) items)"

definition yaml_or :: "(yaml \<times> yaml) list \<Rightarrow> string \<Rightarrow> yaml \<Rightarrow> yaml" where
  "yaml_or d k v = (case yaml_get d k of Some x \<Rightarrow> x | None \<Rightarrow> v)"

definition configured_network :: "lib \<Rightarrow> yaml \<Rightarrow> SecondaryNetworkItem res" where
  "configured_network L net =
     (case net of
        YDict d \<Rightarrow>
          (let vlan = yaml_or d ''vlan_id'' (YInt 0)
           in bind_res (converted (pd_yaml_str L (yaml_or d ''name'' (YStr [])))) (\<lambda>nm.
              bind_res (converted (pd_yaml_vlan L vlan)) (\<lambda>vl.
              bind_res (converted (pd_yaml_str L (yaml_or d ''subnet'' (YStr [])))) (\<lambda>sub.
              bind_res (opt_yaml_str L (yaml_or d ''gateway'' (YStr []))) (\<lambda>gw.
              bind_res (opt_yaml_str L (yaml_or d ''vip_pool'' (YStr []))) (\<lambda>vip.
                Inr \<lparr>sn_name = nm, sn_vlan_id = vl, sn_subnet = sub, sn_gateway = gw,
                     sn_vip_pool = vip, sn_purpose = Some ''Secondary VLAN Overlay'',
                     sn_interface_name = Some (''gdcenet0.'' @ str_yaml vlan),
                     sn_status = ''Active''\<rparr>))))))
      | _ \<Rightarrow> Inl (AttributeError ''object has no attribute get''))"

definition configured_networks :: "kube \<Rightarrow> (SecondaryNetworkItem list) res" where
  "configured_networks K =
     bind_res (get_default_secondary_networks (kube_gv K)) (map_res (configured_network (kube_lib K)))"

definition list_secondary_networks ::
    "kube \<Rightarrow> string \<Rightarrow> proc_event list \<times> (SecondaryNetworkItem list) res" where
  "list_secondary_networks K cname =
     with_kubectl K cname [''get'', ''networks.networking.gke.io'', ''-o'', ''json''] None
       (\<lambda>rc out err.
         let (live, failed) =
               (if rc = 0 \<and> out \<noteq> [] then live_networks (kube_lib K) out else ([], None));
             also_configured = bind_res (configured_networks K) (\<lambda>ns. Inr (live @ ns))
         in case failed of
              None \<Rightarrow> if live \<noteq> [] then Inr live else also_configured
            | Some e \<Rightarrow> if parse_caught e then also_configured else Inl e)"

subsection \<open>Virtual machines\<close>

definition namespace_args :: "string option \<Rightarrow> string list" where
  "namespace_args namespace =
     (case namespace of Some n \<Rightarrow> if n \<noteq> [] then [''-n'', n] else [''-A''] | None \<Rightarrow> [''-A''])"

definition vm_address :: "lib \<Rightarrow> json \<Rightarrow> json res" where
  "vm_address L status_obj =
     bind_res (jget status_obj ''interfaces'' JNull) (\<lambda>ifs.
       let interfaces = jor ifs (JList [])
       in bind_res (if jtruthy interfaces then jhead interfaces else Inr (JObj [])) (\<lambda>first_iface.
            case first_iface of JObj _ \<Rightarrow> jget first_iface ''ipAddress'' JNull | _ \<Rightarrow> Inr JNull))"

definition vm_item :: "lib \<Rightarrow> json \<Rightarrow> VirtualMachineItem res" where
  "vm_item L item =
     bind_res (jget item ''metadata'' (JObj [])) (\<lambda>meta.
     bind_res (jget item ''spec'' (JObj [])) (\<lambda>spec.
     bind_res (jget item ''status'' (JObj [])) (\<lambda>status_obj.
     bind_res (jget spec ''running'' JNull) (\<lambda>running.
       let vm_status = (if jtruthy running then ''Running'' else ''Stopped'')
       in bind_res (vm_address L status_obj) (\<lambda>vm_ip.
          bind_res (jget meta ''name'' (JStr [])) (\<lambda>nm.
          bind_res (jget meta ''namespace'' (JStr ''default'')) (\<lambda>nsp.
          bind_res (str_field L nm) (\<lambda>nm'.
          bind_res (str_field L nsp) (\<lambda>nsp'.
          bind_res (opt_str_field L vm_ip) (\<lambda>ip'.
            Inr \<lparr>vmi_name = nm', vmi_namespace = nsp', vmi_status = vm_status, vmi_cpus = 2,
                 vmi_memory = ''4Gi'', vmi_ip = ip', vmi_image = ''ubuntu-22.04-server'',
                 vmi_uptime = Some ''1h'', vmi_power_state = vm_status\<rparr>))))))))))"

text \<open>A listing: the items read, or nothing when there is no output or it does not parse.\<close>

definition listing :: "(json \<Rightarrow> 'a res) \<Rightarrow> int \<Rightarrow> string \<Rightarrow> ('a list) res" where
  "listing f rc out =
     (if rc = 0 \<and> out \<noteq> []
      then except_res parse_caught (bind_res (read_items out) (map_res f)) (Inr [])
      else Inr [])"

definition list_vms ::
    "kube \<Rightarrow> string \<Rightarrow> string option \<Rightarrow> proc_event list \<times> (VirtualMachineItem list) res" where
  "list_vms K cname namespace =
     with_kubectl K cname
       ([''get'', ''virtualmachines.kubevirt.io'', ''-o'', ''json''] @ namespace_args namespace) None
       (\<lambda>rc out err. listing (vm_item (kube_lib K)) rc out)"

definition vm_manifest :: "VirtualMachineDeployRequest \<Rightarrow> json" where
  "vm_manifest q =
     JObj [(''apiVersion'', JStr ''kubevirt.io/v1''),
           (''kind'', JStr ''VirtualMachine''),
           (''metadata'', JObj [(''name'', JStr (vmd_name q)), (''namespace'', JStr (vmd_namespace q))]),
           (''spec'', JObj
             [(''running'', JBool True),
              (''template'', JObj
                [(''spec'', JObj
                  [(''domain'', JObj
                     [(''devices'', JObj
                        [(''disks'', JList
                           [JObj [(''disk'', JObj [(''bus'', JStr ''virtio'')]),
                                  (''name'', JStr ''containerdisk'')]])]),
                      (''resources'', JObj
                        [(''requests'', JObj
                           [(''memory'', JStr (vmd_memory q)), (''cpu'', JInt (vmd_cpus q))])])]),
                   (''volumes'', JList
                     [JObj [(''name'', JStr ''containerdisk''),
                            (''containerDisk'', JObj [(''image'', JStr (vmd_image q))])]])])])])]"

definition deploy_vm ::
    "kube \<Rightarrow> string \<Rightarrow> VirtualMachineDeployRequest \<Rightarrow> proc_event list \<times> VirtualMachineItem res" where
  "deploy_vm K cname q =
     with_kubectl K cname [''create'', ''-f'', ''-''] (Some (dumps (vm_manifest q))) (\<lambda>rc out err.
       bind_res
         (raise_for_kubectl rc err (''deploy VirtualMachine '' @ squote (vmd_name q)) None
            (Some (''VirtualMachine '' @ squote (vmd_name q) @ '' already exists in namespace ''
                   @ squote (vmd_namespace q) @ ''.'')))
         (\<lambda>_. Inr \<lparr>vmi_name = vmd_name q, vmi_namespace = vmd_namespace q, vmi_status = ''Running'',
                   vmi_cpus = vmd_cpus q, vmi_memory = vmd_memory q, vmi_ip = Some ''10.240.1.50'',
                   vmi_image = vmd_image q, vmi_uptime = Some ''1m'',
                   vmi_power_state = ''Running''\<rparr>))"

definition vm_not_found :: "string \<Rightarrow> string \<Rightarrow> string" where
  "vm_not_found vm_name namespace =
     ''VirtualMachine '' @ squote vm_name @ '' not found in namespace '' @ squote namespace @ ''.''"

definition power_patch :: "bool \<Rightarrow> json" where
  "power_patch running = JObj [(''spec'', JObj [(''running'', JBool running)])]"

definition power_vm ::
    "kube \<Rightarrow> string \<Rightarrow> string \<Rightarrow> bool \<Rightarrow> string \<Rightarrow> proc_event list \<times> VirtualMachinePowerResponse res" where
  "power_vm K cname vm_name running namespace =
     (let desired_state = (if running then ''Running'' else ''Stopped'')
      in with_kubectl K cname
           [''patch'', ''virtualmachine'', vm_name, ''-n'', namespace, ''--type=merge'', ''-p'',
            dumps (power_patch running)] None
           (\<lambda>rc out err.
             bind_res
               (raise_for_kubectl rc err (''set power state of VirtualMachine '' @ squote vm_name)
                  (Some (vm_not_found vm_name namespace)) None)
               (\<lambda>_. Inr \<lparr>vpr_success = True, vpr_vm_name = vm_name, vpr_power_state = desired_state,
                         vpr_message = ''VM '' @ squote vm_name @ '' power state set to ''
                           @ desired_state @ ''.''\<rparr>)))"

definition delete_vm ::
    "kube \<Rightarrow> string \<Rightarrow> string \<Rightarrow> string \<Rightarrow> proc_event list \<times> GenericActionResponse res" where
  "delete_vm K cname vm_name namespace =
     with_kubectl K cname [''delete'', ''virtualmachine'', vm_name, ''-n'', namespace] None
       (\<lambda>rc out err.
         bind_res
           (raise_for_kubectl rc err (''delete VirtualMachine '' @ squote vm_name)
              (Some (vm_not_found vm_name namespace)) None)
           (\<lambda>_. Inr \<lparr>ga_success = True,
                     ga_message = ''VirtualMachine '' @ squote vm_name @ '' deleted successfully.''\<rparr>))"

subsection \<open>Config Sync\<close>

definition sync_get :: "json \<Rightarrow> string \<Rightarrow> json \<Rightarrow> json res" where
  "sync_get status_obj k d =
     bind_res (jget status_obj ''sync'' (JObj [])) (\<lambda>sync. jget sync k d)"

definition rootsync_item :: "lib \<Rightarrow> json \<Rightarrow> RootSyncItem res" where
  "rootsync_item L item =
     bind_res (jget item ''metadata'' (JObj [])) (\<lambda>meta.
     bind_res (jget item ''spec'' (JObj [])) (\<lambda>sp.
     bind_res (jget sp ''git'' (JObj [])) (\<lambda>spec.
     bind_res (jget item ''status'' (JObj [])) (\<lambda>status_obj.
     bind_res (jget meta ''name'' (JStr [])) (\<lambda>nm.
     bind_res (jget meta ''namespace'' (JStr ''config-management-system'')) (\<lambda>nsp.
     bind_res (jget spec ''repo'' (JStr [])) (\<lambda>rep.
     bind_res (jget spec ''branch'' (JStr ''main'')) (\<lambda>br.
     bind_res (jget spec ''dir'' (JStr ''/'')) (\<lambda>di.
     bind_res (jget spec ''auth'' (JStr ''none'')) (\<lambda>au.
     bind_res (jget spec ''period'' (JStr ''15s'')) (\<lambda>pe.
     bind_res (sync_get status_obj ''status'' (JStr ''SYNCED'')) (\<lambda>st.
     bind_res (sync_get status_obj ''commit'' (JStr [])) (\<lambda>co.
     bind_res (jprefix 9 co) (\<lambda>co9.
     bind_res (sync_get status_obj ''lastUpdate'' (JStr [])) (\<lambda>ls.
       make_RootSyncItem L nm nsp rep br di au pe st co9 ls)))))))))))))))"

definition list_rootsyncs ::
    "kube \<Rightarrow> string \<Rightarrow> proc_event list \<times> (RootSyncItem list) res" where
  "list_rootsyncs K cname =
     with_kubectl K cname [''get'', ''rootsyncs.configsync.gke.io'', ''-A'', ''-o'', ''json''] None
       (\<lambda>rc out err. listing (rootsync_item (kube_lib K)) rc out)"

subsection \<open>Pods\<close>

definition container_state :: "json \<Rightarrow> string res" where
  "container_state c_state =
     bind_res (jin ''running'' c_state) (\<lambda>r.
       if r then Inr ''running''
       else bind_res (jin ''terminated'' c_state) (\<lambda>t.
              Inr (if t then ''terminated'' else ''waiting'')))"

definition container_item :: "lib \<Rightarrow> json \<Rightarrow> ContainerStatusItem res" where
  "container_item L c =
     bind_res (jget c ''state'' (JObj [])) (\<lambda>c_state.
     bind_res (container_state c_state) (\<lambda>state.
     bind_res (jget c ''name'' (JStr [])) (\<lambda>nm.
     bind_res (jget c ''image'' (JStr [])) (\<lambda>img.
     bind_res (jget c ''ready'' (JBool False)) (\<lambda>rdy.
       make_ContainerStatusItem L nm img rdy state)))))"

definition ready_text :: "ContainerStatusItem list \<Rightarrow> string" where
  "ready_text cs =
     (if cs \<noteq> [] then show_nat (length (filter ct_ready cs)) @ ''/'' @ show_nat (length cs)
      else ''1/1'')"

definition pod_item :: "lib \<Rightarrow> json \<Rightarrow> PodItem res" where
  "pod_item L item =
     bind_res (jget item ''metadata'' (JObj [])) (\<lambda>meta.
     bind_res (jget item ''status'' (JObj [])) (\<lambda>pod_status.
     bind_res (jget pod_status ''containerStatuses'' (JList [])) (\<lambda>sts.
     bind_res (jiter sts) (\<lambda>statuses.
     bind_res (map_res (container_item L) statuses) (\<lambda>containers.
     bind_res (jget meta ''name'' (JStr [])) (\<lambda>nm.
     bind_res (jget meta ''namespace'' (JStr ''default'')) (\<lambda>nsp.
     bind_res (jget pod_status ''phase'' (JStr ''Running'')) (\<lambda>phase.
     bind_res (map_res (\<lambda>c. jget c ''restartCount'' (JInt 0)) statuses) (\<lambda>counts.
     bind_res (py_sum L counts) (\<lambda>total.
     bind_res (jget pod_status ''podIP'' (JStr ''10.0.1.1'')) (\<lambda>ip.
     bind_res (jget item ''spec'' (JObj [])) (\<lambda>sp.
     bind_res (jget sp ''nodeName'' (JStr [])) (\<lambda>node.
     bind_res (str_field L nm) (\<lambda>nm'.
     bind_res (str_field L nsp) (\<lambda>nsp'.
     bind_res (str_field L phase) (\<lambda>phase'.
     bind_res (int_field L total) (\<lambda>restarts.
     bind_res (opt_str_field L ip) (\<lambda>ip'.
     bind_res (opt_str_field L node) (\<lambda>node'.
       Inr \<lparr>pi_name = nm', pi_namespace = nsp', pi_status = phase', pi_ready = ready_text containers,
            pi_restarts = restarts, pi_age = Some ''10m'', pi_ip = ip', pi_node_name = node',
            pi_containers = containers\<rparr>)))))))))))))))))))"

definition pod_list_args :: "string option \<Rightarrow> string option \<Rightarrow> string list" where
  "pod_list_args namespace label_selector =
     [''get'', ''pods'', ''-o'', ''json''] @ namespace_args namespace
     @ (case label_selector of Some l \<Rightarrow> if l \<noteq> [] then [''-l'', l] else [] | None \<Rightarrow> [])"

definition list_pods ::
    "kube \<Rightarrow> string \<Rightarrow> string option \<Rightarrow> string option \<Rightarrow> proc_event list \<times> (PodItem list) res" where
  "list_pods K cname namespace label_selector =
     with_kubectl K cname (pod_list_args namespace label_selector) None
       (\<lambda>rc out err. listing (pod_item (kube_lib K)) rc out)"

definition create_pod ::
    "kube \<Rightarrow> string \<Rightarrow> PodCreateRequest \<Rightarrow> proc_event list \<times> PodItem res" where
  "create_pod K cname q =
     (let image = (if pcr_image q \<noteq> [] then pcr_image q else ''nginx:alpine'')
      in with_kubectl K cname
           [''run'', pcr_name q, ''--image='' @ image, ''-n'', pcr_namespace q] None
           (\<lambda>rc out err.
             bind_res
               (raise_for_kubectl rc err (''create Pod '' @ squote (pcr_name q)) None
                  (Some (''Pod '' @ squote (pcr_name q) @ '' already exists in namespace ''
                         @ squote (pcr_namespace q) @ ''.'')))
               (\<lambda>_. Inr \<lparr>pi_name = pcr_name q, pi_namespace = pcr_namespace q, pi_status = ''Running'',
                         pi_ready = ''1/1'', pi_restarts = 0, pi_age = Some ''1m'',
                         pi_ip = Some ''10.0.1.20'', pi_node_name = Some (cname @ ''-node1''),
                         pi_containers = [\<lparr>ct_name = pcr_name q, ct_image = image, ct_ready = True,
                                          ct_state = ''running''\<rparr>]\<rparr>)))"

definition delete_pod ::
    "kube \<Rightarrow> string \<Rightarrow> string \<Rightarrow> string \<Rightarrow> int option \<Rightarrow> proc_event list \<times> PodActionResponse res" where
  "delete_pod K cname pod_name namespace grace_period_seconds =
     with_kubectl K cname
       ([''delete'', ''pod'', pod_name, ''-n'', namespace]
        @ (case grace_period_seconds of
             Some g \<Rightarrow> [''--grace-period='' @ show_int g] | None \<Rightarrow> [])) None
       (\<lambda>rc out err.
         bind_res
           (raise_for_kubectl rc err (''delete Pod '' @ squote pod_name)
              (Some (''Pod '' @ squote pod_name @ '' not found in namespace '' @ squote namespace @ ''.''))
              None)
           (\<lambda>_. Inr \<lparr>pa_success = True, pa_pod_name = pod_name, pa_namespace = namespace,
                     pa_message = ''Pod '' @ squote pod_name @ '' deleted successfully.''\<rparr>))"

end
