(* ===== verification/K8s_Lemmas.thy ===== *)
theory K8s_Lemmas
  imports K8s_Client
begin

text \<open>
  What the operations of the Kubernetes client share, proved once: when a run of \<open>kubectl\<close>
  counts as a success, what a failed one is answered with, and what a listing makes of it.
  The contracts are locales, interpreted by the five actions and the three listings.
\<close>

section \<open>Child processes\<close>

lemma suppress_Inr: "suppress p r = Inr u \<longleftrightarrow> r = Inr u \<or> (\<exists>e. r = Inl e \<and> p e)"
  by (cases r) (auto simp: suppress_def)

lemma communicate_success:
  "snd (communicate_or_kill proc t i) = Inr out \<longleftrightarrow> on_communicate proc t i = Inr out"
  by (auto simp: communicate_or_kill_def split: sum.splits)

lemma communicate_kills:
  "Kill \<in> set (fst (communicate_or_kill proc t i)) \<longleftrightarrow> on_communicate proc t i = Inl TimeoutError"
  by (auto simp: communicate_or_kill_def split: sum.splits)

text \<open>The order of the three calls: nothing is killed before it was waited for.\<close>

lemma communicate_events:
  "fst (communicate_or_kill proc t i) \<in>
     {[Communicate t i], [Communicate t i, Kill], [Communicate t i, Kill, Wait REAP_TIMEOUT]}"
  by (auto simp: communicate_or_kill_def split: sum.splits)

lemma communicate_input: "Communicate t' i' \<in> set (fst (communicate_or_kill proc t i)) \<longleftrightarrow> t' = t \<and> i' = i"
  by (auto simp: communicate_or_kill_def split: sum.splits)


lemma communicate_no_spawn: "Spawn cmd b \<notin> set (fst (communicate_or_kill proc t i))"
  by (auto simp: communicate_or_kill_def split: sum.splits)


section \<open>Runs of kubectl\<close>

definition stdin_of :: "string option \<Rightarrow> string option" where
  "stdin_of inp = (case inp of Some s \<Rightarrow> if s \<noteq> [] then Some s else None | None \<Rightarrow> None)"

text \<open>
  The specification of a successful run: the binary is there, the command started, it
  finished within the timeout, and it did not report a non-zero code.
\<close>

definition ran_ok :: "kube \<Rightarrow> string \<Rightarrow> string list \<Rightarrow> string option \<Rightarrow> bool" where
  "ran_ok K cname args inp \<longleftrightarrow>
     kube_which K \<and>
     (\<exists>proc out err.
        kube_spawn K (kubectl_cmd K cname args) (stdin_of inp \<noteq> None) = Inr proc \<and>
        on_communicate proc exec_timeout (stdin_of inp) = Inr (out, err) \<and>
        (returncode proc = None \<or> returncode proc = Some 0))"

lemma exec_failure_Inr: "exec_failure e = Inr (rc, out, err) \<Longrightarrow> rc = - 1 \<and> out = []"
  by (auto simp: exec_failure_def split: if_splits)

text \<open>\<open>exec_kubectl\<close> by cases: no binary, not started, started.\<close>

lemma exec_kubectl_cases:
  obtains (missing) "\<not> kube_which K" "exec_kubectl K cname args inp = ([], Inr (- 1, [], MISSING_KUBECTL))"
  | (unstarted) e where "kube_which K"
      "kube_spawn K (kubectl_cmd K cname args) (stdin_of inp \<noteq> None) = Inl e"
      "exec_kubectl K cname args inp = ([], exec_failure e)"
  | (started) proc where "kube_which K"
      "kube_spawn K (kubectl_cmd K cname args) (stdin_of inp \<noteq> None) = Inr proc"
      "exec_kubectl K cname args inp =
         (Spawn (kubectl_cmd K cname args) (stdin_of inp \<noteq> None)
            # fst (communicate_or_kill proc exec_timeout (stdin_of inp)),
          case snd (communicate_or_kill proc exec_timeout (stdin_of inp)) of
            Inl e \<Rightarrow> exec_failure e
          | Inr (out, err) \<Rightarrow>
              Inr (case returncode proc of None \<Rightarrow> 0 | Some rc \<Rightarrow> rc, kube_decode K out, kube_decode K err))"
proof (cases "kube_which K")
  case False
  then show ?thesis by (intro missing) (simp_all add: exec_kubectl_def)
next
  case True
  then show ?thesis
    by (cases "kube_spawn K (kubectl_cmd K cname args) (stdin_of inp \<noteq> None)")
       (rule unstarted started; simp add: exec_kubectl_def Let_def stdin_of_def case_prod_unfold)+
qed

lemma exec_kubectl_zero:
  "(\<exists>out err. snd (exec_kubectl K cname args inp) = Inr (0, out, err)) \<longleftrightarrow> ran_ok K cname args inp"
proof (cases rule: exec_kubectl_cases [of K cname args inp])
  case (unstarted e)
  then show ?thesis using exec_failure_Inr [of e 0] by (auto simp: ran_ok_def)
next
  case (started proc)
  show ?thesis
  proof (cases "snd (communicate_or_kill proc exec_timeout (stdin_of inp))")
    case (Inl e)
    then have "\<And>w. on_communicate proc exec_timeout (stdin_of inp) \<noteq> Inr w"
      using communicate_success by (metis sum.distinct(1))
    with Inl started show ?thesis using exec_failure_Inr [of e 0] by (auto simp: ran_ok_def)
  next
    case (Inr w)
    then have "on_communicate proc exec_timeout (stdin_of inp) = Inr w"
      using communicate_success by blast
    with Inr started show ?thesis
      by (cases w; cases "returncode proc") (auto simp: ran_ok_def)
  qed
qed (auto simp: ran_ok_def)

lemma exec_kubectl_kills:
  "Kill \<in> set (fst (exec_kubectl K cname args inp)) \<longleftrightarrow>
     kube_which K \<and>
     (\<exists>proc. kube_spawn K (kubectl_cmd K cname args) (stdin_of inp \<noteq> None) = Inr proc \<and>
             on_communicate proc exec_timeout (stdin_of inp) = Inl TimeoutError)"
  by (cases rule: exec_kubectl_cases [of K cname args inp]) (auto simp: communicate_kills)

lemma exec_kubectl_input:
  "Communicate t i \<in> set (fst (exec_kubectl K cname args inp)) \<Longrightarrow> i = stdin_of inp"
  by (cases rule: exec_kubectl_cases [of K cname args inp]) (auto simp: communicate_input)

lemma exec_kubectl_spawns:
  "Spawn cmd piped \<in> set (fst (exec_kubectl K cname args inp)) \<Longrightarrow>
     cmd = kubectl_cmd K cname args \<and> piped = (stdin_of inp \<noteq> None)"
  by (cases rule: exec_kubectl_cases [of K cname args inp]) (auto simp: communicate_no_spawn)

lemma with_kubectl_fst [simp]:
  "fst (with_kubectl K cname args inp k) = fst (exec_kubectl K cname args inp)"
  by (simp add: with_kubectl_def case_prod_unfold Let_def)

lemma with_kubectl_snd:
  "snd (with_kubectl K cname args inp k) =
     bind_res (snd (exec_kubectl K cname args inp)) (\<lambda>(rc, out, err). k rc out err)"
  by (simp add: with_kubectl_def case_prod_unfold Let_def)


section \<open>Actions\<close>

lemma raise_for_kubectl_zero [simp]: "raise_for_kubectl 0 err a nf cf = Inr ()"
  by (simp add: raise_for_kubectl_def)

lemma raise_for_kubectl_Inr: "raise_for_kubectl rc err a nf cf = Inr u \<longleftrightarrow> rc = 0"
  by (auto simp: raise_for_kubectl_def Let_def)

text \<open>A failure is always an HTTP error of a server or of the request, never a success.\<close>

lemma raise_for_kubectl_code:
  assumes "rc \<noteq> 0"
  shows "\<exists>code detail. raise_for_kubectl rc err a nf cf = Inl (HTTPException code detail) \<and>
    (code = 404 \<and> nf = Some detail \<or> code = 409 \<and> cf = Some detail \<or> code = 502 \<or> code = 503)"
  using assms by (auto simp: raise_for_kubectl_def Let_def given_text_def)

text \<open>
  What a client promises of an action: it reports success exactly for a successful run;
  otherwise it passes on the exception that interrupted the run, or answers with one of the
  given HTTP codes.
\<close>

definition faithful_answer :: "nat set \<Rightarrow> bool \<Rightarrow> 'b res \<Rightarrow> 'a res \<Rightarrow> bool" where
  "faithful_answer codes ok ex r \<longleftrightarrow>
     (case r of
        Inr _ \<Rightarrow> ok
      | Inl e \<Rightarrow> \<not> ok \<and> (ex = Inl e \<or> (\<exists>code detail. e = HTTPException code detail \<and> code \<in> codes)))"

definition failure_codes :: "string option \<Rightarrow> string option \<Rightarrow> nat set" where
  "failure_codes nf cf =
     (if nf = None then {} else {404}) \<union> (if cf = None then {} else {409}) \<union> {502, 503}"

lemma failure_codes_simps:
  "failure_codes None (Some x) = {409, 502, 503}" "failure_codes (Some x) None = {404, 502, 503}"
  by (auto simp: failure_codes_def)

locale kubectl_action =
  fixes run :: "kube \<Rightarrow> proc_event list \<times> 'a res"
    and cname :: string and args :: "string list" and inp :: "string option"
    and action :: string and nf :: "string option" and cf :: "string option" and reply :: 'a
  assumes run_eq: "run K = with_kubectl K cname args inp (\<lambda>rc out err.
      bind_res (raise_for_kubectl rc err action nf cf) (\<lambda>_. Inr reply))"
begin

lemma events: "fst (run K) = fst (exec_kubectl K cname args inp)"
  by (simp add: run_eq)

lemma success_iff: "snd (run K) = Inr r \<longleftrightarrow> r = reply \<and> ran_ok K cname args inp"
  by (auto simp: run_eq with_kubectl_snd bind_res_eq_Inr raise_for_kubectl_Inr
      exec_kubectl_zero [symmetric])

lemma succeeds_iff: "(\<exists>r. snd (run K) = Inr r) \<longleftrightarrow> ran_ok K cname args inp"
  by (simp add: success_iff)

lemma answer:
  "faithful_answer (failure_codes nf cf) (ran_ok K cname args inp)
     (snd (exec_kubectl K cname args inp)) (snd (run K))"
proof (cases "snd (exec_kubectl K cname args inp)")
  case (Inl e)
  then have "\<not> ran_ok K cname args inp" by (simp add: exec_kubectl_zero [symmetric])
  with Inl show ?thesis by (simp add: run_eq with_kubectl_snd faithful_answer_def)
next
  case (Inr w)
  then obtain rc out err where w: "snd (exec_kubectl K cname args inp) = Inr (rc, out, err)"
    by (cases w) auto
  show ?thesis
  proof (cases "rc = 0")
    case True
    with w have "ran_ok K cname args inp" by (auto simp: exec_kubectl_zero [symmetric])
    with True w show ?thesis by (simp add: run_eq with_kubectl_snd faithful_answer_def)
  next
    case False
    with w have "\<not> ran_ok K cname args inp" by (auto simp: exec_kubectl_zero [symmetric])
    with w raise_for_kubectl_code [OF False, of err action nf cf] show ?thesis
      by (auto simp: run_eq with_kubectl_snd faithful_answer_def failure_codes_def)
  qed
qed

lemma failure:
  assumes "snd (exec_kubectl K cname args inp) = Inr (rc, out, err)" "rc \<noteq> 0"
  shows "\<exists>code detail. snd (run K) = Inl (HTTPException code detail) \<and>
    (code = 404 \<and> nf = Some detail \<or> code = 409 \<and> cf = Some detail \<or> code = 502 \<or> code = 503)"
  using raise_for_kubectl_code [OF assms(2), of err action nf cf] assms(1)
  by (auto simp: run_eq with_kubectl_snd)

end

interpretation deploy: kubectl_action "\<lambda>K. deploy_vm K cname q" cname "[''create'', ''-f'', ''-'']"
  "Some (dumps (vm_manifest q))" "''deploy VirtualMachine '' @ squote (vmd_name q)" None
  "Some (''VirtualMachine '' @ squote (vmd_name q) @ '' already exists in namespace ''
     @ squote (vmd_namespace q) @ ''.'')"
  "\<lparr>vmi_name = vmd_name q, vmi_namespace = vmd_namespace q, vmi_status = ''Running'',
    vmi_cpus = vmd_cpus q, vmi_memory = vmd_memory q, vmi_ip = Some ''10.240.1.50'',
    vmi_image = vmd_image q, vmi_uptime = Some ''1m'', vmi_power_state = ''Running''\<rparr>"
  for cname q
  by unfold_locales (simp add: deploy_vm_def)

definition power_args :: "string \<Rightarrow> bool \<Rightarrow> string \<Rightarrow> string list" where
  "power_args vm running namespace =
     [''patch'', ''virtualmachine'', vm, ''-n'', namespace, ''--type=merge'', ''-p'',
      dumps (power_patch running)]"

interpretation power: kubectl_action "\<lambda>K. power_vm K cname vm running namespace" cname
  "power_args vm running namespace" None
  "''set power state of VirtualMachine '' @ squote vm" "Some (vm_not_found vm namespace)" None
  "\<lparr>vpr_success = True, vpr_vm_name = vm,
    vpr_power_state = (if running then ''Running'' else ''Stopped''),
    vpr_message = ''VM '' @ squote vm @ '' power state set to ''
      @ (if running then ''Running'' else ''Stopped'') @ ''.''\<rparr>"
  for cname vm running namespace
  by unfold_locales (simp add: power_vm_def power_args_def Let_def)

interpretation remove_vm: kubectl_action "\<lambda>K. delete_vm K cname vm namespace" cname
  "[''delete'', ''virtualmachine'', vm, ''-n'', namespace]" None
  "''delete VirtualMachine '' @ squote vm" "Some (vm_not_found vm namespace)" None
  "\<lparr>ga_success = True, ga_message = ''VirtualMachine '' @ squote vm @ '' deleted successfully.''\<rparr>"
  for cname vm namespace
  by unfold_locales (simp add: delete_vm_def)

definition pod_image :: "PodCreateRequest \<Rightarrow> string" where
  "pod_image q = (if pcr_image q \<noteq> [] then pcr_image q else ''nginx:alpine'')"

interpretation new_pod: kubectl_action "\<lambda>K. create_pod K cname q" cname
  "[''run'', pcr_name q, ''--image='' @ pod_image q, ''-n'', pcr_namespace q]" None
  "''create Pod '' @ squote (pcr_name q)" None
  "Some (''Pod '' @ squote (pcr_name q) @ '' already exists in namespace ''
     @ squote (pcr_namespace q) @ ''.'')"
  "\<lparr>pi_name = pcr_name q, pi_namespace = pcr_namespace q, pi_status = ''Running'',
    pi_ready = ''1/1'', pi_restarts = 0, pi_age = Some ''1m'', pi_ip = Some ''10.0.1.20'',
    pi_node_name = Some (cname @ ''-node1''),
    pi_containers = [\<lparr>ct_name = pcr_name q, ct_image = pod_image q, ct_ready = True,
                      ct_state = ''running''\<rparr>]\<rparr>"
  for cname q
  by unfold_locales (simp add: create_pod_def pod_image_def Let_def)

definition pod_delete_args :: "string \<Rightarrow> string \<Rightarrow> int option \<Rightarrow> string list" where
  "pod_delete_args pod namespace grace =
     [''delete'', ''pod'', pod, ''-n'', namespace]
     @ (case grace of Some g \<Rightarrow> [''--grace-period='' @ show_int g] | None \<Rightarrow> [])"

interpretation remove_pod: kubectl_action "\<lambda>K. delete_pod K cname pod namespace grace" cname
  "pod_delete_args pod namespace grace" None
  "''delete Pod '' @ squote pod"
  "Some (''Pod '' @ squote pod @ '' not found in namespace '' @ squote namespace @ ''.'')" None
  "\<lparr>pa_success = True, pa_pod_name = pod, pa_namespace = namespace,
    pa_message = ''Pod '' @ squote pod @ '' deleted successfully.''\<rparr>"
  for cname pod namespace grace
  by unfold_locales (simp add: delete_pod_def pod_delete_args_def)


section \<open>Listings\<close>

lemma no_attribute_escapes [simp]: "\<not> parse_caught (no_attribute j a)"
  by (simp add: no_attribute_def)

locale kubectl_listing =
  fixes run :: "kube \<Rightarrow> proc_event list \<times> ('a list) res"
    and cname :: string and args :: "string list" and item :: "lib \<Rightarrow> json \<Rightarrow> 'a res"
  assumes run_eq: "run K = with_kubectl K cname args None (\<lambda>rc out err. listing (item (kube_lib K)) rc out)"
begin

text \<open>What a listing holds comes from one item of the output each.\<close>

lemma from_items:
  assumes "snd (run K) = Inr xs" "xs \<noteq> []"
  obtains out err items where "snd (exec_kubectl K cname args None) = Inr (0, out, err)"
    "read_items out = Inr items" "map_res (item (kube_lib K)) items = Inr xs"
  using assms
  by (auto simp: run_eq with_kubectl_snd bind_res_eq_Inr listing_def except_res_Inr split: if_splits)

lemma all_items:
  assumes "snd (run K) = Inr xs" "\<And>j x. item (kube_lib K) j = Inr x \<Longrightarrow> P x"
  shows "list_all P xs"
proof (cases "xs = []")
  case False
  with assms(1) obtain items where "map_res (item (kube_lib K)) items = Inr xs"
    by (rule from_items)
  then show ?thesis using assms(2) by (rule map_res_all) auto
qed simp

lemma unreachable:
  assumes "snd (exec_kubectl K cname args None) = Inr (rc, out, err)" "rc \<noteq> 0"
  shows "snd (run K) = Inr []"
  using assms by (simp add: run_eq with_kubectl_snd listing_def)

text \<open>A top-level value that is no object makes the listing raise \<open>AttributeError\<close>.\<close>

lemma not_an_object:
  assumes "snd (exec_kubectl K cname args None) = Inr (0, out, err)" "out \<noteq> []"
    and "loads out = Some j" "\<And>kvs. j \<noteq> JObj kvs"
  shows "snd (run K) = Inl (no_attribute j ''get'')"
  using assms
  by (cases j) (auto simp: run_eq with_kubectl_snd listing_def read_items_def loads_res_def jget_def)

end

interpretation vms: kubectl_listing "\<lambda>K. list_vms K cname namespace" cname
  "[''get'', ''virtualmachines.kubevirt.io'', ''-o'', ''json''] @ namespace_args namespace" vm_item
  for cname namespace
  by unfold_locales (simp add: list_vms_def)

interpretation rootsyncs: kubectl_listing "\<lambda>K. list_rootsyncs K cname" cname
  "[''get'', ''rootsyncs.configsync.gke.io'', ''-A'', ''-o'', ''json'']" rootsync_item
  for cname
  by unfold_locales (simp add: list_rootsyncs_def)

interpretation pods: kubectl_listing "\<lambda>K. list_pods K cname namespace sel" cname
  "pod_list_args namespace sel" pod_item
  for cname namespace sel
  by unfold_locales (simp add: list_pods_def)

end
