(* ===== verification/Gcp_Lemmas.thy ===== *)
theory Gcp_Lemmas
  imports Gcp_Client K8s_Lemmas
begin

text \<open>What the GCP client lists: lemmas about one membership and about the dictionary.\<close>

lemma gcloud_json_kills:
  "Kill \<in> set (fst (gcloud_json G cmd t)) \<longleftrightarrow>
     (\<exists>proc. gcp_spawn G cmd = Inr proc \<and> on_communicate proc t None = Inl TimeoutError)"
  by (cases "gcp_spawn G cmd") (auto simp: gcloud_json_def Let_def case_prod_unfold communicate_kills)

lemma gcloud_json_spawns: "Spawn cmd' b \<in> set (fst (gcloud_json G cmd t)) \<Longrightarrow> cmd' = cmd \<and> \<not> b"
  by (cases "gcp_spawn G cmd")
     (auto simp: gcloud_json_def Let_def case_prod_unfold communicate_no_spawn)

text \<open>Building a dictionary entry by entry keeps its keys distinct and its entries.\<close>

lemma foldl_dict_set_distinct:
  "distinct (map fst d) \<Longrightarrow> distinct (map fst (foldl (\<lambda>d (k, v). dict_set d k v) d kvs))"
  by (induction kvs arbitrary: d) (auto simp: distinct_dict_set split: prod.splits)

lemma distinct_dict_of: "distinct (map fst (dict_of kvs))"
  unfolding dict_of_def by (rule foldl_dict_set_distinct) simp

lemma dict_set_mem: "kv \<in> set (dict_set d k v) \<Longrightarrow> kv \<in> set d \<or> kv = (k, v)"
  by (induction d k v rule: dict_set.induct) (auto split: if_splits)

lemma foldl_dict_set_mem:
  "kv \<in> set (foldl (\<lambda>d (k, v). dict_set d k v) d kvs) \<Longrightarrow> kv \<in> set d \<or> kv \<in> set kvs"
  by (induction kvs arbitrary: d) (auto dest!: dict_set_mem split: prod.splits)

lemma dict_of_mem: "kv \<in> set (dict_of kvs) \<Longrightarrow> kv \<in> set kvs"
  unfolding dict_of_def using foldl_dict_set_mem by fastforce

definition listed_cluster :: "string \<Rightarrow> string \<times> ClusterInfo \<Rightarrow> bool" where
  "listed_cluster pid kv \<longleftrightarrow>
     ci_name (snd kv) = fst kv \<and> fst kv \<noteq> [] \<and> CHR ''/'' \<notin> set (fst kv) \<and>
     ci_status (snd kv) = ''RUNNING'' \<and> ci_project_id (snd kv) = Some pid"

lemma last_part_no_sep: "c \<notin> set (last (split_on c s))"
  by (rule split_on_parts [of _ c s]) (rule last_in_set, simp)

lemma membership_name_no_slash:
  assumes "membership_name m = Inr n"
  shows "CHR ''/'' \<notin> set n"
proof -
  from assms obtain j where "(case j of JStr s \<Rightarrow> Inr (last (split_on CHR ''/'' s))
      | _ \<Rightarrow> Inl (no_attribute j ''split'')) = Inr n"
    unfolding membership_name_def by (rule bind_res_InrE)
  then show ?thesis by (cases j) (auto simp: last_part_no_sep)
qed

lemma membership_item_listed:
  "membership_item L pid dz gdc hw m = Inr (Some kv) \<Longrightarrow> listed_cluster pid kv"
  by (auto simp: membership_item_def bind_res_eq_Inr Let_def listed_cluster_def
      dest: membership_name_no_slash split: if_splits)

lemma read_memberships_listed:
  assumes "\<And>m kv. f m = Inr (Some kv) \<Longrightarrow> P kv"
  shows "distinct (map fst (fst (read_memberships f data))) \<and> list_all P (fst (read_memberships f data))"
proof (cases "jiter data")
  case (Inr ms)
  have "\<forall>kv \<in> set (fst (append_res f ms)). P kv"
    using append_res_all [of f ms "fst (append_res f ms)" "snd (append_res f ms)" P] assms
    by (simp add: list_all_iff)
  with Inr show ?thesis
    by (auto simp: read_memberships_def Let_def case_prod_unfold distinct_dict_of list_all_iff
        dest: dict_of_mem)
qed (simp add: read_memberships_def)

end
