(* ===== verification/Client_Routers.thy ===== *)
theory Client_Routers
  imports K8s_Client Gcp_Client
begin

text \<open>
  The handlers of \<open>api/gem_api/routers/cluster_operations.py\<close> and \<open>projects.py\<close>, and
  \<open>list_clusters\<close> of \<open>clusters.py\<close>. A handler checks its body and query parameters (what is
  missing or out of bounds is a 422 answer, \<open>Inl\<close> here), fills in their defaults and calls the
  client. The \<open>project_id\<close> that the cluster operations accept and discard is kept as an
  argument.
\<close>

type_synonym 'a answer = "exc list + (proc_event list \<times> 'a res)"

section \<open>Cluster operations\<close>

definition get_cluster_status_route ::
    "kube \<Rightarrow> string \<Rightarrow> string option \<Rightarrow> ClusterStatusResponse answer" where
  "get_cluster_status_route K cname pid = Inr (get_cluster_status K cname)"

definition list_secondary_networks_route ::
    "kube \<Rightarrow> string \<Rightarrow> string option \<Rightarrow> (SecondaryNetworkItem list) answer" where
  "list_secondary_networks_route K cname pid = Inr (list_secondary_networks K cname)"

definition list_vms_route ::
    "kube \<Rightarrow> string \<Rightarrow> string option \<Rightarrow> string option \<Rightarrow> (VirtualMachineItem list) answer" where
  "list_vms_route K cname namespace pid = Inr (list_vms K cname namespace)"

definition deploy_vm_route ::
    "kube \<Rightarrow> string \<Rightarrow> vm_deploy_raw \<Rightarrow> string option \<Rightarrow> VirtualMachineItem answer" where
  "deploy_vm_route K cname body pid =
     (case make_VirtualMachineDeployRequest body of
        Inl errs \<Rightarrow> Inl errs
      | Inr q \<Rightarrow> Inr (deploy_vm K cname q))"

definition power_vm_route ::
    "kube \<Rightarrow> string \<Rightarrow> string \<Rightarrow> vm_power_raw \<Rightarrow> string option \<Rightarrow>
       VirtualMachinePowerResponse answer" where
  "power_vm_route K cname vm_name body pid =
     (case make_VirtualMachinePowerRequest body of
        Inl errs \<Rightarrow> Inl errs
      | Inr q \<Rightarrow> Inr (power_vm K cname vm_name (vmp_running q) (vmp_namespace q)))"

definition query_default :: "string option \<Rightarrow> string" where
  "query_default v = (case v of None \<Rightarrow> ''default'' | Some n \<Rightarrow> n)"

definition delete_vm_route ::
    "kube \<Rightarrow> string \<Rightarrow> string \<Rightarrow> string option \<Rightarrow> string option \<Rightarrow> GenericActionResponse answer" where
  "delete_vm_route K cname vm_name namespace pid =
     Inr (delete_vm K cname vm_name (query_default namespace))"

definition list_rootsyncs_route ::
    "kube \<Rightarrow> string \<Rightarrow> string option \<Rightarrow> (RootSyncItem list) answer" where
  "list_rootsyncs_route K cname pid = Inr (list_rootsyncs K cname)"

definition list_pods_route ::
    "kube \<Rightarrow> string \<Rightarrow> string option \<Rightarrow> string option \<Rightarrow> string option \<Rightarrow> (PodItem list) answer" where
  "list_pods_route K cname namespace label_selector pid =
     Inr (list_pods K cname namespace label_selector)"

definition create_pod_route ::
    "kube \<Rightarrow> string \<Rightarrow> pod_create_raw \<Rightarrow> string option \<Rightarrow> PodItem answer" where
  "create_pod_route K cname body pid =
     (case make_PodCreateRequest body of
        Inl errs \<Rightarrow> Inl errs
      | Inr q \<Rightarrow> Inr (create_pod K cname q))"

definition grace_errors :: "int option \<Rightarrow> exc list" where
  "grace_errors g =
     (case g of
        Some n \<Rightarrow>
          if n < 0 then [ValueError ''Input should be greater than or equal to 0''] else []
      | None \<Rightarrow> [])"

definition delete_pod_route ::
    "kube \<Rightarrow> string \<Rightarrow> string \<Rightarrow> string option \<Rightarrow> int option \<Rightarrow> string option \<Rightarrow> PodActionResponse answer" where
  "delete_pod_route K cname pod_name namespace grace_period_seconds pid =
     (if grace_errors grace_period_seconds \<noteq> [] then Inl (grace_errors grace_period_seconds)
      else Inr (delete_pod K cname pod_name (query_default namespace) grace_period_seconds))"


section \<open>Projects and clusters\<close>

definition list_projects_route :: "gcp \<Rightarrow> int option \<Rightarrow> (ProjectItem list) answer" where
  "list_projects_route G limit =
     (case field limit (Inr 50) (check_range 1 500) of
        Inl e \<Rightarrow> Inl [e]
      | Inr n \<Rightarrow> Inr (list_projects G n))"

definition list_clusters_route :: "gcp \<Rightarrow> string option \<Rightarrow> ClusterListResponse answer" where
  "list_clusters_route G pid = Inr (list_clusters G pid)"

end
