(* ===== verification/App.thy ===== *)
theory App
  imports Client_Routers
begin

text \<open>
  \<open>api/gem_api/main.py\<close>: the settings of the server, its health answers, start-up and command
  line, and the table of routes that including the six routers builds. How FastAPI matches a
  path is modelled as far as it documents it: a literal segment matches itself, a parameter
  any non-empty segment, and the first route that matches the method and the path is taken.
  The middleware, the generated documentation routes and the redirects for a trailing slash
  are FastAPI's own and left out.
\<close>

section \<open>Server settings\<close>

record AppSettings =
  app_name :: string
  app_version :: string
  app_debug :: bool
  app_port :: int
  app_host :: string
  app_log_dir :: path

text \<open>
  The server part of \<open>Settings()\<close> when no field is overridden: \<open>PORT\<close> and \<open>HOST\<close> from the
  environment. A \<open>PORT\<close> that is no number makes the default factory raise \<open>ValueError\<close>.
\<close>

definition make_AppSettings :: "environ \<Rightarrow> path \<Rightarrow> AppSettings res" where
  "make_AppSettings env logs =
     (case int_literal (getenv env ''PORT'' ''8080'') of
        None \<Rightarrow> Inl (ValueError ''invalid literal for int()'')
      | Some p \<Rightarrow>
          Inr \<lparr>app_name = ''GEM REST API'', app_version = ''1.2.0'', app_debug = False,
               app_port = p, app_host = getenv env ''HOST'' ''0.0.0.0'', app_log_dir = logs\<rparr>)"

text \<open>Start-up creates the log directory; an error there keeps the server from starting.\<close>

definition lifespan_startup :: "AppSettings \<Rightarrow> (path \<Rightarrow> unit res) \<Rightarrow> unit res" where
  "lifespan_startup cfg mkdir_p = mkdir_p (app_log_dir cfg)"

definition healthz :: "AppSettings \<Rightarrow> json" where
  "healthz cfg =
     JObj [(''status'', JStr ''ok''), (''app'', JStr (app_name cfg)),
           (''version'', JStr (app_version cfg))]"

definition api_health :: "AppSettings \<Rightarrow> json" where
  "api_health cfg =
     JObj [(''status'', JStr ''ok''), (''app'', JStr (app_name cfg)),
           (''version'', JStr (app_version cfg))]"

definition setdefault :: "string \<Rightarrow> string \<Rightarrow> environ \<Rightarrow> environ" where
  "setdefault k v env = (if env k = None then env(k \<mapsto> v) else env)"

text \<open>The environment and the arguments the Uvicorn command line is started with.\<close>

definition run_cli ::
    "AppSettings \<Rightarrow> string list \<Rightarrow> (string list) option \<Rightarrow> environ \<Rightarrow> environ \<times> string list" where
  "run_cli cfg sys_argv argv env =
     (let env1 = setdefault ''UVICORN_HOST'' (app_host cfg) env;
          env2 = setdefault ''UVICORN_PORT'' (show_int (app_port cfg)) env1;
          env3 = (if app_debug cfg then setdefault ''UVICORN_RELOAD'' ''true'' env2 else env2);
          extra_args = (case argv of None \<Rightarrow> tl sys_argv | Some a \<Rightarrow> a)
      in (env3, [''gem_api.main:app''] @ extra_args))"


section \<open>The application object\<close>

text \<open>What the application and its one middleware are created with.\<close>

record AppConfig =
  api_title :: string
  api_description :: string
  api_version :: string
  docs_url :: string
  redoc_url :: string
  openapi_url :: string

record CorsPolicy =
  allow_origins :: "string list"
  allow_credentials :: bool
  allow_methods :: "string list"
  allow_headers :: "string list"

definition app_config :: AppConfig where
  "app_config =
     \<lparr>api_title = ''GEM REST API'',
      api_description = ''REST API for the Google Distributed Cloud (GDC) Connected Emulation Environment (GEM).'',
      api_version = ''1.2.0'', docs_url = ''/docs'', redoc_url = ''/redoc'', openapi_url = ''/openapi.json''\<rparr>"

definition cors_policy :: CorsPolicy where
  "cors_policy =
     \<lparr>allow_origins = [''*''], allow_credentials = True, allow_methods = [''*''], allow_headers = [''*'']\<rparr>"


section \<open>Routes\<close>

datatype http_method = GET | POST | DELETE

datatype segment = Lit string | Par string

record route =
  ro_method :: http_method
  ro_path :: "segment list"
  ro_status :: nat
  ro_handler :: string

definition route :: "http_method \<Rightarrow> segment list \<Rightarrow> nat \<Rightarrow> string \<Rightarrow> route" where
  "route m p st h = \<lparr>ro_method = m, ro_path = p, ro_status = st, ro_handler = h\<rparr>"

subsection \<open>\<open>routers/clusters.py\<close>\<close>

definition create_cluster_entry :: route where
  "create_cluster_entry = route POST [Lit ''create''] 202 ''create_cluster''"

definition delete_cluster_entry :: route where
  "delete_cluster_entry = route POST [Lit ''delete''] 202 ''delete_cluster''"

definition list_clusters_entry :: route where
  "list_clusters_entry = route GET [] 200 ''list_clusters''"

definition clusters_router :: "string \<times> route list" where
  "clusters_router =
     (''clusters'', [create_cluster_entry,
        delete_cluster_entry,
        list_clusters_entry])"

subsection \<open>\<open>routers/workstation.py\<close>\<close>

definition create_workstation_entry :: route where
  "create_workstation_entry = route POST [Lit ''create''] 202 ''create_workstation''"

definition delete_workstation_entry :: route where
  "delete_workstation_entry = route POST [Lit ''delete''] 202 ''delete_workstation''"

definition workstation_router :: "string \<times> route list" where
  "workstation_router =
     (''workstation'', [create_workstation_entry,
        delete_workstation_entry])"

subsection \<open>\<open>routers/edge_router.py\<close>\<close>

definition create_edge_router_entry :: route where
  "create_edge_router_entry = route POST [Lit ''create''] 202 ''create_edge_router''"

definition delete_edge_router_entry :: route where
  "delete_edge_router_entry = route POST [Lit ''delete''] 202 ''delete_edge_router''"

definition edge_router_router :: "string \<times> route list" where
  "edge_router_router =
     (''edge-router'', [create_edge_router_entry,
        delete_edge_router_entry])"

subsection \<open>\<open>routers/operations.py\<close>\<close>

definition get_operation_entry :: route where
  "get_operation_entry = route GET [Par ''operation_id''] 200 ''get_operation''"

definition get_operation_logs_entry :: route where
  "get_operation_logs_entry = route GET [Par ''operation_id'', Lit ''logs''] 200 ''get_operation_logs''"

definition cancel_operation_entry :: route where
  "cancel_operation_entry = route POST [Par ''operation_id'', Lit ''cancel''] 200 ''cancel_operation''"

definition operations_router :: "string \<times> route list" where
  "operations_router =
     (''operations'', [get_operation_entry,
        get_operation_logs_entry,
        cancel_operation_entry])"

subsection \<open>\<open>routers/projects.py\<close>\<close>

definition list_projects_entry :: route where
  "list_projects_entry = route GET [] 200 ''list_projects''"

definition projects_router :: "string \<times> route list" where
  "projects_router =
     (''projects'', [list_projects_entry])"

subsection \<open>\<open>routers/cluster_operations.py\<close>\<close>

definition get_cluster_status_entry :: route where
  "get_cluster_status_entry = route GET [Par ''cluster_name'', Lit ''status''] 200 ''get_cluster_status''"

definition list_secondary_networks_entry :: route where
  "list_secondary_networks_entry = route GET [Par ''cluster_name'', Lit ''networks''] 200 ''list_secondary_networks''"

definition list_vms_entry :: route where
  "list_vms_entry = route GET [Par ''cluster_name'', Lit ''vms''] 200 ''list_vms''"

definition deploy_vm_entry :: route where
  "deploy_vm_entry = route POST [Par ''cluster_name'', Lit ''vms''] 201 ''deploy_vm''"

definition power_vm_entry :: route where
  "power_vm_entry = route POST [Par ''cluster_name'', Lit ''vms'', Par ''vm_name'', Lit ''power''] 200 ''power_vm''"

definition delete_vm_entry :: route where
  "delete_vm_entry = route DELETE [Par ''cluster_name'', Lit ''vms'', Par ''vm_name''] 200 ''delete_vm''"

definition list_rootsyncs_entry :: route where
  "list_rootsyncs_entry = route GET [Par ''cluster_name'', Lit ''configsync''] 200 ''list_rootsyncs''"

definition list_pods_entry :: route where
  "list_pods_entry = route GET [Par ''cluster_name'', Lit ''pods''] 200 ''list_pods''"

definition create_pod_entry :: route where
  "create_pod_entry = route POST [Par ''cluster_name'', Lit ''pods''] 201 ''create_pod''"

definition delete_pod_entry :: route where
  "delete_pod_entry = route DELETE [Par ''cluster_name'', Lit ''pods'', Par ''pod_name''] 200 ''delete_pod''"

definition cluster_operations_router :: "string \<times> route list" where
  "cluster_operations_router =
     (''clusters'', [get_cluster_status_entry,
        list_secondary_networks_entry,
        list_vms_entry,
        deploy_vm_entry,
        power_vm_entry,
        delete_vm_entry,
        list_rootsyncs_entry,
        list_pods_entry,
        create_pod_entry,
        delete_pod_entry])"

subsection \<open>The application\<close>

definition include_router :: "string \<times> route list \<Rightarrow> route list" where
  "include_router r =
     map (\<lambda>e. e\<lparr>ro_path := [Lit ''api'', Lit ''v1'', Lit (fst r)] @ ro_path e\<rparr>) (snd r)"

definition health_routes :: "route list" where
  "health_routes =
     [route GET [Lit ''healthz''] 200 ''healthz'', route GET [Lit ''health''] 200 ''healthz'',
      route GET [Lit ''api'', Lit ''v1'', Lit ''health''] 200 ''api_health'']"

definition app_routes :: "route list" where
  "app_routes =
     concat (map include_router
       [clusters_router, workstation_router, edge_router_router, operations_router, projects_router,
        cluster_operations_router]) @ health_routes"

fun seg_matches :: "segment \<Rightarrow> string \<Rightarrow> bool" where
  "seg_matches (Lit l) s = (s = l)"
| "seg_matches (Par _) s = (s \<noteq> [])"

fun path_matches :: "segment list \<Rightarrow> string list \<Rightarrow> bool" where
  "path_matches [] [] = True"
| "path_matches (p # ps) (s # ss) = (seg_matches p s \<and> path_matches ps ss)"
| "path_matches _ _ = False"

definition matches :: "http_method \<Rightarrow> string list \<Rightarrow> route \<Rightarrow> bool" where
  "matches m path e \<longleftrightarrow> ro_method e = m \<and> path_matches (ro_path e) path"

definition dispatch :: "route list \<Rightarrow> http_method \<Rightarrow> string list \<Rightarrow> route option" where
  "dispatch rs m path = List.find (matches m path) rs"


section \<open>No two routes compete\<close>

text \<open>Two patterns overlap if some path matches both.\<close>

fun seg_overlap :: "segment \<Rightarrow> segment \<Rightarrow> bool" where
  "seg_overlap (Lit a) (Lit b) = (a = b)"
| "seg_overlap _ _ = True"

fun path_overlap :: "segment list \<Rightarrow> segment list \<Rightarrow> bool" where
  "path_overlap [] [] = True"
| "path_overlap (p # ps) (q # qs) = (seg_overlap p q \<and> path_overlap ps qs)"
| "path_overlap _ _ = False"

fun no_overlap :: "route list \<Rightarrow> bool" where
  "no_overlap [] = True"
| "no_overlap (e # es) =
     (list_all (\<lambda>e'. ro_method e = ro_method e' \<longrightarrow> \<not> path_overlap (ro_path e) (ro_path e')) es
      \<and> no_overlap es)"

lemma seg_overlap_if_match: "seg_matches p s \<Longrightarrow> seg_matches q s \<Longrightarrow> seg_overlap p q"
  by (cases p; cases q) auto

lemma path_overlap_if_match: "path_matches ps ss \<Longrightarrow> path_matches qs ss \<Longrightarrow> path_overlap ps qs"
proof (induction ps ss arbitrary: qs rule: path_matches.induct)
  case 1
  then show ?case by (cases qs) auto
next
  case (2 p ps s ss)
  then show ?case by (cases qs) (auto intro: seg_overlap_if_match)
qed auto

lemma no_overlap_unique:
  "no_overlap rs \<Longrightarrow> e \<in> set rs \<Longrightarrow> e' \<in> set rs \<Longrightarrow> matches m path e \<Longrightarrow> matches m path e' \<Longrightarrow> e = e'"
  by (induction rs) (auto simp: matches_def list_all_iff dest: path_overlap_if_match)

lemma app_routes_no_overlap: "no_overlap app_routes"
  by code_simp

lemma dispatch_Some: "dispatch rs m path = Some e \<Longrightarrow> e \<in> set rs \<and> matches m path e"
  by (auto simp: dispatch_def find_Some_iff)

lemma dispatch_None: "dispatch rs m path = None \<longleftrightarrow> (\<forall>e \<in> set rs. \<not> matches m path e)"
  by (auto simp: dispatch_def find_None_iff)

lemma dispatch_order:
  assumes "no_overlap rs" "set rs' = set rs"
  shows "dispatch rs' m path = dispatch rs m path"
proof (cases "dispatch rs m path")
  case None
  then show ?thesis using assms(2) dispatch_None by metis
next
  case (Some e)
  then obtain e' where "dispatch rs' m path = Some e'"
    using dispatch_Some dispatch_None assms(2) by (metis not_Some_eq)
  with Some assms show ?thesis using no_overlap_unique dispatch_Some by metis
qed

end
