(* ===== verification/Client_Props.thy ===== *)
theory Client_Props
  imports Gcp_Lemmas App
begin

text \<open>
  Properties of the Kubernetes and GCP clients, their handlers and the route table, with the
  concrete environments their witnesses run in.
\<close>

section \<open>Concrete environments\<close>

definition demo_lib :: lib where
  "demo_lib =
     \<lparr>float_sum = (\<lambda>_. Inr (JInt 0)),
      pd_str = (\<lambda>j. case j of JStr s \<Rightarrow> Some s | _ \<Rightarrow> None),
      pd_int = (\<lambda>j. case j of JInt i \<Rightarrow> Some i | _ \<Rightarrow> None),
      pd_bool = (\<lambda>j. case j of JBool b \<Rightarrow> Some b | _ \<Rightarrow> None),
      pd_yaml_str = (\<lambda>v. case v of YStr s \<Rightarrow> Some s | _ \<Rightarrow> None),
      pd_yaml_vlan = (\<lambda>v. case v of YInt i \<Rightarrow> Some (Inl i) | YStr s \<Rightarrow> Some (Inr s) | _ \<Rightarrow> None)\<rparr>"

lemma demo_lib_documented: "pydantic_documented demo_lib"
  by (simp add: pydantic_documented_def demo_lib_def)

text \<open>A command that prints a text and returns a code.\<close>

definition demo_child :: "int \<Rightarrow> string \<Rightarrow> string \<Rightarrow> child" where
  "demo_child rc out err =
     \<lparr>on_communicate = (\<lambda>_ _. Inr (out, err)), on_kill = Inr (), on_wait = (\<lambda>_. Inr ()),
      returncode = Some rc\<rparr>"

definition demo_kube :: "child \<Rightarrow> kube" where
  "demo_kube ch =
     \<lparr>kube_lib = demo_lib, kube_which = True, kube_environ = (\<lambda>_. None), kube_home = [''home'', ''gem''],
      kube_is_file = (\<lambda>_. False), kube_spawn = (\<lambda>_ _. Inr ch), kube_decode = id,
      kube_gv = Inr [(YStr ''secondary_networks'',
        YList [YDict [(YStr ''name'', YStr ''net-a''), (YStr ''vlan_id'', YInt 7)]])]\<rparr>"

lemma demo_kube_lib [simp]: "kube_lib (demo_kube ch) = demo_lib"
  by (simp add: demo_kube_def)

lemma demo_exec:
  "exec_kubectl (demo_kube (demo_child rc out err)) cname args None =
     ([Spawn (''kubectl'' # args) False, Communicate 6 None], Inr (rc, out, err))"
  by (simp add: exec_kubectl_def demo_kube_def demo_child_def kubectl_cmd_def find_kubeconfig_def
      kubeconfig_candidates_def getenv_def communicate_or_kill_def exec_timeout_def)


section \<open>Actions\<close>

text \<open>
  C15: The five actions on a cluster (deploying, powering and deleting a virtual machine,
  creating and deleting a pod) report success exactly if \<open>kubectl\<close> was there, started, finished
  within its timeout and did not return a non-zero code. Otherwise the answer is the
  exception that interrupted the run or an HTTP error: 404 only where something can be
  missing, 409 only where something can exist already, else 502 or 503.
\<close>

theorem kubectl_success_exact:
  "faithful_answer {409, 502, 503}
     (ran_ok K c [''create'', ''-f'', ''-''] (Some (dumps (vm_manifest q))))
     (snd (exec_kubectl K c [''create'', ''-f'', ''-''] (Some (dumps (vm_manifest q)))))
     (snd (deploy_vm K c q)) \<and>
   faithful_answer {404, 502, 503} (ran_ok K c (power_args vm running ns) None)
     (snd (exec_kubectl K c (power_args vm running ns) None)) (snd (power_vm K c vm running ns)) \<and>
   faithful_answer {404, 502, 503} (ran_ok K c [''delete'', ''virtualmachine'', vm, ''-n'', ns] None)
     (snd (exec_kubectl K c [''delete'', ''virtualmachine'', vm, ''-n'', ns] None))
     (snd (delete_vm K c vm ns)) \<and>
   faithful_answer {409, 502, 503}
     (ran_ok K c [''run'', pcr_name p, ''--image='' @ pod_image p, ''-n'', pcr_namespace p] None)
     (snd (exec_kubectl K c [''run'', pcr_name p, ''--image='' @ pod_image p, ''-n'', pcr_namespace p] None))
     (snd (create_pod K c p)) \<and>
   faithful_answer {404, 502, 503} (ran_ok K c (pod_delete_args pod ns grace) None)
     (snd (exec_kubectl K c (pod_delete_args pod ns grace) None)) (snd (delete_pod K c pod ns grace))"
  using deploy.answer [where K = K and cname = c and q = q]
    power.answer [where K = K and cname = c and vm = vm and running = running and namespace = ns]
    remove_vm.answer [where K = K and cname = c and vm = vm and namespace = ns]
    new_pod.answer [where K = K and cname = c and q = p]
    remove_pod.answer [where K = K and cname = c and pod = pod and namespace = ns and grace = grace]
  unfolding failure_codes_simps by blast


lemma deploy_request_cpus:
  "make_VirtualMachineDeployRequest raw = Inr q \<Longrightarrow> 1 \<le> vmd_cpus q \<and> vmd_cpus q \<le> 128"
  by (auto simp: make_VirtualMachineDeployRequest_def Let_def errors_of_Nil check_range_iff
      field_def split: if_splits option.splits)

lemma length_show_nat_le: "length (show_nat n) \<le> Suc n"
proof (induction n rule: show_nat.induct)
  case (1 n)
  then show ?case by (cases "n < 10") (auto simp: show_nat_small show_nat_step)
qed

lemma vm_manifest_ok: "1 \<le> vmd_cpus q \<Longrightarrow> vmd_cpus q \<le> 128 \<Longrightarrow> json_ok (vm_manifest q)"
  using length_show_nat_le [of "nat (vmd_cpus q)"] by (simp add: vm_manifest_def)

lemma vm_manifest_text: "dumps (vm_manifest q) \<noteq> []"
  by (simp add: vm_manifest_def)

lemma stdin_dumps [simp]: "stdin_of (Some (dumps (vm_manifest q))) = Some (dumps (vm_manifest q))"
  by (simp add: stdin_of_def vm_manifest_text)

text \<open>
  C17: Whatever characters a validated request holds, the text written to \<open>kubectl\<close> reads back
  as exactly the manifest of the request: no field can leave its place in the JSON.
\<close>

theorem vm_manifest_roundtrip:
  assumes "make_VirtualMachineDeployRequest raw = Inr q"
    and "Communicate t i \<in> set (fst (deploy_vm K c q))"
  shows "\<exists>s. i = Some s \<and> loads s = Some (vm_manifest q)"
proof -
  have "i = Some (dumps (vm_manifest q))"
    using exec_kubectl_input assms(2) by (fastforce simp: deploy.events)
  then show ?thesis
    using loads_dumps vm_manifest_ok deploy_request_cpus [OF assms(1)] by blast
qed

definition demo_deploy_raw :: vm_deploy_raw where
  "demo_deploy_raw =
     \<lparr>raw_vmd_name = Some ''vm-1'', raw_vmd_namespace = None, raw_vmd_cpus = Some 4,
      raw_vmd_memory = None, raw_vmd_image = Some [CHR 0x22, CHR ''}''], raw_vmd_image_type = None\<rparr>"

definition demo_deploy :: VirtualMachineDeployRequest where
  "demo_deploy =
     \<lparr>vmd_name = ''vm-1'', vmd_namespace = ''default'', vmd_cpus = 4, vmd_memory = ''4Gi'',
      vmd_image = [CHR 0x22, CHR ''}''], vmd_image_type = Preset\<rparr>"

lemma demo_deploy_made: "make_VirtualMachineDeployRequest demo_deploy_raw = Inr demo_deploy"
  by (simp add: make_VirtualMachineDeployRequest_def demo_deploy_raw_def demo_deploy_def field_def
      check_range_def check_image_type_def errors_of_def value_or_def)

lemma demo_deploy_events:
  "Communicate 6 (Some (dumps (vm_manifest demo_deploy)))
     \<in> set (fst (deploy_vm (demo_kube (demo_child 0 [] [])) ''c1'' demo_deploy))"
  by (simp add: deploy.events exec_kubectl_def demo_kube_def demo_child_def communicate_or_kill_def
      exec_timeout_def vm_manifest_text)

theorem vm_manifest_roundtrip_witness:
  "\<exists>s. Some (dumps (vm_manifest demo_deploy)) = Some s \<and> loads s = Some (vm_manifest demo_deploy)"
  by (rule vm_manifest_roundtrip [OF demo_deploy_made demo_deploy_events])


section \<open>Listings and status\<close>

definition node_ok :: "NodeStatusItem \<Rightarrow> bool" where
  "node_ok n \<longleftrightarrow>
     ns_status n \<in> {''Ready'', ''NotReady''} \<and> ns_role n \<in> {''Control Plane'', ''Worker''} \<and>
     ns_ip n \<noteq> []"

lemma node_role_values: "node_role l = Inr r \<Longrightarrow> r \<in> {''Control Plane'', ''Worker''}"
  by (auto simp: node_role_def bind_res_eq_Inr split: if_splits)

lemma node_ready_values: "node_ready st = Inr r \<Longrightarrow> r \<in> {''Ready'', ''NotReady''}"
  by (auto simp: node_ready_def bind_res_eq_Inr split: if_splits)

lemma str_field_jor:
  assumes "pydantic_documented L" "str_field L (jor j (JStr d)) = Inr s" "d \<noteq> []"
  shows "s \<noteq> []"
  using assms by (auto simp: documented_str_field jor_def split: if_splits)

lemma node_item_ok: "pydantic_documented L \<Longrightarrow> node_item L j = Inr n \<Longrightarrow> node_ok n"
  by (auto simp: node_item_def bind_res_eq_Inr node_ok_def
      dest: node_role_values node_ready_values str_field_jor)

text \<open>A status that was read from the cluster, or the disconnected one.\<close>

lemma get_cluster_status_cases:
  assumes "snd (get_cluster_status K c) = Inr r"
  obtains "r = disconnected c"
  | out err items nodes where "snd (exec_kubectl K c [''get'', ''nodes'', ''-o'', ''json''] None) = Inr (0, out, err)"
      "map_res (node_item (kube_lib K)) items = Inr nodes" "nodes \<noteq> []"
      "r = \<lparr>connected = True, cs_cluster_name = c, cs_mode = ''Live Connected'', cs_nodes = nodes,
            cs_metrics = Some (cluster_metrics (length nodes))\<rparr>"
  using assms
  by (auto simp: get_cluster_status_def with_kubectl_snd bind_res_eq_Inr except_res_Inr
      live_status_def split: if_splits)


definition demo_nodes :: string where
  "demo_nodes = dumps (JObj [(''items'', JList [JObj [(''metadata'', JObj [(''name'', JStr ''n1'')])]])])"

definition demo_status :: ClusterStatusResponse where
  "demo_status =
     \<lparr>connected = True, cs_cluster_name = ''c1'', cs_mode = ''Live Connected'',
      cs_nodes = [\<lparr>ns_name = ''n1'', ns_status = ''NotReady'', ns_role = ''Worker'',
                   ns_ip = ''10.200.54.2'', ns_cpu_usage = ''320m'', ns_cpu_percent = 4,
                   ns_mem_usage = ''3100Mi'', ns_mem_percent = 5\<rparr>],
      cs_metrics = Some (cluster_metrics 1)\<rparr>"

lemma demo_loads_nodes:
  "loads demo_nodes =
     Some (JObj [(''items'', JList [JObj [(''metadata'', JObj [(''name'', JStr ''n1'')])]])])"
  unfolding demo_nodes_def by (rule loads_dumps) simp

lemma demo_nodes_nonempty: "demo_nodes \<noteq> []"
  by (simp add: demo_nodes_def)

lemma demo_status_read:
  "snd (get_cluster_status (demo_kube (demo_child 0 demo_nodes [])) ''c1'') = Inr demo_status"
  by (simp add: get_cluster_status_def with_kubectl_snd demo_exec demo_nodes_nonempty live_status_def
      read_items_def loads_res_def demo_loads_nodes jiter_def node_item_def node_role_def jin_def
      node_ready_def node_address_def str_field_def converted_def jor_def dict_get_def
      demo_status_def demo_lib_def)


text \<open>
  C36: A cluster that cannot be asked (every run of \<open>kubectl\<close> returns a non-zero code) shows as
  disconnected and without machines, synchronisations and pods; its secondary networks are
  the configured ones all the same.
\<close>

theorem unreachable_cluster:
  assumes "\<And>args. \<exists>out err. snd (exec_kubectl K c args None) = Inr (rc, out, err)" and "rc \<noteq> 0"
  shows "snd (get_cluster_status K c) = Inr (disconnected c) \<and> snd (list_vms K c ns) = Inr [] \<and>
     snd (list_rootsyncs K c) = Inr [] \<and> snd (list_pods K c ns sel) = Inr [] \<and>
     snd (list_secondary_networks K c) = configured_networks K"
proof (intro conjI)
  show "snd (get_cluster_status K c) = Inr (disconnected c)"
    using assms(1) [of "[''get'', ''nodes'', ''-o'', ''json'']"] assms(2)
    by (auto simp: get_cluster_status_def with_kubectl_snd)
  show "snd (list_vms K c ns) = Inr []"
    using vms.unreachable assms by (metis (no_types))
  show "snd (list_rootsyncs K c) = Inr []"
    using rootsyncs.unreachable assms by (metis (no_types))
  show "snd (list_pods K c ns sel) = Inr []"
    using pods.unreachable assms by (metis (no_types))
  obtain out err where "snd (exec_kubectl K c [''get'', ''networks.networking.gke.io'', ''-o'', ''json''] None)
      = Inr (rc, out, err)" using assms(1) by blast
  with assms(2) show "snd (list_secondary_networks K c) = configured_networks K"
    by (cases "configured_networks K") (simp_all add: list_secondary_networks_def with_kubectl_snd)
qed

theorem unreachable_cluster_witness:
  "snd (get_cluster_status (demo_kube (demo_child 1 [] [])) ''c1'') = Inr (disconnected ''c1'') \<and>
   snd (list_secondary_networks (demo_kube (demo_child 1 [] [])) ''c1'')
     = configured_networks (demo_kube (demo_child 1 [] []))"
  using unreachable_cluster [of "demo_kube (demo_child 1 [] [])" "''c1''" 1 None None]
  by (simp add: demo_exec)

lemma pod_item_ready: "pod_item L j = Inr p \<Longrightarrow> pi_ready p = ready_text (pi_containers p)"
  by (auto simp: pod_item_def bind_res_eq_Inr)

definition ready_count :: "PodItem \<Rightarrow> nat \<Rightarrow> nat \<Rightarrow> bool" where
  "ready_count p k n \<longleftrightarrow>
     pi_ready p = show_nat k @ ''/'' @ show_nat n \<and> k \<le> n \<and> 1 \<le> n \<and>
     (pi_containers p \<noteq> [] \<longrightarrow>
        n = length (pi_containers p) \<and> k = length (filter ct_ready (pi_containers p)))"

lemma ready_text_count: "pi_ready p = ready_text (pi_containers p) \<Longrightarrow> \<exists>k n. ready_count p k n"
proof (cases "pi_containers p = []")
  case True
  moreover assume "pi_ready p = ready_text (pi_containers p)"
  ultimately have "ready_count p 1 1"
    by (simp add: ready_count_def ready_text_def show_nat_small)
  then show ?thesis by blast
next
  case False
  moreover assume "pi_ready p = ready_text (pi_containers p)"
  ultimately have "ready_count p (length (filter ct_ready (pi_containers p))) (length (pi_containers p))"
    by (auto simp: ready_count_def ready_text_def Suc_le_eq)
  then show ?thesis by blast
qed

text \<open>
  C37: In a listing of pods the readiness reads \<open>k/n\<close> with \<open>k \<le> n\<close> and \<open>1 \<le> n\<close>: \<open>n\<close> is the number of
  container statuses and \<open>k\<close> of the ready ones, where there are any.
\<close>

theorem pod_ready_bounds:
  assumes "snd (list_pods K c ns sel) = Inr ps" and "p \<in> set ps"
  shows "\<exists>k n. ready_count p k n"
proof -
  have "list_all (\<lambda>p. \<exists>k n. ready_count p k n) ps"
    using assms(1) by (rule pods.all_items) (blast intro: ready_text_count pod_item_ready)
  with assms(2) show ?thesis by (simp add: list_all_iff)
qed

definition demo_pods :: json where
  "demo_pods =
     JObj [(''items'', JList [JObj
       [(''metadata'', JObj [(''name'', JStr ''p1'')]),
        (''status'', JObj [(''containerStatuses'', JList
           [JObj [(''name'', JStr ''a''), (''ready'', JBool True), (''restartCount'', JInt 2)],
            JObj [(''name'', JStr ''b'')]])])]])]"

definition demo_pod :: PodItem where
  "demo_pod =
     \<lparr>pi_name = ''p1'', pi_namespace = ''default'', pi_status = ''Running'', pi_ready = ''1/2'',
      pi_restarts = 2, pi_age = Some ''10m'', pi_ip = Some ''10.0.1.1'', pi_node_name = Some [],
      pi_containers =
        [\<lparr>ct_name = ''a'', ct_image = [], ct_ready = True, ct_state = ''waiting''\<rparr>,
         \<lparr>ct_name = ''b'', ct_image = [], ct_ready = False, ct_state = ''waiting''\<rparr>]\<rparr>"

lemma demo_loads_pods: "loads (dumps demo_pods) = Some demo_pods"
  by (rule loads_dumps) (simp add: demo_pods_def show_nat_small)

lemma demo_pods_listed:
  "snd (list_pods (demo_kube (demo_child 0 (dumps demo_pods) [])) ''c1'' None None) = Inr [demo_pod]"
proof -
  have "dumps demo_pods \<noteq> []" by (simp add: demo_pods_def)
  moreover have "bind_res (read_items (dumps demo_pods)) (map_res (pod_item demo_lib)) = Inr [demo_pod]"
    unfolding read_items_def loads_res_def demo_loads_pods
    by (simp add: demo_pods_def jiter_def dict_get_def pod_item_def container_item_def
        container_state_def jin_def make_ContainerStatusItem_def str_field_def opt_str_field_def
        int_field_def bool_field_def converted_def py_sum_def demo_lib_def demo_pod_def ready_text_def
        show_nat_small)
  ultimately show ?thesis
    by (simp add: list_pods_def with_kubectl_snd demo_exec listing_def)
qed

theorem pod_ready_bounds_witness: "\<exists>k n. ready_count demo_pod k n"
  by (rule pod_ready_bounds [OF demo_pods_listed]) simp

text \<open>What a network read from the cluster looks like.\<close>

definition live_network :: "SecondaryNetworkItem \<Rightarrow> bool" where
  "live_network n \<longleftrightarrow>
     sn_name n \<notin> {[], ''pod-network'', ''default''} \<and>
     (\<exists>v. sn_vlan_id n = Inl v \<and> sn_interface_name n = Some (''gdcenet0.'' @ show_int v))"

lemma network_item_live:
  assumes "pydantic_documented L" "network_item L j = Inr (Some n)"
  shows "live_network n"
  using assms(2)
  by (auto simp: network_item_def bind_res_eq_Inr Let_def make_SecondaryNetworkItem_def
      live_network_def documented_str_field [OF assms(1)] split: if_splits)

lemma live_networks_ok:
  "pydantic_documented L \<Longrightarrow> list_all live_network (fst (live_networks L out))"
  using append_res_all [of "network_item L" _ _ _ live_network] network_item_live
  by (auto simp: live_networks_def split: sum.splits) (metis prod.collapse)

abbreviation network_args :: "string list" where
  "network_args \<equiv> [''get'', ''networks.networking.gke.io'', ''-o'', ''json'']"


definition demo_network :: SecondaryNetworkItem where
  "demo_network =
     \<lparr>sn_name = ''net-b'', sn_vlan_id = Inl 12, sn_subnet = ''10.1.2.0/24'',
      sn_gateway = Some [], sn_vip_pool = Some [], sn_purpose = Some ''Secondary VLAN Overlay'',
      sn_interface_name = Some ''gdcenet0.12'', sn_status = ''Active''\<rparr>"

definition demo_network_json :: json where
  "demo_network_json =
     JObj [(''items'', JList [JObj
       [(''metadata'', JObj [(''name'', JStr ''net-b''),
           (''annotations'', JObj [(''networking.gke.io/gdce-subnet'', JStr ''10.1.2.0/24'')])]),
        (''spec'', JObj [(''vlanId'', JInt 12)])]])]"

lemma show_nat_12: "show_nat 12 = ''12''"
  by (simp add: show_nat_step show_nat_small)

lemma demo_networks_listed:
  "snd (list_secondary_networks (demo_kube (demo_child 0 (dumps demo_network_json) [])) ''c1'')
     = Inr [demo_network]"
proof -
  have l: "loads (dumps demo_network_json) = Some demo_network_json"
    by (rule loads_dumps) (simp add: demo_network_json_def show_nat_12)
  have "live_networks demo_lib (dumps demo_network_json) = ([demo_network], None)"
    unfolding live_networks_def read_items_def loads_res_def l
    by (simp add: demo_network_json_def jiter_def dict_get_def network_item_def network_vlan_def
        network_subnet_def jor_def py_int_def make_SecondaryNetworkItem_def str_field_def
        opt_str_field_def converted_def demo_lib_def demo_network_def str_json_def show_int_def
        show_nat_12 show_nat_step show_nat_small)
  moreover have "dumps demo_network_json \<noteq> []" by (simp add: demo_network_json_def)
  ultimately show ?thesis
    by (simp add: list_secondary_networks_def with_kubectl_snd demo_exec)
qed



section \<open>Clusters, projects and bounds\<close>

lemma list_clusters_entries:
  assumes "snd (list_clusters G pid) = Inr r"
  shows "\<exists>m. r = \<lparr>cl_clusters = map snd m, cl_total = length m\<rparr> \<and> distinct (map fst m) \<and>
    list_all (listed_cluster (str_or pid (default_project_id (gcp_cfg G)))) m"
proof -
  let ?pid = "str_or pid (default_project_id (gcp_cfg G))"
  let ?read = "\<lambda>hw gdc. read_memberships
      (membership_item (gcp_lib G) ?pid (default_zone (gcp_cfg G)) gdc hw)"
  have entries: "distinct (map fst (fst (?read hw gdc data))) \<and>
      list_all (listed_cluster ?pid) (fst (?read hw gdc data))" for hw gdc data
    by (rule read_memberships_listed) (rule membership_item_listed)
  have "\<exists>m. r = \<lparr>cl_clusters = map snd m, cl_total = length m\<rparr> \<and>
      (m = [] \<or> (\<exists>hw gdc data. m = fst (?read hw gdc data)))"
    using assms
    by (fastforce simp: list_clusters_def Let_def case_prod_unfold
        split: sum.splits option.splits if_splits)
  then obtain m where m: "r = \<lparr>cl_clusters = map snd m, cl_total = length m\<rparr>"
      "m = [] \<or> (\<exists>hw gdc data. m = fst (?read hw gdc data))" by blast
  from m(2) have "distinct (map fst m) \<and> list_all (listed_cluster ?pid) m"
    using entries by auto
  with m(1) show ?thesis by blast
qed

text \<open>
  C18: Every listing of clusters is well-formed: the total is the number of entries, no name
  occurs twice, and every entry has a non-empty name without a slash, is running and belongs
  to the project asked for (the default one if none was named).
\<close>

theorem cluster_list_wellformed:
  assumes "snd (list_clusters G pid) = Inr r"
  shows "cl_total r = length (cl_clusters r) \<and> distinct (map ci_name (cl_clusters r)) \<and>
     list_all (\<lambda>ci. ci_name ci \<noteq> [] \<and> CHR ''/'' \<notin> set (ci_name ci) \<and> ci_status ci = ''RUNNING'' \<and>
        ci_project_id ci = Some (str_or pid (default_project_id (gcp_cfg G)))) (cl_clusters r)"
proof -
  obtain m where m: "r = \<lparr>cl_clusters = map snd m, cl_total = length m\<rparr>" "distinct (map fst m)"
    "list_all (listed_cluster (str_or pid (default_project_id (gcp_cfg G)))) m"
    using list_clusters_entries [OF assms] by blast
  have names: "map ci_name (cl_clusters r) = map fst m"
    using m(1,3) by (auto simp: list_all_iff listed_cluster_def)
  have "distinct (map ci_name (cl_clusters r))" unfolding names by (rule m(2))
  moreover have "cl_total r = length (cl_clusters r)" by (simp add: m(1))
  ultimately show ?thesis using m(1,3) by (auto simp: list_all_iff listed_cluster_def)
qed

definition demo_memberships :: json where
  "demo_memberships =
     JList [JObj [(''name'', JStr ''projects/p/memberships/c1'')],
            JObj [(''name'', JStr ''projects/p/memberships/c2''),
                  (''state'', JObj [(''code'', JStr ''CREATING'')])]]"

definition demo_gcp :: gcp where
  "demo_gcp =
     \<lparr>gcp_lib = demo_lib, gcp_which = True,
      gcp_spawn = (\<lambda>_. Inr (demo_child 0 (dumps demo_memberships) [])), gcp_decode = Inr,
      gcp_gv = Inr [(YStr ''emulated_gdc_versions'', YDict [(YStr ''1.12.1'', YDict [])]),
                    (YStr ''hardware_variants'', YList [YStr ''gdc-server''])],
      gcp_cfg = \<lparr>repo_root = [], default_project_id = ''proj'', default_zone = ''us-central1-a'',
                 log_dir = [], max_log_buffer_lines = 10\<rparr>\<rparr>"

definition demo_clusters :: ClusterListResponse where
  "demo_clusters =
     \<lparr>cl_clusters =
        [\<lparr>ci_name = ''c1'', ci_location = ''us-central1-a'', ci_master_version = ''1.34.100-gke.97'',
          ci_status = ''RUNNING'', ci_node_count = 3, ci_endpoint = None, ci_create_time = None,
          ci_hardware_variant = Some ''gdc-server'', ci_gdc_version = None,
          ci_emulate_gdc_version = Some ''1.12.1'', ci_project_id = Some ''proj''\<rparr>],
      cl_total = 1\<rparr>"

lemma demo_loads_memberships: "loads (dumps demo_memberships) = Some demo_memberships"
  by (rule loads_dumps) (simp add: demo_memberships_def)

lemma demo_fleet_status:
  "map_fleet_status ''READY'' = ''RUNNING''" "map_fleet_status ''CREATING'' = ''PROVISIONING''"
  by code_simp+

lemma demo_clusters_listed: "snd (list_clusters demo_gcp None) = Inr demo_clusters"
proof -
  have out: "dumps demo_memberships \<noteq> []" by (simp add: demo_memberships_def)
  have js: "snd (gcloud_json demo_gcp cmd 8) = Inr (Some demo_memberships)" for cmd
    by (simp add: gcloud_json_def demo_gcp_def demo_child_def communicate_or_kill_def out
        demo_loads_memberships)
  have "read_memberships (membership_item demo_lib ''proj'' ''us-central1-a'' (YStr ''1.12.1'') ''gdc-server'')
      demo_memberships = ([(''c1'', hd (cl_clusters demo_clusters))], None)"
    by (simp add: read_memberships_def demo_memberships_def jiter_def membership_item_def
        membership_name_def dict_get_def str_json_def demo_fleet_status str_field_def opt_str_field_def
        int_field_def converted_def jor_def opt_yaml_str_def demo_lib_def demo_clusters_def dict_of_def)
  then show ?thesis
    using js
    by (simp add: list_clusters_def case_prod_unfold Let_def demo_gcp_def get_default_hardware_variant_def
        get_valid_hardware_variants_def get_default_gdc_version_def get_valid_gdc_versions_def
        yaml_get_def as_list_def as_dict_def str_yaml_def demo_clusters_def)
qed

theorem cluster_list_wellformed_witness:
  "cl_total demo_clusters = length (cl_clusters demo_clusters) \<and>
   distinct (map ci_name (cl_clusters demo_clusters))"
  using cluster_list_wellformed [OF demo_clusters_listed] by blast



section \<open>Routes\<close>

text \<open>
  C39: No request is claimed by two routes, so the order in which the routers are included
  does not matter: any arrangement of the same routes dispatches every request alike.
\<close>

theorem route_order_irrelevant:
  assumes "set rs = set app_routes"
  shows "dispatch rs m path = dispatch app_routes m path"
  using app_routes_no_overlap assms by (rule dispatch_order)

theorem route_order_irrelevant_witness:
  "dispatch (rev app_routes) GET [''api'', ''v1'', ''clusters'', ''c1'', ''pods''] =
   dispatch app_routes GET [''api'', ''v1'', ''clusters'', ''c1'', ''pods'']"
  by (rule route_order_irrelevant) simp


section \<open>Behaviours worth knowing\<close>

text \<open>
  A kubeconfig named by \<open>KUBECONFIG\<close> is used for every cluster, so the commands for two
  clusters are the same.
\<close>

lemma kubeconfig_shared:
  assumes "kube_environ K ''KUBECONFIG'' = Some p" "p \<noteq> []" "kube_is_file K p"
  shows "kubectl_cmd K a args = kubectl_cmd K b args"
  using assms by (simp add: kubectl_cmd_def find_kubeconfig_def kubeconfig_candidates_def getenv_def)

text \<open>
  A name from the path is an argument of \<open>kubectl\<close> as it is: deleting the pod \<open>--all\<close> of a
  namespace deletes all its pods.
\<close>

lemma delete_pod_option:
  assumes "kube_which K" "kube_spawn K (kubectl_cmd K c [''delete'', ''pod'', ''--all'', ''-n'', ns]) False = Inr proc"
  shows "Spawn (kubectl_cmd K c [''delete'', ''pod'', ''--all'', ''-n'', ns]) False
    \<in> set (fst (delete_pod K c ''--all'' ns None))"
  using assms
  by (simp add: remove_pod.events pod_delete_args_def exec_kubectl_def case_prod_unfold Let_def)

text \<open>Command, port, environment, labels, annotations and manifest of a pod request are ignored.\<close>

lemma create_pod_ignores:
  "create_pod K c (q\<lparr>pcr_command := cmd, pcr_port := port, pcr_env := env, pcr_labels := labels,
      pcr_annotations := ann, pcr_raw_manifest := man\<rparr>) = create_pod K c q"
  by (simp add: create_pod_def)

text \<open>The size and the image of a listed machine are constants.\<close>

lemma listed_vm_constants:
  assumes "snd (list_vms K c ns) = Inr vs"
  shows "list_all (\<lambda>v. vmi_cpus v = 2 \<and> vmi_memory v = ''4Gi'' \<and> vmi_image v = ''ubuntu-22.04-server'') vs"
  using assms by (rule vms.all_items) (auto simp: vm_item_def bind_res_eq_Inr Let_def)

text \<open>Output that is JSON but no object makes every listing raise \<open>AttributeError\<close>.\<close>

lemma non_object_output_escapes:
  assumes "\<And>args. snd (exec_kubectl K c args None) = Inr (0, out, err)" "out \<noteq> []"
    and "loads out = Some j" "\<And>kvs. j \<noteq> JObj kvs"
  shows "snd (list_vms K c ns) = Inl (no_attribute j ''get'')"
    "snd (list_pods K c ns sel) = Inl (no_attribute j ''get'')"
    "snd (list_rootsyncs K c) = Inl (no_attribute j ''get'')"
  using vms.not_an_object [OF assms(1-4)] pods.not_an_object [OF assms(1-4)]
    rootsyncs.not_an_object [OF assms(1-4)] by blast+

text \<open>
  When the output stops parsing after some networks, these are reported together with the
  configured ones.
\<close>

lemma partial_networks_mixed:
  assumes "snd (exec_kubectl K c network_args None) = Inr (0, out, err)" "out \<noteq> []"
    and "live_networks (kube_lib K) out = (live, Some e)" "parse_caught e"
    and "configured_networks K = Inr conf"
  shows "snd (list_secondary_networks K c) = Inr (live @ conf)"
  using assms by (simp add: list_secondary_networks_def with_kubectl_snd)

text \<open>
  A VLAN number that no double can hold makes \<open>int()\<close> raise \<open>OverflowError\<close>, which neither the
  handler around the conversion nor the one around the parsing catches.
\<close>

lemma infinite_vlan_escapes:
  assumes "snd (exec_kubectl K c network_args None) = Inr (0, out, err)" "out \<noteq> []"
    and "read_items out = Inr (JObj [(''metadata'', JObj [(''name'', JStr n)]), (''spec'', JObj [(''vlanId'', JFloat t)])] # items)"
    and "n \<noteq> []" "n \<noteq> ''pod-network''" "n \<noteq> ''default''" "float_of_text t = Infinite b"
  shows "snd (list_secondary_networks K c) = Inl (OverflowError ''cannot convert float infinity to integer'')"
proof -
  have "float_true t" using assms(7) by (simp add: float_true_def)
  then have "network_item (kube_lib K)
      (JObj [(''metadata'', JObj [(''name'', JStr n)]), (''spec'', JObj [(''vlanId'', JFloat t)])]) =
      Inl (OverflowError ''cannot convert float infinity to integer'')"
    using assms(4-7)
    by (simp add: network_item_def network_vlan_def jget_def dict_get_Cons jor_def py_int_def float_int_def
        except_res_def Let_def)
  then have "live_networks (kube_lib K) out = ([], Some (OverflowError ''cannot convert float infinity to integer''))"
    using assms(3) by (simp add: live_networks_def)
  then show ?thesis using assms(1,2) by (simp add: list_secondary_networks_def with_kubectl_snd)
qed

lemma infinite_vlan_literal: "float_of_text ''Infinity'' = Infinite False"
  by (simp add: float_of_text_def)

end
