(* ===== verification/Caches.thy ===== *)
theory Caches
  imports App
begin

text \<open>
  The two functions without arguments that \<open>functools.lru_cache\<close> wraps: \<open>get_settings\<close> of
  \<open>api/gem_api/config.py\<close> and \<open>load_group_vars\<close> of \<open>api/gem_api/manifest.py\<close>. The cache keeps the
  value of the first call that returns; a call that raises is not remembered. The rest of the
  development takes settings and group variables as values that do not change during a run;
  here is why it may.
\<close>

section \<open>A cached call\<close>

definition lru_call :: "'a res \<Rightarrow> 'a option \<Rightarrow> 'a res \<times> 'a option" where
  "lru_call computed c =
     (case c of
        Some v \<Rightarrow> (Inr v, c)
      | None \<Rightarrow> (case computed of Inl e \<Rightarrow> (Inl e, None) | Inr v \<Rightarrow> (Inr v, Some v)))"

text \<open>What a call may look at while it runs: the environment, \<open>gcloud\<close> and the files.\<close>

record world =
  w_environ :: environ
  w_has_gcloud :: bool
  w_run :: "string list \<Rightarrow> run_result"
  w_repo_root :: path
  w_log_dir :: path
  w_group_vars_path :: "path option"
  w_api_root :: path
  w_files :: "path \<Rightarrow> yaml_file"

record caches =
  settings_cache :: "(AppSettings \<times> Settings) option"
  group_vars_cache :: "((yaml \<times> yaml) list) option"

definition no_caches :: caches where
  "no_caches = \<lparr>settings_cache = None, group_vars_cache = None\<rparr>"

text \<open>\<open>Settings()\<close> in the world of the call: the server's fields and those of the services.\<close>

definition settings_now :: "world \<Rightarrow> (AppSettings \<times> Settings) res" where
  "settings_now w =
     bind_res (make_AppSettings (w_environ w) (w_log_dir w)) (\<lambda>app.
       Inr (app, make_Settings (w_environ w) (w_has_gcloud w) (w_run w) (w_repo_root w) (w_log_dir w)))"

definition get_settings :: "world \<Rightarrow> caches \<Rightarrow> (AppSettings \<times> Settings) res \<times> caches" where
  "get_settings w c =
     (case lru_call (settings_now w) (settings_cache c) of
        (r, s) \<Rightarrow> (r, c\<lparr>settings_cache := s\<rparr>))"

definition cached_group_vars :: "world \<Rightarrow> caches \<Rightarrow> group_vars \<times> caches" where
  "cached_group_vars w c =
     (case group_vars_cache c of
        Some d \<Rightarrow> (Inr d, c)
      | None \<Rightarrow>
          (case get_settings w c of
             (Inl e, c1) \<Rightarrow> (Inl e, c1)
           | (Inr (_, cfg), c1) \<Rightarrow>
               (case lru_call (load_group_vars cfg (w_group_vars_path w) (w_api_root w) (w_files w)) None of
                  (r, g) \<Rightarrow> (r, c1\<lparr>group_vars_cache := g\<rparr>))))"

text \<open>A process calls both in any order, in a world that changes in between.\<close>

datatype cached_call = CallSettings world | CallGroupVars world

datatype cached_answer = GotSettings "(AppSettings \<times> Settings) res" | GotGroupVars group_vars

fun call :: "cached_call \<Rightarrow> caches \<Rightarrow> cached_answer \<times> caches" where
  "call (CallSettings w) c = (case get_settings w c of (r, c') \<Rightarrow> (GotSettings r, c'))"
| "call (CallGroupVars w) c = (case cached_group_vars w c of (r, c') \<Rightarrow> (GotGroupVars r, c'))"

fun calls :: "cached_call list \<Rightarrow> caches \<Rightarrow> cached_answer list \<times> caches" where
  "calls [] c = ([], c)"
| "calls (k # ks) c =
     (case call k c of (a, c1) \<Rightarrow> case calls ks c1 of (as, c2) \<Rightarrow> (a # as, c2))"

section \<open>Once there, a value stays\<close>

lemma lru_call_hit [simp]: "lru_call r (Some v) = (Inr v, Some v)"
  by (simp add: lru_call_def)

lemma lru_call_miss: "lru_call r None = (r, case r of Inl e \<Rightarrow> None | Inr v \<Rightarrow> Some v)"
  by (simp add: lru_call_def split: sum.split)

definition extends :: "caches \<Rightarrow> caches \<Rightarrow> bool" where
  "extends c c' \<longleftrightarrow>
     (\<forall>v. settings_cache c = Some v \<longrightarrow> settings_cache c' = Some v) \<and>
     (\<forall>d. group_vars_cache c = Some d \<longrightarrow> group_vars_cache c' = Some d)"

lemma extends_refl [simp]: "extends c c"
  by (simp add: extends_def)

lemma extends_trans: "extends a b \<Longrightarrow> extends b c \<Longrightarrow> extends a c"
  by (simp add: extends_def)

text \<open>An answer that is a value is what the cache holds afterwards.\<close>

fun remembers :: "caches \<Rightarrow> cached_answer \<Rightarrow> bool" where
  "remembers c (GotSettings (Inr v)) = (settings_cache c = Some v)"
| "remembers c (GotGroupVars (Inr d)) = (group_vars_cache c = Some d)"
| "remembers c a = True"

lemma get_settings_effect:
  assumes "get_settings w c = (r, c')"
  shows "extends c c'" and "group_vars_cache c' = group_vars_cache c"
    and "r = Inr v \<Longrightarrow> settings_cache c' = Some v"
    and "settings_cache c = None \<Longrightarrow> r = settings_now w"
    and "settings_cache c = Some u \<Longrightarrow> r = Inr u"
  using assms
  by (cases "settings_cache c"; auto simp: get_settings_def lru_call_miss extends_def split: sum.splits)+

lemma cached_group_vars_effect:
  assumes "cached_group_vars w c = (r, c')"
  shows "extends c c'" and "r = Inr d \<Longrightarrow> group_vars_cache c' = Some d"
proof -
  have "extends c c' \<and> (r = Inr d \<longrightarrow> group_vars_cache c' = Some d)"
  proof (cases "group_vars_cache c")
    case None
    obtain s c1 where s: "get_settings w c = (s, c1)" by fastforce
    note e = get_settings_effect(1,2) [OF s]
    show ?thesis
    proof (cases s)
      case (Inl x)
      with None s e assms show ?thesis by (auto simp: cached_group_vars_def)
    next
      case (Inr p)
      obtain app cfg where "p = (app, cfg)" by (cases p)
      with None s e assms Inr show ?thesis
        by (auto simp: cached_group_vars_def lru_call_miss extends_def split: sum.splits)
    qed
  qed (use assms in \<open>auto simp: cached_group_vars_def\<close>)
  then show "extends c c'" and "r = Inr d \<Longrightarrow> group_vars_cache c' = Some d" by blast+
qed

lemma call_effect:
  assumes "call k c = (a, c')"
  shows "extends c c'" and "remembers c' a"
proof -
  have "extends c c' \<and> remembers c' a"
  proof (cases k)
    case (CallSettings w)
    obtain r c1 where s: "get_settings w c = (r, c1)" by fastforce
    then have "a = GotSettings r" "c' = c1" using assms CallSettings by simp_all
    with get_settings_effect(1,3) [OF s] show ?thesis by (cases r) simp_all
  next
    case (CallGroupVars w)
    obtain r c1 where g: "cached_group_vars w c = (r, c1)" by fastforce
    then have "a = GotGroupVars r" "c' = c1" using assms CallGroupVars by simp_all
    with cached_group_vars_effect [OF g] show ?thesis by (cases r) simp_all
  qed
  then show "extends c c'" and "remembers c' a" by blast+
qed

lemma remembers_extends: "extends c c' \<Longrightarrow> remembers c a \<Longrightarrow> remembers c' a"
  by (cases "(c, a)" rule: remembers.cases) (auto simp: extends_def)

lemma calls_effect:
  assumes "calls ks c = (as, c')"
  shows "extends c c'" and "\<forall>a \<in> set as. remembers c' a" and "length as = length ks"
proof -
  have "extends c c' \<and> (\<forall>a \<in> set as. remembers c' a) \<and> length as = length ks"
    using assms
  proof (induction ks arbitrary: c as)
    case (Cons k ks)
    obtain a c1 where k: "call k c = (a, c1)" by fastforce
    obtain as1 c2 where r: "calls ks c1 = (as1, c2)" by fastforce
    have "as = a # as1" and "c2 = c'" using Cons.prems k r by simp_all
    with Cons.IH [of c1 as1] r call_effect [OF k] show ?case
      by (auto intro: extends_trans remembers_extends)
  qed simp
  then show "extends c c'" and "\<forall>a \<in> set as. remembers c' a" and "length as = length ks" by blast+
qed

text \<open>Where cached values come from: the world of some call.\<close>

fun call_world :: "cached_call \<Rightarrow> world" where
  "call_world (CallSettings w) = w"
| "call_world (CallGroupVars w) = w"

definition settings_origin :: "cached_call set \<Rightarrow> AppSettings \<times> Settings \<Rightarrow> bool" where
  "settings_origin K v \<longleftrightarrow> (\<exists>k \<in> K. settings_now (call_world k) = Inr v)"

definition group_vars_origin :: "cached_call set \<Rightarrow> (yaml \<times> yaml) list \<Rightarrow> bool" where
  "group_vars_origin K d \<longleftrightarrow>
     (\<exists>w app cfg. CallGroupVars w \<in> K \<and> settings_origin K (app, cfg) \<and>
        load_group_vars cfg (w_group_vars_path w) (w_api_root w) (w_files w) = Inr d)"

definition originates :: "cached_call set \<Rightarrow> caches \<Rightarrow> bool" where
  "originates K c \<longleftrightarrow>
     (\<forall>v. settings_cache c = Some v \<longrightarrow> settings_origin K v) \<and>
     (\<forall>d. group_vars_cache c = Some d \<longrightarrow> group_vars_origin K d)"

lemma get_settings_originates:
  assumes "originates K c" and "k \<in> K" and "get_settings (call_world k) c = (r, c')"
  shows "originates K c'" and "r = Inr v \<Longrightarrow> settings_origin K v"
proof -
  have new: "settings_origin K v" if "r = Inr v" for v
  proof (cases "settings_cache c")
    case None
    with get_settings_effect(4) [OF assms(3)] that have "settings_now (call_world k) = Inr v" by simp
    with assms(2) show ?thesis by (auto simp: settings_origin_def)
  next
    case (Some u)
    with get_settings_effect(5) [OF assms(3)] that assms(1) show ?thesis by (simp add: originates_def)
  qed
  then show "r = Inr v \<Longrightarrow> settings_origin K v" .
  have "settings_cache c' = settings_cache c \<or> (\<exists>v. r = Inr v \<and> settings_cache c' = Some v)"
    using assms(3)
    by (cases "settings_cache c")
      (auto simp: get_settings_def lru_call_miss simp del: split_paired_Ex split: sum.split)
  with new get_settings_effect(2) [OF assms(3)] assms(1) show "originates K c'"
    by (auto simp: originates_def)
qed

lemma call_originates:
  assumes "originates K c" and "k \<in> K" and "call k c = (a, c')"
  shows "originates K c'"
proof (cases k)
  case (CallSettings w)
  obtain r c1 where s: "get_settings w c = (r, c1)" by fastforce
  with CallSettings assms(3) get_settings_originates(1) [OF assms(1,2)] show ?thesis by auto
next
  case (CallGroupVars w)
  show ?thesis
  proof (cases "group_vars_cache c")
    case None
    obtain r c1 where s: "get_settings w c = (r, c1)" by fastforce
    have o: "originates K c1" "\<And>v. r = Inr v \<Longrightarrow> settings_origin K v" "group_vars_cache c1 = None"
      using get_settings_originates [OF assms(1,2)] get_settings_effect(2) [OF s] s CallGroupVars None by auto
    show ?thesis
    proof (cases r)
      case (Inl e)
      with None s o assms(3) CallGroupVars show ?thesis by (simp add: cached_group_vars_def)
    next
      case (Inr p)
      obtain app cfg where p: "p = (app, cfg)" by (cases p)
      let ?l = "load_group_vars cfg (w_group_vars_path w) (w_api_root w) (w_files w)"
      have "c' = c1\<lparr>group_vars_cache := (case ?l of Inl e \<Rightarrow> None | Inr d \<Rightarrow> Some d)\<rparr>"
        using None s Inr p assms(3) CallGroupVars by (simp add: cached_group_vars_def lru_call_miss)
      moreover have "group_vars_origin K d" if "?l = Inr d" for d
        using that assms(2) CallGroupVars o(2) Inr p by (auto simp: group_vars_origin_def)
      ultimately show ?thesis using o(1) by (auto simp: originates_def split: sum.splits)
    qed
  next
    case (Some d)
    with assms(1,3) CallGroupVars show ?thesis by (simp add: cached_group_vars_def)
  qed
qed

lemma calls_originates:
  assumes "originates K c" and "set ks \<subseteq> K" and "calls ks c = (as, c')"
  shows "originates K c'"
  using assms
proof (induction ks arbitrary: c as)
  case (Cons k ks)
  obtain a c1 where k: "call k c = (a, c1)" by fastforce
  obtain as1 c2 where r: "calls ks c1 = (as1, c2)" by fastforce
  have "c2 = c'" using Cons.prems k r by simp
  have "originates K c1" by (rule call_originates [OF Cons.prems(1) _ k]) (use Cons.prems(2) in simp)
  from Cons.IH [OF this, of as1] Cons.prems(2) r \<open>c2 = c'\<close> show ?case by simp
qed simp


text \<open>A process that is asked for its settings before and after its environment changes.\<close>

definition demo_world :: "string \<Rightarrow> world" where
  "demo_world port =
     \<lparr>w_environ = [''PORT'' \<mapsto> port], w_has_gcloud = False, w_run = (\<lambda>_. RunFailed), w_repo_root = [''app''],
      w_log_dir = [''tmp''], w_group_vars_path = None, w_api_root = [], w_files = (\<lambda>_. NoFile)\<rparr>"

definition demo_calls :: "cached_call list" where
  "demo_calls = map (\<lambda>port. CallSettings (demo_world port)) [''x'', ''9000'', ''9001'']"

lemma demo_ports:
  "\<exists>e. make_AppSettings (w_environ (demo_world ''x'')) l = Inl e"
  "\<exists>app. make_AppSettings (w_environ (demo_world ''9000'')) l = Inr app \<and> app_port app = 9000"
proof -
  have "int_literal ''x'' = None" "int_literal ''9000'' = Some 9000" by code_simp+
  then show "\<exists>e. make_AppSettings (w_environ (demo_world ''x'')) l = Inl e"
    and "\<exists>app. make_AppSettings (w_environ (demo_world ''9000'')) l = Inr app \<and> app_port app = 9000"
    by (simp_all add: make_AppSettings_def demo_world_def getenv_def)
qed

lemma demo_calls_answers:
  "\<exists>e v c. calls demo_calls no_caches = ([GotSettings (Inl e), GotSettings (Inr v), GotSettings (Inr v)], c) \<and>
     app_port (fst v) = 9000"
proof -
  obtain e where "settings_now (demo_world ''x'') = Inl e"
    using demo_ports(1) by (metis settings_now_def bind_res_simps(1))
  moreover obtain v where "settings_now (demo_world ''9000'') = Inr v" "app_port (fst v) = 9000"
    using demo_ports(2) by (metis settings_now_def bind_res_simps(2) fst_conv)
  ultimately show ?thesis
    by (simp add: demo_calls_def no_caches_def get_settings_def lru_call_miss)
qed


end
