(* ===== verification/Spec2Isabelle.thy ===== *)
theory Spec2Isabelle
  imports Request_System Request_Props Client_Props Caches
begin

text \<open>
  \<^bold>\<open>The GEM API server: operations, pipelines, requests and cluster clients\<close>

  The repository is the GDC emulation environment. Its program proper is the REST API in
  \<open>src/api/gem_api\<close>: a FastAPI application that builds and tears down clusters, an admin
  workstation and an edge router by running Terraform and Ansible in the background, reports on
  those operations, and asks running clusters and the cloud project through \<open>kubectl\<close> and
  \<open>gcloud\<close>. This development models that API and proves what makes it correct. The parts and
  the theories that model them:

  \<^item> \<open>models/validators.py\<close>: theory \<open>Validators\<close> (sanitising, the zone and region check, names,
    accounts, storage sizes, the base request), over \<open>Py_Str\<close> (Python string methods) and
    \<open>Py_Regex\<close> (regular expressions, a matcher by derivatives and its correctness).
  \<^item> \<open>config.py\<close>: theory \<open>Config\<close> (default project and zone, derived names).
    \<open>manifest.py\<close>: theory \<open>Manifest\<close> (finding and reading \<open>group_vars/all.yaml\<close>).
  \<^item> \<open>models/clusters.py\<close>, \<open>workstation.py\<close>, \<open>edge_router.py\<close>: theory \<open>Requests\<close>, over
    \<open>Py_Ipaddress\<close> (the \<open>ipaddress\<close> module's IPv4 parsing).
  \<^item> \<open>services/operations.py\<close> and \<open>models/operations.py\<close>: theory \<open>Operations\<close> (the operation
    manager, with its records, subscriber queues, tasks, processes and files as explicit
    stores), over \<open>Log_Queue\<close> (\<open>deque\<close>, \<open>asyncio.Queue\<close>, the publishing loop) and \<open>Py_Time\<close>;
    theory \<open>Operation_Lemmas\<close> says what each operation leaves alone, \<open>Operation_Props\<close> what it
    promises.
  \<^item> \<open>services/runner.py\<close>: theory \<open>Gcp_Context\<close> (the pure part: context, environments, command
    lines, extra variables, over \<open>Py_Json\<close>), \<open>Line_Stream\<close> (cutting output into lines),
    \<open>Runner\<close> (running a command, mock steps, finalising and failing a pipeline), \<open>Pipelines\<close>
    (the six pipelines), \<open>Pipeline_Logic\<close> (how they are reasoned about) and \<open>Runner_Lemmas\<close> (how
    they end).
  \<^item> \<open>routers/clusters.py\<close>, \<open>workstation.py\<close>, \<open>edge_router.py\<close>, \<open>operations.py\<close>: theory
    \<open>Routers\<close> (the handlers that work on operations).
  \<^item> \<open>services/process.py\<close>: theory \<open>Process\<close> (waiting for a child under a timeout, killing it).
    \<open>services/k8s_client.py\<close>: theory \<open>K8s_Client\<close> (the runs of \<open>kubectl\<close>, every listing and
    action), with \<open>K8s_Lemmas\<close>. \<open>services/gcp_client.py\<close>: theory \<open>Gcp_Client\<close> (projects and
    fleet clusters), with \<open>Gcp_Lemmas\<close>. Both read JSON with \<open>Py_Json_Loads\<close> (\<open>json.loads\<close>) and
    \<open>Py_Value\<close> (what Python does with the values, type errors included), over \<open>Py_Float\<close>
    (doubles) and \<open>Py_Ip6\<close> (the IPv6 half of \<open>ipaddress\<close>).
  \<^item> \<open>models/status.py\<close>, \<open>networks.py\<close>, \<open>vms.py\<close>, \<open>configsync.py\<close>, \<open>pods.py\<close>, \<open>projects.py\<close>:
    theory \<open>Client_Models\<close>. \<open>routers/cluster_operations.py\<close> and \<open>projects.py\<close>: theory
    \<open>Client_Routers\<close>. \<open>main.py\<close>: theory \<open>App\<close> (parameters of the application, route table,
    health, start-up, command line). The \<open>lru_cache\<close> of settings and group variables: theory
    \<open>Caches\<close>.
    Theory \<open>Client_Props\<close> has the properties of all of these.
  \<^item> Theory \<open>Op_System\<close> puts the parts together as a transition system: requests, tasks and
    callbacks interleave between awaits. \<open>Op_Refinement\<close> refines two specifications by it: a
    journal of all operations ever accepted, and a table of locks on resources. In
    \<open>Pipeline_System\<close> the pipelines, and in \<open>Request_System\<close> the handlers, are shown to be runs
    of that system.

  \<^bold>\<open>How the code corresponds.\<close> Exceptions are values (\<open>exc\<close>), and a function that may raise
  returns \<open>exc + 'a\<close>, with the new state beside it where it has effects. Mutable objects that
  several parties hold are referred to by number. A Python dictionary whose order matters is an
  association list. Strings are lists of characters below code point 256. The clock, the
  outcome of file accesses, path resolution, the \<open>gcloud\<close> binary, the YAML parser, the start,
  output and return code of subprocesses, the decoding of their bytes and what other coroutines
  do during an await are parameters of the definitions. A function of the source that starts
  with an underscore is modelled without it (\<open>_execute_command\<close> is \<open>execute_command\<close>).

  \<^bold>\<open>What is shown.\<close> C1 to C5 are about the whole process, for every interleaving: at most one
  pipeline per resource, outcomes are final, no active operation is without somebody who will
  settle it, every resource can be freed, and a step of the process respects a running task;
  they follow from an invariant (\<open>sys_inv\<close>) by rule induction. C6 and C7 are refinements: every
  step is a step of the journal or leaves it alone, and requests are answered as a lock table
  would. C8 to C10 close the circle: handlers and pipelines, as written, only take steps of the
  system, so what holds of its runs holds of them, and an accepted request ends with an outcome.
  C11 and C12 are about the pipelines alone, in rely-guarantee style: each ends with an outcome
  under any interference that C5 allows, and the return codes of its commands decide which.
  C13, C14, C21 to C28 are the contracts of the operation manager, C20 says that publishing a
  line never blocks, C29 that chunk boundaries in a command's output do not matter, C30 to C33
  are about requests and contexts, C34 about the values that are cached. C15 to C19
  and C35 to C38 are about the clients: an action is a success exactly if \<open>kubectl\<close> succeeded,
  children are killed exactly when they time out, manifests survive the way to \<open>kubectl\<close>,
  listings and status answers are well-formed, numbers stay in their bounds. C39 is about the
  route table, C40 about the way of a request body to the queued operation. C21, C24, C28 and
  the lemmas
  \<open>update_unknown_attribute_error\<close>, \<open>region_only_mismatch\<close>, \<open>networks_checked_one_by_one\<close>,
  \<open>name_limit_advice\<close>, \<open>workstation_name_collision\<close> and those at the end of \<open>Client_Props\<close> document
  behaviour that differs from what the code or its descriptions intend.

  \<^bold>\<open>Interfaces.\<close> The locale \<open>drop_oldest\<close> (a buffer that keeps its newest entries) is
  interpreted by the log buffer and by the subscriber queues; \<open>field_validator\<close> and
  \<open>optional_validator\<close> by the validators of storage sizes, names, projects, accounts, networks
  and addresses; \<open>pipeline_logic\<close> (what the rest of the process promises a pipeline) by a rely
  condition on the manager's state and by the whole process; \<open>refinement\<close> and
  \<open>refinement_chain\<close> by the two specifications; \<open>kubectl_action\<close> and \<open>kubectl_listing\<close> (what a run of \<open>kubectl\<close> means for the
  answer) by the five actions and the three listings of the Kubernetes client.

  \<^bold>\<open>Bounds.\<close> The loops are structural, or have a measure (\<open>publish_loop\<close>: the queue's length;
  \<open>drain_buffer\<close>: the buffer's length). Only the JSON reader recurses on fuel: \<open>loads\<close> gives it
  twice the length of the text and one, and \<open>jvalue_fuel\<close> shows that more makes no difference. The theorem about
  chunks is for up to one mebibyte of output, the size at which the code starts to cut lines.

  \<^bold>\<open>What is not modelled.\<close> FastAPI's own parsing, serialisation, redirects and middleware and the
  Uvicorn server, the conversions of pydantic on values read from JSON or YAML (parameters with
  their documented behaviour as a hypothesis), \<open>sum()\<close> of floating point numbers (a parameter:
  its rounding differs between Python versions), characters above code point 255, logging to the server
  log, the modules that only re-export names, and the parts of the repository in other
  languages (Terraform, Ansible, the KubeVirt operator, scripts).
\<close>

section \<open>From a request to its outcome\<close>

text \<open>
  C10: an accepted request gets an outcome. Take a reachable state of the API process in which
  no registration holds the lock, and let a handler accept a request for a validated name. The
  pipeline of the task the handler has created, run from the state the handler leaves, while
  every wait is filled with any steps of the process, then ends with the operation succeeded
  or failed, or cancelled by somebody else; handler and pipeline together are a run of the
  process, and at its end the task is over or told to stop.
\<close>

theorem accepted_request_gets_outcome:
  assumes "paths_ok (rt_os rt) (rt_cfg rt)" and "reachable (rt_os rt) (rt_cfg rt) y" and "sy_reg y = None"
    and "gce_name (request_target q)" and "in_step y a"
    and "handle (rt_os rt) (rt_cfg rt) q a = (Inr resp, a')"
    and "cooperative rt (api_next a)" and "\<forall>e. rt_gv rt = Inl e \<longrightarrow> is_Exception e"
    and "run_coroutine rt (api_next a) (the (api_tasks a' (api_next a))) (api_mgr a') = (r, s')"
  shows "\<exists>y' i. (sys_step (rt_os rt) (rt_cfg rt))\<^sup>*\<^sup>* y y' \<and>
     lookup (api_mgr a') (request_target q) = Some i \<and>
     (r = Inr () \<and> sy_mgr y' = set_task (api_next a) TReturned s' \<and>
        (status (recs s' i) = SUCCEEDED \<or> status (recs s' i) = FAILED) \<or>
      r = Inl CancelledError \<and> sy_mgr y' = s' \<and> tasks s' (api_next a) = TPending True \<and>
        status (recs s' i) = CANCELLED)"
proof -
  note h = handler_steps [OF assms(1-6)]
  obtain y1 where y1: "(sys_step (rt_os rt) (rt_cfg rt))\<^sup>*\<^sup>* y y1" "in_step y1 a'"
      "live y1 (api_next a)" "sy_oid y1 (api_next a) = coroutine_oid (request_coroutine q)"
    and c: "api_tasks a' (api_next a) = Some (request_coroutine q)"
    using h by auto
  have m: "api_mgr a' = sy_mgr y1" using y1(2) by (simp add: in_step_def)
  have "run_coroutine rt (api_next a) (request_coroutine q) (sy_mgr y1) = (r, s')"
    using assms(9) c m by simp
  from coroutine_in_system [OF assms(1,7) reachable_run [OF y1(1) assms(2)] y1(3,4) _ this] assms(8)
  show ?thesis using y1(1) unfolding m by (simp, blast intro: rtranclp_trans)
qed

theorem accepted_request_gets_outcome_witness:
  "\<exists>resp a' r s'. handle demo_os demo_cfg (BuildCluster demo_create) demo_api = (Inr resp, a') \<and>
     run_coroutine (demo_rt 0) 0 (the (api_tasks a' 0)) (api_mgr a') = (r, s') \<and>
     (\<exists>i. lookup (api_mgr a') ''c1'' = Some i \<and> terminal (status (recs s' i)))"
proof -
  have d: "rt_os (demo_rt 0) = demo_os" "rt_cfg (demo_rt 0) = demo_cfg" "api_next demo_api = 0"
    by (simp_all add: demo_rt_def demo_api_def)
  have n: "gce_name (request_target (BuildCluster demo_create))"
    using demo_c1_name by (simp add: demo_create_name)
  obtain resp a' where h: "handle demo_os demo_cfg (BuildCluster demo_create) demo_api = (Inr resp, a')"
    using handler_accepts [OF demo_paths_ok demo_in_step(3,2) n demo_in_step(1)] demo_not_busy by blast
  obtain r s' where run: "run_coroutine (demo_rt 0) (api_next demo_api)
      (the (api_tasks a' (api_next demo_api))) (api_mgr a') = (r, s')" by fastforce
  from accepted_request_gets_outcome [where rt = "demo_rt 0", unfolded d(1,2), OF demo_paths_ok demo_in_step(3,2) n
      demo_in_step(1) h demo_cooperative demo_rt_ok(2) run]
  have "\<exists>i. lookup (api_mgr a') ''c1'' = Some i \<and> terminal (status (recs s' i))"
    by (simp add: demo_create_name, elim exE conjE disjE) simp_all
  with h run d(3) show ?thesis by auto
qed

text \<open>
  C40: a validated build is accepted. If a request body passes validation, the log directory
  can be made and the files in it resolve to themselves, and the cluster has no active
  operation, then the handler accepts the request: the operation is queued and its pipeline
  can start. No other error can come out of the handler.
\<close>

theorem validated_build_accepted:
  assumes "make_ClusterCreateRequest cfg gv raw = Inr q"
    and "mkdir_error os (os_resolve os (log_dir cfg)) = None"
    and "\<forall>n. os_resolve os (os_resolve os (log_dir cfg) @ [n]) = os_resolve os (log_dir cfg) @ [n]"
    and "find_conflict (api_mgr a) (cluster_name q) = None"
    and "create_cluster os cfg q a = (r, a')"
  shows "(\<exists>resp. r = Inr resp \<and> acc_status resp = QUEUED) \<and>
         running (cluster_name q) (next_rec (api_mgr a)) (api_next a) (api_mgr a')"
proof -
  have "gce_name (cluster_name q)"
    using make_ClusterCreateRequest_valid [OF assms(1)] by (simp add: valid_create_def)
  then have p: "get_log_file_path os cfg (cluster_name q) =
      Inr (os_resolve os (log_dir cfg) @ [cluster_name q @ ''.log''])"
    using assms(2,3) by (intro name_log_file) simp_all
  note k = accept_operation_ok [OF assms(4) p assms(5) [unfolded create_cluster_def]]
  show ?thesis using k(1,2) by simp
qed

theorem validated_build_accepted_witness:
  "\<exists>q r a'. make_ClusterCreateRequest demo_cfg demo_gv demo_raw = Inr q \<and>
     create_cluster demo_os demo_cfg q demo_api = (Inr r, a') \<and> acc_status r = QUEUED"
proof -
  obtain q where q: "make_ClusterCreateRequest demo_cfg demo_gv demo_raw = Inr q"
    using demo_raw_accepted by blast
  obtain r a' where c: "create_cluster demo_os demo_cfg q demo_api = (r, a')" by fastforce
  from validated_build_accepted [OF q _ _ demo_api_free c] q c show ?thesis by (auto simp: demo_os_def)
qed

end
